(* ===== verification/Go_Prelude.thy ===== *)
theory Go_Prelude
  imports Main "HOL-Library.AList" "HOL-Library.Multiset" "HOL-Library.Char_ord"
    "HOL-Library.List_Lexorder"
begin

text \<open>
  The prelude of the development: what the Go sources take from the language rather than from
  one of their own packages.

  \<^item> Outcomes. A Go call returns, panics (index out of range, nil dereference) or never comes
    back; \<open>'a go\<close> has one constructor for each, and \<open>gbind\<close> sequences calls the way Go
    does: a panic or a loop that never ends is final. Errors that the code returns as values
    are ordinary results (\<open>go_error + 'a\<close> or a pair with an optional error).
  \<^item> Maps. A Go map is an association list with distinct keys (\<open>wf_map\<close>). Ranging over a map
    visits the keys in an order the language leaves open, so every loop over a map takes the
    order as an argument (\<open>ord\<close>), any function that permutes its argument (\<open>is_order\<close>).
  \<^item> Sorting. \<open>sort.Sort\<close> promises a sorted permutation and nothing about equal elements, so
    a sort by a comparison that ties is an argument too (\<open>is_sort\<close>, \<open>is_sorter\<close>).
\<close>

section \<open>Collections used by the component proofs\<close>

named_theorems gomap_simps "what a lookup returns after each map operation"
named_theorems outcome_simps "sequencing of outcomes"
named_theorems gostr_simps "printing and parsing of strings"

section \<open>Outcomes of a call\<close>

datatype 'a go = Ret 'a | Panic string | Hang

fun gbind :: "'a go \<Rightarrow> ('a \<Rightarrow> 'b go) \<Rightarrow> 'b go" where
  "gbind (Ret x) f = f x"
| "gbind (Panic m) f = Panic m"
| "gbind Hang f = Hang"

fun of_loop :: "'a go option \<Rightarrow> 'a go" where
  "of_loop None = Hang"
| "of_loop (Some r) = r"

lemma gbind_Ret_iff [outcome_simps]:
  "gbind r f = Ret y \<longleftrightarrow> (\<exists>x. r = Ret x \<and> f x = Ret y)"
  by (cases r) auto

lemma gbind_assoc: "gbind (gbind r f) g = gbind r (\<lambda>x. gbind (f x) g)"
  by (cases r) auto

lemma gbind_Ret_right [simp]: "gbind r Ret = r"
  by (cases r) auto

text \<open>
  \<open>gpost P r\<close>: whatever the call returns satisfies \<open>P\<close>. Through a sequence of calls the condition
  moves into the continuation, so that case distinctions of the code are split in the goal.
\<close>

fun gpost :: "('a \<Rightarrow> bool) \<Rightarrow> 'a go \<Rightarrow> bool" where
  "gpost P (Ret x) = P x"
| "gpost P (Panic m) = True"
| "gpost P Hang = True"

lemma gpost_gbind [simp]: "gpost P (gbind r f) = gpost (\<lambda>x. gpost P (f x)) r"
  by (cases r) simp_all

lemma gpost_mono: "gpost P r \<Longrightarrow> (\<And>x. P x \<Longrightarrow> Q x) \<Longrightarrow> gpost Q r"
  by (cases r) simp_all

lemma gpost_D: "gpost P r \<Longrightarrow> r = Ret x \<Longrightarrow> P x"
  by simp

lemma gpost_I: "(\<And>x. r = Ret x \<Longrightarrow> P x) \<Longrightarrow> gpost P r"
  by (cases r) simp_all

lemma gpost_True [simp]: "gpost (\<lambda>x. True) r"
  by (cases r) simp_all

text \<open>A loop body run over a list, stopping at the first panic or hang.\<close>

fun gfold :: "('a \<Rightarrow> 's \<Rightarrow> 's go) \<Rightarrow> 'a list \<Rightarrow> 's \<Rightarrow> 's go" where
  "gfold f [] s = Ret s"
| "gfold f (x # xs) s = gbind (f x s) (gfold f xs)"

lemma gfold_append: "gfold f (xs @ ys) s = gbind (gfold f xs s) (gfold f ys)"
proof (induction xs arbitrary: s)
  case (Cons x xs)
  then have "gfold f (xs @ ys) = (\<lambda>t. gbind (gfold f xs t) (gfold f ys))" by blast
  then show ?case by (simp add: gbind_assoc)
qed simp

lemma gfold_invariant:
  assumes "gfold f xs s = Ret s'" and "I s"
    and "\<And>x s t. x \<in> set xs \<Longrightarrow> I s \<Longrightarrow> f x s = Ret t \<Longrightarrow> I t"
  shows "I s'"
  using assms
proof (induction xs arbitrary: s)
  case (Cons x xs)
  from Cons.prems(1) obtain t where t: "f x s = Ret t" "gfold f xs t = Ret s'"
    by (auto simp: outcome_simps)
  then have "I t" using Cons.prems by auto
  then show ?case using t(2) Cons.prems(3) by (intro Cons.IH) auto
qed simp

section \<open>Maps\<close>

type_synonym ('k, 'v) gomap = "('k \<times> 'v) list"

definition mget :: "('k, 'v) gomap \<Rightarrow> 'k \<Rightarrow> 'v option" where
  "mget m k = map_of m k"

definition mput :: "'k \<Rightarrow> 'v \<Rightarrow> ('k, 'v) gomap \<Rightarrow> ('k, 'v) gomap" where
  "mput k v m = AList.update k v m"

definition mdel :: "'k \<Rightarrow> ('k, 'v) gomap \<Rightarrow> ('k, 'v) gomap" where
  "mdel k m = AList.delete k m"

definition mkeys :: "('k, 'v) gomap \<Rightarrow> 'k list" where
  "mkeys m = map fst m"

definition wf_map :: "('k, 'v) gomap \<Rightarrow> bool" where
  "wf_map m \<longleftrightarrow> distinct (map fst m)"

text \<open>Reading a missing key gives the zero value of the value type.\<close>

definition mgetd :: "'v \<Rightarrow> ('k, 'v) gomap \<Rightarrow> 'k \<Rightarrow> 'v" where
  "mgetd z m k = (case mget m k of None \<Rightarrow> z | Some v \<Rightarrow> v)"

text \<open>\<open>m[k] = append(m[k], x)\<close>.\<close>

definition mappend :: "'k \<Rightarrow> 'v \<Rightarrow> ('k, 'v list) gomap \<Rightarrow> ('k, 'v list) gomap" where
  "mappend k x m = mput k (mgetd [] m k @ [x]) m"

locale registry =
  fixes lookup :: "'m \<Rightarrow> 'k \<Rightarrow> 'v option"
    and insert :: "'k \<Rightarrow> 'v \<Rightarrow> 'm \<Rightarrow> 'm"
    and remove :: "'k \<Rightarrow> 'm \<Rightarrow> 'm"
    and wf :: "'m \<Rightarrow> bool"
  assumes lookup_insert: "lookup (insert k v m) k' = (if k' = k then Some v else lookup m k')"
    and lookup_remove: "lookup (remove k m) k' = (if k' = k then None else lookup m k')"
    and wf_insert: "wf m \<Longrightarrow> wf (insert k v m)"
    and wf_remove: "wf m \<Longrightarrow> wf (remove k m)"
begin

lemma insert_overwrites: "lookup (insert k w (insert k v m)) = lookup (insert k w m)"
  by (auto simp: fun_eq_iff lookup_insert)

lemma insert_commutes:
  "k \<noteq> l \<Longrightarrow> lookup (insert k v (insert l w m)) = lookup (insert l w (insert k v m))"
  by (auto simp: fun_eq_iff lookup_insert)

lemma remove_insert: "lookup (remove k (insert k v m)) = lookup (remove k m)"
  by (auto simp: fun_eq_iff lookup_insert lookup_remove)

lemma fold_insert_lookup:
  "lookup (fold (\<lambda>(k, v). insert k v) kvs m) k =
     (case map_of (rev kvs) k of None \<Rightarrow> lookup m k | Some v \<Rightarrow> Some v)"
proof (induction kvs arbitrary: m)
  case (Cons p kvs)
  then show ?case
    by (cases p) (auto simp: lookup_insert map_add_def split: option.splits)
qed simp

lemma fold_insert_wf: "wf m \<Longrightarrow> wf (fold (\<lambda>(k, v). insert k v) kvs m)"
  by (induction kvs arbitrary: m) (auto simp: wf_insert)

end

interpretation gm: registry mget mput mdel wf_map
  by unfold_locales
    (simp_all add: mget_def mput_def mdel_def wf_map_def update_conv' delete_conv'
      distinct_update distinct_delete)

lemmas [gomap_simps, simp] = gm.lookup_insert gm.lookup_remove
lemmas [simp, intro] = gm.wf_insert gm.wf_remove

lemma mget_Nil [simp]: "mget [] k = None"
  by (simp add: mget_def)

lemma mget_Cons [simp]: "mget ((k, v) # m) k' = (if k' = k then Some v else mget m k')"
  by (simp add: mget_def)

lemma mgetd_Nil [simp]: "mgetd z [] k = z"
  by (simp add: mgetd_def)

lemma wf_map_Nil [simp]: "wf_map []"
  by (simp add: wf_map_def)

lemma mgetd_mput [gomap_simps, simp]:
  "mgetd z (mput k v m) k' = (if k' = k then v else mgetd z m k')"
  by (simp add: mgetd_def)

lemma mgetd_mappend [gomap_simps, simp]:
  "mgetd [] (mappend k x m) k' = (if k' = k then mgetd [] m k @ [x] else mgetd [] m k')"
  by (simp add: mappend_def)

lemma mget_mappend [gomap_simps, simp]:
  "mget (mappend k x m) k' = (if k' = k then Some (mgetd [] m k @ [x]) else mget m k')"
  by (simp add: mappend_def)

lemma wf_mappend [simp, intro]: "wf_map m \<Longrightarrow> wf_map (mappend k x m)"
  by (simp add: mappend_def gm.wf_insert)

lemma set_mkeys: "set (mkeys m) = {k. mget m k \<noteq> None}"
  by (auto simp: mkeys_def mget_def map_of_eq_None_iff)

lemma mkeys_mput [simp]: "set (mkeys (mput k v m)) = insert k (set (mkeys m))"
  by (auto simp: set_mkeys)

lemma mkeys_mdel [simp]: "set (mkeys (mdel k m)) = set (mkeys m) - {k}"
  by (auto simp: set_mkeys)

lemma distinct_mkeys: "distinct (mkeys m) \<longleftrightarrow> wf_map m"
  by (simp add: mkeys_def wf_map_def)

lemma mkeys_mput_list:
  "mkeys (mput k v m) = (if k \<in> set (mkeys m) then mkeys m else mkeys m @ [k])"
  by (auto simp: mkeys_def mput_def update_keys)

subsection \<open>Iteration order\<close>

type_synonym ord = "string list \<Rightarrow> string list"

definition is_order :: "('k list \<Rightarrow> 'k list) \<Rightarrow> bool" where
  "is_order f \<longleftrightarrow> (\<forall>ks. mset (f ks) = mset ks)"

lemma is_orderD:
  assumes "is_order f"
  shows "mset (f ks) = mset ks" "set (f ks) = set ks" "length (f ks) = length ks"
    "distinct (f ks) \<longleftrightarrow> distinct ks"
proof -
  show m: "mset (f ks) = mset ks" using assms by (simp add: is_order_def)
  show "set (f ks) = set ks" using m by (rule mset_eq_setD)
  show "length (f ks) = length ks" using m by (rule mset_eq_length)
  show "distinct (f ks) \<longleftrightarrow> distinct ks" using m by (metis mset_eq_imp_distinct_iff)
qed

lemma is_order_id [simp]: "is_order (\<lambda>ks. ks)" and is_order_rev [simp]: "is_order rev"
  by (simp_all add: is_order_def)

subsection \<open>Sorting with a comparison\<close>

definition is_sort :: "('a \<Rightarrow> 'a \<Rightarrow> bool) \<Rightarrow> ('a list \<Rightarrow> 'a list) \<Rightarrow> bool" where
  "is_sort lt srt \<longleftrightarrow>
     (\<forall>xs. mset (srt xs) = mset xs \<and> sorted_wrt (\<lambda>a b. \<not> lt b a) (srt xs))"

lemma is_sortD:
  assumes "is_sort lt srt"
  shows "mset (srt xs) = mset xs" "sorted_wrt (\<lambda>a b. \<not> lt b a) (srt xs)"
    "set (srt xs) = set xs" "length (srt xs) = length xs"
proof -
  show m: "mset (srt xs) = mset xs" and "sorted_wrt (\<lambda>a b. \<not> lt b a) (srt xs)"
    using assms by (simp_all add: is_sort_def)
  show "set (srt xs) = set xs" using m by (rule mset_eq_setD)
  show "length (srt xs) = length xs" using m by (rule mset_eq_length)
qed

lemma is_sort_key: "is_sort (\<lambda>a b. f a < f b) (sort_key f)" for f :: "'a \<Rightarrow> 'b::linorder"
proof -
  have "sorted_wrt (\<lambda>a b. f a \<le> f b) (sort_key f xs)" for xs
    using sorted_sort_key [of f xs] by (simp add: sorted_map)
  then show ?thesis by (simp add: is_sort_def not_less)
qed

text \<open>
  A sort that works for every comparison that is a strict weak order, as \<open>sort.Sort\<close> asks of
  \<open>Less\<close>. Insertion sort is one.
\<close>

definition strict_weak :: "('a \<Rightarrow> 'a \<Rightarrow> bool) \<Rightarrow> bool" where
  "strict_weak lt \<longleftrightarrow> (\<forall>a b. lt a b \<longrightarrow> \<not> lt b a) \<and> (\<forall>a b c. \<not> lt a b \<longrightarrow> \<not> lt b c \<longrightarrow> \<not> lt a c)"

definition is_sorter :: "(('a \<Rightarrow> 'a \<Rightarrow> bool) \<Rightarrow> 'a list \<Rightarrow> 'a list) \<Rightarrow> bool" where
  "is_sorter srt \<longleftrightarrow> (\<forall>lt. strict_weak lt \<longrightarrow> is_sort lt (srt lt))"

lemma strict_weak_key: "strict_weak (\<lambda>a b. f a < f b)" for f :: "'a \<Rightarrow> 'b::linorder"
  by (auto simp: strict_weak_def)

lemma is_sorter_key:
  fixes f :: "'a \<Rightarrow> 'b::linorder"
  assumes "is_sorter srt"
  shows "is_sort (\<lambda>a b. f a < f b) (srt (\<lambda>a b. f a < f b))"
  using assms [unfolded is_sorter_def] strict_weak_key [of f] by blast

fun insertBy :: "('a \<Rightarrow> 'a \<Rightarrow> bool) \<Rightarrow> 'a \<Rightarrow> 'a list \<Rightarrow> 'a list" where
  "insertBy lt x [] = [x]"
| "insertBy lt x (y # ys) = (if lt y x then y # insertBy lt x ys else x # y # ys)"

definition insertSort :: "('a \<Rightarrow> 'a \<Rightarrow> bool) \<Rightarrow> 'a list \<Rightarrow> 'a list" where
  "insertSort lt xs = foldr (insertBy lt) xs []"

lemma mset_insertBy [simp]: "mset (insertBy lt x ys) = add_mset x (mset ys)"
  by (induction ys) auto

lemma set_insertBy [simp]: "set (insertBy lt x ys) = insert x (set ys)"
  using mset_insertBy [of lt x ys] by (metis set_mset_add_mset_insert set_mset_mset)

lemma sorted_insertBy:
  assumes "strict_weak lt" "sorted_wrt (\<lambda>a b. \<not> lt b a) ys"
  shows "sorted_wrt (\<lambda>a b. \<not> lt b a) (insertBy lt x ys)"
  using assms(2)
proof (induction ys)
  case (Cons y ys)
  have asym: "lt a b \<Longrightarrow> \<not> lt b a" and trans: "\<not> lt a b \<Longrightarrow> \<not> lt b c \<Longrightarrow> \<not> lt a c" for a b c
    using assms(1) unfolding strict_weak_def by blast+
  show ?case
  proof (cases "lt y x")
    case False
    then show ?thesis using Cons.prems trans by auto
  qed (use Cons asym in auto)
qed simp

lemma insertSort_is_sorter: "is_sorter insertSort"
  unfolding is_sorter_def is_sort_def
proof (intro allI impI conjI)
  fix lt :: "'a \<Rightarrow> 'a \<Rightarrow> bool" and xs :: "'a list"
  show "mset (insertSort lt xs) = mset xs" by (induction xs) (simp_all add: insertSort_def)
  assume "strict_weak lt"
  then show "sorted_wrt (\<lambda>a b. \<not> lt b a) (insertSort lt xs)"
    by (induction xs) (simp_all add: insertSort_def sorted_insertBy)
qed

section \<open>Lists\<close>

lemma set_map_filter_iff: "set (List.map_filter f xs) = {y. \<exists>x\<in>set xs. f x = Some y}"
  by (induction xs) (auto simp: List.map_filter_simps split: option.splits)

lemma length_map_filter_all: "(\<And>x. x \<in> set xs \<Longrightarrow> f x \<noteq> None) \<Longrightarrow> length (List.map_filter f xs) = length xs"
  by (induction xs) (auto simp: List.map_filter_simps split: option.splits)

lemma mset_concat_map_mset: "mset (concat xss) = (\<Sum>xs\<leftarrow>xss. mset xs)"
  by (induction xss) auto

lemma sum_list_map_of_nat_update:
  fixes f :: "nat \<Rightarrow> int"
  assumes "distinct xs" and "x \<in> set xs"
  shows "(\<Sum>y\<leftarrow>xs. (f(x := v)) y) = (\<Sum>y\<leftarrow>xs. f y) - f x + v"
  using assms
proof (induction xs)
  case (Cons a xs)
  have "a \<notin> set xs \<Longrightarrow> (\<Sum>y\<leftarrow>xs. (f(a := v)) y) = (\<Sum>y\<leftarrow>xs. f y)"
    by (intro arg_cong [where f = sum_list] map_cong) auto
  with Cons show ?case by auto
qed simp

end
