(* ===== verification/Go_Strings.thy ===== *)
theory Go_Strings
  imports Go_Prelude "HOL-Library.Word"
begin

text \<open>
  The functions of Go's packages \<open>strings\<close>, \<open>strconv\<close> and \<open>net\<close> that the operator calls.
  A Go string is a sequence of bytes, here a \<open>string\<close>. \<open>strings.Split\<close> is only called with
  one-byte separators. Case conversion and white space are those of ASCII: the texts that
  reach them (command names, memory sizes, flags) are ASCII.
\<close>

section \<open>strings\<close>

fun Split :: "char \<Rightarrow> string \<Rightarrow> string list" where
  "Split c [] = [[]]"
| "Split c (x # xs) =
     (if x = c then [] # Split c xs
      else case Split c xs of [] \<Rightarrow> [[x]] | y # ys \<Rightarrow> (x # y) # ys)"

fun Join :: "string \<Rightarrow> string list \<Rightarrow> string" where
  "Join sep [] = []"
| "Join sep [s] = s"
| "Join sep (s # t # ss) = s @ sep @ Join sep (t # ss)"

text \<open>\<open>strings.SplitN(s, sep, 2)\<close> for a one-byte separator.\<close>

fun SplitN2 :: "char \<Rightarrow> string \<Rightarrow> string list" where
  "SplitN2 c s =
     (if c \<in> set s then [takeWhile (\<lambda>x. x \<noteq> c) s, tl (dropWhile (\<lambda>x. x \<noteq> c) s)] else [s])"

definition HasPrefix :: "string \<Rightarrow> string \<Rightarrow> bool" where
  "HasPrefix s p \<longleftrightarrow> take (length p) s = p"

definition HasSuffix :: "string \<Rightarrow> string \<Rightarrow> bool" where
  "HasSuffix s p \<longleftrightarrow> length p \<le> length s \<and> drop (length s - length p) s = p"

definition TrimPrefix :: "string \<Rightarrow> string \<Rightarrow> string" where
  "TrimPrefix s p = (if HasPrefix s p then drop (length p) s else s)"

definition TrimSuffix :: "string \<Rightarrow> string \<Rightarrow> string" where
  "TrimSuffix s p = (if HasSuffix s p then take (length s - length p) s else s)"

definition byte :: "char \<Rightarrow> nat" where
  "byte c = of_char c"

definition lower_char :: "char \<Rightarrow> char" where
  "lower_char c = (if 65 \<le> byte c \<and> byte c \<le> 90 then char_of (byte c + 32) else c)"

definition upper_char :: "char \<Rightarrow> char" where
  "upper_char c = (if 97 \<le> byte c \<and> byte c \<le> 122 then char_of (byte c - 32) else c)"

definition ToLower :: "string \<Rightarrow> string" where
  "ToLower s = map lower_char s"

definition ToUpper :: "string \<Rightarrow> string" where
  "ToUpper s = map upper_char s"

definition is_space :: "char \<Rightarrow> bool" where
  "is_space c \<longleftrightarrow> byte c = 32 \<or> (9 \<le> byte c \<and> byte c \<le> 13)"

text \<open>\<open>strings.Fields\<close>: the maximal runs of non-space bytes; \<open>strings.TrimSpace\<close>.\<close>

function Fields :: "string \<Rightarrow> string list" where
  "Fields s =
     (let t = dropWhile is_space s in
      if t = [] then []
      else takeWhile (\<lambda>c. \<not> is_space c) t # Fields (dropWhile (\<lambda>c. \<not> is_space c) t))"
  by pat_completeness auto
termination
proof (relation "measure length")
  fix s t :: string
  assume t: "t = dropWhile is_space s" "t \<noteq> []"
  then obtain c cs where cs: "t = c # cs" "\<not> is_space c"
    by (metis hd_Cons_tl hd_dropWhile)
  have "length (dropWhile (\<lambda>c. \<not> is_space c) cs) \<le> length cs" by (rule length_dropWhile_le)
  also have "length cs < length t" using cs by simp
  also have "length t \<le> length s" using t by (simp add: length_dropWhile_le)
  finally show "(dropWhile (\<lambda>c. \<not> is_space c) t, s) \<in> measure length"
    using cs by simp
qed simp

declare Fields.simps [simp del]

definition TrimSpace :: "string \<Rightarrow> string" where
  "TrimSpace s = rev (dropWhile is_space (rev (dropWhile is_space s)))"

text \<open>\<open>strings.LastIndex(s, c)\<close>, with \<open>None\<close> for -1.\<close>

definition LastIndex :: "string \<Rightarrow> char \<Rightarrow> nat option" where
  "LastIndex s c =
     (if c \<in> set s then Some (length s - 1 - length (takeWhile (\<lambda>x. x \<noteq> c) (rev s))) else None)"

section \<open>strconv\<close>

datatype num_error = ErrSyntax | ErrRange

definition digit_char :: "nat \<Rightarrow> char" where
  "digit_char d = char_of (48 + d)"

definition is_digit :: "char \<Rightarrow> bool" where
  "is_digit c \<longleftrightarrow> 48 \<le> byte c \<and> byte c \<le> 57"

definition digit_val :: "char \<Rightarrow> nat" where
  "digit_val c = byte c - 48"

fun fmt_nat :: "nat \<Rightarrow> string" where
  "fmt_nat n = (if n < 10 then [digit_char n] else fmt_nat (n div 10) @ [digit_char (n mod 10)])"

declare fmt_nat.simps [simp del]

definition fmt_int :: "int \<Rightarrow> string" where
  "fmt_int i = (if i < 0 then ''-'' @ fmt_nat (nat (- i)) else fmt_nat (nat i))"

definition digits_val :: "string \<Rightarrow> nat" where
  "digits_val s = foldl (\<lambda>n c. 10 * n + digit_val c) 0 s"

definition ParseUint :: "string \<Rightarrow> num_error + nat" where
  "ParseUint s =
     (if s = [] \<or> (\<exists>c\<in>set s. \<not> is_digit c) then Inl ErrSyntax
      else if digits_val s < 2 ^ 64 then Inr (digits_val s) else Inl ErrRange)"

text \<open>\<open>strconv.ParseInt(s, 10, 64)\<close>: an optional sign, then digits, then the 64-bit range.\<close>

definition ParseInt :: "string \<Rightarrow> num_error + int" where
  "ParseInt s =
     (let neg = (s \<noteq> [] \<and> hd s = CHR ''-'');
          body = (if s \<noteq> [] \<and> (hd s = CHR ''+'' \<or> hd s = CHR ''-'') then tl s else s)
      in case ParseUint body of
           Inl e \<Rightarrow> Inl e
         | Inr n \<Rightarrow>
             if \<not> neg \<and> n \<ge> 2 ^ 63 then Inl ErrRange
             else if neg \<and> n > 2 ^ 63 then Inl ErrRange
             else Inr (if neg then - int n else int n))"

section \<open>net\<close>

datatype addr_error = MissingPort | TooManyColons | MissingBracket | UnexpectedBracket

definition JoinHostPort :: "string \<Rightarrow> string \<Rightarrow> string" where
  "JoinHostPort host port =
     (if CHR '':'' \<in> set host then ''['' @ host @ '']:'' @ port else host @ '':'' @ port)"

definition SplitHostPort :: "string \<Rightarrow> addr_error + (string \<times> string)" where
  "SplitHostPort hp =
     (case LastIndex hp (CHR '':'') of
        None \<Rightarrow> Inl MissingPort
      | Some i \<Rightarrow>
          if hd hp = CHR ''['' then
            (if CHR '']'' \<notin> set hp then Inl MissingBracket
             else let end = length (takeWhile (\<lambda>x. x \<noteq> CHR '']'') hp) in
               if end + 1 = length hp then Inl MissingPort
               else if end + 1 \<noteq> i then
                 (if hp ! (end + 1) = CHR '':'' then Inl TooManyColons else Inl MissingPort)
               else if CHR ''['' \<in> set (drop 1 hp) then Inl UnexpectedBracket
               else if CHR '']'' \<in> set (drop (end + 1) hp) then Inl UnexpectedBracket
               else Inr (take (end - 1) (drop 1 hp), drop (i + 1) hp))
          else if CHR '':'' \<in> set (take i hp) then Inl TooManyColons
          else if CHR ''['' \<in> set hp \<or> CHR '']'' \<in> set hp then Inl UnexpectedBracket
          else Inr (take i hp, drop (i + 1) hp))"

section \<open>Lemmas\<close>

lemma Split_not_Nil [simp]: "Split c s \<noteq> []"
  by (induction s) (auto split: list.splits)

lemma Join_Split [gostr_simps]: "Join [c] (Split c s) = s"
proof (induction s)
  case (Cons x xs)
  obtain y ys where sp: "Split c xs = y # ys"
    using Split_not_Nil [of c xs] by (cases "Split c xs") auto
  show ?case using Cons sp by (cases ys) auto
qed simp

lemma Split_no_sep [gostr_simps]: "c \<notin> set s \<Longrightarrow> Split c s = [s]"
  by (induction s) auto

lemma Split_append [gostr_simps]: "c \<notin> set s \<Longrightarrow> Split c (s @ c # t) = s # Split c t"
  by (induction s) auto

lemma Split_parts: "p \<in> set (Split c s) \<Longrightarrow> c \<notin> set p"
proof (induction s arbitrary: p)
  case (Cons x xs)
  then show ?case by (auto split: if_splits list.splits)
qed simp

lemma Split_Join [gostr_simps]:
  "ss \<noteq> [] \<Longrightarrow> (\<And>s. s \<in> set ss \<Longrightarrow> c \<notin> set s) \<Longrightarrow> Split c (Join [c] ss) = ss"
  by (induction ss rule: induct_list012) (auto simp: Split_append Split_no_sep)

lemma HasPrefix_append [simp]: "HasPrefix (p @ s) p"
  by (simp add: HasPrefix_def)

lemma HasSuffix_append [simp]: "HasSuffix (s @ p) p"
  by (simp add: HasSuffix_def)

lemma TrimSuffix_append [simp]: "TrimSuffix (s @ p) p = s"
  by (simp add: TrimSuffix_def)

lemma TrimPrefix_append [simp]: "TrimPrefix (p @ s) p = s"
  by (simp add: TrimPrefix_def)

lemma byte_digit_char [simp]: "d < 10 \<Longrightarrow> byte (digit_char d) = 48 + d"
  by (simp add: byte_def digit_char_def)

lemma digit_val_char [simp]: "d < 10 \<Longrightarrow> digit_val (digit_char d) = d"
  by (simp add: digit_val_def)

lemma is_digit_char [simp]: "d < 10 \<Longrightarrow> is_digit (digit_char d)"
  by (simp add: is_digit_def)

lemma fmt_nat_not_Nil [simp]: "fmt_nat n \<noteq> []"
  by (subst fmt_nat.simps) simp

lemma fmt_nat_digits: "c \<in> set (fmt_nat n) \<Longrightarrow> is_digit c"
proof (induction n rule: fmt_nat.induct)
  case (1 n)
  then show ?case by (auto simp: fmt_nat.simps [of n] split: if_splits)
qed

lemma digits_val_snoc: "digits_val (s @ [c]) = 10 * digits_val s + digit_val c"
  by (simp add: digits_val_def)

lemma digits_val_fmt_nat [simp]: "digits_val (fmt_nat n) = n"
proof (induction n rule: fmt_nat.induct)
  case (1 n)
  show ?case
  proof (cases "n < 10")
    case True
    then show ?thesis by (simp add: fmt_nat.simps [of n] digits_val_def)
  next
    case False
    then show ?thesis using 1 by (simp add: fmt_nat.simps [of n] digits_val_snoc)
  qed
qed

lemma ParseUint_fmt_nat [gostr_simps]:
  "ParseUint (fmt_nat n) = (if n < 2 ^ 64 then Inr n else Inl ErrRange)"
  by (auto simp: ParseUint_def dest: fmt_nat_digits)

lemma ParseUint_bound: "ParseUint s = Inr n \<Longrightarrow> n < 2 ^ 64"
  by (auto simp: ParseUint_def split: if_splits)

lemma fmt_nat_inj: "fmt_nat m = fmt_nat n \<longleftrightarrow> m = n"
  by (metis digits_val_fmt_nat)

lemma fmt_nat_no_char: "\<not> is_digit c \<Longrightarrow> c \<notin> set (fmt_nat n)"
  by (auto dest: fmt_nat_digits)

lemma ParseInt_fmt_int [gostr_simps]:
  assumes "- (2 ^ 63) \<le> i" and "i < 2 ^ 63"
  shows "ParseInt (fmt_int i) = Inr i"
proof (cases "i < 0")
  case True
  then have "nat (- i) \<le> 2 ^ 63" using assms(1) by (simp add: nat_le_iff)
  moreover then have "nat (- i) < 2 ^ 64" by simp
  ultimately show ?thesis using True
    by (simp add: ParseInt_def fmt_int_def ParseUint_fmt_nat)
next
  case False
  have h: "is_digit (hd (fmt_nat (nat i)))" by (rule fmt_nat_digits [of _ "nat i"]) simp
  have "hd (fmt_nat (nat i)) \<noteq> CHR ''-''" "hd (fmt_nat (nat i)) \<noteq> CHR ''+''"
    using h by (auto simp: is_digit_def byte_def)
  moreover have "nat i < 2 ^ 63" using assms(2) False by (simp add: nat_less_iff)
  moreover then have "nat i < 2 ^ 64" by simp
  ultimately show ?thesis using False
    by (simp add: ParseInt_def fmt_int_def ParseUint_fmt_nat Let_def)
qed

lemma LastIndex_append:
  assumes "c \<notin> set t"
  shows "LastIndex (s @ c # t) c = Some (length s)"
proof -
  have "takeWhile (\<lambda>x. x \<noteq> c) (rev t @ c # rev s) = rev t"
    using assms by (subst takeWhile_append2) auto
  then show ?thesis by (simp add: LastIndex_def)
qed

text \<open>
  \<open>SplitHostPort\<close> undoes \<open>JoinHostPort\<close> for a host without brackets and a port without colons
  and brackets, IPv6 hosts included.
\<close>

lemma SplitHostPort_JoinHostPort:
  assumes "CHR ''['' \<notin> set host" "CHR '']'' \<notin> set host"
    and "CHR '':'' \<notin> set port" "CHR ''['' \<notin> set port" "CHR '']'' \<notin> set port"
  shows "SplitHostPort (JoinHostPort host port) = Inr (host, port)"
proof (cases "CHR '':'' \<in> set host")
  case True
  let ?hp = "''['' @ host @ '']:'' @ port"
  have li: "LastIndex ?hp (CHR '':'') = Some (length host + 2)"
    using LastIndex_append [OF assms(3), of "''['' @ host @ '']''"] by simp
  have tw: "takeWhile (\<lambda>x. x \<noteq> CHR '']'') ?hp = CHR ''['' # host"
    using assms(2) by (subst append_assoc [symmetric], subst takeWhile_append2) auto
  show ?thesis using True assms li tw
    by (simp add: SplitHostPort_def JoinHostPort_def Let_def)
next
  case False
  have li: "LastIndex (host @ '':'' @ port) (CHR '':'') = Some (length host)"
    using LastIndex_append [OF assms(3), of host] by simp
  have "hd (host @ '':'' @ port) \<noteq> CHR ''[''"
    using assms(1) by (cases host) auto
  then show ?thesis using False assms li
    by (simp add: SplitHostPort_def JoinHostPort_def)
qed

lemma JoinHostPort_inj:
  assumes "CHR ''['' \<notin> set h" "CHR '']'' \<notin> set h" "CHR ''['' \<notin> set h'" "CHR '']'' \<notin> set h'"
    and "CHR '':'' \<notin> set p" "CHR ''['' \<notin> set p" "CHR '']'' \<notin> set p"
    and "CHR '':'' \<notin> set p'" "CHR ''['' \<notin> set p'" "CHR '']'' \<notin> set p'"
    and "JoinHostPort h p = JoinHostPort h' p'"
  shows "h = h' \<and> p = p'"
  using SplitHostPort_JoinHostPort [OF assms(1,2,5,6,7)]
    SplitHostPort_JoinHostPort [OF assms(3,4,8,9,10)] assms(11)
  by (metis Pair_inject sum.inject(2))

end
