(* ===== verification/Slots.thy ===== *)
theory Slots
  imports Go_Strings
begin

text \<open>
  Hash slots, their ranges and their text form: \<open>src/pkg/redisutil/slot.go\<close>. A slot is a
  \<open>uint64\<close>, a \<open>64 word\<close> here, so \<open>max + 1\<close> and \<open>s++\<close> wrap around as in the code.
  Slices are lists; \<open>SlotRangesFromSlots\<close> also returns its argument as the call leaves it,
  because it sorts the caller's slice in place.
\<close>

type_synonym Slot = "64 word"

definition Slot_String :: "Slot \<Rightarrow> string" where
  "Slot_String s = fmt_nat (unat s)"

definition DecodeSlot :: "string \<Rightarrow> num_error + Slot" where
  "DecodeSlot s = (case ParseUint s of Inl e \<Rightarrow> Inl e | Inr n \<Rightarrow> Inr (of_nat n))"

record SlotRange =
  SMin :: Slot
  SMax :: Slot

definition SlotRange_String :: "SlotRange \<Rightarrow> string" where
  "SlotRange_String r = Slot_String (SMin r) @ ''-'' @ Slot_String (SMax r)"

definition SlotRange_Total :: "SlotRange \<Rightarrow> int" where
  "SlotRange_Total r = sint (SMax r - SMin r + 1)"

record ImportingSlot =
  ImpSlotID :: Slot
  FromNodeID :: string

record MigratingSlot =
  MigSlotID :: Slot
  ToNodeID :: string

definition ImportingSlot_String :: "ImportingSlot \<Rightarrow> string" where
  "ImportingSlot_String s = Slot_String (ImpSlotID s) @ ''-<-'' @ FromNodeID s"

definition MigratingSlot_String :: "MigratingSlot \<Rightarrow> string" where
  "MigratingSlot_String s = Slot_String (MigSlotID s) @ ''->-'' @ ToNodeID s"

section \<open>Building the slots of a range\<close>

partial_function (option) buildLoop :: "Slot \<Rightarrow> Slot \<Rightarrow> Slot list \<Rightarrow> Slot list option" where
  "buildLoop s hi slots = (if s \<le> hi then buildLoop (s + 1) hi (slots @ [s]) else Some slots)"

definition BuildSlotSlice :: "Slot \<Rightarrow> Slot \<Rightarrow> Slot list go" where
  "BuildSlotSlice lo hi = (case buildLoop lo hi [] of None \<Rightarrow> Hang | Some slots \<Rightarrow> Ret slots)"

section \<open>Decoding one slot field of CLUSTER NODES\<close>

datatype decode_error = DecodeNum num_error | ImpossibleToDecode string

type_synonym slot_field = "Slot list \<times> ImportingSlot option \<times> MigratingSlot option"

definition DecodeSlotRange :: "string \<Rightarrow> (decode_error + slot_field) go" where
  "DecodeSlotRange str =
     (let val = Split (CHR ''-'') str in
      if length val = 3 then
        Ret (case DecodeSlot (TrimPrefix (val ! 0) ''['') of
           Inl e \<Rightarrow> Inl (DecodeNum e)
         | Inr slot \<Rightarrow>
             let separator = ''-'' @ val ! 1 @ ''-'' in
             if separator = ''-<-'' then
               Inr ([], Some \<lparr>ImpSlotID = slot, FromNodeID = TrimSuffix (val ! 2) '']''\<rparr>, None)
             else if separator = ''->-'' then
               Inr ([], None, Some \<lparr>MigSlotID = slot, ToNodeID = TrimSuffix (val ! 2) '']''\<rparr>)
             else Inl (ImpossibleToDecode str))
      else if length val > 0 then
        (case DecodeSlot (val ! 0) of
           Inl e \<Rightarrow> Ret (Inl (DecodeNum e))
         | Inr lo \<Rightarrow>
             (case (if length val > 1 then DecodeSlot (val ! 1) else Inr lo) of
                Inl e \<Rightarrow> Ret (Inl (DecodeNum e))
              | Inr hi \<Rightarrow> gbind (BuildSlotSlice lo hi) (\<lambda>slots. Ret (Inr (slots, None, None)))))
      else Ret (Inl (ImpossibleToDecode str)))"

section \<open>Operations on slices of slots\<close>

fun rangesLoop :: "Slot list \<Rightarrow> Slot \<Rightarrow> Slot \<Rightarrow> bool \<Rightarrow> SlotRange list \<Rightarrow> SlotRange list" where
  "rangesLoop [] lo hi first ranges =
     (if \<not> first then ranges @ [\<lparr>SMin = lo, SMax = hi\<rparr>] else ranges)"
| "rangesLoop (slot # slots) lo hi first ranges =
     (if first then rangesLoop slots slot slot False ranges
      else if slot > hi + 1
        then rangesLoop slots slot slot False (ranges @ [\<lparr>SMin = lo, SMax = hi\<rparr>])
      else rangesLoop slots lo slot False ranges)"

definition SlotRangesFromSlots :: "Slot list \<Rightarrow> SlotRange list \<times> Slot list" where
  "SlotRangesFromSlots slots = (let sorted = sort slots in (rangesLoop sorted 0 0 True [], sorted))"

definition Contains :: "Slot list \<Rightarrow> Slot \<Rightarrow> bool" where
  "Contains s e = list_ex (\<lambda>a. a = e) s"

function removeSlotsLoop :: "nat \<Rightarrow> Slot list \<Rightarrow> Slot list \<Rightarrow> Slot list" where
  "removeSlotsLoop i slots removedSlots =
     (if i < length slots then
        (if Contains removedSlots (slots ! i)
         then removeSlotsLoop i (take i slots @ drop (Suc i) slots) removedSlots
         else removeSlotsLoop (Suc i) slots removedSlots)
      else slots)"
  by pat_completeness auto
termination
  by (relation "measure (\<lambda>(i, slots, _). length slots - i)") auto

declare removeSlotsLoop.simps [simp del]

definition RemoveSlots :: "Slot list \<Rightarrow> Slot list \<Rightarrow> Slot list" where
  "RemoveSlots slots removedSlots = removeSlotsLoop 0 slots removedSlots"

function removeSlotLoop :: "nat \<Rightarrow> Slot list \<Rightarrow> Slot \<Rightarrow> Slot list" where
  "removeSlotLoop i slots removedSlot =
     (if i < length slots then
        (if slots ! i = removedSlot then take i slots @ drop (Suc i) slots
         else removeSlotLoop (Suc i) slots removedSlot)
      else slots)"
  by pat_completeness auto
termination
  by (relation "measure (\<lambda>(i, slots, _). length slots - i)") auto

declare removeSlotLoop.simps [simp del]

definition RemoveSlot :: "Slot list \<Rightarrow> Slot \<Rightarrow> Slot list" where
  "RemoveSlot slots removedSlot = removeSlotLoop 0 slots removedSlot"

fun AddSlots :: "Slot list \<Rightarrow> Slot list \<Rightarrow> Slot list" where
  "AddSlots slots [] = slots"
| "AddSlots slots (s # added) = AddSlots (if \<not> Contains slots s then slots @ [s] else slots) added"

section \<open>Lemmas: building a range\<close>

text \<open>The slots between two bounds, as a closed expression.\<close>

definition slots_between :: "Slot \<Rightarrow> Slot \<Rightarrow> Slot list" where
  "slots_between lo hi = map of_nat [unat lo..<Suc (unat hi)]"

lemma unat_Suc_slot: "s \<noteq> (- 1 :: Slot) \<Longrightarrow> unat (s + 1) = Suc (unat s)"
  by (metis add.commute add.right_inverse add_left_cancel unatSuc)

lemma slots_between_Nil: "hi < lo \<Longrightarrow> slots_between lo hi = []"
  by (simp add: slots_between_def word_less_nat_alt)

lemma slots_between_Cons:
  assumes "s \<le> hi" and "hi \<noteq> - 1"
  shows "slots_between s hi = s # slots_between (s + 1) hi"
proof -
  have "s \<noteq> - 1" using assms by (metis word_order.extremum_unique)
  then have "unat (s + 1) = Suc (unat s)" by (rule unat_Suc_slot)
  moreover have "unat s < Suc (unat hi)" using assms(1) by (simp add: word_le_nat_alt)
  ultimately show ?thesis by (simp add: slots_between_def upt_rec del: upt_Suc)
qed

lemma buildLoop_slots:
  "hi \<noteq> - 1 \<Longrightarrow> buildLoop s hi slots = Some (slots @ slots_between s hi)"
proof (induction "Suc (unat hi) - unat s" arbitrary: s slots rule: less_induct)
  case less
  show ?case
  proof (cases "s \<le> hi")
    case True
    then have "s \<noteq> - 1" using less.prems by (metis word_order.extremum_unique)
    then have "unat (s + 1) = Suc (unat s)" by (rule unat_Suc_slot)
    moreover have "unat s \<le> unat hi" using True by (simp add: word_le_nat_alt)
    ultimately have "Suc (unat hi) - unat (s + 1) < Suc (unat hi) - unat s" by simp
    then have "buildLoop (s + 1) hi (slots @ [s]) = Some (slots @ [s] @ slots_between (s + 1) hi)"
      using less by simp
    then show ?thesis using True less.prems
      by (simp add: buildLoop.simps [of s] slots_between_Cons)
  next
    case False
    then show ?thesis by (simp add: buildLoop.simps [of s] slots_between_Nil)
  qed
qed

lemma buildLoop_returns_bounded:
  assumes "buildLoop s hi slots = Some r"
  shows "hi \<noteq> - 1"
proof (rule buildLoop.raw_induct [where P = "\<lambda>s hi slots r. hi \<noteq> - 1", OF _ assms])
  fix f s hi slots r
  assume IH: "\<And>s hi slots r. f s hi slots = Some r \<Longrightarrow> hi \<noteq> (- 1 :: Slot)"
    and eq: "(if s \<le> hi then f (s + 1) hi (slots @ [s]) else Some slots) = Some r"
  show "hi \<noteq> - 1"
  proof (cases "s \<le> hi")
    case True
    then show ?thesis using eq IH by simp
  next
    case False
    then show ?thesis by (metis word_order.extremum)
  qed
qed

lemma BuildSlotSlice_eq:
  "BuildSlotSlice lo hi = (if hi = - 1 then Hang else Ret (slots_between lo hi))"
proof (cases "hi = - 1")
  case True
  then have "buildLoop lo hi [] = None"
    using buildLoop_returns_bounded [of lo hi "[]"] by (cases "buildLoop lo hi []") auto
  then show ?thesis using True by (simp add: BuildSlotSlice_def)
next
  case False
  then show ?thesis by (simp add: BuildSlotSlice_def buildLoop_slots)
qed

lemma unat_in_upt:
  fixes a b :: Slot
  shows "n \<in> set [unat a..<Suc (unat b)] \<Longrightarrow> unat (of_nat n :: Slot) = n"
proof -
  assume "n \<in> set [unat a..<Suc (unat b)]"
  moreover have "unat b < 2 ^ 64" using unsigned_less [of b, where ?'a = nat] by simp
  ultimately have "n < 2 ^ 64" by auto
  then show ?thesis by (simp add: unat_of_nat)
qed

lemma slots_between_unat: "map unat (slots_between a b) = [unat a..<Suc (unat b)]"
  unfolding slots_between_def map_map comp_def
  by (rule map_idI) (rule unat_in_upt)

lemma set_slots_between: "set (slots_between a b) = {s. a \<le> s \<and> s \<le> b}"
proof (intro set_eqI iffI)
  fix s assume "s \<in> set (slots_between a b)"
  then have "unat s \<in> set (map unat (slots_between a b))" by simp
  then show "s \<in> {s. a \<le> s \<and> s \<le> b}"
    by (simp add: slots_between_unat word_le_nat_alt del: upt_Suc)
next
  fix s assume "s \<in> {s. a \<le> s \<and> s \<le> b}"
  then have "unat s \<in> set (map unat (slots_between a b))"
    by (simp add: slots_between_unat word_le_nat_alt del: upt_Suc)
  then show "s \<in> set (slots_between a b)" by (auto simp: word_unat_eq_iff [symmetric])
qed

lemma length_slots_between: "length (slots_between a b) = Suc (unat b) - unat a"
  by (simp add: slots_between_def del: upt_Suc)

lemma distinct_slots_between: "distinct (slots_between a b)"
  using slots_between_unat [of a b] by (metis distinct_map distinct_upt)

lemma slots_between_snoc:
  assumes "a \<le> b" and "b < s" and "\<not> b + 1 < s"
  shows "slots_between a b @ [s] = slots_between a s"
proof -
  have "b \<noteq> - 1" using assms(2) by (metis word_order.extremum_strict)
  then have b1: "unat (b + 1) = Suc (unat b)" by (rule unat_Suc_slot)
  then have "unat s = Suc (unat b)"
    using assms(2,3) by (simp add: word_less_nat_alt)
  moreover have "unat a \<le> Suc (unat b)" using assms(1) by (simp add: word_le_nat_alt)
  ultimately have "slots_between a s = map of_nat [unat a..<Suc (unat b)] @ [of_nat (unat s)]"
    by (simp add: slots_between_def)
  then show ?thesis by (simp add: slots_between_def del: upt_Suc)
qed

section \<open>Lemmas: ranges\<close>

definition range_slots :: "SlotRange \<Rightarrow> Slot list" where
  "range_slots r = slots_between (SMin r) (SMax r)"

lemma rangesLoop_cover:
  assumes "sorted (hi # slots)" and "lo \<le> hi"
  shows "\<Union> (set ` range_slots ` set (rangesLoop slots lo hi False ranges)) =
           \<Union> (set ` range_slots ` set ranges) \<union> {lo..hi} \<union> set slots"
  using assms
proof (induction slots arbitrary: lo hi ranges)
  case Nil
  then show ?case by (auto simp: range_slots_def set_slots_between)
next
  case (Cons s slots)
  have s: "hi \<le> s" "sorted (s # slots)" using Cons.prems by auto
  show ?case
  proof (cases "s > hi + 1")
    case True
    then show ?thesis
      using Cons.IH [of s s "ranges @ [\<lparr>SMin = lo, SMax = hi\<rparr>]"] s
      by (auto simp: range_slots_def set_slots_between)
  next
    case False
    have "{lo..s} = {lo..hi} \<union> {s}"
    proof (cases "hi = s")
      case True
      then show ?thesis using Cons.prems by auto
    next
      case ne: False
      then have "hi < s" using s by simp
      from slots_between_snoc [OF Cons.prems(2) this False]
      have "set (slots_between lo s) = set (slots_between lo hi) \<union> {s}"
        by (metis list.simps(15) set_append set_empty)
      then show ?thesis by (auto simp: set_slots_between)
    qed
    then show ?thesis using False Cons.IH [of s lo ranges] s Cons.prems by auto
  qed
qed

lemma rangesLoop_exact:
  assumes "sorted_wrt (<) (hi # slots)" and "lo \<le> hi"
  shows "concat (map range_slots (rangesLoop slots lo hi False ranges)) =
           concat (map range_slots ranges) @ slots_between lo hi @ slots"
  using assms
proof (induction slots arbitrary: lo hi ranges)
  case Nil
  then show ?case by (simp add: range_slots_def)
next
  case (Cons s slots)
  have s: "hi < s" "sorted_wrt (<) (s # slots)" "lo \<le> s" using Cons.prems by auto
  show ?case
  proof (cases "s > hi + 1")
    case True
    have "slots_between s s = [s]" by (simp add: slots_between_def)
    then show ?thesis
      using True Cons.IH [of s s "ranges @ [\<lparr>SMin = lo, SMax = hi\<rparr>]"] s
      by (simp add: range_slots_def)
  next
    case False
    then show ?thesis
      using Cons.IH [of s lo ranges] s slots_between_snoc [OF Cons.prems(2) s(1) False]
      by (metis append.assoc append_Cons append_Nil rangesLoop.simps(2))
  qed
qed

definition separated :: "SlotRange list \<Rightarrow> bool" where
  "separated = sorted_wrt (\<lambda>r r'. SMax r + 1 < SMin r' \<and> SMax r < SMin r')"

lemma rangesLoop_separated:
  assumes "sorted_wrt (<) (hi # slots)" and "lo \<le> hi"
    and "separated (ranges @ [\<lparr>SMin = lo, SMax = hi\<rparr>])"
    and "\<forall>r\<in>set ranges. SMin r \<le> SMax r"
  shows "separated (rangesLoop slots lo hi False ranges)"
  using assms
proof (induction slots arbitrary: lo hi ranges)
  case (Cons s slots)
  have s: "hi < s" "sorted_wrt (<) (s # slots)" "lo \<le> s" using Cons.prems by auto
  show ?case
  proof (cases "s > hi + 1")
    case True
    have mx: "hi \<noteq> - 1" using s(1) by (metis word_order.extremum_strict)
    have "SMax r + 1 < s \<and> SMax r < s" if "r \<in> set ranges" for r
    proof -
      have "SMax r + 1 < lo" "SMax r < lo"
        using that Cons.prems(3) by (auto simp: separated_def sorted_wrt_append)
      then show ?thesis using s(3) by auto
    qed
    then have "separated ((ranges @ [\<lparr>SMin = lo, SMax = hi\<rparr>]) @ [\<lparr>SMin = s, SMax = s\<rparr>])"
      using Cons.prems(3) True s(1) by (auto simp: separated_def sorted_wrt_append)
    then show ?thesis using True Cons.IH s Cons.prems by auto
  next
    case False
    have "separated (ranges @ [\<lparr>SMin = lo, SMax = s\<rparr>])"
      using Cons.prems(3) by (auto simp: separated_def sorted_wrt_append)
    then show ?thesis using False Cons.IH s Cons.prems by auto
  qed
qed simp

lemma SlotRangesFromSlots_Cons:
  assumes "sort slots = s # ss"
  shows "SlotRangesFromSlots slots = (rangesLoop ss s s False [], s # ss)"
  by (simp add: SlotRangesFromSlots_def assms Let_def)

lemma SlotRangesFromSlots_cover:
  "\<Union> (set ` range_slots ` set (fst (SlotRangesFromSlots slots))) = set slots"
proof (cases "sort slots")
  case Nil
  then show ?thesis by (simp add: SlotRangesFromSlots_def) (metis set_empty2 set_sort)
next
  case (Cons s ss)
  have "sorted (s # ss)" using Cons by (metis sorted_sort)
  then have "\<Union> (set ` range_slots ` set (rangesLoop ss s s False [])) = {s..s} \<union> set ss"
    by (subst rangesLoop_cover) auto
  also have "\<dots> = set slots" using Cons by (metis atLeastAtMost_singleton list.simps(15) set_sort insert_is_Un)
  finally show ?thesis by (simp add: SlotRangesFromSlots_Cons [OF Cons])
qed

lemma SlotRangesFromSlots_exact:
  assumes "distinct slots"
  shows "concat (map range_slots (fst (SlotRangesFromSlots slots))) = sort slots"
    and "separated (fst (SlotRangesFromSlots slots))"
proof -
  have "concat (map range_slots (fst (SlotRangesFromSlots slots))) = sort slots \<and>
    separated (fst (SlotRangesFromSlots slots))"
  proof (cases "sort slots")
    case Nil
    then show ?thesis by (simp add: SlotRangesFromSlots_def separated_def)
  next
    case (Cons s ss)
    have "sorted_wrt (<) (sort slots)"
      using assms by (simp add: strict_sorted_iff)
    then have st: "sorted_wrt (<) (s # ss)" using Cons by simp
    have "slots_between s s = [s]" by (simp add: slots_between_def)
    then show ?thesis
      using rangesLoop_exact [OF st order_refl, of "[]"]
        rangesLoop_separated [OF st order_refl, of "[]"]
      by (simp add: SlotRangesFromSlots_Cons [OF Cons] Cons separated_def)
  qed
  then show "concat (map range_slots (fst (SlotRangesFromSlots slots))) = sort slots"
    and "separated (fst (SlotRangesFromSlots slots))" by auto
qed

section \<open>Lemmas: removing and adding\<close>

lemma Contains_iff [simp]: "Contains s e \<longleftrightarrow> e \<in> set s"
  by (auto simp: Contains_def list_ex_iff)

lemma removeSlotsLoop_filter:
  "i \<le> length slots \<Longrightarrow>
   removeSlotsLoop i slots rs = take i slots @ filter (\<lambda>s. s \<notin> set rs) (drop i slots)"
proof (induction i slots rs rule: removeSlotsLoop.induct)
  case (1 i slots rs)
  show ?case
  proof (cases "i < length slots")
    case True
    have d: "drop i slots = slots ! i # drop (Suc i) slots"
      using True by (simp add: Cons_nth_drop_Suc)
    have t: "take (Suc i) slots = take i slots @ [slots ! i]"
      using True by (rule take_Suc_conv_app_nth)
    show ?thesis
      using 1 True d t by (subst removeSlotsLoop.simps) (auto simp: min_def)
  next
    case False
    then show ?thesis using "1.prems" by (subst removeSlotsLoop.simps) simp
  qed
qed

lemma RemoveSlots_filter: "RemoveSlots slots rs = filter (\<lambda>s. s \<notin> set rs) slots"
  by (simp add: RemoveSlots_def removeSlotsLoop_filter)

lemma removeSlotLoop_remove1:
  "i \<le> length slots \<Longrightarrow> removeSlotLoop i slots r = take i slots @ remove1 r (drop i slots)"
proof (induction i slots r rule: removeSlotLoop.induct)
  case (1 i slots r)
  show ?case
  proof (cases "i < length slots")
    case True
    have d: "drop i slots = slots ! i # drop (Suc i) slots"
      using True by (simp add: Cons_nth_drop_Suc)
    have t: "take (Suc i) slots = take i slots @ [slots ! i]"
      using True by (rule take_Suc_conv_app_nth)
    show ?thesis
      using 1 True d t by (subst removeSlotLoop.simps) auto
  next
    case False
    then show ?thesis using "1.prems" by (subst removeSlotLoop.simps) simp
  qed
qed

lemma RemoveSlot_remove1: "RemoveSlot slots r = remove1 r slots"
  by (simp add: RemoveSlot_def removeSlotLoop_remove1)

lemma set_AddSlots [simp]: "set (AddSlots slots added) = set slots \<union> set added"
  by (induction added arbitrary: slots) auto

lemma distinct_AddSlots: "distinct slots \<Longrightarrow> distinct (AddSlots slots added)"
  by (induction added arbitrary: slots) auto

lemma AddSlots_prefix: "take (length slots) (AddSlots slots added) = slots"
proof (induction added arbitrary: slots)
  case (Cons a added)
  have "take (length slots) (AddSlots (slots @ [a]) added) =
    take (length slots) (take (length (slots @ [a])) (AddSlots (slots @ [a]) added))"
    by (simp add: min_def)
  also have "\<dots> = slots" by (subst Cons.IH) simp
  finally show ?case using Cons.IH [of slots] by auto
qed simp

lemma AddSlots_disjoint:
  "distinct added \<Longrightarrow> set slots \<inter> set added = {} \<Longrightarrow> AddSlots slots added = slots @ added"
  by (induction added arbitrary: slots) auto

section \<open>Lemmas: text form\<close>

lemma minus_not_digit [simp]: "\<not> is_digit (CHR ''-'')"
  by (simp add: is_digit_def byte_def)

lemma Slot_String_no_minus [simp]: "CHR ''-'' \<notin> set (Slot_String s)"
  by (simp add: Slot_String_def fmt_nat_no_char)

lemma DecodeSlot_String [gostr_simps, simp]: "DecodeSlot (Slot_String s) = Inr s"
proof -
  have "unat s < 2 ^ 64" using unsigned_less [of s, where ?'a = nat] by simp
  then show ?thesis by (simp add: DecodeSlot_def Slot_String_def ParseUint_fmt_nat)
qed

lemma DecodeSlotRange_SlotRange_String [gostr_simps]:
  "DecodeSlotRange (SlotRange_String r) =
     (if SMax r = - 1 then Hang else Ret (Inr (range_slots r, None, None)))"
proof -
  have "Split (CHR ''-'') (SlotRange_String r) = [Slot_String (SMin r), Slot_String (SMax r)]"
    by (simp add: SlotRange_String_def Split_append Split_no_sep)
  then show ?thesis
    by (simp add: DecodeSlotRange_def BuildSlotSlice_eq range_slots_def)
qed

lemma DecodeSlotRange_Slot_String [gostr_simps]:
  "DecodeSlotRange (Slot_String s) = (if s = - 1 then Hang else Ret (Inr ([s], None, None)))"
  by (simp add: DecodeSlotRange_def BuildSlotSlice_eq Split_no_sep slots_between_def)

lemma TrimPrefix_bracket_digits:
  "TrimPrefix (''['' @ Slot_String s) ''['' = Slot_String s"
  by (rule TrimPrefix_append)

text \<open>A migrating or importing field is the printed slot between square brackets.\<close>

lemma DecodeSlotRange_ImportingSlot_String [gostr_simps]:
  assumes "CHR ''-'' \<notin> set (FromNodeID i)"
  shows "DecodeSlotRange (''['' @ ImportingSlot_String i @ '']'') = Ret (Inr ([], Some i, None))"
proof -
  have "Split (CHR ''-'') (''['' @ ImportingSlot_String i @ '']'') =
    [''['' @ Slot_String (ImpSlotID i), ''<'', FromNodeID i @ '']'']"
    using assms Split_append [of "CHR ''-''" "''['' @ Slot_String (ImpSlotID i)"]
    by (simp add: ImportingSlot_String_def Split_append [of _ "''<''", simplified] Split_no_sep)
  then show ?thesis
    using TrimPrefix_bracket_digits [of "ImpSlotID i"]
    by (simp add: DecodeSlotRange_def)
qed

lemma DecodeSlotRange_MigratingSlot_String [gostr_simps]:
  assumes "CHR ''-'' \<notin> set (ToNodeID m)"
  shows "DecodeSlotRange (''['' @ MigratingSlot_String m @ '']'') = Ret (Inr ([], None, Some m))"
proof -
  have "Split (CHR ''-'') (''['' @ MigratingSlot_String m @ '']'') =
    [''['' @ Slot_String (MigSlotID m), ''>'', ToNodeID m @ '']'']"
    using assms Split_append [of "CHR ''-''" "''['' @ Slot_String (MigSlotID m)"]
    by (simp add: MigratingSlot_String_def Split_append [of _ "''>''", simplified] Split_no_sep)
  then show ?thesis
    using TrimPrefix_bracket_digits [of "MigSlotID m"]
    by (simp add: DecodeSlotRange_def)
qed

end
