(* ===== verification/Errors.thy ===== *)
theory Errors
  imports Go_Strings
begin

text \<open>
  Errors as values. \<open>go_error\<close> has one constructor per kind of error the operator creates or
  tells apart: texts of \<open>errors.New\<close> and \<open>fmt.Errorf\<close>, the errors of
  \<open>src/pkg/redisutil/errors.go\<close>, parse and address errors, the classes of connection errors
  \<open>handleError\<close> distinguishes, the reasons of the Kubernetes API, aggregates, and the typed
  errors of \<open>src/pkg/controller/distributedrediscluster/errors.go\<close>.
\<close>

datatype ErrorType = NoType | Requeue | Kubernetes | Redis | ClusterErr | StopRetry

datatype kube_reason =
  NotFound | AlreadyExists | ServiceUnavailable | Timeout | ServerTimeout | TooManyRequests | OtherReason

datatype go_error =
    ErrText string
  | ErrWith string go_error
  | NodeNotFounded
  | ClusterInfosError "(string \<times> go_error) list" bool bool
  | NumError string string num_error
  | AddrError string addr_error
  | NetTimeout string
  | NetOpError string
  | RedisReplyError string
  | ErrPipelineEmpty
  | KubeError kube_reason string
  | Aggregate "go_error list"
  | Wrapped string go_error
  | CustomError ErrorType go_error

section \<open>redisutil/errors.go\<close>

definition IsNodeNotFoundedError :: "go_error \<Rightarrow> bool" where
  "IsNodeNotFoundedError err \<longleftrightarrow> err = NodeNotFounded"

definition NewClusterInfosError :: go_error where
  "NewClusterInfosError = ClusterInfosError [] False False"

fun IsPartialError :: "go_error \<Rightarrow> bool" where
  "IsPartialError (ClusterInfosError errs partial inconsistent) = partial"
| "IsPartialError _ = False"

fun IsInconsistentError :: "go_error \<Rightarrow> bool" where
  "IsInconsistentError (ClusterInfosError errs partial inconsistent) = inconsistent"
| "IsInconsistentError _ = False"

section \<open>distributedrediscluster/errors.go\<close>

definition ErrorType_New :: "ErrorType \<Rightarrow> string \<Rightarrow> go_error" where
  "ErrorType_New t msg = CustomError t (ErrText msg)"

definition ErrorType_Wrap :: "ErrorType \<Rightarrow> go_error \<Rightarrow> string \<Rightarrow> go_error" where
  "ErrorType_Wrap t err msg = CustomError t (Wrapped msg err)"

definition New :: "string \<Rightarrow> go_error" where
  "New msg = CustomError NoType (ErrText msg)"

text \<open>\<open>Newf\<close>, of a type and without: the text is the formatted message.\<close>

definition ErrorType_Newf :: "ErrorType \<Rightarrow> string \<Rightarrow> go_error" where
  "ErrorType_Newf errorType text = CustomError errorType (ErrText text)"

definition Newf :: "string \<Rightarrow> go_error" where
  "Newf text = CustomError NoType (ErrText text)"

fun Wrap :: "go_error \<Rightarrow> string \<Rightarrow> go_error" where
  "Wrap (CustomError t e) msg = CustomError t (Wrapped msg (CustomError t e))"
| "Wrap err msg = CustomError NoType (Wrapped msg err)"

text \<open>\<open>errors.Cause\<close> of the library stops at an error that has no cause, as a typed error has not.\<close>

fun Cause :: "go_error \<Rightarrow> go_error" where
  "Cause (Wrapped msg e) = Cause e"
| "Cause e = e"

fun GetType :: "go_error \<Rightarrow> ErrorType" where
  "GetType (CustomError t e) = t"
| "GetType _ = NoType"

section \<open>k8sutil/util.go\<close>

fun IsRequestRetryable :: "go_error \<Rightarrow> bool" where
  "IsRequestRetryable (KubeError r m) =
     (r = ServiceUnavailable \<or> r = Timeout \<or> r = ServerTimeout \<or> r = TooManyRequests)"
| "IsRequestRetryable _ = False"

fun IsNotFound :: "go_error \<Rightarrow> bool" where
  "IsNotFound (KubeError r m) = (r = NotFound)"
| "IsNotFound _ = False"

section \<open>The text of an error\<close>

fun num_error_text :: "num_error \<Rightarrow> string" where
  "num_error_text ErrSyntax = ''invalid syntax''"
| "num_error_text ErrRange = ''value out of range''"

fun addr_error_text :: "addr_error \<Rightarrow> string" where
  "addr_error_text MissingPort = ''missing port in address''"
| "addr_error_text TooManyColons = ''too many colons in address''"
| "addr_error_text MissingBracket = ''missing ']' in address''"
| "addr_error_text UnexpectedBracket = ''unexpected bracket in address''"

text \<open>
  \<open>err.Error()\<close>. The map of a partial error is printed in the order of the list it is;
  \<open>agg\<close> is the text of an aggregate, a function of the Kubernetes library.
\<close>

fun error_text :: "(string list \<Rightarrow> string) \<Rightarrow> go_error \<Rightarrow> string" where
  "error_text agg (ErrText m) = m"
| "error_text agg (ErrWith m e) = m @ error_text agg e"
| "error_text agg NodeNotFounded = ''node not founded''"
| "error_text agg (ClusterInfosError errs partial inconsistent) =
     (if partial then ''Cluster infos partial: '' @
        concat (map (\<lambda>(addr, e). addr @ '': '' @ [CHR 0x27] @ error_text agg e @ [CHR 0x27]) errs)
      else if inconsistent then ''Cluster view is inconsistent'' else [])"
| "error_text agg (NumError f s e) = ''strconv.'' @ f @ '': parsing '' @ [CHR 0x22] @ s @ [CHR 0x22] @ '': '' @ num_error_text e"
| "error_text agg (AddrError a e) = ''address '' @ a @ '': '' @ addr_error_text e"
| "error_text agg (NetTimeout m) = m"
| "error_text agg (NetOpError m) = m"
| "error_text agg (RedisReplyError m) = m"
| "error_text agg ErrPipelineEmpty = ''pipeline queue empty''"
| "error_text agg (KubeError r m) = m"
| "error_text agg (Aggregate es) = agg (map (error_text agg) es)"
| "error_text agg (Wrapped m e) = m @ '': '' @ error_text agg e"
| "error_text agg (CustomError t e) = error_text agg e"

section \<open>Lemmas\<close>

lemma GetType_Wrap: "GetType (Wrap err msg) = GetType err"
  by (cases err) auto

lemma error_text_Wrap: "error_text agg (Wrap err msg) = msg @ '': '' @ error_text agg err"
  by (cases err) auto

lemma error_text_ErrorType_Wrap [simp]:
  "error_text agg (ErrorType_Wrap t err msg) = msg @ '': '' @ error_text agg err"
  by (simp add: ErrorType_Wrap_def)

lemma GetType_ErrorType_Wrap [simp]: "GetType (ErrorType_Wrap t err msg) = t"
  by (simp add: ErrorType_Wrap_def)

end
