(* ===== verification/Go_Float.thy ===== *)
theory Go_Float
  imports Complex_Main "HOL-Library.Log_Nat"
begin

text \<open>
  Go's \<open>float64\<close>: IEEE 754 binary64 with rounding to nearest, ties to even, computed on
  rational numbers. The slot arithmetic of \<open>AllocSlots\<close>, \<open>RebalancedCluster\<close>,
  \<open>computeReshardTable\<close> and \<open>buildSlotsByNode\<close> goes through it, and whether their results
  are off by one is a question about rounding. The sign of zero is not represented (no
  operation the code uses observes it). Converting a value outside the 64-bit range to
  \<open>int\<close> is left open by the language; the model takes what the compiler gives on amd64,
  the least integer.
\<close>

section \<open>Rounding\<close>

definition ilog2 :: "rat \<Rightarrow> int" where
  "ilog2 y =
     (let (p, q) = quotient_of y; t = bitlen p - bitlen q in if 2 powi t \<le> y then t else t - 1)"

definition round_even :: "rat \<Rightarrow> int" where
  "round_even x =
     (let f = \<lfloor>x\<rfloor>; d = x - of_int f
      in if d < 1 / 2 then f else if d > 1 / 2 then f + 1 else if even f then f else f + 1)"

definition ulp_exp :: "rat \<Rightarrow> int" where
  "ulp_exp y = max (ilog2 y - 52) (- 1074)"

definition fl :: "rat \<Rightarrow> rat" where
  "fl x =
     (if x = 0 then 0
      else let y = \<bar>x\<bar>; u = 2 powi ulp_exp y in sgn x * (of_int (round_even (y / u)) * u))"

datatype float64 = Fin rat | PInf | NInf | NaN

definition rnd :: "rat \<Rightarrow> float64" where
  "rnd x = (let r = fl x in if 2 powi 1024 \<le> \<bar>r\<bar> then (if 0 < r then PInf else NInf) else Fin r)"

section \<open>Operations\<close>

definition f_of_int :: "int \<Rightarrow> float64" where
  "f_of_int i = rnd (of_int i)"

definition trunc :: "rat \<Rightarrow> int" where
  "trunc r = (if 0 \<le> r then \<lfloor>r\<rfloor> else \<lceil>r\<rceil>)"

fun f_to_int :: "float64 \<Rightarrow> int" where
  "f_to_int (Fin r) = (if - (2 ^ 63) \<le> trunc r \<and> trunc r < 2 ^ 63 then trunc r else - (2 ^ 63))"
| "f_to_int _ = - (2 ^ 63)"

fun f_neg :: "float64 \<Rightarrow> float64" where
  "f_neg (Fin a) = Fin (- a)"
| "f_neg PInf = NInf"
| "f_neg NInf = PInf"
| "f_neg NaN = NaN"

fun f_add :: "float64 \<Rightarrow> float64 \<Rightarrow> float64" where
  "f_add (Fin a) (Fin b) = rnd (a + b)"
| "f_add NaN _ = NaN"
| "f_add _ NaN = NaN"
| "f_add PInf NInf = NaN"
| "f_add NInf PInf = NaN"
| "f_add PInf _ = PInf"
| "f_add _ PInf = PInf"
| "f_add NInf _ = NInf"
| "f_add _ NInf = NInf"

definition f_sub :: "float64 \<Rightarrow> float64 \<Rightarrow> float64" where
  "f_sub a b = f_add a (f_neg b)"

definition inf_of_sign :: "rat \<Rightarrow> float64" where
  "inf_of_sign s = (if 0 < s then PInf else if s < 0 then NInf else NaN)"

fun f_sign :: "float64 \<Rightarrow> rat" where
  "f_sign (Fin a) = sgn a"
| "f_sign PInf = 1"
| "f_sign NInf = - 1"
| "f_sign NaN = 0"

fun f_mul :: "float64 \<Rightarrow> float64 \<Rightarrow> float64" where
  "f_mul (Fin a) (Fin b) = rnd (a * b)"
| "f_mul a b = (if a = NaN \<or> b = NaN then NaN else inf_of_sign (f_sign a * f_sign b))"

fun f_div :: "float64 \<Rightarrow> float64 \<Rightarrow> float64" where
  "f_div (Fin a) (Fin b) = (if b = 0 then inf_of_sign a else rnd (a / b))"
| "f_div NaN _ = NaN"
| "f_div _ NaN = NaN"
| "f_div (Fin a) _ = Fin 0"
| "f_div a (Fin b) = inf_of_sign (f_sign a * (if 0 \<le> b then 1 else - 1))"
| "f_div _ _ = NaN"

fun f_abs :: "float64 \<Rightarrow> float64" where
  "f_abs (Fin a) = Fin \<bar>a\<bar>"
| "f_abs NaN = NaN"
| "f_abs _ = PInf"

fun f_ceil :: "float64 \<Rightarrow> float64" where
  "f_ceil (Fin a) = Fin (of_int \<lceil>a\<rceil>)"
| "f_ceil a = a"

fun f_floor :: "float64 \<Rightarrow> float64" where
  "f_floor (Fin a) = Fin (of_int \<lfloor>a\<rfloor>)"
| "f_floor a = a"

fun f_lt :: "float64 \<Rightarrow> float64 \<Rightarrow> bool" where
  "f_lt (Fin a) (Fin b) = (a < b)"
| "f_lt NaN _ = False"
| "f_lt _ NaN = False"
| "f_lt NInf b = (b \<noteq> NInf)"
| "f_lt a PInf = (a \<noteq> PInf)"
| "f_lt _ _ = False"

text \<open>\<open>math.Copysign(x, y)\<close> for a finite positive \<open>x\<close>.\<close>

definition f_copysign :: "rat \<Rightarrow> float64 \<Rightarrow> float64" where
  "f_copysign x y = (if f_sign y < 0 then Fin (- x) else Fin x)"

section \<open>Lemmas: the binary exponent\<close>

lemma powi_2_pos [simp]: "(0::rat) < 2 powi e"
  by simp

lemma powi_2_split: "(2::rat) powi (a + b) = 2 powi a * 2 powi b"
  by (simp add: power_int_add)

lemma powi_2_mono: "a \<le> b \<Longrightarrow> (2::rat) powi a \<le> 2 powi b"
  by (simp add: power_int_increasing)

lemma bitlen_powi:
  assumes "0 < (p::int)"
  shows "2 powi (bitlen p - 1) \<le> (of_int p :: rat)" "(of_int p :: rat) < 2 powi bitlen p"
proof -
  have b: "2 ^ nat (bitlen p - 1) \<le> p" "p < 2 ^ nat (bitlen p)"
    using bitlen_bounds [OF assms] by auto
  have n: "0 \<le> bitlen p - 1" "0 \<le> bitlen p"
    using assms bitlen_nonneg [of p] bitlen_eq_zero_iff [of p] by linarith+
  have "(of_int (2 ^ nat (bitlen p - 1)) :: rat) \<le> of_int p" using b(1) by (simp only: of_int_le_iff)
  then show "2 powi (bitlen p - 1) \<le> (of_int p :: rat)" using n by (simp add: power_int_def)
  have "(of_int p :: rat) < of_int (2 ^ nat (bitlen p))" using b(2) by (simp only: of_int_less_iff)
  then show "(of_int p :: rat) < 2 powi bitlen p" using n by (simp add: power_int_def)
qed

lemma ilog2_bounds:
  assumes "0 < y"
  shows "2 powi ilog2 y \<le> y" and "y < 2 powi (ilog2 y + 1)"
proof -
  obtain p q where pq: "quotient_of y = (p, q)" by fastforce
  have q: "0 < q" using quotient_of_denom_pos [OF pq] .
  have y: "y = of_int p / of_int q" using quotient_of_div [OF pq] .
  have p: "0 < p" using assms q by (simp add: y zero_less_divide_iff)
  let ?t = "bitlen p - bitlen q"
  have up: "y < 2 powi (?t + 1)"
  proof -
    have "of_int p < (2 powi bitlen p :: rat)" using bitlen_powi(2) [OF p] .
    also have "\<dots> = 2 powi (?t + 1) * 2 powi (bitlen q - 1)"
      by (simp flip: powi_2_split)
    also have "\<dots> \<le> 2 powi (?t + 1) * of_int q"
      using bitlen_powi(1) [OF q] by simp
    finally show ?thesis using q by (simp add: y divide_less_eq)
  qed
  have low: "2 powi (?t - 1) \<le> y"
  proof -
    have "2 powi (?t - 1) * of_int q \<le> (2 powi (?t - 1) * 2 powi bitlen q :: rat)"
      using bitlen_powi(2) [OF q] by simp
    also have "\<dots> = 2 powi (bitlen p - 1)" by (simp flip: powi_2_split)
    also have "\<dots> \<le> of_int p" using bitlen_powi(1) [OF p] .
    finally show ?thesis using q by (simp add: y le_divide_eq)
  qed
  have il: "ilog2 y = (if 2 powi ?t \<le> y then ?t else ?t - 1)"
    by (simp add: ilog2_def pq Let_def)
  show "2 powi ilog2 y \<le> y" using low by (simp add: il)
  show "y < 2 powi (ilog2 y + 1)" using up by (auto simp: il)
qed

lemma ilog2_le: "0 < y \<Longrightarrow> y < 2 powi (k + 1) \<Longrightarrow> ilog2 y \<le> k"
proof (rule ccontr)
  assume "0 < y" "y < 2 powi (k + 1)" "\<not> ilog2 y \<le> k"
  then have "(2::rat) powi (k + 1) \<le> 2 powi ilog2 y" by (intro powi_2_mono) simp
  with ilog2_bounds(1) [OF \<open>0 < y\<close>] \<open>y < 2 powi (k + 1)\<close> show False by linarith
qed

section \<open>Lemmas: rounding\<close>

lemma round_even_int [simp]: "round_even (of_int k) = k"
  by (simp add: round_even_def)

lemma round_even_err: "\<bar>of_int (round_even x) - x\<bar> \<le> 1 / 2"
proof -
  have "of_int \<lfloor>x\<rfloor> \<le> x" "x < of_int \<lfloor>x\<rfloor> + 1" by linarith+
  then show ?thesis by (auto simp: round_even_def Let_def abs_le_iff)
qed

lemma fl_0 [simp]: "fl 0 = 0"
  by (simp add: fl_def)

lemma fl_pos: "0 < x \<Longrightarrow> fl x = of_int (round_even (x / 2 powi ulp_exp x)) * 2 powi ulp_exp x"
  by (simp add: fl_def Let_def)

lemma fl_minus: "fl (- x) = - fl x"
  by (simp add: fl_def Let_def sgn_minus)

text \<open>A number with at most 53 significant bits is its own rounding.\<close>

lemma fl_exact_pos:
  assumes "0 < m" "m < 2 ^ 53" "- 1074 \<le> e"
  shows "fl (of_int m * 2 powi e) = of_int m * 2 powi e"
proof -
  let ?x = "of_int m * 2 powi e :: rat"
  have x: "0 < ?x" using assms by simp
  have "(of_int m :: rat) < 2 powi 53"
    using assms(2) by (simp add: power_int_def)
  then have "?x < 2 powi 53 * 2 powi e" by simp
  also have "\<dots> = 2 powi (52 + e + 1)" by (simp only: powi_2_split [symmetric]) (simp add: add.commute)
  finally have "ilog2 ?x \<le> 52 + e" by (rule ilog2_le [OF x])
  then have u: "ulp_exp ?x \<le> e" using assms(3) by (simp add: ulp_exp_def)
  let ?k = "m * 2 ^ nat (e - ulp_exp ?x)"
  have "?x / 2 powi ulp_exp ?x = of_int m * 2 powi (e - ulp_exp ?x)"
    by (simp add: power_int_diff)
  also have "\<dots> = of_int ?k" using u by (simp add: power_int_def)
  finally have q: "?x / 2 powi ulp_exp ?x = of_int ?k" .
  have "fl ?x = of_int ?k * 2 powi ulp_exp ?x" using x by (simp only: fl_pos q round_even_int)
  also have "\<dots> = ?x" using q powi_2_pos [of "ulp_exp ?x"] by (metis nonzero_divide_eq_eq order_less_irrefl)
  finally show ?thesis .
qed

lemma fl_exact:
  assumes "\<bar>m\<bar> < 2 ^ 53" "- 1074 \<le> e"
  shows "fl (of_int m * 2 powi e) = of_int m * 2 powi e"
proof (cases m "0::int" rule: linorder_cases)
  case less
  then have "fl (of_int (- m) * 2 powi e) = of_int (- m) * 2 powi e"
    using assms by (intro fl_exact_pos) auto
  then show ?thesis by (simp add: fl_minus)
qed (use assms fl_exact_pos in auto)

lemma fl_of_int: "\<bar>m\<bar> < 2 ^ 53 \<Longrightarrow> fl (of_int m) = of_int m"
  using fl_exact [of m 0] by simp

lemma fl_half: "\<bar>m\<bar> < 2 ^ 53 \<Longrightarrow> fl (of_int m / 2) = of_int m / 2"
  using fl_exact [of m "-1"] by (simp add: power_int_minus field_simps)

text \<open>The rounding error of a number of magnitude at most \<open>2 ^ k\<close>.\<close>

lemma fl_err_pos:
  assumes "0 < x" "x < 2 powi (k + 1)" "- 1022 \<le> k"
  shows "\<bar>fl x - x\<bar> \<le> 2 powi (k - 53)"
proof -
  let ?u = "2 powi ulp_exp x :: rat"
  have "\<bar>of_int (round_even (x / ?u)) - x / ?u\<bar> * ?u \<le> 1 / 2 * ?u"
    using round_even_err [of "x / ?u"] by (simp add: mult_right_mono)
  moreover have "\<bar>of_int (round_even (x / ?u)) - x / ?u\<bar> * ?u = \<bar>fl x - x\<bar>"
  proof -
    have "\<bar>of_int (round_even (x / ?u)) - x / ?u\<bar> * ?u =
      \<bar>(of_int (round_even (x / ?u)) - x / ?u) * ?u\<bar>"
      by (simp add: abs_mult)
    also have "(of_int (round_even (x / ?u)) - x / ?u) * ?u = fl x - x"
      by (simp add: fl_pos [OF assms(1)] left_diff_distrib)
    finally show ?thesis .
  qed
  moreover have "?u \<le> 2 powi (k - 52)"
    using ilog2_le [OF assms(1,2)] assms(3) by (intro powi_2_mono) (simp add: ulp_exp_def)
  moreover have "1 / 2 * 2 powi (k - 52) = (2 powi (k - 53) :: rat)"
    using powi_2_split [of "-1" "k - 52"] by (simp add: power_int_minus)
  ultimately show ?thesis by linarith
qed

lemma fl_err:
  assumes "\<bar>x\<bar> < 2 powi (k + 1)" "- 1022 \<le> k"
  shows "\<bar>fl x - x\<bar> \<le> 2 powi (k - 53)"
proof (cases x "0::rat" rule: linorder_cases)
  case less
  then have "\<bar>fl (- x) - (- x)\<bar> \<le> 2 powi (k - 53)" using assms by (intro fl_err_pos) auto
  then show ?thesis by (simp add: fl_minus abs_minus_commute)
qed (use assms fl_err_pos in auto)

lemma rnd_Fin:
  assumes "\<bar>x\<bar> < 2 ^ 100"
  shows "rnd x = Fin (fl x)"
proof -
  have "(2::rat) ^ 100 = 2 powi (99 + 1)" by (simp add: power_int_def)
  then have "\<bar>fl x - x\<bar> \<le> 2 powi (99 - 53)" using assms by (intro fl_err) auto
  also have "(2::rat) powi (99 - 53) = 2 ^ 46" by (simp add: power_int_def)
  finally have "\<bar>fl x\<bar> < 2 ^ 100 + 2 ^ 46" using assms by linarith
  also have "(2::rat) ^ 100 + 2 ^ 46 \<le> 2 ^ 1024" by simp
  also have "(2::rat) ^ 1024 = 2 powi 1024" by (simp add: power_int_def)
  finally show ?thesis by (simp add: rnd_def Let_def not_le)
qed

lemma f_of_int_small: "\<bar>i\<bar> < 2 ^ 53 \<Longrightarrow> f_of_int i = Fin (of_int i)"
proof -
  assume i: "\<bar>i\<bar> < 2 ^ 53"
  then have "(of_int \<bar>i\<bar> :: rat) < of_int (2 ^ 53)" by (simp only: of_int_less_iff)
  then have "\<bar>of_int i :: rat\<bar> < 2 ^ 100" by simp
  then show ?thesis using i by (simp add: f_of_int_def rnd_Fin fl_of_int)
qed

lemma f_to_int_Fin: "\<bar>r\<bar> < 2 ^ 62 \<Longrightarrow> f_to_int (Fin r) = trunc r"
proof -
  assume r: "\<bar>r\<bar> < 2 ^ 62"
  have "- (2 ^ 63) \<le> trunc r" "trunc r < 2 ^ 63"
    using r by (auto simp: trunc_def floor_less_iff le_floor_iff ceiling_less_iff le_ceiling_iff)
  then show ?thesis by simp
qed

text \<open>
  Quotients of moderate integers: the rounding error is below the distance of a quotient from
  the next integer, so rounding down and up give the integer quotients.
\<close>

lemma quot_bounds:
  fixes a b :: int
  assumes "0 < b"
  shows "of_int (a div b) \<le> (of_int a / of_int b :: rat)"
    and "\<not> b dvd a \<Longrightarrow> of_int (a div b) + 1 / of_int b \<le> (of_int a / of_int b :: rat)"
    and "of_int a / of_int b \<le> (of_int (a div b) + 1 - 1 / of_int b :: rat)"
proof -
  have b: "(0::rat) < of_int b" using assms by simp
  have e: "(of_int a :: rat) = of_int (a div b) * of_int b + of_int (a mod b)"
    by (metis of_int_add of_int_mult div_mult_mod_eq)
  then have q: "(of_int a / of_int b :: rat) = of_int (a div b) + of_int (a mod b) / of_int b"
    using b by (simp add: add_divide_distrib)
  have m: "0 \<le> a mod b" "a mod b \<le> b - 1" using assms pos_mod_bound [OF assms, of a] by simp_all
  show "of_int (a div b) \<le> (of_int a / of_int b :: rat)" using m(1) b by (simp add: q)
  show "of_int (a div b) + 1 / of_int b \<le> (of_int a / of_int b :: rat)" if "\<not> b dvd a"
  proof -
    have "1 \<le> a mod b" using that m(1) by (metis dvd_eq_mod_eq_0 int_one_le_iff_zero_less order_le_less)
    then have "(1::rat) \<le> of_int (a mod b)" by (metis of_int_1_le_iff)
    then show ?thesis using b by (simp add: q divide_right_mono)
  qed
  have "(of_int (a mod b) :: rat) \<le> of_int (b - 1)" using m(2) by (simp only: of_int_le_iff)
  then have "of_int (a mod b) / of_int b \<le> (of_int (b - 1) / of_int b :: rat)" using b by (simp add: divide_right_mono)
  also have "\<dots> = 1 - 1 / of_int b" using b by (simp add: diff_divide_distrib)
  finally show "of_int a / of_int b \<le> (of_int (a div b) + 1 - 1 / of_int b :: rat)" by (simp add: q)
qed

lemma fl_quot:
  fixes a b :: int
  assumes "0 \<le> a" "a < 2 ^ 26" "0 < b" "b < 2 ^ 26"
  shows "\<lfloor>fl (of_int a / of_int b)\<rfloor> = a div b"
    and "\<lceil>fl (of_int a / of_int b)\<rceil> = (if b dvd a then a div b else a div b + 1)"
    and "\<bar>fl (of_int a / of_int b) - of_int a / of_int b\<bar> \<le> 1 / 2 ^ 28"
proof -
  let ?x = "of_int a / of_int b :: rat"
  have b: "(0::rat) < of_int b" "1 / 2 ^ 26 < (1 / of_int b :: rat)"
  proof -
    show "(0::rat) < of_int b" using assms by simp
    moreover have "(of_int b :: rat) < of_int (2 ^ 26)" using assms(4) by (simp only: of_int_less_iff)
    ultimately show "1 / 2 ^ 26 < (1 / of_int b :: rat)" by (simp add: frac_less2)
  qed
  have "(of_int a :: rat) < of_int (2 ^ 26)" using assms(2) by (simp only: of_int_less_iff)
  moreover have "?x \<le> of_int a" using assms(1,3)
    by (simp add: divide_le_eq) (metis int_one_le_iff_zero_less mult_left_mono mult.right_neutral of_int_0_le_iff of_int_1_le_iff)
  moreover have "0 \<le> ?x" using assms(1,3) by simp
  ultimately have "\<bar>?x\<bar> < 2 powi (25 + 1)" by (simp add: power_int_def)
  then have "\<bar>fl ?x - ?x\<bar> \<le> 2 powi (25 - 53)" by (rule fl_err) simp
  also have "(2::rat) powi (25 - 53) = 1 / 2 ^ 28" by (simp add: power_int_def field_simps)
  finally show err: "\<bar>fl ?x - ?x\<bar> \<le> 1 / 2 ^ 28" .
  show "\<lfloor>fl ?x\<rfloor> = a div b" "\<lceil>fl ?x\<rceil> = (if b dvd a then a div b else a div b + 1)"
  proof (atomize (full), cases "b dvd a")
    case True
    then have x: "?x = of_int (a div b)" by (metis assms(3) less_irrefl of_int_eq_0_iff nonzero_mult_div_cancel_left of_int_mult dvd_mult_div_cancel)
    moreover have "\<bar>a div b\<bar> < 2 ^ 53"
    proof -
      have "a div b \<le> a" "0 \<le> a div b" using assms zdiv_mono2 [of a 1 b] by (simp_all add: pos_imp_zdiv_nonneg_iff)
      then show ?thesis using assms(2) by simp
    qed
    ultimately have "fl ?x = of_int (a div b)" using fl_of_int by metis
    then show "\<lfloor>fl ?x\<rfloor> = a div b \<and> \<lceil>fl ?x\<rceil> = (if b dvd a then a div b else a div b + 1)" using True by simp
  next
    case False
    note q = quot_bounds(2) [OF assms(3) False] quot_bounds(3) [OF assms(3), of a]
    have "(1::rat) / 2 ^ 28 < 1 / 2 ^ 26" by simp
    then have "of_int (a div b) < fl ?x" "fl ?x < of_int (a div b) + 1"
      using q b(2) err unfolding abs_le_iff by linarith+
    then show "\<lfloor>fl ?x\<rfloor> = a div b \<and> \<lceil>fl ?x\<rceil> = (if b dvd a then a div b else a div b + 1)"
      using False by (auto simp: floor_eq_iff ceiling_eq_iff)
  qed
qed

lemma f_div_small:
  fixes a b :: int
  assumes "0 \<le> a" "a < 2 ^ 26" "0 < b" "b < 2 ^ 26"
  shows "f_div (f_of_int a) (f_of_int b) = Fin (fl (of_int a / of_int b))"
proof -
  have "(of_int a :: rat) < of_int (2 ^ 26)" using assms(2) by (simp only: of_int_less_iff)
  moreover have "of_int a / of_int b \<le> (of_int a :: rat)" using assms(1,3)
    by (simp add: divide_le_eq) (metis int_one_le_iff_zero_less mult_left_mono mult.right_neutral of_int_0_le_iff of_int_1_le_iff)
  moreover have "0 \<le> (of_int a / of_int b :: rat)" using assms(1,3) by simp
  ultimately have "\<bar>of_int a / of_int b :: rat\<bar> < 2 ^ 100" by simp
  then show ?thesis using assms by (simp add: f_of_int_small rnd_Fin)
qed

end
