(* ===== verification/Utils.thy ===== *)
theory Utils
  imports Go_Strings Go_Float
begin

text \<open>
  The helpers of \<open>src/pkg/utils\<close>: comparisons used to decide whether a status has changed,
  label maps, rounding, the parser of redis memory sizes, the reader of the command renaming
  file, the scope filter of the controllers and the buffer-filling \<open>SliceJoin\<close>. Loggers are
  dropped. A nil label map is the empty map.
\<close>

section \<open>compare.go, types.go, math.go, labels.go\<close>

fun CompareIntValue :: "int option \<Rightarrow> int option \<Rightarrow> bool" where
  "CompareIntValue None None = True"
| "CompareIntValue None (Some _) = False"
| "CompareIntValue (Some _) None = False"
| "CompareIntValue (Some old) (Some new) = (old \<noteq> new)"

definition CompareInt32 :: "int \<Rightarrow> int \<Rightarrow> bool" where
  "CompareInt32 old new \<longleftrightarrow> old \<noteq> new"

definition CompareStringValue :: "string \<Rightarrow> string \<Rightarrow> bool" where
  "CompareStringValue old new \<longleftrightarrow> old \<noteq> new"

fun Int32 :: "int option \<Rightarrow> int" where
  "Int32 (Some v) = v"
| "Int32 None = 0"

definition Round :: "float64 \<Rightarrow> int" where
  "Round num = f_to_int (f_add num (f_copysign (1 / 2) num))"

definition MergeLabels :: "ord \<Rightarrow> (string, string) gomap list \<Rightarrow> (string, string) gomap" where
  "MergeLabels ord allLabels =
     fold (\<lambda>labels res. fold (\<lambda>k res. mput k (mgetd [] labels k) res) (ord (mkeys labels)) res)
       allLabels []"

section \<open>parse.go\<close>

text \<open>Go's \<open>int64\<close> product wraps around.\<close>

definition int64 :: "int \<Rightarrow> int" where
  "int64 i = (i + 2 ^ 63) mod 2 ^ 64 - 2 ^ 63"

definition memUnit :: "string \<Rightarrow> string \<times> int" where
  "memUnit u =
     (if HasSuffix u ''k'' then (take (length u - 1) u, 1000)
      else if HasSuffix u ''kb'' then (take (length u - 2) u, 1024)
      else if HasSuffix u ''m'' then (take (length u - 1) u, 1000 * 1000)
      else if HasSuffix u ''mb'' then (take (length u - 2) u, 1024 * 1024)
      else if HasSuffix u ''g'' then (take (length u - 1) u, 1000 * 1000 * 1000)
      else if HasSuffix u ''gb'' then (take (length u - 2) u, 1024 * 1024 * 1024)
      else if HasSuffix u ''b'' then (take (length u - 1) u, 1)
      else (u, 1))"

definition ParseRedisMemConf :: "string \<Rightarrow> num_error + string" where
  "ParseRedisMemConf p =
     (let (digits, mul) = memUnit (ToLower p) in
      case ParseInt digits of Inl e \<Rightarrow> Inl e | Inr val \<Rightarrow> Inr (fmt_int (int64 (val * mul))))"

section \<open>rename\_cmd.go\<close>

text \<open>
  \<open>bufio.Scanner\<close> with its default split function: lines without their end of line, no
  empty last line, and an error at the first line that does not fit in its 64 KiB buffer.
\<close>

definition dropCR :: "string \<Rightarrow> string" where
  "dropCR l = (if l \<noteq> [] \<and> last l = CHR 0x0D then butlast l else l)"

definition scanLines :: "string \<Rightarrow> string list" where
  "scanLines content =
     (let ls = Split (CHR 0x0A) content;
          ls = (if last ls = [] then butlast ls else ls)
      in map dropCR (takeWhile (\<lambda>l. length l < 65536) ls))"

definition replaceLine :: "string \<Rightarrow> (string, string) gomap \<Rightarrow> (string, string) gomap" where
  "replaceLine line mapping =
     (let elems = Fields line in
      if length elems = 3 \<and> ToLower (elems ! 0) = ''rename-command''
      then mput (ToUpper (elems ! 1)) (elems ! 2) mapping else mapping)"

text \<open>The file system is an argument: the contents of a path, \<open>None\<close> when it cannot be opened.\<close>

definition BuildCommandReplaceMapping ::
    "(string \<Rightarrow> string option) \<Rightarrow> string \<Rightarrow> (string, string) gomap" where
  "BuildCommandReplaceMapping files filePath =
     (case files filePath of
        None \<Rightarrow> []
      | Some content \<Rightarrow> fold replaceLine (scanLines content) [])"

section \<open>scoped.go\<close>

definition AnnotationScope :: string where
  "AnnotationScope = ''redis.kun/scope''"

definition AnnotationClusterScoped :: string where
  "AnnotationClusterScoped = ''cluster-scoped''"

text \<open>The package variable \<open>isClusterScoped\<close> is passed; it starts as \<open>True\<close>.\<close>

definition SetClusterScoped :: "string \<Rightarrow> bool \<Rightarrow> bool" where
  "SetClusterScoped namespace isClusterScoped =
     (if namespace \<noteq> [] then False else isClusterScoped)"

definition ShoudManage :: "bool \<Rightarrow> (string, string) gomap \<Rightarrow> bool" where
  "ShoudManage isClusterScoped annotations =
     (case mget annotations AnnotationScope of
        Some v \<Rightarrow> (if isClusterScoped then v = AnnotationClusterScoped else False)
      | None \<Rightarrow> (if \<not> isClusterScoped then True else False))"

section \<open>string.go\<close>

text \<open>
  \<open>copy(b[bp:], s)\<close>: the bytes of \<open>s\<close> overwrite the buffer from \<open>bp\<close> on, as far as it
  reaches; the result is the buffer and the number of bytes copied.
\<close>

definition copyAt :: "string \<Rightarrow> nat \<Rightarrow> string \<Rightarrow> string \<times> nat" where
  "copyAt b bp s =
     (let k = min (length b - bp) (length s)
      in (take bp b @ take k s @ drop (bp + k) b, k))"

fun joinLoop :: "string list \<Rightarrow> string \<Rightarrow> string \<Rightarrow> nat \<Rightarrow> string" where
  "joinLoop [] sep b bp = b"
| "joinLoop (s # ss) sep b bp =
     (let (b, k) = copyAt b bp sep; bp = bp + k;
          (b, k) = copyAt b bp s; bp = bp + k
      in joinLoop ss sep b bp)"

fun SliceJoin :: "string list \<Rightarrow> string \<Rightarrow> string" where
  "SliceJoin [] sep = []"
| "SliceJoin [a] sep = a"
| "SliceJoin [a, b] sep = a @ sep @ b"
| "SliceJoin [a, b, c] sep = a @ sep @ b @ sep @ c"
| "SliceJoin (a # rest) sep =
     (let n = length sep * length rest + sum_list (map length (a # rest));
          b = replicate n (CHR 0x00);
          (b, bp) = copyAt b 0 a
      in joinLoop rest sep b bp)"

section \<open>Lemmas\<close>

lemma MergeLabels_lookup_step:
  assumes "is_order ord"
  shows "mget (fold (\<lambda>k res. mput k (mgetd [] labels k) res) (ord (mkeys labels)) res) k =
           (case mget labels k of None \<Rightarrow> mget res k | Some v \<Rightarrow> Some v)"
proof -
  have "mget (fold (\<lambda>k res. mput k (mgetd [] labels k) res) ks res) k =
      (if k \<in> set ks then Some (mgetd [] labels k) else mget res k)" for ks
    by (induction ks arbitrary: res) auto
  then show ?thesis using is_orderD(2) [OF assms, of "mkeys labels"]
    by (auto simp: set_mkeys mgetd_def split: option.splits)
qed

text \<open>The merged map has, for each key, the value of the last argument that defines it.\<close>

lemma MergeLabels_lookup:
  assumes "is_order ord"
  shows "mget (MergeLabels ord maps) k =
     fold (\<lambda>m acc. case mget m k of None \<Rightarrow> acc | Some v \<Rightarrow> Some v) maps None"
proof -
  let ?step = "\<lambda>labels res. fold (\<lambda>k res. mput k (mgetd [] labels k) res) (ord (mkeys labels)) res"
  have "mget (fold ?step maps res) k =
     fold (\<lambda>m acc. case mget m k of None \<Rightarrow> acc | Some v \<Rightarrow> Some v) maps (mget res k)" for res
    by (induction maps arbitrary: res) (simp_all add: MergeLabels_lookup_step [OF assms])
  then show ?thesis by (simp add: MergeLabels_def)
qed

lemma int64_id: "- (2 ^ 63) \<le> i \<Longrightarrow> i < 2 ^ 63 \<Longrightarrow> int64 i = i"
  by (simp add: int64_def)

lemma int64_range: "- (2 ^ 63) \<le> int64 i \<and> int64 i < 2 ^ 63"
proof -
  have "0 \<le> (i + 2 ^ 63) mod 2 ^ 64" "(i + 2 ^ 63) mod 2 ^ 64 < 2 ^ (64::nat)"
    by (rule pos_mod_sign, simp, rule pos_mod_bound, simp)
  then show ?thesis unfolding int64_def by simp
qed

lemma lower_char_digit: "is_digit c \<Longrightarrow> lower_char c = c"
  by (simp add: is_digit_def lower_char_def)

lemma ToLower_fmt_nat [simp]: "ToLower (fmt_nat n) = fmt_nat n"
  unfolding ToLower_def by (rule map_idI) (auto intro: lower_char_digit dest: fmt_nat_digits)

lemma ToLower_append [simp]: "ToLower (s @ t) = ToLower s @ ToLower t"
  by (simp add: ToLower_def)

lemma HasSuffix_single: "HasSuffix (s @ [c]) [d] \<longleftrightarrow> c = d"
  by (auto simp: HasSuffix_def)

lemma HasSuffix_double: "HasSuffix (s @ [a, b]) [c, d] \<longleftrightarrow> a = c \<and> b = d"
  by (auto simp: HasSuffix_def)

lemma HasSuffix_double_single: "HasSuffix (s @ [a, b]) [d] \<longleftrightarrow> b = d"
  using HasSuffix_single [of "s @ [a]"] by simp

lemma HasSuffix_digits:
  assumes "s \<noteq> []" "\<And>c. c \<in> set s \<Longrightarrow> is_digit c" "p \<noteq> []" "\<not> is_digit (last p)"
  shows "\<not> HasSuffix s p"
proof
  assume h: "HasSuffix s p"
  then have "s = take (length s - length p) s @ p"
    by (metis HasSuffix_def append_take_drop_id)
  then have "last p \<in> set s" using assms(3) by (metis UnCI last_in_set set_append)
  then show False using assms by blast
qed

text \<open>The suffixes redis accepts, and what each multiplies by.\<close>

definition mem_units :: "(string \<times> int) list" where
  "mem_units = [([], 1), (''b'', 1), (''k'', 1000), (''kb'', 1024), (''m'', 1000000),
     (''mb'', 1048576), (''g'', 1000000000), (''gb'', 1073741824)]"

lemma memUnit_digits:
  assumes u: "(suf, mul) \<in> set mem_units" and s: "s \<noteq> []" "\<And>c. c \<in> set s \<Longrightarrow> is_digit c"
  shows "memUnit (s @ suf) = (s, mul)"
proof -
  have ls: "is_digit (last s)" "butlast s @ [last s] = s" using s by auto
  have nd: "\<not> is_digit (CHR ''k'')" "\<not> is_digit (CHR ''b'')" "\<not> is_digit (CHR ''m'')"
    "\<not> is_digit (CHR ''g'')" by (simp_all add: is_digit_def byte_def)
  have no: "\<not> HasSuffix s p" if "p \<in> {''k'', ''kb'', ''m'', ''mb'', ''g'', ''gb'', ''b''}" for p
    using that nd by (intro HasSuffix_digits s) auto
  have two: "\<not> HasSuffix (s @ [c]) [x, y]" if "\<not> is_digit x" for c x y
    using HasSuffix_double [of "butlast s" "last s" c x y] ls that
    by (metis append.assoc append_Cons append_Nil)
  consider "(suf, mul) = ([], 1)" | "(suf, mul) = (''b'', 1)" | "(suf, mul) = (''k'', 1000)"
    | "(suf, mul) = (''kb'', 1024)" | "(suf, mul) = (''m'', 1000000)"
    | "(suf, mul) = (''mb'', 1048576)" | "(suf, mul) = (''g'', 1000000000)"
    | "(suf, mul) = (''gb'', 1073741824)"
    using u unfolding mem_units_def by auto
  then show ?thesis
    by cases (simp_all add: memUnit_def no two nd HasSuffix_single HasSuffix_double
      HasSuffix_double_single)
qed

lemma ParseInt_fmt_nat: "n < 2 ^ 63 \<Longrightarrow> ParseInt (fmt_nat n) = Inr (int n)"
  using ParseInt_fmt_int [of "int n"] by (simp add: fmt_int_def)

lemma ParseRedisMemConf_unit:
  assumes "(suf, mul) \<in> set mem_units" and "n < 2 ^ 63" and "ToLower unit = suf"
  shows "ParseRedisMemConf (fmt_nat n @ unit) = Inr (fmt_int (int64 (int n * mul)))"
  using memUnit_digits [OF assms(1), of "fmt_nat n"] assms(2,3)
  by (simp add: ParseRedisMemConf_def ParseInt_fmt_nat fmt_nat_digits)

lemma copyAt_fits:
  assumes "bp + length s \<le> length b"
  shows "copyAt b bp s = (take bp b @ s @ drop (bp + length s) b, length s)"
proof -
  have "min (length b - bp) (length s) = length s" using assms by simp
  then show ?thesis by (simp add: copyAt_def Let_def)
qed

lemma joinLoop_Join:
  assumes "length b = bp + sum_list (map (\<lambda>s. length sep + length s) ss)"
  shows "joinLoop ss sep b bp = take bp b @ concat (map (\<lambda>s. sep @ s) ss)"
  using assms
proof (induction ss arbitrary: b bp)
  case (Cons s ss)
  let ?b = "take bp b @ sep @ s @ drop (bp + length sep + length s) b"
  have c: "copyAt b bp sep = (take bp b @ sep @ drop (bp + length sep) b, length sep)"
    using Cons.prems by (intro copyAt_fits) simp
  have d: "copyAt (take bp b @ sep @ drop (bp + length sep) b) (bp + length sep) s = (?b, length s)"
    using Cons.prems by (subst copyAt_fits) (simp_all add: add.commute add.left_commute)
  have "joinLoop (s # ss) sep b bp = joinLoop ss sep ?b (bp + length sep + length s)"
    by (simp add: c d Let_def)
  also have "\<dots> = take (bp + length sep + length s) ?b @ concat (map (\<lambda>s. sep @ s) ss)"
    using Cons.prems by (intro Cons.IH) simp
  finally show ?case using Cons.prems by (simp add: min_def)
qed simp

lemma Join_concat: "Join sep (a # rest) = a @ concat (map (\<lambda>s. sep @ s) rest)"
  by (induction rest arbitrary: a) auto

lemma join_length:
  "length sep * length ss + sum_list (map length ss) = sum_list (map (\<lambda>s. length sep + length s) ss)"
  by (induction ss) auto

lemma SliceJoin_long:
  fixes a x y z sep :: string
  shows "SliceJoin (a # x # y # z # zs) sep = Join sep (a # x # y # z # zs)"
proof -
  let ?rest = "x # y # z # zs"
  let ?n = "length sep * length ?rest + sum_list (map length (a # ?rest))"
  let ?b = "a @ replicate (?n - length a) (CHR 0x00)"
  have n: "?n = length a + sum_list (map (\<lambda>s. length sep + length s) ?rest)"
    using join_length [of sep ?rest] by simp
  have "copyAt (replicate ?n (CHR 0x00)) 0 a = (?b, length a)"
    by (subst copyAt_fits) (simp_all add: n)
  then have "SliceJoin (a # ?rest) sep = joinLoop ?rest sep ?b (length a)"
    by (simp only: SliceJoin.simps Let_def prod.case)
  also have "\<dots> = take (length a) ?b @ concat (map (\<lambda>s. sep @ s) ?rest)"
    by (rule joinLoop_Join) (simp only: n length_append length_replicate diff_add_inverse)
  also have "\<dots> = Join sep (a # ?rest)" by (simp only: Join_concat) simp
  finally show ?thesis .
qed

lemma SliceJoin_Join: "SliceJoin ss sep = Join sep ss"
  by (cases "(ss, sep)" rule: SliceJoin.cases) (simp_all add: SliceJoin_long del: SliceJoin.simps(5))

end
