(* ===== verification/Api.thy ===== *)
theory Api
  imports Utils
begin

text \<open>
  The custom resources of \<open>src/pkg/apis/redis/v1alpha1\<close>: the types of
  \<open>distributedrediscluster_types.go\<close> and \<open>redisclusterbackup_types.go\<close>, the defaulting and
  the predicates of \<open>default.go\<close>, and the admission checks of
  \<open>distributedrediscluster_webhook.go\<close>.

  A string type with named constants is a datatype with one constructor per constant and one
  for the empty string it starts with. Kubernetes objects the operator only passes on
  (affinity, tolerations, security contexts, details of storage providers) are \<open>k8s_obj\<close>, their
  serialised form. A nil map is the empty map except where the code tests for nil
  (\<open>Spec.Config\<close>, \<open>Spec.Annotations\<close>). Functions of the Kubernetes libraries (the size of a
  resource list, the validators) are arguments.
\<close>

datatype k8s_obj = K8sObj string

datatype Quantity = Quantity string

section \<open>Constants\<close>

datatype StorageType = StorageNone | PersistentClaim | Ephemeral

datatype RedisRole = RoleEmpty | RedisClusterNodeRoleMaster | RedisClusterNodeRoleSlave | RedisClusterNodeRoleNone

fun RedisRole_text :: "RedisRole \<Rightarrow> string" where
  "RedisRole_text RoleEmpty = []"
| "RedisRole_text RedisClusterNodeRoleMaster = ''Master''"
| "RedisRole_text RedisClusterNodeRoleSlave = ''Slave''"
| "RedisRole_text RedisClusterNodeRoleNone = ''None''"

datatype ClusterStatus =
    ClusterStatusEmpty
  | ClusterStatusOK
  | ClusterStatusKO
  | ClusterStatusCreating
  | ClusterStatusScaling
  | ClusterStatusCalculatingRebalancing
  | ClusterStatusRebalancing
  | ClusterStatusRollingUpdate
  | ClusterStatusResetPassword

datatype NodesPlacementInfo =
    PlacementEmpty | NodesPlacementInfoBestEffort | NodesPlacementInfoOptimal

datatype RestorePhase = RestorePhaseEmpty | RestorePhaseRunning | RestorePhaseRestart | RestorePhaseSucceeded

datatype BackupPhase =
  BackupPhaseEmpty | BackupPhaseRunning | BackupPhaseSucceeded | BackupPhaseFailed | BackupPhaseIgnored

section \<open>Types\<close>

record ResourceRequirements =
  Limits :: "(string, Quantity) gomap"
  Requests :: "(string, Quantity) gomap"

text \<open>
  Kubernetes types the operator reads or builds. An environment variable has a value or one
  source; a probe or lifecycle is the command the operator writes, or what a user gave.
\<close>

datatype env_source = FieldRef string | SecretKeyRef string string | ConfigMapKeyRef string string | EnvOther k8s_obj

record EnvVar =
  EvName :: string
  EvValue :: string
  EvValueFrom :: "env_source option"

datatype Probe = ExecProbe int int "string list" | ProbeObj k8s_obj

datatype Lifecycle = ExecHooks "string list" "string list" | LifecycleObj k8s_obj

record OwnerReference =
  OwAPIVersion :: string
  OwKind :: string
  OwName :: string
  OwUID :: string
  OwController :: bool

record RedisStorage =
  StSize :: Quantity
  StType :: StorageType
  StClass :: string
  StDeleteClaim :: bool

record PrometheusSpec =
  PromPort :: int
  PromNamespace :: string
  PromLabels :: "(string, string) gomap"
  PromInterval :: string

record AgentSpec =
  AgImage :: string
  AgPrometheus :: "PrometheusSpec option"
  AgArgs :: "string list"
  AgEnv :: "EnvVar list"
  AgResources :: ResourceRequirements
  AgSecurityContext :: "k8s_obj option"

record BackupSourceSpec =
  BsNamespace :: string
  BsName :: string
  BsArgs :: "string list"

record InitSpec =
  BackupSource :: "BackupSourceSpec option"

record DistributedRedisClusterSpec =
  Image :: string
  ImagePullPolicy :: string
  ImagePullSecrets :: "string list"
  Command :: "string list"
  Env :: "EnvVar list"
  MasterSize :: int
  ClusterReplicas :: int
  ServiceName :: string
  Config :: "(string, string) gomap option"
  RequiredAntiAffinity :: bool
  Affinity :: "k8s_obj option"
  NodeSelector :: "(string, string) gomap"
  ToleRations :: "k8s_obj list"
  SecurityContext :: "k8s_obj option"
  ContainerSecurityContext :: "k8s_obj option"
  Annotations :: "(string, string) gomap option"
  Storage :: "RedisStorage option"
  Resources :: "ResourceRequirements option"
  PasswordSecret :: "string option"
  Monitor :: "AgentSpec option"
  Init :: "InitSpec option"

record RedisClusterNode =
  RnID :: string
  RnRole :: RedisRole
  RnIP :: string
  RnPort :: string
  RnSlots :: "string list"
  RnMasterRef :: string
  RnPodName :: string
  RnNodeName :: string
  RnStatefulSet :: string

text \<open>A storage provider: the endpoint, bucket and prefix, and the rest of its settings.\<close>

record StoreSpec =
  StoreEndpoint :: string
  StoreBucket :: string
  StorePrefix :: string
  StoreRest :: k8s_obj

text \<open>A local volume: the claim it refers to, if it does, or another volume source.\<close>

record LocalSpec =
  PersistentVolumeClaim :: "k8s_obj option"
  LcVolumeSource :: k8s_obj
  LcMountPath :: string
  LcSubPath :: string

record Backend =
  StorageSecretName :: string
  BkLocal :: "LocalSpec option"
  BkS3 :: "StoreSpec option"
  BkGCS :: "StoreSpec option"
  BkAzure :: "StoreSpec option"
  BkSwift :: "StoreSpec option"

record PodSpec =
  PsServiceAccountName :: string
  PsArgs :: "string list"
  PsNodeSelector :: "(string, string) gomap"
  PsResources :: ResourceRequirements
  PsAffinity :: "k8s_obj option"
  PsSchedulerName :: string
  PsTolerations :: "k8s_obj list"
  PsImagePullSecrets :: "string list"
  PsEnv :: "EnvVar list"
  PsInitContainers :: "k8s_obj list"
  PsPriorityClassName :: string
  PsPriority :: "int option"
  PsSecurityContext :: "k8s_obj option"
  PsLivenessProbe :: "Probe option"
  PsReadinessProbe :: "Probe option"
  PsLifecycle :: "Lifecycle option"

record RedisClusterBackupSpec =
  BuImage :: string
  RedisClusterName :: string
  BuStorage :: "RedisStorage option"
  BuBackend :: Backend
  BuPodSpec :: "PodSpec option"
  BuActiveDeadlineSeconds :: "int option"

record RedisClusterBackupStatus =
  StartTime :: "int option"
  CompletionTime :: "int option"
  BuPhase :: BackupPhase
  BuReason :: string
  BuMasterSize :: int
  BuClusterReplicas :: int
  ClusterImage :: string

record RedisClusterBackup =
  BuName :: string
  BuNamespace :: string
  BuUID :: string
  BuGeneration :: int
  BuLabels :: "(string, string) gomap"
  BuAnnotations :: "(string, string) gomap"
  BuFinalizers :: "string list"
  BuSpec :: RedisClusterBackupSpec
  BuStatus :: RedisClusterBackupStatus

record Restore =
  RePhase :: RestorePhase
  ReBackup :: "RedisClusterBackup option"

record DistributedRedisClusterStatus =
  DStatus :: ClusterStatus
  DReason :: string
  NumberOfMaster :: int
  MinReplicationFactor :: int
  MaxReplicationFactor :: int
  DNodesPlacement :: NodesPlacementInfo
  DNodes :: "RedisClusterNode list"
  DRestore :: Restore

record DistributedRedisCluster =
  DrcName :: string
  DrcNamespace :: string
  DrcUID :: string
  DrcGeneration :: int
  DrcAnnotations :: "(string, string) gomap"
  Spec :: DistributedRedisClusterSpec
  Status :: DistributedRedisClusterStatus

section \<open>default.go\<close>

definition minMasterSize :: int where "minMasterSize = 3"

definition defaultRedisImage :: string where "defaultRedisImage = ''redis:5.0.4-alpine''"

definition defaultMonitorImage :: string where
  "defaultMonitorImage = ''oliver006/redis_exporter:latest''"

definition PrometheusExporterPortNumber :: int where "PrometheusExporterPortNumber = 9100"

definition defaultResource :: ResourceRequirements where
  "defaultResource =
     \<lparr>Limits = [(''cpu'', Quantity ''1000m''), (''memory'', Quantity ''4Gi'')],
      Requests = [(''cpu'', Quantity ''200m''), (''memory'', Quantity ''2Gi'')]\<rparr>"

definition zeroPrometheus :: PrometheusSpec where
  "zeroPrometheus = \<lparr>PromPort = 0, PromNamespace = [], PromLabels = [], PromInterval = []\<rparr>"

text \<open>The monitor block of \<open>DefaultSpec\<close>: the agent, the annotations and the update flag.\<close>

definition defaultMonitor ::
    "AgentSpec \<Rightarrow> (string, string) gomap option \<Rightarrow> AgentSpec \<times> (string, string) gomap \<times> bool" where
  "defaultMonitor mon annos =
     (let u1 = (AgImage mon = []);
          mon = (if u1 then mon\<lparr>AgImage := defaultMonitorImage\<rparr> else mon);
          u2 = (AgPrometheus mon = None);
          prom = (case AgPrometheus mon of None \<Rightarrow> zeroPrometheus | Some p \<Rightarrow> p);
          u3 = (PromPort prom = 0);
          prom = (if u3 then prom\<lparr>PromPort := PrometheusExporterPortNumber\<rparr> else prom);
          mon = mon\<lparr>AgPrometheus := Some prom\<rparr>;
          u4 = (annos = None);
          a = (case annos of None \<Rightarrow> [] | Some a \<Rightarrow> a);
          a = mput ''prometheus.io/scrape'' ''true'' a;
          a = mput ''prometheus.io/path'' ''/metrics'' a;
          a = mput ''prometheus.io/port'' (fmt_int (PromPort prom)) a
      in (mon, a, u1 \<or> u2 \<or> u3 \<or> u4))"

text \<open>\<open>sizeOf\<close> is the \<open>Size\<close> method the Kubernetes API package generates for resources.\<close>

definition DefaultSpec ::
    "(ResourceRequirements \<Rightarrow> nat) \<Rightarrow> DistributedRedisCluster \<Rightarrow> DistributedRedisCluster \<times> bool" where
  "DefaultSpec sizeOf drc =
     (let s = Spec drc;
          u1 = (MasterSize s < minMasterSize);
          s = (if u1 then s\<lparr>MasterSize := minMasterSize\<rparr> else s);
          u2 = (Image s = []);
          s = (if u2 then s\<lparr>Image := defaultRedisImage\<rparr> else s);
          u3 = (ServiceName s = []);
          s = (if u3 then s\<lparr>ServiceName := DrcName drc\<rparr> else s);
          u4 = (case Resources s of None \<Rightarrow> True | Some r \<Rightarrow> sizeOf r = 0);
          s = (if u4 then s\<lparr>Resources := Some defaultResource\<rparr> else s)
      in case Monitor s of
           None \<Rightarrow> (drc\<lparr>Spec := s\<rparr>, u1 \<or> u2 \<or> u3 \<or> u4)
         | Some mon \<Rightarrow>
             let (mon, annos, u5) = defaultMonitor mon (Annotations s)
             in (drc\<lparr>Spec := s\<lparr>Monitor := Some mon, Annotations := Some annos\<rparr>\<rparr>,
                 u1 \<or> u2 \<or> u3 \<or> u4 \<or> u5))"

definition IsRestoreFromBackup :: "DistributedRedisCluster \<Rightarrow> bool" where
  "IsRestoreFromBackup drc \<longleftrightarrow>
     (case Init (Spec drc) of None \<Rightarrow> False | Some i \<Rightarrow> BackupSource i \<noteq> None)"

definition IsRestored :: "DistributedRedisCluster \<Rightarrow> bool" where
  "IsRestored drc \<longleftrightarrow> RePhase (DRestore (Status drc)) = RestorePhaseSucceeded"

definition ShouldInitRestorePhase :: "DistributedRedisCluster \<Rightarrow> bool" where
  "ShouldInitRestorePhase drc \<longleftrightarrow> RePhase (DRestore (Status drc)) = RestorePhaseEmpty"

definition IsRestoreRunning :: "DistributedRedisCluster \<Rightarrow> bool" where
  "IsRestoreRunning drc \<longleftrightarrow> RePhase (DRestore (Status drc)) = RestorePhaseRunning"

definition IsRestoreRestarting :: "DistributedRedisCluster \<Rightarrow> bool" where
  "IsRestoreRestarting drc \<longleftrightarrow> RePhase (DRestore (Status drc)) = RestorePhaseRestart"

definition DefaultOwnerReferences :: "DistributedRedisCluster \<Rightarrow> OwnerReference list" where
  "DefaultOwnerReferences drc =
     [\<lparr>OwAPIVersion = ''redis.kun/v1alpha1'', OwKind = ''DistributedRedisCluster'', OwName = DrcName drc,
       OwUID = DrcUID drc, OwController = True\<rparr>]"

section \<open>Backups in default.go\<close>

definition Backup_Validate :: "RedisClusterBackup \<Rightarrow> string option" where
  "Backup_Validate b =
     (let s = BuSpec b; k = BuBackend s in
      if RedisClusterName s = [] then Some ''bakcup [RedisClusterName] is missing''
      else if BkS3 k = None \<and> BkGCS k = None \<and> BkAzure k = None \<and> BkSwift k = None \<and> BkLocal k = None
        then Some ''no storage provider is configured''
      else if (BkAzure k \<noteq> None \<or> BkSwift k \<noteq> None) \<and> StorageSecretName k = []
        then Some ''bakcup [SecretName] is missing''
      else None)"

text \<open>
  \<open>joinPath\<close> is \<open>filepath.Join\<close>, \<open>fmtTime\<close> the formatting of the start time, which a backup
  that was never started does not have.
\<close>

definition RemotePath ::
    "(string list \<Rightarrow> string) \<Rightarrow> (int \<Rightarrow> string) \<Rightarrow> RedisClusterBackup \<Rightarrow> (string + string) go" where
  "RemotePath joinPath fmtTime b =
     (case StartTime (BuStatus b) of
        None \<Rightarrow> Panic ''nil pointer dereference''
      | Some t \<Rightarrow> Ret
         (let k = BuBackend (BuSpec b);
              tail = [BuNamespace b, RedisClusterName (BuSpec b), fmtTime t]
          in case BkS3 k of
               Some s \<Rightarrow> Inr (joinPath (StorePrefix s # ''redis'' # tail))
             | None \<Rightarrow> (case BkGCS k of
               Some s \<Rightarrow> Inr (joinPath (StorePrefix s # ''redis'' # tail))
             | None \<Rightarrow> (case BkAzure k of
               Some s \<Rightarrow> Inr (joinPath (StorePrefix s # ''redis'' # tail))
             | None \<Rightarrow> (case BkLocal k of
               Some _ \<Rightarrow> Inr (joinPath (''redis'' # tail))
             | None \<Rightarrow> (case BkSwift k of
               Some s \<Rightarrow> Inr (joinPath (StorePrefix s # ''redis'' # tail))
             | None \<Rightarrow> Inl ''no storage provider is configured''))))))"

definition RCloneSecretName :: "RedisClusterBackup \<Rightarrow> string" where
  "RCloneSecretName b = ''rcloneconfig-'' @ BuName b"

definition JobName :: "RedisClusterBackup \<Rightarrow> string" where
  "JobName b = ''redisbackup-'' @ BuName b"

definition IsRefLocalPVC :: "RedisClusterBackup \<Rightarrow> bool" where
  "IsRefLocalPVC b \<longleftrightarrow>
     (case BkLocal (BuBackend (BuSpec b)) of None \<Rightarrow> False | Some l \<Rightarrow> PersistentVolumeClaim l \<noteq> None)"

section \<open>Admission checks\<close>

definition compareObj :: "DistributedRedisCluster \<Rightarrow> DistributedRedisCluster \<Rightarrow> bool" where
  "compareObj new old \<longleftrightarrow>
     (if CompareInt32 (MasterSize (Spec new)) (MasterSize (Spec old)) then True
      else if CompareStringValue (Image (Spec new)) (Image (Spec old)) then True
      else if Resources (Spec new) \<noteq> Resources (Spec old) then True
      else if PasswordSecret (Spec new) \<noteq> PasswordSecret (Spec old) then True
      else False)"

datatype admission = Admit | InvalidService "string list" | InvalidResources "string list" | NotHealthy ClusterStatus

text \<open>\<open>dns1035\<close> and \<open>validRes\<close> are the Kubernetes validators: the problems they report.\<close>

definition ValidateCreate ::
    "(string \<Rightarrow> string list) \<Rightarrow> (ResourceRequirements \<Rightarrow> string list) \<Rightarrow> DistributedRedisCluster \<Rightarrow> admission" where
  "ValidateCreate dns1035 validRes drc =
     (let svc = ServiceName (Spec drc); errs = dns1035 svc in
      if svc \<noteq> [] \<and> errs \<noteq> [] then InvalidService errs
      else case Resources (Spec drc) of
        None \<Rightarrow> Admit
      | Some r \<Rightarrow> (let errs = validRes r in if errs \<noteq> [] then InvalidResources errs else Admit))"

definition ValidateUpdate ::
    "(string \<Rightarrow> string list) \<Rightarrow> (ResourceRequirements \<Rightarrow> string list) \<Rightarrow> DistributedRedisCluster \<Rightarrow>
     DistributedRedisCluster \<Rightarrow> admission" where
  "ValidateUpdate dns1035 validRes drc old =
     (let svc = ServiceName (Spec drc); errs = dns1035 svc in
      if svc \<noteq> [] \<and> errs \<noteq> [] then InvalidService errs
      else let bad = (case Resources (Spec drc) of None \<Rightarrow> [] | Some r \<Rightarrow> validRes r) in
        if bad \<noteq> [] then InvalidResources bad
        else if DStatus (Status old) = ClusterStatusEmpty then Admit
        else if compareObj drc old \<and> DStatus (Status old) \<noteq> ClusterStatusOK
          then NotHealthy (DStatus (Status old))
        else Admit)"

definition ValidateDelete :: "DistributedRedisCluster \<Rightarrow> admission" where
  "ValidateDelete drc = Admit"

section \<open>Lemmas\<close>

lemma compareObj_iff:
  "compareObj new old \<longleftrightarrow>
     MasterSize (Spec new) \<noteq> MasterSize (Spec old) \<or> Image (Spec new) \<noteq> Image (Spec old) \<or>
     Resources (Spec new) \<noteq> Resources (Spec old) \<or> PasswordSecret (Spec new) \<noteq> PasswordSecret (Spec old)"
  by (simp add: compareObj_def CompareInt32_def CompareStringValue_def)

lemma mput_same_lookup: "mget m k = Some v \<Longrightarrow> mput k v m = m"
proof (induction m)
  case (Cons p m)
  then show ?case by (cases p) (auto simp: mput_def mget_def split: if_splits)
qed simp

lemma defaultMonitor_fix:
  assumes "defaultMonitor mon annos = (mon', a', u)"
  shows "defaultMonitor mon' (Some a') = (mon', a', False)"
proof -
  have img: "AgImage mon' \<noteq> []" using assms
    by (auto simp: defaultMonitor_def Let_def defaultMonitorImage_def split: if_splits)
  obtain p where p: "AgPrometheus mon' = Some p" "PromPort p \<noteq> 0"
    using assms by (auto simp: defaultMonitor_def Let_def PrometheusExporterPortNumber_def
        split: if_splits)
  have a: "mget a' ''prometheus.io/scrape'' = Some ''true''"
    "mget a' ''prometheus.io/path'' = Some ''/metrics''"
    "mget a' ''prometheus.io/port'' = Some (fmt_int (PromPort p))"
    using assms p(1) by (auto simp: defaultMonitor_def Let_def split: if_splits option.splits)
  have "mon'\<lparr>AgPrometheus := Some p\<rparr> = mon'" using p(1) by (cases mon') simp
  then show ?thesis using img p a
    by (simp add: defaultMonitor_def Let_def mput_same_lookup)
qed

text \<open>The part of \<open>DefaultSpec\<close> before the monitor, and when it has nothing to do.\<close>

definition baseSpec ::
    "(ResourceRequirements \<Rightarrow> nat) \<Rightarrow> string \<Rightarrow> DistributedRedisClusterSpec \<Rightarrow> DistributedRedisClusterSpec" where
  "baseSpec sizeOf name s = s\<lparr>
     MasterSize := max minMasterSize (MasterSize s),
     Image := (if Image s = [] then defaultRedisImage else Image s),
     ServiceName := (if ServiceName s = [] then name else ServiceName s),
     Resources := (case Resources s of
         None \<Rightarrow> Some defaultResource
       | Some r \<Rightarrow> if sizeOf r = 0 then Some defaultResource else Some r)\<rparr>"

definition base_done :: "(ResourceRequirements \<Rightarrow> nat) \<Rightarrow> DistributedRedisClusterSpec \<Rightarrow> bool" where
  "base_done sizeOf s \<longleftrightarrow> minMasterSize \<le> MasterSize s \<and> Image s \<noteq> [] \<and> ServiceName s \<noteq> [] \<and>
     (\<exists>r. Resources s = Some r \<and> sizeOf r \<noteq> 0)"

lemma DefaultSpec_base:
  "DefaultSpec sizeOf drc =
     (case Monitor (Spec drc) of
        None \<Rightarrow> (drc\<lparr>Spec := baseSpec sizeOf (DrcName drc) (Spec drc)\<rparr>, \<not> base_done sizeOf (Spec drc))
      | Some mon \<Rightarrow>
          (case defaultMonitor mon (Annotations (Spec drc)) of (mon, annos, u) \<Rightarrow>
             (drc\<lparr>Spec := (baseSpec sizeOf (DrcName drc) (Spec drc))\<lparr>Monitor := Some mon, Annotations := Some annos\<rparr>\<rparr>,
              \<not> base_done sizeOf (Spec drc) \<or> u)))"
proof -
  obtain s where s: "s = Spec drc" by simp
  let ?u = "MasterSize s < minMasterSize \<or> Image s = [] \<or> ServiceName s = [] \<or>
    (case Resources s of None \<Rightarrow> True | Some r \<Rightarrow> sizeOf r = 0)"
  have u: "?u \<longleftrightarrow> \<not> base_done sizeOf s" by (auto simp: base_done_def split: option.splits)
  let ?s1 = "if MasterSize s < minMasterSize then s\<lparr>MasterSize := minMasterSize\<rparr> else s"
  let ?s2 = "if Image ?s1 = [] then ?s1\<lparr>Image := defaultRedisImage\<rparr> else ?s1"
  let ?s3 = "if ServiceName ?s2 = [] then ?s2\<lparr>ServiceName := DrcName drc\<rparr> else ?s2"
  let ?u4 = "case Resources ?s3 of None \<Rightarrow> True | Some r \<Rightarrow> sizeOf r = 0"
  have s1: "?s1 = s\<lparr>MasterSize := max minMasterSize (MasterSize s)\<rparr>" by (simp add: max_def)
  have s2: "?s2 = s\<lparr>MasterSize := max minMasterSize (MasterSize s), Image := (if Image s = [] then defaultRedisImage else Image s)\<rparr>"
    unfolding s1 by simp
  have s3: "?s3 = s\<lparr>MasterSize := max minMasterSize (MasterSize s), Image := (if Image s = [] then defaultRedisImage else Image s),
      ServiceName := (if ServiceName s = [] then DrcName drc else ServiceName s)\<rparr>"
    unfolding s2 by simp
  have s4: "(if ?u4 then ?s3\<lparr>Resources := Some defaultResource\<rparr> else ?s3) = baseSpec sizeOf (DrcName drc) s"
    unfolding s3 baseSpec_def by (cases "Resources s") simp_all
  have fields: "Monitor (baseSpec sizeOf (DrcName drc) s) = Monitor s" "Annotations (baseSpec sizeOf (DrcName drc) s) = Annotations s"
    by (simp_all add: baseSpec_def)
  show ?thesis
    unfolding DefaultSpec_def s [symmetric] Let_def s4
    unfolding fields u [symmetric] by (auto split: option.splits prod.splits simp: Let_def)
qed

lemma base_done_id: "base_done sizeOf s \<Longrightarrow> baseSpec sizeOf name s = s"
  by (auto simp: base_done_def baseSpec_def max_def)

lemma baseSpec_done: "name \<noteq> [] \<Longrightarrow> sizeOf defaultResource \<noteq> 0 \<Longrightarrow> base_done sizeOf (baseSpec sizeOf name s)"
  by (auto simp: base_done_def baseSpec_def defaultRedisImage_def split: option.splits)

lemma base_done_other [simp]:
  "base_done sizeOf (s\<lparr>Monitor := m, Annotations := a\<rparr>) \<longleftrightarrow> base_done sizeOf s"
  by (simp add: base_done_def)

lemma DefaultSpec_fix:
  assumes "DefaultSpec sizeOf drc = (drc', u)" "DrcName drc \<noteq> []" "sizeOf defaultResource \<noteq> 0"
  shows "DefaultSpec sizeOf drc' = (drc', False)"
proof (cases "Monitor (Spec drc)")
  case None
  let ?t = "baseSpec sizeOf (DrcName drc) (Spec drc)"
  have d: "drc' = drc\<lparr>Spec := ?t\<rparr>" using assms(1) by (simp add: DefaultSpec_base None)
  have ok: "base_done sizeOf ?t" using baseSpec_done [of "DrcName drc" sizeOf "Spec drc"] assms(2,3) by simp
  have "Monitor ?t = None" by (simp add: baseSpec_def None)
  then show ?thesis unfolding d DefaultSpec_base by (simp add: base_done_id [OF ok, of "DrcName drc"] ok)
next
  case (Some mon)
  obtain mon' a v where m: "defaultMonitor mon (Annotations (Spec drc)) = (mon', a, v)" by (cases "defaultMonitor mon (Annotations (Spec drc))")
  let ?t = "(baseSpec sizeOf (DrcName drc) (Spec drc))\<lparr>Monitor := Some mon', Annotations := Some a\<rparr>"
  have d: "drc' = drc\<lparr>Spec := ?t\<rparr>" using assms(1) by (simp add: DefaultSpec_base Some m)
  have ok: "base_done sizeOf ?t" using baseSpec_done [of "DrcName drc" sizeOf "Spec drc"] assms(2,3) by simp
  show ?thesis unfolding d DefaultSpec_base
    by (simp add: base_done_id [OF ok, of "DrcName drc"] ok defaultMonitor_fix [OF m] del: base_done_other)
qed

end
