(* ===== verification/Nodes.thy ===== *)
theory Nodes
  imports Slots Errors Api
begin

text \<open>
  Redis nodes and the view of a cluster: \<open>src/pkg/redisutil/node.go\<close> and \<open>cluster.go\<close>.
  A node is a record with the fields of the struct; methods that change a node return it.
  Slices of nodes are lists, whose elements are nodes or, where the code shares and changes
  them, references to nodes: the slice methods are polymorphic. \<open>sort.Sort\<close> is an argument
  with the contract \<open>is_sort\<close>.
\<close>

section \<open>Constants and the node\<close>

definition DefaultRedisPort :: string where "DefaultRedisPort = ''6379''"

definition RedisMasterRole :: string where "RedisMasterRole = ''master''"

definition RedisSlaveRole :: string where "RedisSlaveRole = ''slave''"

definition RedisLinkStateConnected :: string where "RedisLinkStateConnected = ''connected''"

definition RedisLinkStateDisconnected :: string where "RedisLinkStateDisconnected = ''disconnected''"

definition NodeStatusPFail :: string where "NodeStatusPFail = ''fail?''"

definition NodeStatusFail :: string where "NodeStatusFail = ''fail''"

definition NodeStatusHandshake :: string where "NodeStatusHandshake = ''handshake''"

definition NodeStatusNoAddr :: string where "NodeStatusNoAddr = ''noaddr''"

definition NodeStatusNoFlags :: string where "NodeStatusNoFlags = ''noflags''"

lemmas node_consts = DefaultRedisPort_def RedisMasterRole_def RedisSlaveRole_def
  RedisLinkStateConnected_def RedisLinkStateDisconnected_def NodeStatusPFail_def NodeStatusFail_def
  NodeStatusHandshake_def NodeStatusNoAddr_def NodeStatusNoFlags_def

record Node =
  ID :: string
  IP :: string
  Port :: string
  Role :: string
  LinkState :: string
  MasterReferent :: string
  FailStatus :: "string list"
  PingSent :: int
  PongRecv :: int
  ConfigEpoch :: int
  NSlots :: "Slot list"
  balance :: int
  MigratingSlots :: "(Slot, string) gomap"
  ImportingSlots :: "(Slot, string) gomap"
  ServerStartTime :: "int option"
  NodeName :: string
  PodName :: string
  StatefulSet :: string

definition NewDefaultNode :: Node where
  "NewDefaultNode = \<lparr>ID = [], IP = [], Port = DefaultRedisPort, Role = [], LinkState = [],
     MasterReferent = [], FailStatus = [], PingSent = 0, PongRecv = 0, ConfigEpoch = 0, NSlots = [],
     balance = 0, MigratingSlots = [], ImportingSlots = [], ServerStartTime = None, NodeName = [],
     PodName = [], StatefulSet = []\<rparr>"

text \<open>\<open>NewNode\<close> takes the pod's name and the name of the machine it runs on.\<close>

definition NewNode :: "string \<Rightarrow> string \<Rightarrow> string \<Rightarrow> string \<Rightarrow> Node" where
  "NewNode i ip podName nodeName =
     NewDefaultNode\<lparr>ID := i, IP := ip, PodName := podName, NodeName := nodeName\<rparr>"

section \<open>Methods of a node\<close>

definition roleStep :: "string \<Rightarrow> Node \<Rightarrow> Node" where
  "roleStep val n =
     (if val = RedisMasterRole then n\<lparr>Role := RedisMasterRole\<rparr>
      else if val = RedisSlaveRole then n\<lparr>Role := RedisSlaveRole\<rparr> else n)"

definition SetRole :: "string \<Rightarrow> Node \<Rightarrow> go_error option \<times> Node" where
  "SetRole flags n =
     (let n = fold roleStep (Split (CHR '','') flags) (n\<lparr>Role := []\<rparr>)
      in (if Role n = [] then Some (ErrText ''node setRole failed'') else None, n))"

definition GetRole :: "Node \<Rightarrow> RedisRole" where
  "GetRole n =
     (if Role n = RedisMasterRole then RedisClusterNodeRoleMaster
      else if Role n = RedisSlaveRole then RedisClusterNodeRoleSlave
      else if MasterReferent n \<noteq> [] then RedisClusterNodeRoleSlave
      else if length (NSlots n) > 0 then RedisClusterNodeRoleMaster
      else RedisClusterNodeRoleNone)"

definition IPPort :: "Node \<Rightarrow> string" where
  "IPPort n = JoinHostPort (IP n) (Port n)"

text \<open>\<open>%s\<close> of a slice: its elements between brackets. \<open>fmtTime\<close> is \<open>time.Format\<close>.\<close>

definition fmtSlice :: "string list \<Rightarrow> string" where
  "fmtSlice ss = ''['' @ Join '' '' ss @ '']''"

definition SlotSlice_String :: "Slot list \<Rightarrow> string" where
  "SlotSlice_String s = fmtSlice (map SlotRange_String (fst (SlotRangesFromSlots s)))"

definition Node_String :: "(int \<Rightarrow> string) \<Rightarrow> Node \<Rightarrow> string" where
  "Node_String fmtTime n =
     ''{Redis ID: '' @ ID n @ '', role: '' @ RedisRole_text (GetRole n) @ '', master: '' @ MasterReferent n
     @ '', link: '' @ LinkState n @ '', status: '' @ fmtSlice (FailStatus n) @ '', addr: '' @ IPPort n
     @ '', slots: '' @ SlotSlice_String (NSlots n)
     @ '', len(migratingSlots): '' @ fmt_nat (length (MigratingSlots n))
     @ '', len(importingSlots): '' @ fmt_nat (length (ImportingSlots n))
     @ (case ServerStartTime n of
          None \<Rightarrow> ''}''
        | Some t \<Rightarrow> '', ServerStartTime: '' @ fmtTime t @ ''}'')"

definition Nodes_String :: "(int \<Rightarrow> string) \<Rightarrow> Node list \<Rightarrow> string" where
  "Nodes_String fmtTime ns = SliceJoin (map (Node_String fmtTime) ns) '',''"

definition ToAPINode :: "Node \<Rightarrow> RedisClusterNode" where
  "ToAPINode n = \<lparr>RnID = ID n, RnRole = GetRole n, RnIP = IP n, RnPort = [], RnSlots = [],
     RnMasterRef = [], RnPodName = PodName n, RnNodeName = [], RnStatefulSet = []\<rparr>"

definition Clear :: "Node \<Rightarrow> Node" where
  "Clear n = n"

definition SetBalance :: "int \<Rightarrow> Node \<Rightarrow> Node" where
  "SetBalance b n = n\<lparr>balance := b\<rparr>"

definition SetLinkStatus :: "string \<Rightarrow> Node \<Rightarrow> go_error option \<times> Node" where
  "SetLinkStatus status n =
     (let n = n\<lparr>LinkState := []\<rparr>;
          n = (if status = RedisLinkStateConnected then n\<lparr>LinkState := RedisLinkStateConnected\<rparr>
               else if status = RedisLinkStateDisconnected then n\<lparr>LinkState := RedisLinkStateDisconnected\<rparr>
               else n)
      in (if LinkState n = [] then Some (ErrText ''Node SetLinkStatus failed'') else None, n))"

definition failStep :: "string \<Rightarrow> Node \<Rightarrow> Node" where
  "failStep val n =
     (if val = NodeStatusFail then n\<lparr>FailStatus := FailStatus n @ [NodeStatusFail]\<rparr>
      else if val = NodeStatusPFail then n\<lparr>FailStatus := FailStatus n @ [NodeStatusPFail]\<rparr>
      else if val = NodeStatusHandshake then n\<lparr>FailStatus := FailStatus n @ [NodeStatusHandshake]\<rparr>
      else if val = NodeStatusNoAddr then n\<lparr>FailStatus := FailStatus n @ [NodeStatusNoAddr]\<rparr>
      else if val = NodeStatusNoFlags then n\<lparr>FailStatus := FailStatus n @ [NodeStatusNoFlags]\<rparr>
      else n)"

definition SetFailureStatus :: "string \<Rightarrow> Node \<Rightarrow> Node" where
  "SetFailureStatus flags n = fold failStep (Split (CHR '','') flags) (n\<lparr>FailStatus := []\<rparr>)"

definition SetReferentMaster :: "string \<Rightarrow> Node \<Rightarrow> Node" where
  "SetReferentMaster ref n =
     (let n = n\<lparr>MasterReferent := []\<rparr> in if ref = ''-'' then n else n\<lparr>MasterReferent := ref\<rparr>)"

definition TotalSlots :: "Node \<Rightarrow> nat" where
  "TotalSlots n = length (NSlots n)"

definition HasStatus :: "Node \<Rightarrow> string \<Rightarrow> bool" where
  "HasStatus n flag \<longleftrightarrow> list_ex (\<lambda>s. s = flag) (FailStatus n)"

definition IsMasterWithNoSlot :: "Node \<Rightarrow> bool" where
  "IsMasterWithNoSlot n \<longleftrightarrow>
     (if GetRole n = RedisClusterNodeRoleMaster \<and> TotalSlots n = 0 then True else False)"

definition IsMasterWithSlot :: "Node \<Rightarrow> bool" where
  "IsMasterWithSlot n \<longleftrightarrow>
     (if GetRole n = RedisClusterNodeRoleMaster \<and> TotalSlots n > 0 then True else False)"

definition IsSlave :: "Node \<Rightarrow> bool" where
  "IsSlave n \<longleftrightarrow> GetRole n = RedisClusterNodeRoleSlave"

section \<open>Slices of nodes\<close>

definition GetNodesByFunc :: "('n \<Rightarrow> bool) \<Rightarrow> 'n list \<Rightarrow> 'n list \<times> go_error option" where
  "GetNodesByFunc f ns =
     (let nodes = filter f ns in (nodes, if length nodes = 0 then Some NodeNotFounded else None))"

text \<open>\<open>idOf\<close> reads the ID of an element (a node or a reference to one).\<close>

fun Nodes_GetNodeByID :: "('n \<Rightarrow> string) \<Rightarrow> 'n list \<Rightarrow> string \<Rightarrow> go_error + 'n" where
  "Nodes_GetNodeByID idOf [] i = Inl NodeNotFounded"
| "Nodes_GetNodeByID idOf (n # ns) i = (if idOf n = i then Inr n else Nodes_GetNodeByID idOf ns i)"

fun CountByFunc :: "('n \<Rightarrow> bool) \<Rightarrow> 'n list \<Rightarrow> nat" where
  "CountByFunc fn [] = 0"
| "CountByFunc fn (v # vs) = (if fn v then 1 else 0) + CountByFunc fn vs"

definition FilterByFunc :: "('n \<Rightarrow> bool) \<Rightarrow> 'n list \<Rightarrow> 'n list" where
  "FilterByFunc fn ns = filter fn ns"

text \<open>\<open>sort.Sort\<close> for each comparison the code sorts nodes with, as the caller finds the slice.\<close>

definition SortByFunc :: "(('n \<Rightarrow> 'n \<Rightarrow> bool) \<Rightarrow> 'n list \<Rightarrow> 'n list) \<Rightarrow> ('n \<Rightarrow> 'n \<Rightarrow> bool) \<Rightarrow> 'n list \<Rightarrow> 'n list" where
  "SortByFunc srt lt ns = srt lt ns"

definition LessByID :: "Node \<Rightarrow> Node \<Rightarrow> bool" where
  "LessByID n1 n2 \<longleftrightarrow> ID n1 < ID n2"

definition MoreByID :: "Node \<Rightarrow> Node \<Rightarrow> bool" where
  "MoreByID n1 n2 \<longleftrightarrow> ID n1 > ID n2"

definition SortNodes :: "((Node \<Rightarrow> Node \<Rightarrow> bool) \<Rightarrow> Node list \<Rightarrow> Node list) \<Rightarrow> Node list \<Rightarrow> Node list" where
  "SortNodes srt ns = srt LessByID ns"

section \<open>cluster.go\<close>

text \<open>The nodes of a cluster are references \<open>'n\<close>; the functions that read them take the reader.\<close>

record 'n Cluster =
  ClName :: string
  ClNamespace :: string
  ClNodes :: "(string, 'n) gomap"
  ClStatus :: ClusterStatus
  ClNodesPlacement :: NodesPlacementInfo
  NbslotsToMigrate :: int

definition NewCluster :: "string \<Rightarrow> string \<Rightarrow> 'n Cluster" where
  "NewCluster name namespace = \<lparr>ClName = name, ClNamespace = namespace, ClNodes = [],
     ClStatus = ClusterStatusEmpty, ClNodesPlacement = PlacementEmpty, NbslotsToMigrate = 0\<rparr>"

definition AddNode :: "('n \<Rightarrow> string) \<Rightarrow> 'n \<Rightarrow> 'n Cluster \<Rightarrow> 'n Cluster" where
  "AddNode idOf node c = c\<lparr>ClNodes := mput (idOf node) node (ClNodes c)\<rparr>"

definition GetNodeByID :: "'n Cluster \<Rightarrow> string \<Rightarrow> go_error + 'n" where
  "GetNodeByID c i = (case mget (ClNodes c) i of Some n \<Rightarrow> Inr n | None \<Rightarrow> Inl NodeNotFounded)"

fun firstByFunc :: "('n \<Rightarrow> bool) \<Rightarrow> (string, 'n) gomap \<Rightarrow> string list \<Rightarrow> go_error + 'n" where
  "firstByFunc f m [] = Inl NodeNotFounded"
| "firstByFunc f m (k # ks) =
     (case mget m k of
        Some n \<Rightarrow> if f n then Inr n else firstByFunc f m ks
      | None \<Rightarrow> firstByFunc f m ks)"

definition GetNodeByFunc :: "ord \<Rightarrow> ('n \<Rightarrow> bool) \<Rightarrow> 'n Cluster \<Rightarrow> go_error + 'n" where
  "GetNodeByFunc ord f c = firstByFunc f (ClNodes c) (ord (mkeys (ClNodes c)))"

definition GetNodeByIP :: "ord \<Rightarrow> ('n \<Rightarrow> Node) \<Rightarrow> 'n Cluster \<Rightarrow> string \<Rightarrow> go_error + 'n" where
  "GetNodeByIP ord rd c ip = GetNodeByFunc ord (\<lambda>n. IP (rd n) = ip) c"

definition GetNodeByPodName :: "ord \<Rightarrow> ('n \<Rightarrow> Node) \<Rightarrow> 'n Cluster \<Rightarrow> string \<Rightarrow> go_error + 'n" where
  "GetNodeByPodName ord rd c name = GetNodeByFunc ord (\<lambda>n. if PodName (rd n) = name then True else False) c"

definition Cluster_GetNodesByFunc :: "ord \<Rightarrow> ('n \<Rightarrow> bool) \<Rightarrow> 'n Cluster \<Rightarrow> 'n list \<times> go_error option" where
  "Cluster_GetNodesByFunc ord f c =
     (let nodes = filter f (List.map_filter (mget (ClNodes c)) (ord (mkeys (ClNodes c))))
      in (nodes, if length nodes = 0 then Some NodeNotFounded else None))"

section \<open>Lemmas\<close>

lemma roleStep_fields [simp]:
  "NSlots (roleStep v n) = NSlots n" "MasterReferent (roleStep v n) = MasterReferent n"
  "ID (roleStep v n) = ID n" "IP (roleStep v n) = IP n" "Port (roleStep v n) = Port n"
  by (simp_all add: roleStep_def)

lemma fold_roleStep_fields [simp]:
  "NSlots (fold roleStep vs n) = NSlots n" "MasterReferent (fold roleStep vs n) = MasterReferent n"
  "ID (fold roleStep vs n) = ID n" "IP (fold roleStep vs n) = IP n" "Port (fold roleStep vs n) = Port n"
  by (induction vs arbitrary: n) auto

lemma fold_roleStep_Role:
  "Role (fold roleStep vs n) =
     (case filter (\<lambda>v. v = RedisMasterRole \<or> v = RedisSlaveRole) vs of
        [] \<Rightarrow> Role n | ws \<Rightarrow> last ws)"
  by (induction vs arbitrary: n) (auto simp: roleStep_def split: list.splits)

text \<open>The role is the last of the flags \<open>master\<close> and \<open>slave\<close>; without either the call fails.\<close>

lemma SetRole_spec:
  "Role (snd (SetRole flags n)) =
     (case filter (\<lambda>v. v = RedisMasterRole \<or> v = RedisSlaveRole) (Split (CHR '','') flags) of
        [] \<Rightarrow> [] | ws \<Rightarrow> last ws)"
  "fst (SetRole flags n) = None \<longleftrightarrow> Role (snd (SetRole flags n)) \<noteq> []"
  by (auto simp: SetRole_def Let_def fold_roleStep_Role split: list.splits)

lemma SetRole_fields [simp]:
  "NSlots (snd (SetRole flags n)) = NSlots n" "ID (snd (SetRole flags n)) = ID n"
  "IP (snd (SetRole flags n)) = IP n" "Port (snd (SetRole flags n)) = Port n"
  "MasterReferent (snd (SetRole flags n)) = MasterReferent n"
  by (simp_all add: SetRole_def Let_def)

lemma SetRole_slave: "Role (snd (SetRole RedisSlaveRole n)) = RedisSlaveRole"
  by (simp add: SetRole_spec node_consts)

lemma SetRole_master: "Role (snd (SetRole RedisMasterRole n)) = RedisMasterRole"
  by (simp add: SetRole_spec node_consts)

definition fail_flags :: "string list" where
  "fail_flags = [NodeStatusFail, NodeStatusPFail, NodeStatusHandshake, NodeStatusNoAddr, NodeStatusNoFlags]"

lemma failStep_FailStatus:
  "FailStatus (failStep v n) = FailStatus n @ (if v \<in> set fail_flags then [v] else [])"
  by (auto simp: failStep_def fail_flags_def)

lemma fold_failStep_FailStatus:
  "FailStatus (fold failStep vs n) = FailStatus n @ filter (\<lambda>v. v \<in> set fail_flags) vs"
  by (induction vs arbitrary: n) (auto simp: failStep_FailStatus)

lemma SetFailureStatus_spec:
  "FailStatus (SetFailureStatus flags n) = filter (\<lambda>v. v \<in> set fail_flags) (Split (CHR '','') flags)"
  by (simp add: SetFailureStatus_def fold_failStep_FailStatus)

lemma HasStatus_iff [simp]: "HasStatus n flag \<longleftrightarrow> flag \<in> set (FailStatus n)"
  by (auto simp: HasStatus_def list_ex_iff)

lemma failStep_fields [simp]:
  "NSlots (failStep v n) = NSlots n" "Role (failStep v n) = Role n" "ID (failStep v n) = ID n"
  "IP (failStep v n) = IP n" "Port (failStep v n) = Port n" "LinkState (failStep v n) = LinkState n"
  "MasterReferent (failStep v n) = MasterReferent n"
  by (simp_all add: failStep_def)

lemma fold_failStep_fields [simp]:
  "NSlots (fold failStep vs n) = NSlots n" "Role (fold failStep vs n) = Role n"
  "ID (fold failStep vs n) = ID n" "IP (fold failStep vs n) = IP n" "Port (fold failStep vs n) = Port n"
  "LinkState (fold failStep vs n) = LinkState n" "MasterReferent (fold failStep vs n) = MasterReferent n"
  by (induction vs arbitrary: n) auto

lemma SetFailureStatus_fields [simp]:
  "NSlots (SetFailureStatus f n) = NSlots n" "Role (SetFailureStatus f n) = Role n"
  "ID (SetFailureStatus f n) = ID n" "IP (SetFailureStatus f n) = IP n" "Port (SetFailureStatus f n) = Port n"
  "LinkState (SetFailureStatus f n) = LinkState n" "MasterReferent (SetFailureStatus f n) = MasterReferent n"
  by (simp_all add: SetFailureStatus_def)

lemma IsMasterWithSlot_iff: "IsMasterWithSlot n \<longleftrightarrow> GetRole n = RedisClusterNodeRoleMaster \<and> NSlots n \<noteq> []"
  by (simp add: IsMasterWithSlot_def TotalSlots_def)

lemma CountByFunc_filter: "CountByFunc fn vs = length (filter fn vs)"
  by (induction vs) auto

lemma Nodes_GetNodeByID_find:
  "Nodes_GetNodeByID idOf ns i = (case find (\<lambda>n. idOf n = i) ns of None \<Rightarrow> Inl NodeNotFounded | Some n \<Rightarrow> Inr n)"
  by (induction ns) auto

lemma Nodes_GetNodeByID_Inr:
  "Nodes_GetNodeByID idOf ns i = Inr n \<Longrightarrow> n \<in> set ns \<and> idOf n = i"
  by (induction ns) (auto split: if_splits)

lemma Nodes_GetNodeByID_ex:
  "i \<in> idOf ` set ns \<Longrightarrow> \<exists>n. Nodes_GetNodeByID idOf ns i = Inr n"
  by (induction ns) auto

lemma Nodes_GetNodeByID_unique:
  "inj_on idOf (set ns) \<Longrightarrow> n \<in> set ns \<Longrightarrow> Nodes_GetNodeByID idOf ns (idOf n) = Inr n"
  using Nodes_GetNodeByID_ex [of "idOf n" idOf ns] Nodes_GetNodeByID_Inr [of idOf ns "idOf n"]
  by (metis image_eqI inj_onD)

text \<open>A cluster is a registry of nodes by ID; replacing the node of an ID is the documented use.\<close>

definition cluster_lookup :: "'n Cluster \<Rightarrow> string \<Rightarrow> 'n option" where
  "cluster_lookup c i = (case GetNodeByID c i of Inl _ \<Rightarrow> None | Inr n \<Rightarrow> Some n)"

lemma cluster_lookup_mget: "cluster_lookup c i = mget (ClNodes c) i"
  by (simp add: cluster_lookup_def GetNodeByID_def split: option.splits)

interpretation cl: registry cluster_lookup "\<lambda>k v. AddNode (\<lambda>_. k) v"
    "\<lambda>k c. c\<lparr>ClNodes := mdel k (ClNodes c)\<rparr>" "\<lambda>c. wf_map (ClNodes c)"
  by unfold_locales (auto simp: cluster_lookup_mget AddNode_def)

lemma cluster_lookup_AddNode:
  "cluster_lookup (AddNode idOf n c) i = (if i = idOf n then Some n else cluster_lookup c i)"
  using cl.lookup_insert [of "idOf n" n c i] by (simp add: AddNode_def)

end
