(* ===== verification/Cluster_Infos.thy ===== *)
theory Cluster_Infos
  imports Nodes
begin

text \<open>
  The view each redis node has of the cluster: \<open>src/pkg/redisutil/clusterinfo.go\<close>.
  \<open>DecodeNodeInfos\<close> reads the answer of CLUSTER NODES, \<open>ComputeStatus\<close> decides whether the
  views agree.

  \<open>ComputeStatus\<close> sorts \<open>append(nodeinfos.Friends, nodeinfos.Node)\<close> in place. When the slice of
  friends has spare capacity the appended slice shares its array, so the sort also rearranges
  the friends. The model keeps the capacity of the slice; how far \<open>append\<close> grows an array is
  left open by the language and is the argument \<open>grow\<close> (old capacity, needed length).

  The messages of \<open>ComputeStatus\<close> are built with \<open>fmt.Sprintf\<close> before the logger looks at its
  level, and printing a signature sorts the slots of the nodes in it. The comparison that
  follows sees the sorted slots, so the model keeps these effects. Lines logged at a raised
  level without \<open>Sprintf\<close> are taken as off, the default of the logger. The node itself may stand
  among the rearranged friends; a later sort of its slots is not repeated in that entry, whose
  slots no code reads.
\<close>

section \<open>Types\<close>

record NodeInfos =
  NINode :: Node
  Friends :: "Node list"
  FriendsCap :: nat

datatype InfosStatus = ClusterInfosUnset | ClusterInfosPartial | ClusterInfosInconsistent | ClusterInfosConsistent

record ClusterInfos =
  Infos :: "(string, NodeInfos) gomap"
  InfosStatus :: InfosStatus

definition NewNodeInfos :: NodeInfos where
  "NewNodeInfos = \<lparr>NINode = NewDefaultNode, Friends = [], FriendsCap = 0\<rparr>"

definition NewClusterInfos :: ClusterInfos where
  "NewClusterInfos = \<lparr>Infos = [], InfosStatus = ClusterInfosUnset\<rparr>"

section \<open>Decoding\<close>

text \<open>The start time is the current time minus the uptime, in nanoseconds of an \<open>int64\<close>.\<close>

fun startTimeLoop :: "int \<Rightarrow> string list \<Rightarrow> (int \<times> go_error option) go" where
  "startTimeLoop now [] =
     Ret (now, Some (ErrText ''error while decoding redis instance uptime in seconds. no data found''))"
| "startTimeLoop now (line # lines) =
     (let values = Split (CHR '':'') line in
      if values ! 0 = ''uptime_in_seconds'' then
        (if length values \<le> 1 then Panic ''index out of range''
         else case ParseInt (TrimSpace (values ! 1)) of
           Inl e \<Rightarrow> Ret (now, Some (NumError ''Atoi'' (TrimSpace (values ! 1)) e))
         | Inr u \<Rightarrow> Ret (now + int64 (int64 (- u) * 1000000000), None))
      else startTimeLoop now lines)"

definition DecodeNodeStartTime :: "int \<Rightarrow> string \<Rightarrow> (int \<times> go_error option) go" where
  "DecodeNodeStartTime now input = startTimeLoop now (Split (CHR 0x0A) input)"

definition splitHostPort :: "string \<Rightarrow> go_error + (string \<times> string)" where
  "splitHostPort address =
     (case LastIndex address (CHR '':'') of
        None \<Rightarrow> Inl (ErrText (''splitHostPort failed, invalid address '' @ address))
      | Some i \<Rightarrow> Inr (take i address, drop (i + 1) address))"

definition decodeAddr :: "string \<Rightarrow> string \<Rightarrow> Node \<Rightarrow> Node" where
  "decodeAddr addr value node =
     (case splitHostPort (Split (CHR ''@'') value ! 0) of
        Inl e \<Rightarrow> node
      | Inr (ip, port) \<Rightarrow>
          let node = node\<lparr>IP := ip, Port := port\<rparr> in
          if ip = [] then node\<lparr>IP := (case SplitHostPort addr of Inl e \<Rightarrow> [] | Inr (h, p) \<Rightarrow> h)\<rparr>
          else node)"

definition slotField :: "string \<Rightarrow> Node \<Rightarrow> Node go" where
  "slotField slot node =
     gbind (DecodeSlotRange slot) (\<lambda>r. Ret
       (case r of
          Inl e \<Rightarrow> node
        | Inr (s, importing, migrating) \<Rightarrow>
            let node = node\<lparr>NSlots := NSlots node @ s\<rparr>;
                node = (case importing of None \<Rightarrow> node
                        | Some i \<Rightarrow> node\<lparr>ImportingSlots := mput (ImpSlotID i) (FromNodeID i) (ImportingSlots node)\<rparr>)
            in case migrating of None \<Rightarrow> node
               | Some m \<Rightarrow> node\<lparr>MigratingSlots := mput (MigSlotID m) (ToNodeID m) (MigratingSlots node)\<rparr>))"

definition decodeNode :: "string \<Rightarrow> string list \<Rightarrow> Node go" where
  "decodeNode addr values =
     (let node = NewDefaultNode\<lparr>ID := values ! 0\<rparr>;
          node = decodeAddr addr (values ! 1) node;
          node = snd (SetRole (values ! 2) node);
          node = SetFailureStatus (values ! 2) node;
          node = SetReferentMaster (values ! 3) node;
          node = (case ParseInt (values ! 4) of Inr i \<Rightarrow> node\<lparr>PingSent := i\<rparr> | Inl e \<Rightarrow> node);
          node = (case ParseInt (values ! 5) of Inr i \<Rightarrow> node\<lparr>PongRecv := i\<rparr> | Inl e \<Rightarrow> node);
          node = (case ParseInt (values ! 6) of Inr i \<Rightarrow> node\<lparr>ConfigEpoch := i\<rparr> | Inl e \<Rightarrow> node);
          node = snd (SetLinkStatus (values ! 7) node)
      in gfold slotField (drop 8 values) node)"

definition appendFriend :: "(nat \<Rightarrow> nat \<Rightarrow> nat) \<Rightarrow> Node \<Rightarrow> NodeInfos \<Rightarrow> NodeInfos" where
  "appendFriend grow node infos =
     (let l = length (Friends infos) in
      infos\<lparr>Friends := Friends infos @ [node],
        FriendsCap := (if l < FriendsCap infos then FriendsCap infos else grow (FriendsCap infos) (l + 1))\<rparr>)"

definition decodeLine :: "(nat \<Rightarrow> nat \<Rightarrow> nat) \<Rightarrow> string \<Rightarrow> string \<Rightarrow> NodeInfos \<Rightarrow> NodeInfos go" where
  "decodeLine grow addr line infos =
     (let values = Split (CHR '' '') line in
      if length values < 8 then Ret infos
      else gbind (decodeNode addr values) (\<lambda>node. Ret
        (if HasPrefix (values ! 2) ''myself'' then infos\<lparr>NINode := node\<rparr>
         else appendFriend grow node infos)))"

definition DecodeNodeInfos :: "(nat \<Rightarrow> nat \<Rightarrow> nat) \<Rightarrow> string \<Rightarrow> string \<Rightarrow> NodeInfos go" where
  "DecodeNodeInfos grow input addr =
     gfold (decodeLine grow addr) (Split (CHR 0x0A) input) NewNodeInfos"

section \<open>Agreement of the views\<close>

definition GetNodes :: "ord \<Rightarrow> ClusterInfos \<Rightarrow> Node list" where
  "GetNodes ord c = List.map_filter (\<lambda>k. map_option NINode (mget (Infos c) k)) (ord (mkeys (Infos c)))"

text \<open>
  A signature maps addresses to slices, and a slice in it is the \<open>Slots\<close> of a node: the model
  keeps which node (\<open>'r\<close>, a key of the infos or a position in a view), and \<open>readSignature\<close> reads
  the slots the nodes have now.
\<close>

type_synonym 'r ConfigSignature = "(string, 'r) gomap"

definition signatureStep :: "('r \<Rightarrow> Node) \<Rightarrow> 'r \<Rightarrow> 'r ConfigSignature \<Rightarrow> 'r ConfigSignature" where
  "signatureStep node r signature =
     (if Role (node r) = RedisMasterRole then mput (IPPort (node r)) r signature else signature)"

definition getConfigSignature :: "('r \<Rightarrow> Node) \<Rightarrow> 'r list \<Rightarrow> 'r ConfigSignature" where
  "getConfigSignature node rs = fold (signatureStep node) rs []"

definition readSignature :: "('r \<Rightarrow> Node) \<Rightarrow> 'r ConfigSignature \<Rightarrow> (string, Slot list) gomap" where
  "readSignature node signature = map (\<lambda>(a, r). (a, NSlots (node r))) signature"

text \<open>
  Printing a signature prints its slices with \<open>SlotSlice.String\<close>, and \<open>SlotRangesFromSlots\<close> sorts
  the slice it is given in place: the nodes of the signature have their slots in ascending
  order from then on. The slots are numbers, so every sort has the same result.
\<close>

definition ConfigSignature_String :: "(string, Slot list) gomap \<Rightarrow> string" where
  "ConfigSignature_String c =
     ''map['' @ concat (map (\<lambda>i. i @ '':'' @ SlotSlice_String (mgetd [] c i) @ [CHR 0x0A])
       (sort (mkeys c))) @ '']''"

definition sortSlots :: "Node \<Rightarrow> Node" where
  "sortSlots node = node\<lparr>NSlots := sort (NSlots node)\<rparr>"

definition printSignature :: "nat ConfigSignature \<Rightarrow> Node list \<Rightarrow> Node list" where
  "printSignature signature nodes = fold (\<lambda>i ns. ns[i := sortSlots (ns ! i)]) (map snd signature) nodes"

definition ownNode :: "ClusterInfos \<Rightarrow> string \<Rightarrow> Node" where
  "ownNode c k = (case mget (Infos c) k of None \<Rightarrow> NewDefaultNode | Some ni \<Rightarrow> NINode ni)"

definition printOwn :: "string \<Rightarrow> ClusterInfos \<Rightarrow> ClusterInfos" where
  "printOwn k c =
     (case mget (Infos c) k of
        None \<Rightarrow> c
      | Some ni \<Rightarrow> c\<lparr>Infos := mput k (ni\<lparr>NINode := sortSlots (NINode ni)\<rparr>) (Infos c)\<rparr>)"

text \<open>\<open>reflect.DeepEqual\<close> on two signatures.\<close>

definition map_eq :: "('k, 'v) gomap \<Rightarrow> ('k, 'v) gomap \<Rightarrow> bool" where
  "map_eq m m' \<longleftrightarrow> list_all (\<lambda>k. mget m k = mget m' k) (mkeys m @ mkeys m')"

type_synonym index_sort = "(nat \<Rightarrow> nat \<Rightarrow> bool) \<Rightarrow> nat list \<Rightarrow> nat list"

text \<open>\<open>SortByFunc(LessByID)\<close> on a slice of nodes, by the positions in it.\<close>

definition sortByID :: "index_sort \<Rightarrow> ('r \<Rightarrow> Node) \<Rightarrow> 'r list \<Rightarrow> 'r list" where
  "sortByID srt node rs =
     map ((!) rs) (SortByFunc srt (\<lambda>i j. LessByID (node (rs ! i)) (node (rs ! j))) [0..<length rs])"

text \<open>
  The infos after \<open>append(nodeinfos.Friends, nodeinfos.Node).SortByFunc(LessByID)\<close> and the print of
  the signature: \<open>view\<close> has the positions in their new order, \<open>nodes\<close> the printed nodes by their old
  position. The friends move only where the appended slice is in their array.
\<close>

definition viewed :: "nat list \<Rightarrow> Node list \<Rightarrow> NodeInfos \<Rightarrow> NodeInfos" where
  "viewed view nodes ni =
     (let n = length (Friends ni) in
      ni\<lparr>NINode := nodes ! n,
         Friends := (if n < FriendsCap ni then map ((!) nodes) (take n view) else take n nodes)\<rparr>)"

definition statusStep :: "index_sort \<Rightarrow> string ConfigSignature \<Rightarrow> string \<Rightarrow> ClusterInfos \<Rightarrow> ClusterInfos" where
  "statusStep srt consolidated addr c =
     (case mget (Infos c) addr of
        None \<Rightarrow> c
      | Some ni \<Rightarrow>
          let nodes = Friends ni @ [NINode ni];
              nodesView = sortByID srt ((!) nodes) [0..<length nodes];
              nodeSignature = getConfigSignature ((!) nodes) nodesView;
              nodes = printSignature nodeSignature nodes;
              c = c\<lparr>Infos := mput addr (viewed nodesView nodes ni) (Infos c)\<rparr>
          in if \<not> map_eq (readSignature (ownNode c) consolidated) (readSignature ((!) nodes) nodeSignature)
             then (fold printOwn (map snd consolidated) c)\<lparr>InfosStatus := ClusterInfosInconsistent\<rparr> else c)"

text \<open>\<open>ord1\<close> is the iteration order of \<open>GetNodes\<close>, \<open>ord2\<close> that of the loop over the views.\<close>

definition ComputeStatus :: "index_sort \<Rightarrow> ord \<Rightarrow> ord \<Rightarrow> ClusterInfos \<Rightarrow> bool \<times> ClusterInfos" where
  "ComputeStatus srt ord1 ord2 c =
     (if InfosStatus c \<noteq> ClusterInfosUnset then (False, c)
      else
        let consolidatedView = sortByID srt (ownNode c) (ord1 (mkeys (Infos c)));
            consolidatedSignature = getConfigSignature (ownNode c) consolidatedView;
            c = fold (statusStep srt consolidatedSignature) (ord2 (mkeys (Infos c))) c
        in if InfosStatus c = ClusterInfosUnset then (True, c\<lparr>InfosStatus := ClusterInfosConsistent\<rparr>)
           else (False, c))"

section \<open>Lemmas: signatures\<close>

lemma map_eq_iff: "map_eq m m' \<longleftrightarrow> (\<forall>k. mget m k = mget m' k)"
proof
  assume eq: "map_eq m m'"
  show "\<forall>k. mget m k = mget m' k"
  proof
    fix k
    show "mget m k = mget m' k"
    proof (cases "k \<in> set (mkeys m) \<union> set (mkeys m')")
      case True
      then show ?thesis using eq by (auto simp: map_eq_def list_all_iff)
    next
      case False
      then show ?thesis by (simp add: set_mkeys)
    qed
  qed
qed (simp add: map_eq_def list_all_iff)

lemma mget_readSignature: "mget (readSignature node sig) k = map_option (\<lambda>r. NSlots (node r)) (mget sig k)"
  by (induction sig) (auto simp: readSignature_def)

text \<open>\<open>signs sig P addr\<close>: the entries of the signature are exactly the \<open>r\<close> with \<open>P r\<close>, at their address.\<close>

definition signs :: "'r ConfigSignature \<Rightarrow> ('r \<Rightarrow> bool) \<Rightarrow> ('r \<Rightarrow> string) \<Rightarrow> bool" where
  "signs sig P addr \<longleftrightarrow> (\<forall>a r. mget sig a = Some r \<longleftrightarrow> P r \<and> addr r = a)"

lemma map_eq_readSignature:
  assumes "signs sig P addr" "signs sig' P' addr'"
  shows "map_eq (readSignature node sig) (readSignature node' sig') \<longleftrightarrow>
    {(addr r, NSlots (node r)) | r. P r} = {(addr' r, NSlots (node' r)) | r. P' r}"
proof -
  have read: "mget (readSignature nd sg) a = Some s \<longleftrightarrow> (a, s) \<in> {(ad r, NSlots (nd r)) | r. Q r}"
    if "signs sg Q ad" for nd and sg :: "'c ConfigSignature" and Q ad a s
    using that by (auto simp: mget_readSignature signs_def)
  have "map_eq (readSignature node sig) (readSignature node' sig') \<longleftrightarrow>
      (\<forall>a s. mget (readSignature node sig) a = Some s \<longleftrightarrow> mget (readSignature node' sig') a = Some s)"
    by (simp add: map_eq_iff) (metis option.exhaust)
  also have "\<dots> \<longleftrightarrow> (\<forall>a s. (a, s) \<in> {(addr r, NSlots (node r)) | r. P r} \<longleftrightarrow>
      (a, s) \<in> {(addr' r, NSlots (node' r)) | r. P' r})"
    unfolding read [OF assms(1)] read [OF assms(2)] by (rule refl)
  finally show ?thesis by (simp add: set_eq_iff)
qed

definition addrs_distinct :: "Node list \<Rightarrow> bool" where
  "addrs_distinct ns \<longleftrightarrow> distinct (map IPPort (filter (\<lambda>n. Role n = RedisMasterRole) ns))"

lemma addrs_distinct_perm: "mset ns = mset ms \<Longrightarrow> addrs_distinct ns \<longleftrightarrow> addrs_distinct ms"
  unfolding addrs_distinct_def by (metis mset_eq_imp_distinct_iff mset_filter mset_map)

lemma wf_getConfigSignature: "wf_map (getConfigSignature node rs)"
proof -
  have "wf_map sig \<Longrightarrow> wf_map (fold (signatureStep node) rs sig)" for sig
    by (induction rs arbitrary: sig) (auto simp: signatureStep_def)
  then show ?thesis by (simp add: getConfigSignature_def)
qed

lemma getConfigSignature_signs:
  assumes "distinct rs" "addrs_distinct (map node rs)"
  shows "signs (getConfigSignature node rs) (\<lambda>r. r \<in> set rs \<and> Role (node r) = RedisMasterRole) (\<lambda>r. IPPort (node r))"
proof -
  let ?m = "\<lambda>r. Role (node r) = RedisMasterRole"
  have "mget (fold (signatureStep node) rs sig) a = Some r \<longleftrightarrow>
      (r \<in> set rs \<and> ?m r \<and> IPPort (node r) = a) \<or>
      (mget sig a = Some r \<and> \<not> (\<exists>q\<in>set rs. ?m q \<and> IPPort (node q) = a))" for sig a r
    using assms
  proof (induction rs arbitrary: sig)
    case (Cons q rs)
    have "q \<notin> set rs" "distinct rs" "addrs_distinct (map node rs)"
      and fresh: "?m q \<Longrightarrow> \<not> (\<exists>p\<in>set rs. ?m p \<and> IPPort (node p) = IPPort (node q))"
      using Cons.prems by (auto simp: addrs_distinct_def filter_map image_iff split: if_splits)
    then show ?case
      using Cons.IH [of "signatureStep node q sig"] by (cases "?m q") (auto simp: signatureStep_def split: if_splits)
  qed simp
  then show ?thesis by (simp add: signs_def getConfigSignature_def)
qed

lemma signs_entries:
  assumes "signs sig P addr" "wf_map sig"
  shows "set (map snd sig) = {r. P r}"
proof -
  have "r \<in> set (map snd sig) \<longleftrightarrow> (\<exists>a. mget sig a = Some r)" for r
    using assms(2) by (force simp: mget_def wf_map_def)
  then show ?thesis using assms(1) by (auto simp: signs_def)
qed

lemma mset_sortByID: "is_sorter srt \<Longrightarrow> mset (sortByID srt node rs) = mset rs"
proof -
  assume srt: "is_sorter srt"
  let ?lt = "\<lambda>i j. ID (node (rs ! i)) < ID (node (rs ! j))"
  have "mset (srt ?lt [0..<length rs]) = mset [0..<length rs]"
    by (rule is_sortD(1) [OF is_sorter_key [OF srt]])
  then have "image_mset ((!) rs) (mset (srt ?lt [0..<length rs])) = image_mset ((!) rs) (mset [0..<length rs])"
    by (simp only:)
  moreover have "map ((!) rs) [0..<length rs] = rs" by (rule map_nth)
  ultimately show ?thesis by (simp add: sortByID_def SortByFunc_def LessByID_def flip: mset_map del: mset_upt)
qed

lemma sortSlots_simps [simp]:
  "Role (sortSlots n) = Role n" "IPPort (sortSlots n) = IPPort n" "NSlots (sortSlots n) = sort (NSlots n)"
  "sortSlots (sortSlots n) = sortSlots n"
  by (simp_all add: sortSlots_def IPPort_def sorted_sort_id)

lemma printSignature_nth:
  "length (printSignature sig ns) = length ns"
  "i < length ns \<Longrightarrow> printSignature sig ns ! i = (if i \<in> set (map snd sig) then sortSlots (ns ! i) else ns ! i)"
proof -
  have "length (fold (\<lambda>i ns. ns[i := sortSlots (ns ! i)]) is ns) = length ns \<and>
      (i < length ns \<longrightarrow> fold (\<lambda>i ns. ns[i := sortSlots (ns ! i)]) is ns ! i =
        (if i \<in> set is then sortSlots (ns ! i) else ns ! i))" for "is"
  proof (induction "is" arbitrary: ns)
    case (Cons a "is")
    show ?case using Cons.IH [of "ns[a := sortSlots (ns ! a)]"] by (cases "a = i") simp_all
  qed simp
  then show "length (printSignature sig ns) = length ns"
    "i < length ns \<Longrightarrow> printSignature sig ns ! i = (if i \<in> set (map snd sig) then sortSlots (ns ! i) else ns ! i)"
    unfolding printSignature_def by blast+
qed

section \<open>Lemmas: the status\<close>

text \<open>
  What a list of nodes says about slots: the masters' addresses with their slots in ascending
  order; \<open>own_view\<close> is what the nodes say of themselves. \<open>own_sorted\<close>: the node at a key, if it is a
  master, has its own slots in ascending order.
\<close>

definition master_view :: "Node list \<Rightarrow> (string \<times> Slot list) set" where
  "master_view ns = {(IPPort n, sort (NSlots n)) | n. n \<in> set ns \<and> Role n = RedisMasterRole}"

definition own_view :: "ClusterInfos \<Rightarrow> (string \<times> Slot list) set" where
  "own_view c = {(IPPort (NINode ni), sort (NSlots (NINode ni))) | k ni.
     mget (Infos c) k = Some ni \<and> Role (NINode ni) = RedisMasterRole}"

definition own_sorted :: "ClusterInfos \<Rightarrow> string \<Rightarrow> bool" where
  "own_sorted c k \<longleftrightarrow> (Role (ownNode c k) = RedisMasterRole \<longrightarrow> sorted (NSlots (ownNode c k)))"

definition views_agree :: "ClusterInfos \<Rightarrow> bool" where
  "views_agree c \<longleftrightarrow> (\<forall>k ni. mget (Infos c) k = Some ni \<longrightarrow> master_view (Friends ni @ [NINode ni]) = own_view c)"

definition signs_own :: "string ConfigSignature \<Rightarrow> ClusterInfos \<Rightarrow> bool" where
  "signs_own con c \<longleftrightarrow> signs con (\<lambda>k. mget (Infos c) k \<noteq> None \<and> Role (ownNode c k) = RedisMasterRole) (\<lambda>k. IPPort (ownNode c k))"

text \<open>One step before the comparison: the view of \<open>addr\<close> is sorted and its signature printed.\<close>

definition visit :: "index_sort \<Rightarrow> string \<Rightarrow> ClusterInfos \<Rightarrow> ClusterInfos" where
  "visit srt addr c =
     (case mget (Infos c) addr of
        None \<Rightarrow> c
      | Some ni \<Rightarrow>
          let nodes = Friends ni @ [NINode ni];
              view = sortByID srt ((!) nodes) [0..<length nodes]
          in c\<lparr>Infos := mput addr (viewed view (printSignature (getConfigSignature ((!) nodes) view) nodes) ni) (Infos c)\<rparr>)"

lemma view_signs:
  assumes "is_sorter srt" "addrs_distinct nodes"
  shows "signs (getConfigSignature ((!) nodes) (sortByID srt ((!) nodes) [0..<length nodes]))
    (\<lambda>i. i < length nodes \<and> Role (nodes ! i) = RedisMasterRole) (\<lambda>i. IPPort (nodes ! i))"
proof -
  let ?v = "sortByID srt ((!) nodes) [0..<length nodes]"
  have m: "mset ?v = mset [0..<length nodes]" by (rule mset_sortByID [OF assms(1)])
  have "mset (map ((!) nodes) ?v) = mset (map ((!) nodes) [0..<length nodes])"
    using m by (simp only: mset_map)
  then have "addrs_distinct (map ((!) nodes) ?v)" using assms(2) addrs_distinct_perm by (metis map_nth)
  moreover have "distinct ?v" using mset_eq_imp_distinct_iff [OF m] by simp
  ultimately show ?thesis using getConfigSignature_signs [of ?v "(!) nodes"] mset_eq_setD [OF m] by simp
qed

lemma printed_view:
  assumes "is_sorter srt" "addrs_distinct nodes" "i < length nodes"
  shows "printSignature (getConfigSignature ((!) nodes) (sortByID srt ((!) nodes) [0..<length nodes])) nodes ! i =
    (if Role (nodes ! i) = RedisMasterRole then sortSlots (nodes ! i) else nodes ! i)"
  using printSignature_nth(2) [OF assms(3)] signs_entries [OF view_signs [OF assms(1,2)] wf_getConfigSignature] assms(3)
  by auto

lemma visit_frame:
  "InfosStatus (visit srt addr c) = InfosStatus c"
  "mget (Infos (visit srt addr c)) k = None \<longleftrightarrow> mget (Infos c) k = None"
  "k \<noteq> addr \<Longrightarrow> mget (Infos (visit srt addr c)) k = mget (Infos c) k"
  by (auto simp: visit_def Let_def split: option.splits)

lemma visit_own:
  assumes srt: "is_sorter srt" and ni: "mget (Infos c) addr = Some ni" and d: "addrs_distinct (Friends ni @ [NINode ni])"
  shows "ownNode (visit srt addr c) k =
    (if k = addr \<and> Role (ownNode c k) = RedisMasterRole then sortSlots (ownNode c k) else ownNode c k)"
proof (cases "k = addr")
  case True
  then show ?thesis
    using ni printed_view [OF srt d, of "length (Friends ni)"] by (simp add: ownNode_def visit_def viewed_def Let_def)
next
  case False
  then show ?thesis using visit_frame(3) [OF False] by (simp add: ownNode_def)
qed

lemma own_view_alt:
  "own_view c = {(IPPort (ownNode c k), sort (NSlots (ownNode c k))) | k.
     mget (Infos c) k \<noteq> None \<and> Role (ownNode c k) = RedisMasterRole}"
  by (auto simp: own_view_def ownNode_def split: option.splits)

lemma visit_keeps:
  assumes "is_sorter srt" "mget (Infos c) addr = Some ni" "addrs_distinct (Friends ni @ [NINode ni])"
  shows "own_view (visit srt addr c) = own_view c"
    and "signs_own con (visit srt addr c) \<longleftrightarrow> signs_own con c"
    and "own_sorted (visit srt addr c) k \<longleftrightarrow> k = addr \<or> own_sorted c k"
proof -
  note own = visit_own [OF assms] and frame = visit_frame
  have same: "IPPort (ownNode (visit srt addr c) k) = IPPort (ownNode c k)"
    "Role (ownNode (visit srt addr c) k) = Role (ownNode c k)"
    "sort (NSlots (ownNode (visit srt addr c) k)) = sort (NSlots (ownNode c k))" for k
    by (simp_all add: own sorted_sort_id)
  show "own_view (visit srt addr c) = own_view c" by (simp only: own_view_alt same frame(2))
  show "signs_own con (visit srt addr c) \<longleftrightarrow> signs_own con c" by (simp only: signs_own_def same frame(2))
  show "own_sorted (visit srt addr c) k \<longleftrightarrow> k = addr \<or> own_sorted c k"
    by (auto simp: own_sorted_def own)
qed

text \<open>
  The comparison of one step: the printed view has sorted slots, the nodes' own slots are
  sorted only where they have been printed.
\<close>

lemma compared:
  assumes srt: "is_sorter srt" and ni: "mget (Infos c) addr = Some ni" and d: "addrs_distinct (Friends ni @ [NINode ni])"
    and con: "signs_own con c"
  defines "nodes \<equiv> Friends ni @ [NINode ni]"
  defines "sig \<equiv> getConfigSignature ((!) nodes) (sortByID srt ((!) nodes) [0..<length nodes])"
  shows "map_eq (readSignature (ownNode (visit srt addr c)) con) (readSignature ((!) (printSignature sig nodes)) sig) \<longleftrightarrow>
    master_view nodes = own_view c \<and> (\<forall>k. k \<noteq> addr \<longrightarrow> own_sorted c k)"
proof -
  let ?own = "\<lambda>k. mget (Infos c) k \<noteq> None \<and> Role (ownNode c k) = RedisMasterRole"
  let ?L = "{(IPPort (ownNode c k), NSlots (ownNode (visit srt addr c) k)) | k. ?own k}"
  have "{(IPPort (nodes ! i), NSlots (printSignature sig nodes ! i)) | i. i < length nodes \<and> Role (nodes ! i) = RedisMasterRole} =
      {(IPPort (nodes ! i), sort (NSlots (nodes ! i))) | i. i < length nodes \<and> Role (nodes ! i) = RedisMasterRole}"
    using printed_view [OF srt d] by (auto simp: sig_def nodes_def)
  also have "\<dots> = master_view nodes"
    unfolding master_view_def in_set_conv_nth by blast
  finally have eq: "map_eq (readSignature (ownNode (visit srt addr c)) con) (readSignature ((!) (printSignature sig nodes)) sig) \<longleftrightarrow>
      ?L = master_view nodes"
    using map_eq_readSignature [OF con [unfolded signs_own_def] view_signs [OF srt d]] by (simp add: sig_def nodes_def)
  have sorted: "sorted s" if "(a, s) \<in> master_view nodes" for a s using that by (auto simp: master_view_def)
  have slots: "NSlots (ownNode (visit srt addr c) k) = (if k = addr then sort (NSlots (ownNode c k)) else NSlots (ownNode c k))" if "?own k" for k
    using that visit_own [OF srt ni d] by simp
  have none: "own_sorted c k" if "mget (Infos c) k = None" for k
    using that by (simp add: own_sorted_def ownNode_def NewDefaultNode_def)
  have same: "?L = own_view c" if "\<forall>k. k \<noteq> addr \<longrightarrow> own_sorted c k"
  proof -
    have "NSlots (ownNode (visit srt addr c) k) = sort (NSlots (ownNode c k))" if "?own k" for k
      using slots [OF that] that \<open>\<forall>k. k \<noteq> addr \<longrightarrow> own_sorted c k\<close> by (auto simp: own_sorted_def sorted_sort_id)
    then show ?thesis unfolding own_view_alt by (metis (mono_tags, lifting))
  qed
  have "own_sorted c k" if "?L = master_view nodes" "k \<noteq> addr" for k
  proof (cases "?own k")
    case True
    then have "(IPPort (ownNode c k), NSlots (ownNode c k)) \<in> ?L" using slots that(2) by (smt (verit) mem_Collect_eq)
    then show ?thesis unfolding that(1) own_sorted_def using sorted by blast
  qed (use none in \<open>auto simp: own_sorted_def\<close>)
  then show ?thesis using eq same by blast
qed

lemma statusStep_visit:
  assumes "is_sorter srt" "mget (Infos c) addr = Some ni" "addrs_distinct (Friends ni @ [NINode ni])" "signs_own con c"
  shows "master_view (Friends ni @ [NINode ni]) = own_view c \<and> (\<forall>k. k \<noteq> addr \<longrightarrow> own_sorted c k) \<Longrightarrow>
      statusStep srt con addr c = visit srt addr c"
    and "\<not> (master_view (Friends ni @ [NINode ni]) = own_view c \<and> (\<forall>k. k \<noteq> addr \<longrightarrow> own_sorted c k)) \<Longrightarrow>
      InfosStatus (statusStep srt con addr c) = ClusterInfosInconsistent"
  using compared [OF assms] assms(2) by (simp_all add: statusStep_def visit_def Let_def)

lemma inconsistent_stays:
  "InfosStatus c = ClusterInfosInconsistent \<Longrightarrow> InfosStatus (fold (statusStep srt con) ks c) = ClusterInfosInconsistent"
proof (induction ks arbitrary: c)
  case (Cons k ks)
  then show ?case by (simp add: statusStep_def Let_def split: option.splits)
qed simp

lemma fold_statusStep:
  assumes srt: "is_sorter srt" and "distinct ks" "InfosStatus c = ClusterInfosUnset" "signs_own con c"
    and "\<And>k ni. k \<in> set ks \<Longrightarrow> mget (Infos c) k = Some ni \<Longrightarrow> addrs_distinct (Friends ni @ [NINode ni])"
    and "\<And>k. k \<in> set ks \<Longrightarrow> mget (Infos c) k \<noteq> None"
  shows "InfosStatus (fold (statusStep srt con) ks c) =
    (if (\<forall>k\<in>set ks. \<forall>ni. mget (Infos c) k = Some ni \<longrightarrow> master_view (Friends ni @ [NINode ni]) = own_view c) \<and>
        (ks = [] \<or> (\<forall>k. k \<noteq> hd ks \<longrightarrow> own_sorted c k))
     then ClusterInfosUnset else ClusterInfosInconsistent)"
  using assms(2-)
proof (induction ks arbitrary: c)
  case (Cons a ks)
  obtain ni where ni: "mget (Infos c) a = Some ni" using Cons.prems(5) [of a] by auto
  note d = Cons.prems(4) [of a, OF _ ni, simplified]
  note step = statusStep_visit [OF srt ni d Cons.prems(3)] and keep = visit_keeps [OF srt ni d]
  let ?ok = "master_view (Friends ni @ [NINode ni]) = own_view c \<and> (\<forall>k. k \<noteq> a \<longrightarrow> own_sorted c k)"
  show ?case
  proof (cases ?ok)
    case True
    have same: "mget (Infos (visit srt a c)) k = mget (Infos c) k" if "k \<in> set ks" for k
      using that Cons.prems(1) by (intro visit_frame(3)) auto
    have "InfosStatus (fold (statusStep srt con) ks (visit srt a c)) =
      (if (\<forall>k\<in>set ks. \<forall>ni. mget (Infos c) k = Some ni \<longrightarrow> master_view (Friends ni @ [NINode ni]) = own_view c) \<and>
          (ks = [] \<or> (\<forall>k. k \<noteq> hd ks \<longrightarrow> k = a \<or> own_sorted c k))
       then ClusterInfosUnset else ClusterInfosInconsistent)"
    proof -
      have c: "distinct ks" "InfosStatus (visit srt a c) = ClusterInfosUnset" "signs_own con (visit srt a c)"
        using Cons.prems(1-3) keep(2) by (simp_all add: visit_frame(1))
      have k: "addrs_distinct (Friends ni @ [NINode ni])" if "k \<in> set ks" "mget (Infos (visit srt a c)) k = Some ni" for k ni
        using that Cons.prems(4) [of k ni] same [OF that(1)] by simp
      have m: "mget (Infos (visit srt a c)) k \<noteq> None" if "k \<in> set ks" for k
        using that Cons.prems(5) [of k] same [OF that] by simp
      show ?thesis using Cons.IH [OF c k m] same by (simp add: keep(1,3))
    qed
    moreover have "fold (statusStep srt con) (a # ks) c = fold (statusStep srt con) ks (visit srt a c)"
      using step(1) True by simp
    moreover have "ks = [] \<or> (\<forall>k. k \<noteq> hd ks \<longrightarrow> k = a \<or> own_sorted c k)" using True by blast
    ultimately show ?thesis using True ni by simp
  next
    case False
    then have "InfosStatus (fold (statusStep srt con) (a # ks) c) = ClusterInfosInconsistent"
      using step(2) by (simp add: inconsistent_stays)
    then show ?thesis using False ni by auto
  qed
qed simp

lemma GetNodes_own:
  assumes "is_order ord"
  shows "GetNodes ord c = map (ownNode c) (ord (mkeys (Infos c)))"
proof -
  have "List.map_filter (\<lambda>k. map_option NINode (mget (Infos c) k)) ks = map (ownNode c) ks"
    if "set ks \<subseteq> {k. mget (Infos c) k \<noteq> None}" for ks
    using that by (induction ks) (auto simp: map_filter_simps ownNode_def)
  moreover have "set (ord (mkeys (Infos c))) \<subseteq> {k. mget (Infos c) k \<noteq> None}"
    using is_orderD(2) [OF assms, of "mkeys (Infos c)"] by (simp add: set_mkeys)
  ultimately show ?thesis by (simp add: GetNodes_def)
qed

lemma ComputeStatus_iff:
  assumes srt: "is_sorter srt" and o: "is_order ord1" "is_order ord2"
    and wf: "wf_map (Infos c)" and u: "InfosStatus c = ClusterInfosUnset"
    and d1: "addrs_distinct (GetNodes ord1 c)"
    and d2: "\<And>k ni. mget (Infos c) k = Some ni \<Longrightarrow> addrs_distinct (Friends ni @ [NINode ni])"
  defines "ok \<equiv> views_agree c \<and> list_all (own_sorted c) (tl (ord2 (mkeys (Infos c))))"
  shows "fst (ComputeStatus srt ord1 ord2 c) \<longleftrightarrow> ok"
    and "InfosStatus (snd (ComputeStatus srt ord1 ord2 c)) = (if ok then ClusterInfosConsistent else ClusterInfosInconsistent)"
proof -
  let ?ks = "ord2 (mkeys (Infos c))" and ?v = "sortByID srt (ownNode c) (ord1 (mkeys (Infos c)))"
  let ?con = "getConfigSignature (ownNode c) ?v"
  have keys: "distinct ?ks" "set ?ks = {k. mget (Infos c) k \<noteq> None}"
    using wf is_orderD(2,4) [OF o(2)] by (simp_all add: distinct_mkeys set_mkeys)
  have v: "mset ?v = mset (ord1 (mkeys (Infos c)))" by (rule mset_sortByID [OF srt])
  then have "distinct ?v" "set ?v = {k. mget (Infos c) k \<noteq> None}"
    using mset_eq_imp_distinct_iff [OF v] mset_eq_setD [OF v] wf is_orderD(2,4) [OF o(1)]
    by (simp_all add: distinct_mkeys set_mkeys)
  moreover have "addrs_distinct (map (ownNode c) ?v)"
    using d1 addrs_distinct_perm [of "map (ownNode c) ?v" "GetNodes ord1 c"] v by (simp add: GetNodes_own [OF o(1)])
  ultimately have con: "signs_own ?con c" using getConfigSignature_signs [of ?v "ownNode c"] by (simp add: signs_own_def)
  have none: "own_sorted c k" if "mget (Infos c) k = None" for k
    using that by (simp add: own_sorted_def ownNode_def NewDefaultNode_def)
  have "?ks = [] \<or> (\<forall>k. k \<noteq> hd ?ks \<longrightarrow> own_sorted c k) \<longleftrightarrow> list_all (own_sorted c) (tl ?ks)"
  proof (cases ?ks)
    case (Cons a as)
    have "own_sorted c k" if "list_all (own_sorted c) as" "k \<noteq> a" for k
    proof (cases "mget (Infos c) k")
      case (Some ni)
      then have "k \<in> set ?ks" using keys(2) by simp
      then show ?thesis using that by (simp add: Cons list_all_iff)
    qed (rule none)
    moreover have "a \<notin> set as" using keys(1) by (simp add: Cons)
    ultimately show ?thesis unfolding Cons by (auto simp: list_all_iff)
  qed simp
  moreover have "(\<forall>k\<in>set ?ks. \<forall>ni. mget (Infos c) k = Some ni \<longrightarrow> master_view (Friends ni @ [NINode ni]) = own_view c) \<longleftrightarrow>
      views_agree c" using keys(2) by (auto simp: views_agree_def)
  ultimately have st: "InfosStatus (fold (statusStep srt ?con) ?ks c) = (if ok then ClusterInfosUnset else ClusterInfosInconsistent)"
    using fold_statusStep [OF srt keys(1) u con d2] keys(2) by (simp add: ok_def)
  show "fst (ComputeStatus srt ord1 ord2 c) \<longleftrightarrow> ok"
    using st u by (simp add: ComputeStatus_def Let_def)
  show "InfosStatus (snd (ComputeStatus srt ord1 ord2 c)) = (if ok then ClusterInfosConsistent else ClusterInfosInconsistent)"
    using st u by (simp add: ComputeStatus_def Let_def)
qed

section \<open>Lemmas: reading CLUSTER NODES\<close>

text \<open>
  The format redis documents for CLUSTER NODES, as a printer of node descriptions: id,
  address with the cluster bus port, flags, master, ping, pong, epoch, link, and the slots
  with those being imported or migrated.
\<close>

datatype slot_item = OneSlot Slot | RangeItem SlotRange | ImportItem ImportingSlot | MigrateItem MigratingSlot

fun print_item :: "slot_item \<Rightarrow> string" where
  "print_item (OneSlot s) = Slot_String s"
| "print_item (RangeItem r) = SlotRange_String r"
| "print_item (ImportItem i) = ''['' @ ImportingSlot_String i @ '']''"
| "print_item (MigrateItem m) = ''['' @ MigratingSlot_String m @ '']''"

fun item_ok :: "slot_item \<Rightarrow> bool" where
  "item_ok (OneSlot s) \<longleftrightarrow> s \<noteq> - 1"
| "item_ok (RangeItem r) \<longleftrightarrow> SMax r \<noteq> - 1"
| "item_ok (ImportItem i) \<longleftrightarrow> CHR ''-'' \<notin> set (FromNodeID i) \<and> CHR '' '' \<notin> set (FromNodeID i) \<and> CHR 0x0A \<notin> set (FromNodeID i)"
| "item_ok (MigrateItem m) \<longleftrightarrow> CHR ''-'' \<notin> set (ToNodeID m) \<and> CHR '' '' \<notin> set (ToNodeID m) \<and> CHR 0x0A \<notin> set (ToNodeID m)"

fun add_item :: "slot_item \<Rightarrow> Node \<Rightarrow> Node" where
  "add_item (OneSlot s) n = n\<lparr>NSlots := NSlots n @ [s]\<rparr>"
| "add_item (RangeItem r) n = n\<lparr>NSlots := NSlots n @ range_slots r\<rparr>"
| "add_item (ImportItem i) n = n\<lparr>ImportingSlots := mput (ImpSlotID i) (FromNodeID i) (ImportingSlots n)\<rparr>"
| "add_item (MigrateItem m) n = n\<lparr>MigratingSlots := mput (MigSlotID m) (ToNodeID m) (MigratingSlots n)\<rparr>"

record node_desc =
  dID :: string
  dIP :: string
  dPort :: string
  dBus :: string
  dFlags :: "string list"
  dRef :: string
  dPing :: int
  dPong :: int
  dEpoch :: int
  dConnected :: bool
  dItems :: "slot_item list"

definition print_fields :: "node_desc \<Rightarrow> string list" where
  "print_fields d =
     [dID d, dIP d @ '':'' @ dPort d @ ''@'' @ dBus d, Join '','' (dFlags d), dRef d,
      fmt_int (dPing d), fmt_int (dPong d), fmt_int (dEpoch d),
      if dConnected d then RedisLinkStateConnected else RedisLinkStateDisconnected]
     @ map print_item (dItems d)"

definition print_desc :: "node_desc \<Rightarrow> string" where
  "print_desc d = Join '' '' (print_fields d)"

definition plain :: "string \<Rightarrow> bool" where
  "plain s \<longleftrightarrow> CHR '' '' \<notin> set s \<and> CHR 0x0A \<notin> set s"

definition int64_ok :: "int \<Rightarrow> bool" where
  "int64_ok i \<longleftrightarrow> - (2 ^ 63) \<le> i \<and> i < 2 ^ 63"

definition desc_ok :: "node_desc \<Rightarrow> bool" where
  "desc_ok d \<longleftrightarrow> plain (dID d) \<and> plain (dIP d) \<and> plain (dPort d) \<and> plain (dBus d) \<and> plain (dRef d) \<and>
     CHR ''@'' \<notin> set (dIP d) \<and> CHR ''@'' \<notin> set (dPort d) \<and> CHR '':'' \<notin> set (dPort d) \<and>
     dFlags d \<noteq> [] \<and> list_all (\<lambda>f. plain f \<and> CHR '','' \<notin> set f) (dFlags d) \<and>
     int64_ok (dPing d) \<and> int64_ok (dPong d) \<and> int64_ok (dEpoch d) \<and> list_all item_ok (dItems d)"

definition desc_node :: "string \<Rightarrow> node_desc \<Rightarrow> Node" where
  "desc_node addr d =
     fold add_item (dItems d)
       (NewDefaultNode\<lparr>ID := dID d,
          IP := (if dIP d \<noteq> [] then dIP d else case SplitHostPort addr of Inl e \<Rightarrow> [] | Inr (h, p) \<Rightarrow> h),
          Port := dPort d,
          Role := (case filter (\<lambda>v. v = RedisMasterRole \<or> v = RedisSlaveRole) (dFlags d) of [] \<Rightarrow> [] | ws \<Rightarrow> last ws),
          FailStatus := filter (\<lambda>v. v \<in> set fail_flags) (dFlags d),
          MasterReferent := (if dRef d = ''-'' then [] else dRef d),
          PingSent := dPing d, PongRecv := dPong d, ConfigEpoch := dEpoch d,
          LinkState := (if dConnected d then RedisLinkStateConnected else RedisLinkStateDisconnected)\<rparr>)"

definition is_myself :: "node_desc \<Rightarrow> bool" where
  "is_myself d \<longleftrightarrow> HasPrefix (Join '','' (dFlags d)) ''myself''"

lemma slotField_item: "item_ok it \<Longrightarrow> slotField (print_item it) n = Ret (add_item it n)"
  by (cases it)
    (simp_all add: slotField_def DecodeSlotRange_Slot_String DecodeSlotRange_SlotRange_String
      DecodeSlotRange_ImportingSlot_String [simplified] DecodeSlotRange_MigratingSlot_String [simplified])

lemma gfold_slotField_items:
  "list_all item_ok its \<Longrightarrow> gfold slotField (map print_item its) n = Ret (fold add_item its n)"
  by (induction its arbitrary: n) (simp_all add: slotField_item)

lemma digit_not_blank: "is_digit c \<Longrightarrow> c \<noteq> CHR '' '' \<and> c \<noteq> CHR 0x0A"
  by (auto simp: is_digit_def byte_def)

lemma plain_digits: "plain (fmt_nat n)"
  unfolding plain_def using fmt_nat_digits [of _ n] digit_not_blank by blast

lemma plain_fmt_int: "plain (fmt_int i)"
  using plain_digits by (auto simp: fmt_int_def plain_def)

lemma plain_append [simp]: "plain (s @ t) \<longleftrightarrow> plain s \<and> plain t"
  by (auto simp: plain_def)

lemma plain_item: "item_ok it \<Longrightarrow> plain (print_item it)"
  using plain_digits
  by (cases it) (auto simp: Slot_String_def SlotRange_String_def ImportingSlot_String_def
      MigratingSlot_String_def plain_def)

lemma plain_Join: "list_all plain ss \<Longrightarrow> plain (Join '','' ss)"
  by (induction ss rule: induct_list012) (auto simp: plain_def)

lemma plain_fields: "desc_ok d \<Longrightarrow> f \<in> set (print_fields d) \<Longrightarrow> plain f"
  by (auto simp: desc_ok_def print_fields_def plain_fmt_int node_consts list_all_iff
      intro!: plain_item plain_Join) (auto simp: plain_def)

lemma Split_print_desc: "desc_ok d \<Longrightarrow> Split (CHR '' '') (print_desc d) = print_fields d"
  unfolding print_desc_def
proof (rule Split_Join)
  show "print_fields d \<noteq> []" by (simp add: print_fields_def)
  show "CHR '' '' \<notin> set f" if "desc_ok d" "f \<in> set (print_fields d)" for f
    using plain_fields [OF that] by (simp add: plain_def)
qed

lemma splitHostPort_append:
  "CHR '':'' \<notin> set port \<Longrightarrow> splitHostPort (ip @ '':'' @ port) = Inr (ip, port)"
  using LastIndex_append [of "CHR '':''" port ip] by (simp add: splitHostPort_def)

lemma decodeAddr_desc:
  assumes "CHR ''@'' \<notin> set ip" "CHR ''@'' \<notin> set port" "CHR '':'' \<notin> set port"
  shows "decodeAddr addr (ip @ '':'' @ port @ ''@'' @ bus) n =
     n\<lparr>IP := (if ip \<noteq> [] then ip else case SplitHostPort addr of Inl e \<Rightarrow> [] | Inr (h, p) \<Rightarrow> h), Port := port\<rparr>"
proof -
  have "Split (CHR ''@'') ((ip @ '':'' @ port) @ CHR ''@'' # bus) ! 0 = ip @ '':'' @ port"
    using assms by (subst Split_append) auto
  then show ?thesis
    using splitHostPort_append [OF assms(3), of ip] by (simp add: decodeAddr_def Let_def)
qed

lemma Node_update_same [simp]:
  "n\<lparr>Role := Role n\<rparr> = n" "n\<lparr>FailStatus := FailStatus n\<rparr> = n" for n :: Node
  by simp_all

lemma fold_roleStep_closed:
  "fold roleStep vs n =
     n\<lparr>Role := (case filter (\<lambda>v. v = RedisMasterRole \<or> v = RedisSlaveRole) vs of [] \<Rightarrow> Role n | ws \<Rightarrow> last ws)\<rparr>"
  by (induction vs arbitrary: n) (auto simp: roleStep_def split: list.splits)

lemma SetRole_closed:
  "snd (SetRole flags n) =
     n\<lparr>Role := (case filter (\<lambda>v. v = RedisMasterRole \<or> v = RedisSlaveRole) (Split (CHR '','') flags) of
        [] \<Rightarrow> [] | ws \<Rightarrow> last ws)\<rparr>"
  by (simp add: SetRole_def Let_def fold_roleStep_closed split: list.splits)

lemma failStep_closed:
  "failStep v n = n\<lparr>FailStatus := FailStatus n @ (if v \<in> set fail_flags then [v] else [])\<rparr>"
  by (auto simp: failStep_def fail_flags_def)

lemma SetFailureStatus_closed:
  "SetFailureStatus flags n = n\<lparr>FailStatus := filter (\<lambda>v. v \<in> set fail_flags) (Split (CHR '','') flags)\<rparr>"
proof -
  have "fold failStep vs n = n\<lparr>FailStatus := FailStatus n @ filter (\<lambda>v. v \<in> set fail_flags) vs\<rparr>" for vs n
    by (induction vs arbitrary: n) (auto simp: failStep_closed)
  then show ?thesis by (simp add: SetFailureStatus_def)
qed

lemma SetLinkStatus_closed:
  "snd (SetLinkStatus (if b then RedisLinkStateConnected else RedisLinkStateDisconnected) n) =
     n\<lparr>LinkState := (if b then RedisLinkStateConnected else RedisLinkStateDisconnected)\<rparr>"
  by (simp add: SetLinkStatus_def Let_def node_consts)

lemma Split_flags:
  "desc_ok d \<Longrightarrow> Split (CHR '','') (Join '','' (dFlags d)) = dFlags d"
  by (rule Split_Join) (auto simp: desc_ok_def list_all_iff)

lemma decodeNode_desc:
  assumes "desc_ok d"
  shows "decodeNode addr (print_fields d) = Ret (desc_node addr d)"
proof -
  have nth: "print_fields d ! 0 = dID d" "print_fields d ! 1 = dIP d @ '':'' @ dPort d @ ''@'' @ dBus d"
    "print_fields d ! 2 = Join '','' (dFlags d)" "print_fields d ! 3 = dRef d"
    "print_fields d ! 4 = fmt_int (dPing d)" "print_fields d ! 5 = fmt_int (dPong d)"
    "print_fields d ! 6 = fmt_int (dEpoch d)"
    "print_fields d ! 7 = (if dConnected d then RedisLinkStateConnected else RedisLinkStateDisconnected)"
    "drop 8 (print_fields d) = map print_item (dItems d)"
    by (simp_all add: print_fields_def)
  have ad: "decodeAddr addr (dIP d @ '':'' @ dPort d @ ''@'' @ dBus d) n =
     n\<lparr>IP := (if dIP d \<noteq> [] then dIP d else case SplitHostPort addr of Inl e \<Rightarrow> [] | Inr (h, p) \<Rightarrow> h), Port := dPort d\<rparr>" for n
    using assms by (intro decodeAddr_desc) (auto simp: desc_ok_def)
  have int: "ParseInt (fmt_int (dPing d)) = Inr (dPing d)" "ParseInt (fmt_int (dPong d)) = Inr (dPong d)"
    "ParseInt (fmt_int (dEpoch d)) = Inr (dEpoch d)"
    using assms by (auto simp: desc_ok_def int64_ok_def intro!: ParseInt_fmt_int)
  have items: "list_all item_ok (dItems d)" using assms by (simp add: desc_ok_def)
  show ?thesis
    unfolding decodeNode_def Let_def nth ad SetRole_closed SetFailureStatus_closed Split_flags [OF assms]
      int sum.case SetLinkStatus_closed gfold_slotField_items [OF items] desc_node_def SetReferentMaster_def
    by simp
qed

lemma decodeLine_desc:
  assumes "desc_ok d"
  shows "decodeLine grow addr (print_desc d) infos = Ret
     (if is_myself d then infos\<lparr>NINode := desc_node addr d\<rparr> else appendFriend grow (desc_node addr d) infos)"
proof -
  have "\<not> length (print_fields d) < 8" "print_fields d ! 2 = Join '','' (dFlags d)"
    by (simp_all add: print_fields_def)
  then show ?thesis
    by (simp add: decodeLine_def Split_print_desc [OF assms] decodeNode_desc [OF assms] is_myself_def Let_def)
qed

definition desc_step :: "(nat \<Rightarrow> nat \<Rightarrow> nat) \<Rightarrow> string \<Rightarrow> node_desc \<Rightarrow> NodeInfos \<Rightarrow> NodeInfos" where
  "desc_step grow addr d infos =
     (if is_myself d then infos\<lparr>NINode := desc_node addr d\<rparr> else appendFriend grow (desc_node addr d) infos)"

lemma gfold_decodeLine:
  "list_all desc_ok ds \<Longrightarrow>
   gfold (decodeLine grow addr) (map print_desc ds) infos = Ret (fold (desc_step grow addr) ds infos)"
  by (induction ds arbitrary: infos) (simp_all add: decodeLine_desc desc_step_def)

lemma fold_desc_step_NINode:
  "NINode (fold (desc_step grow addr) ds infos) =
     (case filter is_myself ds of [] \<Rightarrow> NINode infos | ms \<Rightarrow> desc_node addr (last ms))"
  by (induction ds arbitrary: infos) (auto simp: desc_step_def appendFriend_def Let_def split: list.splits)

lemma fold_desc_step_Friends:
  "Friends (fold (desc_step grow addr) ds infos) =
     Friends infos @ map (desc_node addr) (filter (\<lambda>d. \<not> is_myself d) ds)"
  by (induction ds arbitrary: infos) (auto simp: desc_step_def appendFriend_def Let_def)

text \<open>The answer of CLUSTER NODES: every line ends with a newline.\<close>

definition print_nodes :: "node_desc list \<Rightarrow> string" where
  "print_nodes ds = concat (map (\<lambda>d. print_desc d @ [CHR 0x0A]) ds)"

lemma plain_Join_space:
  "list_all plain ss \<Longrightarrow> CHR 0x0A \<notin> set (Join '' '' ss)"
  by (induction ss rule: induct_list012) (auto simp: plain_def)

lemma Split_print_nodes:
  "list_all desc_ok ds \<Longrightarrow> Split (CHR 0x0A) (print_nodes ds) = map print_desc ds @ [[]]"
proof (induction ds)
  case (Cons d ds)
  have "CHR 0x0A \<notin> set (print_desc d)"
    unfolding print_desc_def using Cons.prems
    by (intro plain_Join_space) (auto simp: list_all_iff dest: plain_fields)
  then show ?case using Cons by (simp add: print_nodes_def Split_append)
qed (simp add: print_nodes_def)

lemma DecodeNodeInfos_print:
  assumes "list_all desc_ok ds"
  shows "DecodeNodeInfos grow (print_nodes ds) addr = Ret (fold (desc_step grow addr) ds NewNodeInfos)"
proof -
  have "decodeLine grow addr [] infos = Ret infos" for infos
    by (simp add: decodeLine_def)
  then show ?thesis
    by (simp add: DecodeNodeInfos_def Split_print_nodes [OF assms] gfold_append gfold_decodeLine [OF assms])
qed

end
