(* ===== verification/Connections.thy ===== *)
theory Connections
  imports Cluster_Infos
begin

text \<open>
  The pool of admin connections: \<open>src/pkg/redisutil/connections.go\<close> and \<open>client.go\<close>.

  Redis, the radix client library and the network are outside the program. A call to them is
  an \<open>event\<close>; the events so far are the \<open>trace\<close>; an environment \<open>env\<close> says how each call is
  answered, as a function of the trace, so that any behaviour of the outside is some
  environment. The same record carries what the language leaves open: the order of ranging
  over a map (for each loop, by name), the sort of elements that tie, the growth of arrays
  and the random numbers. \<open>'k\<close> is the type of the Kubernetes requests, which later theories
  record in the same trace.

  \<open>connect\<close>, \<open>ValidateResp\<close>, \<open>handleError\<close>, \<open>Reconnect\<close>, \<open>Add\<close> and \<open>Update\<close> call each other
  without bound when a client name is set and every CLIENT SETNAME times out:
  \<open>connectLoop\<close> is that recursion, with \<open>None\<close> for a call that never returns, and
  \<open>connect_eq\<close> shows that \<open>connect\<close> satisfies the equation of the source.
\<close>

section \<open>The outside\<close>

record Resp =
  Err :: "go_error option"
  Str :: "go_error + string"
  RList :: "go_error + string list"
  RMap :: "go_error + (string, string) gomap"

datatype 'k event =
    EDial string
  | ECmd nat string "string list"
  | EPipeAppend nat string "string list"
  | EPipeResp nat
  | EPipeClear nat
  | EClose nat
  | ERand nat
  | ESleep int
  | EKube 'k

record 'k env =
  dial :: "'k event list \<Rightarrow> string \<Rightarrow> go_error option"
  reply :: "'k event list \<Rightarrow> nat \<Rightarrow> string \<Rightarrow> string list \<Rightarrow> Resp option"
  pipeReply :: "'k event list \<Rightarrow> nat \<Rightarrow> Resp option"
  rangeOrd :: "'k event list \<Rightarrow> string \<Rightarrow> string list \<Rightarrow> string list"
  rangeMoves :: "'k event list \<Rightarrow> (nat option \<times> nat) list \<Rightarrow> (nat option \<times> nat) list"
  randIntn :: "'k event list \<Rightarrow> nat \<Rightarrow> nat"
  sortRefs :: "(nat \<Rightarrow> nat \<Rightarrow> bool) \<Rightarrow> nat list \<Rightarrow> nat list"
  growSlice :: "nat \<Rightarrow> nat \<Rightarrow> nat"
  osFiles :: "string \<Rightarrow> string option"

section \<open>client.go\<close>

record Client =
  CCommandsMapping :: "(string, string) gomap"
  Conn :: nat

record AdminConnections =
  clients :: "(string, Client) gomap"
  connectionTimeout :: int
  commandsMapping :: "(string, string) gomap"
  clientName :: string
  password :: string

record 'k net =
  cnx :: AdminConnections
  trace :: "'k event list"

definition emit :: "'k event \<Rightarrow> 'k net \<Rightarrow> 'k net" where
  "emit e s = s\<lparr>trace := trace s @ [e]\<rparr>"

definition getCommand :: "Client \<Rightarrow> string \<Rightarrow> string" where
  "getCommand c cmd =
     (let upperCmd = ToUpper cmd in
      case mget (CCommandsMapping c) upperCmd of Some renamed \<Rightarrow> renamed | None \<Rightarrow> upperCmd)"

definition Cmd :: "'k env \<Rightarrow> Client \<Rightarrow> string \<Rightarrow> string list \<Rightarrow> 'k net \<Rightarrow> Resp option \<times> 'k net" where
  "Cmd env c cmd args s =
     (reply env (trace s) (Conn c) (getCommand c cmd) args, emit (ECmd (Conn c) (getCommand c cmd) args) s)"

definition PipeAppend :: "Client \<Rightarrow> string \<Rightarrow> string list \<Rightarrow> 'k net \<Rightarrow> 'k net" where
  "PipeAppend c cmd args s = emit (EPipeAppend (Conn c) (getCommand c cmd) args) s"

definition PipeResp :: "'k env \<Rightarrow> Client \<Rightarrow> 'k net \<Rightarrow> Resp option \<times> 'k net" where
  "PipeResp env c s = (pipeReply env (trace s) (Conn c), emit (EPipeResp (Conn c)) s)"

definition PipeClear :: "Client \<Rightarrow> 'k net \<Rightarrow> 'k net" where
  "PipeClear c s = emit (EPipeClear (Conn c)) s"

definition Client_Close :: "Client \<Rightarrow> 'k net \<Rightarrow> 'k net" where
  "Client_Close c s = emit (EClose (Conn c)) s"

text \<open>A connection is named by the position of its dial in the trace. AUTH is sent unrenamed.\<close>

definition NewClient ::
    "'k env \<Rightarrow> string \<Rightarrow> string \<Rightarrow> (string, string) gomap \<Rightarrow> 'k net \<Rightarrow> ((go_error + Client) \<times> 'k net) go" where
  "NewClient env addr pw mapping s =
     (let c = \<lparr>CCommandsMapping = mapping, Conn = length (trace s)\<rparr> in
      case dial env (trace s) addr of
        Some e \<Rightarrow> Ret (Inl e, emit (EDial addr) s)
      | None \<Rightarrow>
          let s = emit (EDial addr) s in
          if pw \<noteq> [] then
            (case reply env (trace s) (Conn c) ''AUTH'' [pw] of
               None \<Rightarrow> Panic ''nil pointer dereference''
             | Some r \<Rightarrow>
                 let s = emit (ECmd (Conn c) ''AUTH'' [pw]) s in
                 case Err r of Some e \<Rightarrow> Ret (Inl e, s) | None \<Rightarrow> Ret (Inr c, s))
          else Ret (Inr c, s))"

section \<open>connections.go\<close>

text \<open>Durations are in nanoseconds.\<close>

definition defaultClientTimeout :: int where "defaultClientTimeout = 2000000000"

definition setClients :: "(string, Client) gomap \<Rightarrow> 'k net \<Rightarrow> 'k net" where
  "setClients m s = s\<lparr>cnx := (cnx s)\<lparr>clients := m\<rparr>\<rparr>"

definition GetAUTH :: "AdminConnections \<Rightarrow> string \<times> bool" where
  "GetAUTH c = (if length (password c) > 0 then (password c, True) else ([], False))"

definition Remove :: "string \<Rightarrow> 'k net \<Rightarrow> 'k net" where
  "Remove addr s =
     (case mget (clients (cnx s)) addr of
        None \<Rightarrow> s
      | Some c \<Rightarrow> (let s = Client_Close c s in setClients (mdel addr (clients (cnx s))) s))"

text \<open>The two ends of \<open>Update\<close>, around its call of \<open>connect\<close>.\<close>

definition closeCurrent :: "string \<Rightarrow> 'k net \<Rightarrow> 'k net" where
  "closeCurrent addr s =
     (case mget (clients (cnx s)) addr of None \<Rightarrow> s | Some c \<Rightarrow> Client_Close c s)"

type_synonym connected = "Client option \<times> go_error option"

fun register :: "string \<Rightarrow> connected \<Rightarrow> 'k net \<Rightarrow> 'k net" where
  "register addr (Some c, None) s = setClients (mput addr c (clients (cnx s))) s"
| "register addr _ s = s"

text \<open>The errors \<open>handleError\<close> reconnects on: a timeout, or any \<open>*net.OpError\<close>.\<close>

fun isNetError :: "go_error \<Rightarrow> bool" where
  "isNetError (NetTimeout _) = True"
| "isNetError (NetOpError _) = True"
| "isNetError _ = False"

definition respMissing :: "string \<Rightarrow> string \<Rightarrow> go_error" where
  "respMissing msg addr = ErrText (msg @ '': unable to connect to node '' @ addr)"

definition respFailed :: "string \<Rightarrow> string \<Rightarrow> go_error \<Rightarrow> go_error" where
  "respFailed msg addr e = ErrWith (msg @ '': unexpected error on node '' @ addr @ '': '') e"

definition setNameMsg :: string where
  "setNameMsg = ''Unable to run command CLIENT SETNAME''"

partial_function (option) connectLoop ::
    "'k env \<Rightarrow> string \<Rightarrow> 'k net \<Rightarrow> (connected \<times> 'k net) go option" where
  "connectLoop env addr s =
     (case NewClient env addr (password (cnx s)) (commandsMapping (cnx s)) s of
        Panic m \<Rightarrow> Some (Panic m)
      | Hang \<Rightarrow> Some Hang
      | Ret r \<Rightarrow>
          (case fst r of
             Inl e \<Rightarrow> Some (Ret ((None, Some e), snd r))
           | Inr c \<Rightarrow>
               if clientName (cnx (snd r)) = [] then Some (Ret ((Some c, None), snd r))
               else (let q = Cmd env c ''CLIENT'' [''SETNAME'', clientName (cnx (snd r))] (snd r) in
                 case fst q of
                   None \<Rightarrow> Some (Ret ((Some c, Some (respMissing setNameMsg addr)), snd q))
                 | Some resp \<Rightarrow>
                     (case Err resp of
                        None \<Rightarrow> Some (Ret ((Some c, None), snd q))
                      | Some e \<Rightarrow>
                          if isNetError e then
                            Option.bind (connectLoop env addr (closeCurrent addr (Remove addr (snd q))))
                              (\<lambda>g. Some (gbind g (\<lambda>p. Ret
                                 ((Some c, Some (respFailed setNameMsg addr e)), register addr (fst p) (snd p)))))
                          else Some (Ret ((Some c, Some (respFailed setNameMsg addr e)), snd q))))))"

definition connect :: "'k env \<Rightarrow> string \<Rightarrow> 'k net \<Rightarrow> (connected \<times> 'k net) go" where
  "connect env addr s = of_loop (connectLoop env addr s)"

definition Update :: "'k env \<Rightarrow> string \<Rightarrow> 'k net \<Rightarrow> (connected \<times> 'k net) go" where
  "Update env addr s =
     gbind (connect env addr (closeCurrent addr s)) (\<lambda>(r, s). Ret (r, register addr r s))"

definition Add :: "'k env \<Rightarrow> string \<Rightarrow> 'k net \<Rightarrow> (go_error option \<times> 'k net) go" where
  "Add env addr s = gbind (Update env addr s) (\<lambda>(r, s). Ret (snd r, s))"

definition Reconnect :: "'k env \<Rightarrow> string \<Rightarrow> 'k net \<Rightarrow> (go_error option \<times> 'k net) go" where
  "Reconnect env addr s = Add env addr (Remove addr s)"

definition AddAll :: "'k env \<Rightarrow> string list \<Rightarrow> 'k net \<Rightarrow> 'k net go" where
  "AddAll env addrs s = gfold (\<lambda>addr s. gbind (Add env addr s) (\<lambda>(e, s). Ret s)) addrs s"

definition closeAll :: "'k env \<Rightarrow> string \<Rightarrow> 'k net \<Rightarrow> 'k net" where
  "closeAll env site s =
     fold (\<lambda>a s. case mget (clients (cnx s)) a of None \<Rightarrow> s | Some c \<Rightarrow> Client_Close c s)
       (rangeOrd env (trace s) site (mkeys (clients (cnx s)))) s"

definition Reset :: "'k env \<Rightarrow> 'k net \<Rightarrow> 'k net" where
  "Reset env s = setClients [] (closeAll env ''Reset'' s)"

definition Connections_Close :: "'k env \<Rightarrow> 'k net \<Rightarrow> 'k net" where
  "Connections_Close env s = closeAll env ''Close'' s"

definition ReplaceAll :: "'k env \<Rightarrow> string list \<Rightarrow> 'k net \<Rightarrow> 'k net go" where
  "ReplaceAll env addrs s = AddAll env addrs (Reset env s)"

definition GetAll :: "'k net \<Rightarrow> (string, Client) gomap" where
  "GetAll s = clients (cnx s)"

definition GetSelected :: "string list \<Rightarrow> 'k net \<Rightarrow> (string, Client) gomap" where
  "GetSelected addrs s =
     fold (\<lambda>addr sel. case mget (clients (cnx s)) addr of Some c \<Rightarrow> mput addr c sel | None \<Rightarrow> sel) addrs []"

definition Get :: "'k env \<Rightarrow> string \<Rightarrow> 'k net \<Rightarrow> (connected \<times> 'k net) go" where
  "Get env addr s =
     (case mget (clients (cnx s)) addr of
        Some c \<Rightarrow> Ret ((Some c, None), s)
      | None \<Rightarrow> gbind (connect env addr s) (\<lambda>(r, s). Ret (r, register addr r s)))"

definition handleError :: "'k env \<Rightarrow> string \<Rightarrow> go_error option \<Rightarrow> 'k net \<Rightarrow> (bool \<times> 'k net) go" where
  "handleError env addr err s =
     (case err of
        None \<Rightarrow> Ret (False, s)
      | Some e \<Rightarrow> if isNetError e then gbind (Reconnect env addr s) (\<lambda>(_, s). Ret (True, s))
                 else Ret (False, s))"

definition ValidateResp ::
    "'k env \<Rightarrow> Resp option \<Rightarrow> string \<Rightarrow> string \<Rightarrow> 'k net \<Rightarrow> (go_error option \<times> 'k net) go" where
  "ValidateResp env resp addr errMessage s =
     (case resp of
        None \<Rightarrow> Ret (Some (respMissing errMessage addr), s)
      | Some r \<Rightarrow>
          (case Err r of
             Some e \<Rightarrow>
               gbind (handleError env addr (Some e) s) (\<lambda>(_, s). Ret (Some (respFailed errMessage addr e), s))
           | None \<Rightarrow> Ret (None, s)))"

partial_function (option) validatePipeLoop ::
    "'k env \<Rightarrow> Client \<Rightarrow> string \<Rightarrow> bool \<Rightarrow> 'k net \<Rightarrow> (bool \<times> 'k net) go option" where
  "validatePipeLoop env c addr ok s =
     (case PipeResp env c s of (resp, s) \<Rightarrow>
        (case resp of
           None \<Rightarrow> Some (Ret (False, s))
         | Some r \<Rightarrow>
             (case Err r of
                None \<Rightarrow> validatePipeLoop env c addr ok s
              | Some e \<Rightarrow>
                  if e = ErrPipelineEmpty then Some (Ret (ok, s))
                  else (case handleError env addr (Some e) s of
                          Panic m \<Rightarrow> Some (Panic m)
                        | Hang \<Rightarrow> Some Hang
                        | Ret q \<Rightarrow> if fst q then Some (Ret (False, snd q))
                                  else validatePipeLoop env c addr False (snd q)))))"

definition ValidatePipeResp :: "'k env \<Rightarrow> Client \<Rightarrow> string \<Rightarrow> 'k net \<Rightarrow> (bool \<times> 'k net) go" where
  "ValidatePipeResp env c addr s = of_loop (validatePipeLoop env c addr True s)"

text \<open>\<open>randNumber\<close> counts down while ranging over the clients.\<close>

definition ErrNotFound :: go_error where
  "ErrNotFound = ErrText ''unable to find a node to connect''"

definition getRandomKeyClient ::
    "'k env \<Rightarrow> 'k net \<Rightarrow> (go_error + (string \<times> Client)) \<times> 'k net" where
  "getRandomKeyClient env s =
     (let nbClient = length (clients (cnx s)) in
      if nbClient = 0 then (Inl ErrNotFound, s)
      else let randNumber = randIntn env (trace s) nbClient;
               s = emit (ERand nbClient) s;
               ks = rangeOrd env (trace s) ''getRandomKeyClient'' (mkeys (clients (cnx s)))
           in if randNumber < length ks
              then (case mget (clients (cnx s)) (ks ! randNumber) of
                      Some c \<Rightarrow> (Inr (ks ! randNumber, c), s) | None \<Rightarrow> (Inl ErrNotFound, s))
              else (Inl ErrNotFound, s))"

definition GetRandom :: "'k env \<Rightarrow> 'k net \<Rightarrow> (go_error + Client) \<times> 'k net" where
  "GetRandom env s =
     (case getRandomKeyClient env s of (Inl e, s) \<Rightarrow> (Inl e, s) | (Inr (a, c), s) \<Rightarrow> (Inr c, s))"

partial_function (option) differentLoop ::
    "'k env \<Rightarrow> string \<Rightarrow> 'k net \<Rightarrow> ((go_error + Client) \<times> 'k net) option" where
  "differentLoop env addr s =
     (case getRandomKeyClient env s of (r, s) \<Rightarrow>
        (case r of
           Inl e \<Rightarrow> Some (Inl e, s)
         | Inr p \<Rightarrow> if fst p \<noteq> addr then Some (Inr (snd p), s) else differentLoop env addr s))"

definition GetDifferentFrom :: "'k env \<Rightarrow> string \<Rightarrow> 'k net \<Rightarrow> ((go_error + Client) \<times> 'k net) go" where
  "GetDifferentFrom env addr s =
     (case clients (cnx s) of
        [(a, c)] \<Rightarrow> if a \<noteq> addr then Ret (Inr c, s) else Ret (Inl ErrNotFound, s)
      | _ \<Rightarrow> (case differentLoop env addr s of None \<Rightarrow> Hang | Some r \<Rightarrow> Ret r))"

record AdminOptions =
  ConnectionTimeout :: int
  ClientName :: string
  RenameCommandsFile :: string
  Password :: string

text \<open>\<open>os.Stat\<close> of the renaming file succeeds when the file exists.\<close>

definition NewAdminConnections ::
    "'k env \<Rightarrow> string list \<Rightarrow> AdminOptions option \<Rightarrow> 'k event list \<Rightarrow> 'k net go" where
  "NewAdminConnections env addrs options tr =
     (let c = \<lparr>clients = [], connectionTimeout = defaultClientTimeout, commandsMapping = [],
               clientName = [], password = []\<rparr>;
          c = (case options of
                 None \<Rightarrow> c
               | Some o1 \<Rightarrow>
                   let c = (if ConnectionTimeout o1 \<noteq> 0 then c\<lparr>connectionTimeout := ConnectionTimeout o1\<rparr> else c);
                       c = (if osFiles env (RenameCommandsFile o1) \<noteq> None
                            then c\<lparr>commandsMapping := BuildCommandReplaceMapping (osFiles env) (RenameCommandsFile o1)\<rparr>
                            else c)
                   in c\<lparr>clientName := ClientName o1, password := Password o1\<rparr>)
      in AddAll env addrs \<lparr>cnx = c, trace = tr\<rparr>)"

section \<open>Lemmas\<close>

lemma emit_simps [simp]: "cnx (emit e s) = cnx s" "trace (emit e s) = trace s @ [e]"
  by (simp_all add: emit_def)

lemma setClients_simps [simp]:
  "clients (cnx (setClients m s)) = m" "trace (setClients m s) = trace s"
  "clientName (cnx (setClients m s)) = clientName (cnx s)"
  "password (cnx (setClients m s)) = password (cnx s)"
  "commandsMapping (cnx (setClients m s)) = commandsMapping (cnx s)"
  by (simp_all add: setClients_def)

lemma connect_eq:
  "connect env addr s =
     gbind (NewClient env addr (password (cnx s)) (commandsMapping (cnx s)) s) (\<lambda>(r, s).
       case r of
         Inl e \<Rightarrow> Ret ((None, Some e), s)
       | Inr c \<Rightarrow>
           if clientName (cnx s) \<noteq> [] then
             (let (resp, s) = Cmd env c ''CLIENT'' [''SETNAME'', clientName (cnx s)] s
              in gbind (ValidateResp env resp addr setNameMsg s) (\<lambda>(e, s). Ret ((Some c, e), s)))
           else Ret ((Some c, None), s))"
proof -
  have rec: "of_loop (Option.bind (connectLoop env addr t)
       (\<lambda>g. Some (gbind g (\<lambda>p. Ret (f, register addr (fst p) (snd p)))))) =
     gbind (connect env addr t) (\<lambda>(r, s). Ret (f, register addr r s))" for t f
    by (cases "connectLoop env addr t") (auto simp: connect_def case_prod_unfold)
  show ?thesis
    unfolding connect_def [of env addr s]
    by (subst connectLoop.simps)
      (auto simp: rec ValidateResp_def handleError_def Reconnect_def Add_def Update_def gbind_assoc
        case_prod_unfold Let_def split: go.splits sum.splits option.splits)
qed

lemma NewClient_cnx: "NewClient env addr pw mapping s = Ret (r, s') \<Longrightarrow> cnx s' = cnx s"
  by (auto simp: NewClient_def Let_def split: option.splits if_splits)

lemma connect_no_name:
  "clientName (cnx s) = [] \<Longrightarrow>
   connect env addr s =
     gbind (NewClient env addr (password (cnx s)) (commandsMapping (cnx s)) s) (\<lambda>(r, s).
       case r of Inl e \<Rightarrow> Ret ((None, Some e), s) | Inr c \<Rightarrow> Ret ((Some c, None), s))"
  unfolding connect_eq
  by (cases "NewClient env addr (password (cnx s)) (commandsMapping (cnx s)) s")
    (auto dest: NewClient_cnx split: sum.splits)

lemma ValidateResp_None_iff:
  "ValidateResp env resp addr msg s = Ret (None, s') \<longleftrightarrow> (\<exists>r. resp = Some r \<and> Err r = None) \<and> s' = s"
  by (auto simp: ValidateResp_def gbind_Ret_iff split: option.splits)

section \<open>Open connections\<close>

text \<open>
  A connection is open while it has not been closed since its dial. The pool is open when every
  client in it has an open connection, dialled to the address the client is registered under,
  and uses the renamed commands of the pool.
\<close>

definition is_open :: "'k net \<Rightarrow> Client \<Rightarrow> bool" where
  "is_open s c \<longleftrightarrow> EClose (Conn c) \<notin> set (drop (Conn c) (trace s))"

definition open_to :: "'k net \<Rightarrow> string \<Rightarrow> Client \<Rightarrow> bool" where
  "open_to s addr c \<longleftrightarrow> Conn c < length (trace s) \<and> trace s ! Conn c = EDial addr \<and> is_open s c \<and>
     CCommandsMapping c = commandsMapping (cnx s)"

definition pool_open :: "'k net \<Rightarrow> bool" where
  "pool_open s \<longleftrightarrow> wf_map (clients (cnx s)) \<and> (\<forall>a c. mget (clients (cnx s)) a = Some c \<longrightarrow> open_to s a c)"

text \<open>
  Calls only add events and leave the settings of the pool alone (\<open>grows\<close>). A call on \<open>addr\<close> that
  keeps the pool open also leaves the other addresses as they were.
\<close>

definition settings :: "AdminConnections \<Rightarrow> int \<times> (string, string) gomap \<times> string \<times> string" where
  "settings c = (connectionTimeout c, commandsMapping c, clientName c, password c)"

definition grows :: "'k net \<Rightarrow> 'k net \<Rightarrow> bool" where
  "grows s s' \<longleftrightarrow> (\<exists>es. trace s' = trace s @ es) \<and> settings (cnx s') = settings (cnx s)"

lemma grows_refl [simp]: "grows s s"
  by (simp add: grows_def)

lemma grows_trans [trans]: "grows s t \<Longrightarrow> grows t u \<Longrightarrow> grows s u"
  by (auto simp: grows_def)

lemma grows_emit [simp]: "grows s (emit e s)"
  by (simp add: grows_def)

lemma grows_setClients [simp]: "grows s (setClients m t) \<longleftrightarrow> grows s t"
  by (simp add: grows_def settings_def setClients_def)

definition keeps_open :: "string \<Rightarrow> 'k net \<Rightarrow> 'k net \<Rightarrow> bool" where
  "keeps_open addr s s' \<longleftrightarrow> grows s s' \<and> (pool_open s \<longrightarrow> pool_open s') \<and>
     (\<forall>a. a \<noteq> addr \<longrightarrow> mget (clients (cnx s')) a = mget (clients (cnx s)) a)"

lemma keeps_open_refl [simp]: "keeps_open addr s s"
  by (simp add: keeps_open_def)

lemma keeps_open_trans [trans]: "keeps_open addr s t \<Longrightarrow> keeps_open addr t u \<Longrightarrow> keeps_open addr s u"
  using grows_trans [of s t u] by (simp add: keeps_open_def)

lemma keeps_open_grows: "keeps_open addr s s' \<Longrightarrow> grows s s'"
  by (simp add: keeps_open_def)

lemma open_to_emit: "open_to s a c \<Longrightarrow> e \<noteq> EClose (Conn c) \<Longrightarrow> open_to (emit e s) a c"
  by (auto simp: open_to_def is_open_def nth_append)

lemma keeps_open_emit: "(\<And>n. e \<noteq> EClose n) \<Longrightarrow> keeps_open addr s (emit e s)"
  by (auto simp: keeps_open_def pool_open_def intro: open_to_emit)

lemma keeps_open_Cmd: "keeps_open addr s (snd (Cmd env c cmd args s))"
  by (auto simp: Cmd_def intro: keeps_open_emit)

lemma open_to_setClients [simp]: "open_to (setClients m s) a c = open_to s a c"
  by (simp add: open_to_def is_open_def)

text \<open>Two addresses have different connections, so closing one leaves the others open.\<close>

lemma keeps_open_Remove: "keeps_open addr s (Remove addr s)"
proof (cases "mget (clients (cnx s)) addr")
  case (Some c)
  have "open_to (emit (EClose (Conn c)) s) a d"
    if o: "pool_open s" and "a \<noteq> addr" and d: "mget (clients (cnx s)) a = Some d" for a d
  proof -
    have "trace s ! Conn c = EDial addr" "trace s ! Conn d = EDial a"
      using o Some d by (auto simp: pool_open_def open_to_def)
    then have "Conn c \<noteq> Conn d" using that(2) by auto
    then show ?thesis using o d by (auto simp: pool_open_def intro: open_to_emit)
  qed
  then show ?thesis using Some
    by (auto simp: Remove_def Client_Close_def keeps_open_def pool_open_def split: if_splits)
qed (simp add: Remove_def)

lemma Remove_gone [simp]: "mget (clients (cnx (Remove addr s))) addr = None"
  by (simp add: Remove_def Let_def split: option.splits)

lemma closeCurrent_absent: "mget (clients (cnx s)) addr = None \<Longrightarrow> closeCurrent addr s = s"
  by (simp add: closeCurrent_def)

lemma keeps_open_register:
  "open_to s addr c \<Longrightarrow> keeps_open addr s (register addr (Some c, None) s)"
  by (auto simp: keeps_open_def pool_open_def)

lemma NewClient_opens:
  assumes "NewClient env addr pw mapping s = Ret (r, s')"
  shows "keeps_open addr s s'" and "r = Inr c \<Longrightarrow> mapping = commandsMapping (cnx s) \<Longrightarrow> open_to s' addr c"
proof -
  have k: "keeps_open addr s (emit (ECmd n x y) (emit (EDial addr) s))" for n x y
    by (rule keeps_open_trans [OF keeps_open_emit keeps_open_emit]) auto
  show "keeps_open addr s s'"
    using assms k by (auto simp: NewClient_def Let_def intro: keeps_open_emit split: option.splits if_splits)
  show "r = Inr c \<Longrightarrow> mapping = commandsMapping (cnx s) \<Longrightarrow> open_to s' addr c"
    using assms by (auto simp: NewClient_def Let_def open_to_def is_open_def nth_append
        split: option.splits if_splits)
qed

definition connects_open :: "string \<Rightarrow> 'k net \<Rightarrow> connected \<Rightarrow> 'k net \<Rightarrow> bool" where
  "connects_open addr s r s' \<longleftrightarrow> keeps_open addr s s' \<and> (snd r = None \<longrightarrow> (\<exists>c. fst r = Some c \<and> open_to s' addr c))"

lemma keeps_open_registered:
  assumes "connects_open addr s r s'"
  shows "keeps_open addr s (register addr r s')"
    and "snd r = None \<Longrightarrow> fst r \<noteq> None \<and> mget (clients (cnx (register addr r s'))) addr = fst r"
proof -
  have r: "snd r \<noteq> None \<or> (\<exists>c. r = (Some c, None) \<and> open_to s' addr c)"
    using assms by (cases r) (auto simp: connects_open_def)
  have k: "keeps_open addr s s'" using assms by (simp add: connects_open_def)
  have "register addr r s' = s'" if "snd r \<noteq> None"
    using that by (cases "(addr, r, s')" rule: register.cases) auto
  then show "keeps_open addr s (register addr r s')"
    using r keeps_open_trans [OF k keeps_open_register] k by auto
  show "snd r = None \<Longrightarrow> fst r \<noteq> None \<and> mget (clients (cnx (register addr r s'))) addr = fst r"
    using r by auto
qed

lemma connectLoop_opens:
  assumes "connectLoop env addr s = Some g"
  shows "\<forall>r s'. g = Ret (r, s') \<longrightarrow> connects_open addr s r s'"
proof (rule connectLoop.raw_induct [where P = "\<lambda>env addr s g. \<forall>r s'. g = Ret (r, s') \<longrightarrow>
      connects_open addr s r s'", OF _ assms], intro allI impI, goal_cases)
  case (1 f env addr s g r s')
  note IH = 1(1) and eq = 1(2) and g = 1(3)
  from eq g obtain x t where n: "NewClient env addr (password (cnx s)) (commandsMapping (cnx s)) s = Ret (x, t)"
    by (auto split: go.splits)
  note no = NewClient_opens [OF n]
  show ?case
  proof (cases x)
    case (Inl e)
    then show ?thesis using eq g n no(1) by (auto simp: connects_open_def)
  next
    case (Inr c)
    let ?q = "Cmd env c ''CLIENT'' [''SETNAME'', clientName (cnx t)] t"
    have ot: "open_to t addr c" using no(2) Inr by simp
    then have oq: "open_to (snd ?q) addr c" by (auto simp: Cmd_def intro: open_to_emit)
    have kq: "keeps_open addr s (snd ?q)" by (rule keeps_open_trans [OF no(1) keeps_open_Cmd])
    show ?thesis
    proof (cases "s' = t \<or> s' = snd ?q")
      case True
      have "fst r = Some c" using eq g n Inr
        by (auto simp: Let_def gbind_Ret_iff split: if_splits option.splits bind_splits)
      then show ?thesis using True no(1) kq ot oq by (auto simp: connects_open_def)
    next
      case False
      let ?r = "Remove addr (snd ?q)"
      from eq g n Inr False obtain p e where
        p: "f env addr ?r = Some (Ret p)"
        and r: "r = (Some c, Some (respFailed setNameMsg addr e))" "s' = register addr (fst p) (snd p)"
        by (auto simp: Let_def gbind_Ret_iff closeCurrent_absent split: if_splits option.splits bind_splits)
      have "connects_open addr ?r (fst p) (snd p)" using IH [OF p] by (cases p) simp
      then have "keeps_open addr ?r s'" unfolding r(2) by (rule keeps_open_registered(1))
      then have "keeps_open addr s s'"
        using keeps_open_trans [OF keeps_open_trans [OF kq keeps_open_Remove]] by blast
      then show ?thesis using r(1) by (simp add: connects_open_def)
    qed
  qed
qed

lemma connect_opens: "connect env addr s = Ret (r, s') \<Longrightarrow> connects_open addr s r s'"
  using connectLoop_opens [of env addr s] by (cases "connectLoop env addr s"; cases r) (auto simp: connect_def)

lemma Get_opens:
  assumes "Get env addr s = Ret (r, s')"
  shows "keeps_open addr s s'"
    and "snd r = None \<Longrightarrow> fst r \<noteq> None \<and> mget (clients (cnx s')) addr = fst r"
proof -
  have "keeps_open addr s s' \<and> (snd r = None \<longrightarrow> fst r \<noteq> None \<and> mget (clients (cnx s')) addr = fst r)"
  proof (cases "mget (clients (cnx s)) addr")
    case None
    then obtain t where t: "connect env addr s = Ret (r, t)" "s' = register addr r t"
      using assms by (auto simp: Get_def gbind_Ret_iff)
    show ?thesis unfolding t(2) using keeps_open_registered [OF connect_opens [OF t(1)]] by blast
  next
    case (Some c)
    then show ?thesis using assms by (auto simp: Get_def)
  qed
  then show "keeps_open addr s s'"
    and "snd r = None \<Longrightarrow> fst r \<noteq> None \<and> mget (clients (cnx s')) addr = fst r" by blast+
qed

text \<open>
  \<open>Update\<close> keeps the pool open only at an address that is not registered: it closes what is
  registered first, and where the new connection fails the closed client stays, and \<open>Get\<close> returns
  it as good.
\<close>

lemma Add_opens:
  assumes "Add env addr s = Ret (e, s')" "mget (clients (cnx s)) addr = None"
  shows "keeps_open addr s s'"
proof -
  obtain r t where t: "connect env addr s = Ret (r, t)" "s' = register addr r t"
    using assms by (auto simp: Add_def Update_def gbind_Ret_iff closeCurrent_absent)
  show ?thesis unfolding t(2) by (rule keeps_open_registered(1) [OF connect_opens [OF t(1)]])
qed

lemma failed_Update_leaves_closed:
  assumes c: "mget (clients (cnx s)) addr = Some c" "Conn c < length (trace s)"
    and e: "dial env (trace s @ [EClose (Conn c)]) addr = Some e"
  shows "\<exists>s'. Update env addr s = Ret ((None, Some e), s') \<and> Get env addr s' = Ret ((Some c, None), s') \<and> \<not> is_open s' c"
proof -
  let ?s = "emit (EDial addr) (emit (EClose (Conn c)) s)"
  have "Update env addr s = Ret ((None, Some e), ?s)"
    using c(1) e by (simp add: Update_def closeCurrent_def Client_Close_def connect_eq NewClient_def Let_def)
  moreover have "Get env addr ?s = Ret ((Some c, None), ?s)" using c(1) by (simp add: Get_def)
  moreover have "\<not> is_open ?s c" using c(2) by (simp add: is_open_def)
  ultimately show ?thesis by blast
qed

lemma Reconnect_opens: "Reconnect env addr s = Ret (e, s') \<Longrightarrow> keeps_open addr s s'"
  unfolding Reconnect_def using keeps_open_trans [OF keeps_open_Remove Add_opens] by simp

lemma handleError_opens: "handleError env addr err s = Ret (b, s') \<Longrightarrow> keeps_open addr s s'"
  by (auto simp: handleError_def gbind_Ret_iff split: option.splits if_splits dest: Reconnect_opens)

lemma ValidateResp_opens: "ValidateResp env resp addr msg s = Ret (e, s') \<Longrightarrow> keeps_open addr s s'"
  by (auto simp: ValidateResp_def gbind_Ret_iff split: option.splits dest: handleError_opens)

text \<open>
  The contract of the pool's operations, and what follows for the operations built from them: a
  client may be added only where there is none.
\<close>

locale conn_pool =
  fixes good :: "'s \<Rightarrow> bool"
    and absent :: "'a \<Rightarrow> 's \<Rightarrow> bool"
    and add :: "'a \<Rightarrow> 's \<Rightarrow> ('e \<times> 's) go"
    and reset :: "'s \<Rightarrow> 's"
  assumes add_good: "add a s = Ret (e, s') \<Longrightarrow> absent a s \<Longrightarrow> good s \<Longrightarrow> good s'"
    and add_other: "add a s = Ret (e, s') \<Longrightarrow> absent a s \<Longrightarrow> b \<noteq> a \<Longrightarrow> absent b s' \<longleftrightarrow> absent b s"
    and reset_good: "good (reset s)" and reset_absent: "absent a (reset s)"
begin

lemma add_all_good:
  "gfold (\<lambda>a s. gbind (add a s) (\<lambda>(e, s). Ret s)) as s = Ret s' \<Longrightarrow> distinct as \<Longrightarrow>
   \<forall>a\<in>set as. absent a s \<Longrightarrow> good s \<Longrightarrow> good s'"
proof (induction as arbitrary: s)
  case (Cons a as)
  obtain e t where t: "add a s = Ret (e, t)" "gfold (\<lambda>a s. gbind (add a s) (\<lambda>(e, s). Ret s)) as t = Ret s'"
    using Cons.prems(1) by (auto simp: gbind_Ret_iff)
  have "good t" using add_good [OF t(1)] Cons.prems(3,4) by simp
  moreover have "\<forall>b\<in>set as. absent b t" using add_other [OF t(1)] Cons.prems(2,3) by (metis distinct.simps(2) list.set_intros)
  ultimately show ?case using Cons.IH [OF t(2)] Cons.prems(2) by simp
qed simp

lemma replace_all_good:
  "gfold (\<lambda>a s. gbind (add a s) (\<lambda>(e, s). Ret s)) as (reset s) = Ret s' \<Longrightarrow> distinct as \<Longrightarrow> good s'"
  using add_all_good reset_good reset_absent by blast

end

interpretation pool: conn_pool pool_open "\<lambda>a s. mget (clients (cnx s)) a = None" "Add env" "Reset env" for env
proof unfold_locales
  show "pool_open s'" if "Add env a s = Ret (e, s')" "mget (clients (cnx s)) a = None" "pool_open s" for a s e s'
    using Add_opens [OF that(1,2)] that(3) by (simp add: keeps_open_def)
  show "mget (clients (cnx s')) b = None \<longleftrightarrow> mget (clients (cnx s)) b = None"
    if "Add env a s = Ret (e, s')" "mget (clients (cnx s)) a = None" "b \<noteq> a" for a s e s' b
    using Add_opens [OF that(1,2)] that(3) by (simp add: keeps_open_def)
qed (simp_all add: Reset_def pool_open_def)

lemma ReplaceAll_opens: "ReplaceAll env addrs s = Ret s' \<Longrightarrow> distinct addrs \<Longrightarrow> pool_open s'"
  unfolding ReplaceAll_def AddAll_def by (rule pool.replace_all_good)

lemma NewAdminConnections_opens:
  assumes "NewAdminConnections env addrs options tr = Ret s" "distinct addrs"
  shows "pool_open s"
  using assms unfolding NewAdminConnections_def Let_def AddAll_def
  by (elim pool.add_all_good) (simp_all add: pool_open_def Let_def split: option.splits)

end
