(* ===== verification/Admin.thy ===== *)
theory Admin
  imports Connections
begin

text \<open>
  The admin operations on a redis cluster: \<open>src/pkg/redisutil/admin.go\<close>. Each takes the
  environment and the state of its connections and returns its result with the new state.
  A loop over the live map of clients looks each client up when it comes to it; a client that
  a reconnection has put back is not visited a second time (the language allows either).
\<close>

definition DefaultHashMaxSlots :: Slot where "DefaultHashMaxSlots = 16383"

definition GetHashMaxSlot :: Slot where "GetHashMaxSlot = DefaultHashMaxSlots"

definition ResetHard :: string where "ResetHard = ''HARD''"

definition ResetSoft :: string where "ResetSoft = ''SOFT''"

definition NewAdmin :: "'k env \<Rightarrow> string list \<Rightarrow> AdminOptions option \<Rightarrow> 'k event list \<Rightarrow> 'k net go" where
  "NewAdmin env addrs options tr = NewAdminConnections env addrs options tr"

definition Admin_Close :: "'k env \<Rightarrow> 'k net \<Rightarrow> 'k net" where
  "Admin_Close env s = Reset env s"

text \<open>\<open>Get\<close> followed by the test of its error; a nil client with no error would be dereferenced.\<close>

definition getClient :: "'k env \<Rightarrow> string \<Rightarrow> 'k net \<Rightarrow> ((go_error + Client) \<times> 'k net) go" where
  "getClient env addr s =
     gbind (Get env addr s) (\<lambda>(r, s).
       case snd r of
         Some e \<Rightarrow> Ret (Inl e, s)
       | None \<Rightarrow> (case fst r of Some c \<Rightarrow> Ret (Inr c, s) | None \<Rightarrow> Panic ''nil pointer dereference''))"

text \<open>\<open>c.Cmd\<close> followed by \<open>ValidateResp\<close>: the error, or the response.\<close>

definition call :: "'k env \<Rightarrow> Client \<Rightarrow> string \<Rightarrow> string list \<Rightarrow> string \<Rightarrow> string \<Rightarrow> 'k net \<Rightarrow>
    ((go_error + Resp) \<times> 'k net) go" where
  "call env c cmd args addr msg s =
     (let (resp, s) = Cmd env c cmd args s in
      gbind (ValidateResp env resp addr msg s) (\<lambda>(e, s).
        case e of
          Some e \<Rightarrow> Ret (Inl e, s)
        | None \<Rightarrow> (case resp of Some r \<Rightarrow> Ret (Inr r, s) | None \<Rightarrow> Panic ''nil pointer dereference'')))"

section \<open>Cluster information\<close>

definition getInfos :: "'k env \<Rightarrow> Client \<Rightarrow> string \<Rightarrow> 'k net \<Rightarrow> ((go_error + NodeInfos) \<times> 'k net) go" where
  "getInfos env c addr s =
     gbind (call env c ''CLUSTER'' [''NODES''] addr ''unable to retrieve node info'' s) (\<lambda>(r, s).
       case r of
         Inl e \<Rightarrow> Ret (Inl e, s)
       | Inr resp \<Rightarrow>
           (case Str resp of
              Inl e \<Rightarrow> Ret (Inl (ErrWith ''wrong format from CLUSTER NODES: '' e), s)
            | Inr raw \<Rightarrow> gbind (DecodeNodeInfos (growSlice env) raw addr) (\<lambda>ni. Ret (Inr ni, s))))"

type_synonym infos_acc = "ClusterInfos \<times> (string, go_error) gomap"

fun infosLoop :: "'k env \<Rightarrow> string list \<Rightarrow> infos_acc \<Rightarrow> 'k net \<Rightarrow> (infos_acc \<times> 'k net) go" where
  "infosLoop env [] acc s = Ret (acc, s)"
| "infosLoop env (addr # addrs) (infos, errs) s =
     (case mget (clients (cnx s)) addr of
        None \<Rightarrow> infosLoop env addrs (infos, errs) s
      | Some c \<Rightarrow>
          gbind (getInfos env c addr s) (\<lambda>(r, s).
            case r of
              Inl e \<Rightarrow> infosLoop env addrs (infos\<lparr>InfosStatus := ClusterInfosPartial\<rparr>, mput addr e errs) s
            | Inr ni \<Rightarrow>
                if IPPort (NINode ni) = addr
                then infosLoop env addrs (infos\<lparr>Infos := mput addr ni (Infos infos)\<rparr>, errs) s
                else infosLoop env addrs (infos, errs) s))"

definition GetClusterInfos :: "'k env \<Rightarrow> 'k net \<Rightarrow> ((ClusterInfos \<times> go_error option) \<times> 'k net) go" where
  "GetClusterInfos env s =
     gbind (infosLoop env (rangeOrd env (trace s) ''GetClusterInfos'' (mkeys (GetAll s))) (NewClusterInfos, []) s)
       (\<lambda>((infos, errs), s).
          let (inconsistent, infos) =
                (if length errs = 0 then
                   (let (ok, infos) = ComputeStatus (sortRefs env) (rangeOrd env (trace s) ''GetNodes'')
                                        (rangeOrd env (trace s) ''ComputeStatus'') infos
                    in (\<not> ok, infos))
                 else (False, infos))
          in Ret ((infos, if InfosStatus infos = ClusterInfosConsistent then None
                          else Some (ClusterInfosError errs (length errs \<noteq> 0) inconsistent)), s))"

text \<open>
  \<open>cluster_known_nodes:([0-9]+)\<close>: the digits after the first occurrence of the name that is
  followed by a digit.
\<close>

fun knownNodesMatch :: "string \<Rightarrow> string option" where
  "knownNodesMatch [] = None"
| "knownNodesMatch (x # xs) =
     (let ds = takeWhile is_digit (drop 20 (x # xs)) in
      if HasPrefix (x # xs) ''cluster_known_nodes:'' \<and> ds \<noteq> [] then Some ds else knownNodesMatch xs)"

definition clusterKnowNodes :: "'k env \<Rightarrow> Client \<Rightarrow> string \<Rightarrow> 'k net \<Rightarrow> ((go_error + int) \<times> 'k net) go" where
  "clusterKnowNodes env c addr s =
     gbind (call env c ''CLUSTER'' [''INFO''] addr ''unable to retrieve cluster info'' s) (\<lambda>(r, s).
       case r of
         Inl e \<Rightarrow> Ret (Inl e, s)
       | Inr resp \<Rightarrow>
           (case Str resp of
              Inl e \<Rightarrow> Ret (Inl (ErrWith ''wrong format from CLUSTER INFO: '' e), s)
            | Inr raw \<Rightarrow>
                (case knownNodesMatch raw of
                   None \<Rightarrow> Ret (Inl (ErrText ''cluster_known_nodes regex not found''), s)
                 | Some ds \<Rightarrow>
                     (case ParseInt ds of
                        Inl e \<Rightarrow> Ret (Inl (NumError ''Atoi'' ds e), s)
                      | Inr n \<Rightarrow> Ret (Inr n, s)))))"

fun isEmptyLoop :: "'k env \<Rightarrow> string list \<Rightarrow> 'k net \<Rightarrow> ((bool \<times> go_error option) \<times> 'k net) go" where
  "isEmptyLoop env [] s = Ret ((True, None), s)"
| "isEmptyLoop env (addr # addrs) s =
     (case mget (clients (cnx s)) addr of
        None \<Rightarrow> isEmptyLoop env addrs s
      | Some c \<Rightarrow>
          gbind (clusterKnowNodes env c addr s) (\<lambda>(r, s).
            case r of
              Inl e \<Rightarrow> Ret ((False, Some e), s)
            | Inr n \<Rightarrow> if n \<noteq> 1 then Ret ((False, None), s) else isEmptyLoop env addrs s))"

definition ClusterManagerNodeIsEmpty :: "'k env \<Rightarrow> 'k net \<Rightarrow> ((bool \<times> go_error option) \<times> 'k net) go" where
  "ClusterManagerNodeIsEmpty env s =
     isEmptyLoop env (rangeOrd env (trace s) ''ClusterManagerNodeIsEmpty'' (mkeys (GetAll s))) s"

section \<open>Slots\<close>

definition AttachSlaveToMaster ::
    "'k env \<Rightarrow> Node \<Rightarrow> string \<Rightarrow> 'k net \<Rightarrow> ((go_error option \<times> Node) \<times> 'k net) go" where
  "AttachSlaveToMaster env slave masterID s =
     gbind (getClient env (IPPort slave) s) (\<lambda>(r, s).
       case r of
         Inl e \<Rightarrow> Ret ((Some e, slave), s)
       | Inr c \<Rightarrow>
           gbind (call env c ''CLUSTER'' [''REPLICATE'', masterID] (IPPort slave) ''unable to run command REPLICATE'' s)
             (\<lambda>(r, s).
               case r of
                 Inl e \<Rightarrow> Ret ((Some e, slave), s)
               | Inr _ \<Rightarrow> Ret ((None, snd (SetRole RedisSlaveRole (SetReferentMaster masterID slave))), s)))"

definition Admin_AddSlots :: "'k env \<Rightarrow> string \<Rightarrow> Slot list \<Rightarrow> 'k net \<Rightarrow> (go_error option \<times> 'k net) go" where
  "Admin_AddSlots env addr slots s =
     (if length slots = 0 then Ret (None, s)
      else gbind (getClient env addr s) (\<lambda>(r, s).
        case r of
          Inl e \<Rightarrow> Ret (Some e, s)
        | Inr c \<Rightarrow>
            gbind (call env c ''CLUSTER'' (''ADDSLOTS'' # map Slot_String slots) addr ''unable to run CLUSTER ADDSLOTS'' s)
              (\<lambda>(r, s). case r of Inl e \<Rightarrow> Ret (Some e, s) | Inr _ \<Rightarrow> Ret (None, s))))"

definition setSlotArgs :: "string \<Rightarrow> string \<Rightarrow> Slot \<Rightarrow> string list" where
  "setSlotArgs action nodeID slot =
     (if nodeID = [] then [''SETSLOT'', Slot_String slot, action]
      else [''SETSLOT'', Slot_String slot, action, nodeID])"

definition SetSlots ::
    "'k env \<Rightarrow> string \<Rightarrow> string \<Rightarrow> Slot list \<Rightarrow> string \<Rightarrow> 'k net \<Rightarrow> (go_error option \<times> 'k net) go" where
  "SetSlots env addr action slots nodeID s =
     (if length slots = 0 then Ret (None, s)
      else gbind (getClient env addr s) (\<lambda>(r, s).
        case r of
          Inl e \<Rightarrow> Ret (Some e, s)
        | Inr c \<Rightarrow>
            let s = fold (\<lambda>slot. PipeAppend c ''CLUSTER'' (setSlotArgs action nodeID slot)) slots s in
            gbind (ValidatePipeResp env c addr s) (\<lambda>(ok, s).
              if \<not> ok then Ret (Some (ErrText (''Error occured during CLUSTER SETSLOT '' @ action)), s)
              else Ret (None, PipeClear c s))))"

definition SetSlot ::
    "'k env \<Rightarrow> string \<Rightarrow> string \<Rightarrow> Slot \<Rightarrow> string \<Rightarrow> 'k net \<Rightarrow> (go_error option \<times> 'k net) go" where
  "SetSlot env addr action slot nodeID s =
     gbind (getClient env addr s) (\<lambda>(r, s).
       case r of
         Inl e \<Rightarrow> Ret (Some e, s)
       | Inr c \<Rightarrow>
           let s = PipeAppend c ''CLUSTER'' (setSlotArgs action nodeID slot) s in
           gbind (ValidatePipeResp env c addr s) (\<lambda>(ok, s).
             if \<not> ok then Ret (Some (ErrText (''Error occured during CLUSTER SETSLOT '' @ action)), s)
             else Ret (None, PipeClear c s)))"

fun configEpochLoop :: "'k env \<Rightarrow> string list \<Rightarrow> nat \<Rightarrow> 'k net \<Rightarrow> (go_error option \<times> 'k net) go" where
  "configEpochLoop env [] configEpoch s = Ret (None, s)"
| "configEpochLoop env (addr # addrs) configEpoch s =
     (case mget (clients (cnx s)) addr of
        None \<Rightarrow> configEpochLoop env addrs configEpoch s
      | Some c \<Rightarrow>
          gbind (call env c ''CLUSTER'' [''SET-CONFIG-EPOCH'', fmt_nat configEpoch] addr
                   ''unable to run command SET-CONFIG-EPOCH'' s)
            (\<lambda>(r, s). case r of Inl e \<Rightarrow> Ret (Some e, s)
                     | Inr _ \<Rightarrow> configEpochLoop env addrs (configEpoch + 1) s))"

definition SetConfigEpoch :: "'k env \<Rightarrow> 'k net \<Rightarrow> (go_error option \<times> 'k net) go" where
  "SetConfigEpoch env s =
     configEpochLoop env (rangeOrd env (trace s) ''SetConfigEpoch'' (mkeys (GetAll s))) 1 s"

section \<open>Joining nodes\<close>

fun meetLoop :: "'k env \<Rightarrow> string \<Rightarrow> string \<Rightarrow> string \<Rightarrow> string list \<Rightarrow> 'k net \<Rightarrow> (go_error option \<times> 'k net) go" where
  "meetLoop env addr ip port [] s = Ret (None, s)"
| "meetLoop env addr ip port (cAddr # cAddrs) s =
     (case mget (clients (cnx s)) cAddr of
        None \<Rightarrow> meetLoop env addr ip port cAddrs s
      | Some c \<Rightarrow>
          if cAddr = addr then meetLoop env addr ip port cAddrs s
          else gbind (call env c ''CLUSTER'' [''MEET'', ip, port] addr ''cannot attach node to cluster'' s)
            (\<lambda>(r, s). case r of Inl e \<Rightarrow> Ret (Some e, s) | Inr _ \<Rightarrow> meetLoop env addr ip port cAddrs s))"

definition AttachNodeToCluster :: "'k env \<Rightarrow> string \<Rightarrow> 'k net \<Rightarrow> (go_error option \<times> 'k net) go" where
  "AttachNodeToCluster env addr s =
     (case SplitHostPort addr of
        Inl e \<Rightarrow> Ret (Some (AddrError addr e), s)
      | Inr (ip, port) \<Rightarrow>
          if length (GetAll s) = 0 then Ret (Some (ErrText ''no connection for other redis-node found''), s)
          else gbind (meetLoop env addr ip port (rangeOrd env (trace s) ''AttachNodeToCluster'' (mkeys (GetAll s))) s)
            (\<lambda>(e, s). case e of
               Some e \<Rightarrow> Ret (Some e, s)
             | None \<Rightarrow> gbind (Add env addr s) (\<lambda>(_, s). Ret (None, s))))"

section \<open>Configuration\<close>

definition GetAllConfig ::
    "'k env \<Rightarrow> Client \<Rightarrow> string \<Rightarrow> 'k net \<Rightarrow> ((go_error + (string, string) gomap) \<times> 'k net) go" where
  "GetAllConfig env c addr s =
     gbind (call env c ''CONFIG'' [''GET'', ''*''] addr ''unable to retrieve config'' s) (\<lambda>(r, s).
       case r of
         Inl e \<Rightarrow> Ret (Inl e, s)
       | Inr resp \<Rightarrow>
           (case RMap resp of
              Inl e \<Rightarrow> Ret (Inl (ErrWith ''wrong format from CONFIG GET *: '' e), s)
            | Inr raw \<Rightarrow> Ret (Inr raw, s)))"

definition parseConfigMap :: "string list" where
  "parseConfigMap = [''maxmemory'', ''proto-max-bulk-len'', ''client-query-buffer-limit'',
     ''repl-backlog-size'', ''auto-aof-rewrite-min-size'', ''active-defrag-ignore-bytes'',
     ''hash-max-ziplist-entries'', ''hash-max-ziplist-value'', ''stream-node-max-bytes'',
     ''set-max-intset-entries'', ''zset-max-ziplist-entries'', ''zset-max-ziplist-value'',
     ''hll-sparse-max-bytes'']"

text \<open>The value a key is compared and set with; \<open>None\<close> when the size does not parse.\<close>

definition configValue :: "string \<Rightarrow> string \<Rightarrow> string option" where
  "configValue key val =
     (if key \<in> set parseConfigMap
      then (case ParseRedisMemConf val of Inl e \<Rightarrow> None | Inr v \<Rightarrow> Some v)
      else Some val)"

fun setConfigKeys ::
    "'k env \<Rightarrow> Client \<Rightarrow> string \<Rightarrow> (string, string) gomap \<Rightarrow> (string, string) gomap \<Rightarrow> string list \<Rightarrow> 'k net \<Rightarrow>
     (go_error option \<times> 'k net) go" where
  "setConfigKeys env c addr oldConfig newConfig [] s = Ret (None, s)"
| "setConfigKeys env c addr oldConfig newConfig (key # ks) s =
     (case configValue key (mgetd [] newConfig key) of
        None \<Rightarrow> setConfigKeys env c addr oldConfig newConfig ks s
      | Some v \<Rightarrow>
          if v \<noteq> mgetd [] oldConfig key then
            gbind (call env c ''CONFIG'' [''SET'', key, v] addr ''unable to retrieve config'' s)
              (\<lambda>(r, s). case r of Inl e \<Rightarrow> Ret (Some e, s)
                       | Inr _ \<Rightarrow> setConfigKeys env c addr oldConfig newConfig ks s)
          else setConfigKeys env c addr oldConfig newConfig ks s)"

fun setConfigLoop ::
    "'k env \<Rightarrow> (string, string) gomap \<Rightarrow> string list \<Rightarrow> 'k net \<Rightarrow> (go_error option \<times> 'k net) go" where
  "setConfigLoop env newConfig [] s = Ret (None, s)"
| "setConfigLoop env newConfig (addr # addrs) s =
     (case mget (clients (cnx s)) addr of
        None \<Rightarrow> setConfigLoop env newConfig addrs s
      | Some c \<Rightarrow>
          gbind (GetAllConfig env c addr s) (\<lambda>(r, s).
            case r of
              Inl e \<Rightarrow> Ret (Some e, s)
            | Inr oldConfig \<Rightarrow>
                gbind (setConfigKeys env c addr oldConfig newConfig
                         (rangeOrd env (trace s) ''SetConfigIfNeed.keys'' (mkeys newConfig)) s)
                  (\<lambda>(e, s). case e of Some e \<Rightarrow> Ret (Some e, s) | None \<Rightarrow> setConfigLoop env newConfig addrs s)))"

definition SetConfigIfNeed :: "'k env \<Rightarrow> (string, string) gomap \<Rightarrow> 'k net \<Rightarrow> (go_error option \<times> 'k net) go" where
  "SetConfigIfNeed env newConfig s =
     setConfigLoop env newConfig (rangeOrd env (trace s) ''SetConfigIfNeed'' (mkeys (GetAll s))) s"

section \<open>Moving keys\<close>

definition migrateCmdArgs :: "AdminConnections \<Rightarrow> Node \<Rightarrow> string \<Rightarrow> bool \<Rightarrow> string list \<Rightarrow> string list" where
  "migrateCmdArgs cn dest timeoutStr replace ks =
     [IP dest, Port dest, [], ''0'', timeoutStr]
     @ (case GetAUTH cn of (pw, ok) \<Rightarrow> if ok then [''AUTH'', pw] else [])
     @ (if replace then [''REPLACE'', ''KEYS''] else [''KEYS''])
     @ ks"

type_synonym migrated = "nat \<times> go_error option"

partial_function (option) migrateSlotLoop ::
    "'k env \<Rightarrow> Client \<Rightarrow> string \<Rightarrow> Node \<Rightarrow> string \<Rightarrow> string \<Rightarrow> bool \<Rightarrow> Slot \<Rightarrow> nat \<Rightarrow> 'k net \<Rightarrow>
     (migrated \<times> 'k net) go option" where
  "migrateSlotLoop env c addr dest batchStr timeoutStr replace slot keyCount s =
     (case call env c ''CLUSTER'' [''GETKEYSINSLOT'', Slot_String slot, batchStr] addr
             ''Unable to run command GETKEYSINSLOT'' s of
        Panic m \<Rightarrow> Some (Panic m)
      | Hang \<Rightarrow> Some Hang
      | Ret q \<Rightarrow>
          (case fst q of
             Inl e \<Rightarrow> Some (Ret ((keyCount, Some e), snd q))
           | Inr resp \<Rightarrow>
               (case RList resp of
                  Inl e \<Rightarrow> Some (Ret ((keyCount, Some e), snd q))
                | Inr ks \<Rightarrow>
                    if length ks = 0 then Some (Ret ((keyCount, None), snd q))
                    else
                      (case call env c ''MIGRATE'' (migrateCmdArgs (cnx (snd q)) dest timeoutStr replace ks) addr
                              ''Unable to run command MIGRATE'' (snd q) of
                         Panic m \<Rightarrow> Some (Panic m)
                       | Hang \<Rightarrow> Some Hang
                       | Ret p \<Rightarrow>
                           (case fst p of
                              Inl e \<Rightarrow> Some (Ret ((keyCount + length ks, Some e), snd p))
                            | Inr _ \<Rightarrow>
                                migrateSlotLoop env c addr dest batchStr timeoutStr replace slot
                                  (keyCount + length ks) (snd p))))))"

fun migrateSlots ::
    "'k env \<Rightarrow> Client \<Rightarrow> string \<Rightarrow> Node \<Rightarrow> string \<Rightarrow> string \<Rightarrow> bool \<Rightarrow> Slot list \<Rightarrow> nat \<Rightarrow> 'k net \<Rightarrow>
     (migrated \<times> 'k net) go" where
  "migrateSlots env c addr dest batchStr timeoutStr replace [] keyCount s = Ret ((keyCount, None), s)"
| "migrateSlots env c addr dest batchStr timeoutStr replace (slot # slots) keyCount s =
     gbind (of_loop (migrateSlotLoop env c addr dest batchStr timeoutStr replace slot keyCount s))
       (\<lambda>((keyCount, e), s). case e of
          Some e \<Rightarrow> Ret ((keyCount, Some e), s)
        | None \<Rightarrow> migrateSlots env c addr dest batchStr timeoutStr replace slots keyCount s)"

definition MigrateKeys ::
    "'k env \<Rightarrow> string \<Rightarrow> Node \<Rightarrow> Slot list \<Rightarrow> int \<Rightarrow> int \<Rightarrow> bool \<Rightarrow> 'k net \<Rightarrow> (migrated \<times> 'k net) go" where
  "MigrateKeys env addr dest slots batch timeout replace s =
     (if length slots = 0 then Ret ((0, None), s)
      else gbind (getClient env addr s) (\<lambda>(r, s).
        case r of
          Inl e \<Rightarrow> Ret ((0, Some e), s)
        | Inr c \<Rightarrow> migrateSlots env c addr dest (fmt_int batch) (fmt_int timeout) replace slots 0 s))"

definition MigrateKeysInSlot ::
    "'k env \<Rightarrow> string \<Rightarrow> Node \<Rightarrow> Slot \<Rightarrow> int \<Rightarrow> int \<Rightarrow> bool \<Rightarrow> 'k net \<Rightarrow> (migrated \<times> 'k net) go" where
  "MigrateKeysInSlot env addr dest slot batch timeout replace s =
     gbind (getClient env addr s) (\<lambda>(r, s).
       case r of
         Inl e \<Rightarrow> Ret ((0, Some e), s)
       | Inr c \<Rightarrow>
           of_loop (migrateSlotLoop env c addr dest (fmt_int batch) (fmt_int timeout) replace slot 0 s))"

section \<open>Forgetting, resetting\<close>

definition DetachSlave :: "'k env \<Rightarrow> Node \<Rightarrow> 'k net \<Rightarrow> ((go_error option \<times> Node) \<times> 'k net) go" where
  "DetachSlave env slave s =
     gbind (getClient env (IPPort slave) s) (\<lambda>(r, s).
       case r of
         Inl e \<Rightarrow> Ret ((Some e, slave), s)
       | Inr c \<Rightarrow>
           gbind (call env c ''CLUSTER'' [''RESET'', ''SOFT''] (IPPort slave) ''cannot attach node to cluster'' s)
             (\<lambda>(r, s).
               case r of
                 Inl e \<Rightarrow> Ret ((Some e, slave), s)
               | Inr _ \<Rightarrow>
                   gbind (AttachNodeToCluster env (IPPort slave) s) (\<lambda>(e, s).
                     case e of
                       Some e \<Rightarrow> Ret ((Some e, slave), s)
                     | None \<Rightarrow> Ret ((None, snd (SetRole RedisMasterRole (SetReferentMaster [] slave))), s))))"

fun forgetLoop :: "'k env \<Rightarrow> string \<Rightarrow> ClusterInfos \<Rightarrow> string list \<Rightarrow> 'k net \<Rightarrow> 'k net go" where
  "forgetLoop env i infos [] s = Ret s"
| "forgetLoop env i infos (nodeAddr # addrs) s =
     (case mget (Infos infos) nodeAddr of
        None \<Rightarrow> forgetLoop env i infos addrs s
      | Some ni \<Rightarrow>
          if ID (NINode ni) = i then forgetLoop env i infos addrs s
          else
            gbind (if IsSlave (NINode ni) \<and> MasterReferent (NINode ni) = i
                   then gbind (DetachSlave env (NINode ni) s) (\<lambda>(_, s). Ret s) else Ret s) (\<lambda>s.
            gbind (getClient env nodeAddr s) (\<lambda>(r, s).
              case r of
                Inl e \<Rightarrow> forgetLoop env i infos addrs s
              | Inr c \<Rightarrow>
                  gbind (call env c ''CLUSTER'' [''FORGET'', i] nodeAddr ''Unable to execute FORGET command'' s)
                    (\<lambda>(_, s). forgetLoop env i infos addrs s))))"

definition ForgetNode :: "'k env \<Rightarrow> string \<Rightarrow> 'k net \<Rightarrow> (go_error option \<times> 'k net) go" where
  "ForgetNode env i s =
     gbind (GetClusterInfos env s) (\<lambda>((infos, _), s).
       gbind (forgetLoop env i infos (rangeOrd env (trace s) ''ForgetNode'' (mkeys (Infos infos))) s)
         (\<lambda>s. Ret (None, s)))"

definition FlushAndReset :: "'k env \<Rightarrow> string \<Rightarrow> string \<Rightarrow> 'k net \<Rightarrow> (go_error option \<times> 'k net) go" where
  "FlushAndReset env addr mode s =
     gbind (getClient env addr s) (\<lambda>(r, s).
       case r of
         Inl e \<Rightarrow> Ret (Some e, s)
       | Inr c \<Rightarrow>
           let s = PipeAppend c ''FLUSHALL'' [] s;
               s = PipeAppend c ''CLUSTER'' [''RESET'', mode] s
           in gbind (ValidatePipeResp env c addr s) (\<lambda>(ok, s).
                if \<not> ok then Ret (Some (ErrText (''Cannot reset node '' @ addr)), s) else Ret (None, s)))"

fun resetPasswordLoop :: "'k env \<Rightarrow> string \<Rightarrow> string list \<Rightarrow> 'k net \<Rightarrow> (go_error option \<times> 'k net) go" where
  "resetPasswordLoop env newPassword [] s = Ret (None, s)"
| "resetPasswordLoop env newPassword (addr # addrs) s =
     (case mget (clients (cnx s)) addr of
        None \<Rightarrow> resetPasswordLoop env newPassword addrs s
      | Some c \<Rightarrow>
          gbind (call env c ''CONFIG'' [''SET'', ''masterauth'', newPassword] addr ''cannot set new masterauth'' s)
            (\<lambda>(r, s). case r of Inl e \<Rightarrow> Ret (Some e, s) | Inr _ \<Rightarrow>
              gbind (call env c ''CONFIG'' [''SET'', ''requirepass'', newPassword] addr ''cannot set new requirepass'' s)
                (\<lambda>(r, s). case r of Inl e \<Rightarrow> Ret (Some e, s)
                         | Inr _ \<Rightarrow> resetPasswordLoop env newPassword addrs s)))"

definition ResetPassword :: "'k env \<Rightarrow> string \<Rightarrow> 'k net \<Rightarrow> (go_error option \<times> 'k net) go" where
  "ResetPassword env newPassword s =
     (if length (GetAll s) = 0 then Ret (Some (ErrText ''no connection for other redis-node found''), s)
      else resetPasswordLoop env newPassword (rangeOrd env (trace s) ''ResetPassword'' (mkeys (GetAll s))) s)"

end
