(* ===== verification/Placement.thy ===== *)
theory Placement
  imports Admin
begin

text \<open>
  Which nodes become masters and which slaves: \<open>src/pkg/controller/clustering/placement.go\<close>
  (the functions that spread masters over machines), \<open>placement_v2.go\<close> (the context that
  places one master per stateful set, which the controller uses) and \<open>roles.go\<close>.

  Nodes are shared and changed, so the clustering package works on references into a heap.
  A panic (slice bounds, nil dereference) is an outcome.
\<close>

type_synonym ref = nat

type_synonym heap = "ref \<Rightarrow> Node"

definition unknownVMName :: string where "unknownVMName = ''unknown''"

definition ClusterStatefulSetName :: "string \<Rightarrow> nat \<Rightarrow> string" where
  "ClusterStatefulSetName clusterName i = ''drc-'' @ clusterName @ ''-'' @ fmt_nat i"

definition ClusterHeadlessSvcName :: "string \<Rightarrow> nat \<Rightarrow> string" where
  "ClusterHeadlessSvcName name i = name @ ''-'' @ fmt_nat i"

section \<open>placement.go\<close>

definition byVMStep :: "heap \<Rightarrow> ref Cluster \<Rightarrow> ref \<Rightarrow> (string, ref list) gomap \<Rightarrow> (string, ref list) gomap" where
  "byVMStep h cluster rnode nodesByVM =
     (case GetNodeByID cluster (ID (h rnode)) of
        Inl e \<Rightarrow> nodesByVM
      | Inr cnode \<Rightarrow>
          let vmName = (if NodeName (h cnode) \<noteq> [] then NodeName (h cnode) else unknownVMName)
          in mappend vmName rnode nodesByVM)"

definition sortRedisNodeByVM :: "heap \<Rightarrow> ref Cluster \<Rightarrow> ref list \<Rightarrow> (string, ref list) gomap" where
  "sortRedisNodeByVM h cluster nodes = fold (byVMStep h cluster) nodes []"

text \<open>One pass over the machines: the selection, the nodes left, progress, and an early return.\<close>

fun masterPass ::
    "nat \<Rightarrow> bool \<Rightarrow> (string, ref list) gomap \<Rightarrow> string list \<Rightarrow> ref list \<Rightarrow> (string, ref list) gomap \<Rightarrow> bool \<Rightarrow>
     ref list \<times> (string, ref list) gomap \<times> bool \<times> bool" where
  "masterPass nb bestEffort taken [] selection masterByVM isProgress = (selection, masterByVM, isProgress, False)"
| "masterPass nb bestEffort taken (vmName # vms) selection masterByVM isProgress =
     (if \<not> bestEffort \<and> mget taken vmName \<noteq> None
      then masterPass nb bestEffort taken vms selection masterByVM isProgress
      else case mgetd [] masterByVM vmName of
        [] \<Rightarrow> masterPass nb bestEffort taken vms selection masterByVM isProgress
      | n # ns \<Rightarrow>
          let selection = selection @ [n]; masterByVM = mput vmName ns masterByVM in
          if length selection \<ge> nb then (selection, masterByVM, True, True)
          else masterPass nb bestEffort taken vms selection masterByVM True)"

definition nodes_left :: "(string, ref list) gomap \<Rightarrow> nat" where
  "nodes_left m = sum_list (map (\<lambda>(k, v). length v) m)"

lemma nodes_left_mput:
  "mget m k = Some (x # xs) \<Longrightarrow> Suc (nodes_left (mput k xs m)) = nodes_left m"
  by (induction m) (auto simp: nodes_left_def mput_def mget_def split: if_splits)

lemma mgetd_ConsD: "mgetd [] m k = x # xs \<Longrightarrow> mget m k = Some (x # xs)"
  by (auto simp: mgetd_def split: option.splits)

lemma masterPass_left:
  assumes "masterPass nb be taken vms sel m p = (sel', m', p', full)"
  shows "nodes_left m' \<le> nodes_left m \<and> (\<not> p \<longrightarrow> p' \<longrightarrow> nodes_left m' < nodes_left m)"
  using assms
proof (induction vms arbitrary: sel m p)
  case (Cons vm vms)
  show ?case
  proof (cases "(\<not> be \<and> mget taken vm \<noteq> None) \<or> mgetd [] m vm = []")
    case True
    then have "masterPass nb be taken vms sel m p = (sel', m', p', full)"
      using Cons.prems by (auto split: if_splits)
    then show ?thesis by (rule Cons.IH)
  next
    case False
    then obtain n ns where g: "mgetd [] m vm = n # ns" "\<not> (\<not> be \<and> mget taken vm \<noteq> None)"
      by (cases "mgetd [] m vm") auto
    have dec: "Suc (nodes_left (mput vm ns m)) = nodes_left m"
      using g(1) by (intro nodes_left_mput mgetd_ConsD)
    show ?thesis
    proof (cases "length (sel @ [n]) \<ge> nb")
      case True
      then show ?thesis using Cons.prems g dec by (auto simp: Let_def)
    next
      case nf: False
      then have "masterPass nb be taken vms (sel @ [n]) (mput vm ns m) True = (sel', m', p', full)"
        using Cons.prems g by (auto simp: Let_def)
      then show ?thesis using Cons.IH dec by fastforce
    qed
  qed
qed simp

text \<open>\<open>ords\<close> gives the iteration order of each pass.\<close>

function masterLoop ::
    "(nat \<Rightarrow> ord) \<Rightarrow> nat \<Rightarrow> (string, ref list) gomap \<Rightarrow> nat \<Rightarrow> bool \<Rightarrow> ref list \<Rightarrow> (string, ref list) gomap \<Rightarrow>
     ref list \<times> bool" where
  "masterLoop ords nb taken pass bestEffort selection masterByVM =
     (if length selection < nb then
        (case masterPass nb bestEffort taken (ords pass (mkeys masterByVM)) selection masterByVM False of
           (sel, m, isProgress, full) \<Rightarrow>
             if full then (sel, bestEffort)
             else if bestEffort \<and> \<not> isProgress then (sel, bestEffort)
             else masterLoop ords nb taken (Suc pass) True sel m)
      else (selection, bestEffort))"
  by pat_completeness auto
termination
  by (relation "measure (\<lambda>(_, _, _, _, be, _, m). 2 * nodes_left m + (if be then 0 else 1))")
    (auto dest!: masterPass_left [OF sym])

declare masterLoop.simps [simp del]

definition PlaceMasters ::
    "(nat \<Rightarrow> ord) \<Rightarrow> heap \<Rightarrow> ref Cluster \<Rightarrow> ref list \<Rightarrow> ref list \<Rightarrow> int \<Rightarrow>
     (ref list \<times> bool \<times> go_error option) go" where
  "PlaceMasters ords h cluster currentMaster allPossibleMasters nbMaster =
     (if int (length currentMaster) > nbMaster \<and> nbMaster < 0 then Panic ''slice bounds out of range''
      else
        let selection = (if int (length currentMaster) > nbMaster then take (nat nbMaster) currentMaster else currentMaster);
            masterByVM = sortRedisNodeByVM h cluster allPossibleMasters;
            vmWithAlreadyMaster = sortRedisNodeByVM h cluster currentMaster;
            (selection, bestEffort) = masterLoop ords (nat nbMaster) vmWithAlreadyMaster 0 False selection masterByVM
        in Ret (selection, bestEffort,
             if int (length selection) \<ge> nbMaster then None
             else Some (ErrText ''unable to found enough node for have the request number of master'')))"

definition checkIfSameVM :: "heap \<Rightarrow> ref Cluster \<Rightarrow> string \<Rightarrow> string \<Rightarrow> bool" where
  "checkIfSameVM h cluster redisID vmName =
     (let nodeVMName = (case GetNodeByID cluster redisID of Inr n \<Rightarrow> NodeName (h n) | Inl e \<Rightarrow> unknownVMName)
      in if vmName = nodeVMName then True else False)"

text \<open>
  The loop over the old slaves. The branch that meant to hand a surplus slave back reads the
  node of a failed lookup.
\<close>

fun oldSlaveMasters ::
    "heap \<Rightarrow> ref Cluster \<Rightarrow> int \<Rightarrow> ref \<Rightarrow> ref list \<Rightarrow> (string, ref list) gomap \<Rightarrow> (string, ref list) gomap go" where
  "oldSlaveMasters h cluster replicationFactor slave [] slavesByMaster = Ret slavesByMaster"
| "oldSlaveMasters h cluster replicationFactor slave (master # masters) slavesByMaster =
     (let ref = MasterReferent (h slave) in
      if ref = ID (h master) then
        (if int (length (mgetd [] slavesByMaster ref)) \<ge> replicationFactor then
           (case GetNodeByID cluster (ID (h slave)) of
              Inl e \<Rightarrow> Panic ''nil pointer dereference''
            | Inr n \<Rightarrow> oldSlaveMasters h cluster replicationFactor slave masters slavesByMaster)
         else Ret (mappend ref slave slavesByMaster))
      else oldSlaveMasters h cluster replicationFactor slave masters slavesByMaster)"

definition vmUsedForSlave :: "heap \<Rightarrow> ref Cluster \<Rightarrow> string \<Rightarrow> ref list \<Rightarrow> bool" where
  "vmUsedForSlave h cluster vmName currentSlaves =
     list_ex (\<lambda>s. case GetNodeByID cluster (ID (h s)) of Inl e \<Rightarrow> False | Inr n \<Rightarrow> vmName = NodeName (h n)) currentSlaves"

text \<open>The first master, in iteration order, that lacks slaves and is not on the machine.\<close>

definition masterForSlave ::
    "ord \<Rightarrow> heap \<Rightarrow> ref Cluster \<Rightarrow> int \<Rightarrow> string \<Rightarrow> (string, ref list) gomap \<Rightarrow> string option" where
  "masterForSlave ord h cluster replicationFactor vmName slavesByMaster =
     find (\<lambda>idMaster.
        \<not> int (length (mgetd [] slavesByMaster idMaster)) \<ge> replicationFactor \<and>
        \<not> checkIfSameVM h cluster idMaster vmName \<and>
        \<not> vmUsedForSlave h cluster vmName (mgetd [] slavesByMaster idMaster))
       (ord (mkeys slavesByMaster))"

type_synonym slave_state = "(string, ref list) gomap \<times> (string, ref list) gomap"

definition spreadSlave ::
    "(ref \<Rightarrow> ord) \<Rightarrow> heap \<Rightarrow> ref Cluster \<Rightarrow> int \<Rightarrow> string \<Rightarrow> ref \<Rightarrow> slave_state \<Rightarrow> slave_state" where
  "spreadSlave ords h cluster replicationFactor vmName slave st =
     (case st of (slavesByMaster, notUsed) \<Rightarrow>
        case masterForSlave (ords slave) h cluster replicationFactor vmName slavesByMaster of
          Some idMaster \<Rightarrow> (mappend idMaster slave slavesByMaster, notUsed)
        | None \<Rightarrow> (slavesByMaster, mappend vmName slave notUsed))"

definition freeSlave ::
    "(ref \<Rightarrow> ord) \<Rightarrow> int \<Rightarrow> ref \<Rightarrow> (string, ref list) gomap \<Rightarrow> (string, ref list) gomap" where
  "freeSlave ords replicationFactor slave slavesByMaster =
     (case find (\<lambda>m. \<not> int (length (mgetd [] slavesByMaster m)) \<ge> replicationFactor)
             (ords slave (mkeys slavesByMaster)) of
        Some masterID \<Rightarrow> mappend masterID slave slavesByMaster
      | None \<Rightarrow> slavesByMaster)"

text \<open>
  \<open>ordVM\<close> orders the machines, \<open>ords\<close> the masters at each slave (also in the second pass,
  \<open>ords2\<close>), \<open>ordFree\<close> the machines with slaves left. The filter at the head of the source
  function drops its result and changes nothing.
\<close>

definition PlaceSlaves_v1 ::
    "ord \<Rightarrow> (ref \<Rightarrow> ord) \<Rightarrow> ord \<Rightarrow> (ref \<Rightarrow> ord) \<Rightarrow> heap \<Rightarrow> ref Cluster \<Rightarrow> ref list \<Rightarrow> ref list \<Rightarrow> ref list \<Rightarrow> int \<Rightarrow>
     ((string, ref list) gomap \<times> bool) go" where
  "PlaceSlaves_v1 ordVM ords ordFree ords2 h cluster masters oldSlaves newSlaves replicationFactor =
     (let newSlavesByVM = sortRedisNodeByVM h cluster newSlaves;
          slavesByMaster = fold (\<lambda>n m. mput (ID (h n)) [] m) masters []
      in gbind (gfold (\<lambda>slave m. oldSlaveMasters h cluster replicationFactor slave masters m) oldSlaves slavesByMaster)
        (\<lambda>slavesByMaster.
          let (slavesByMaster, notUsed) =
                fold (\<lambda>vmName st. fold (spreadSlave ords h cluster replicationFactor vmName) (mgetd [] newSlavesByVM vmName) st)
                  (ordVM (mkeys newSlavesByVM)) (slavesByMaster, [])
          in if notUsed \<noteq> [] then
               Ret (fold (\<lambda>vm m. fold (freeSlave ords2 replicationFactor) (mgetd [] notUsed vm) m)
                      (ordFree (mkeys notUsed)) slavesByMaster, True)
             else Ret (slavesByMaster, False)))"

section \<open>placement\_v2.go\<close>

record Ctx =
  expectedMasterNum :: int
  clusterName :: string
  cluster :: "ref Cluster"
  nodes :: "(string, ref list) gomap"
  currentMasters :: "ref list"
  newMastersBySts :: "(string, ref) gomap"
  slavesByMaster :: "(string, ref list) gomap"
  bestEffort :: bool

definition byStsStep :: "heap \<Rightarrow> ref \<Rightarrow> Ctx \<Rightarrow> Ctx" where
  "byStsStep h rNode c =
     (case GetNodeByID (cluster c) (ID (h rNode)) of
        Inl e \<Rightarrow> c
      | Inr cNode \<Rightarrow>
          let ssName = (if StatefulSet (h cNode) \<noteq> [] then StatefulSet (h cNode) else unknownVMName);
              c = c\<lparr>nodes := mappend ssName rNode (nodes c)\<rparr>
          in if GetRole (h rNode) = RedisClusterNodeRoleMaster \<and> TotalSlots (h rNode) > 0
             then c\<lparr>currentMasters := currentMasters c @ [rNode]\<rparr> else c)"

text \<open>\<open>sortRedisNodeByStatefulSet\<close> fills the map that becomes \<open>nodes\<close> and the current masters.\<close>

definition sortRedisNodeByStatefulSet :: "heap \<Rightarrow> ref list \<Rightarrow> Ctx \<Rightarrow> Ctx" where
  "sortRedisNodeByStatefulSet h ns c = fold (byStsStep h) ns c"

definition NewCtx :: "heap \<Rightarrow> ref Cluster \<Rightarrow> ref list \<Rightarrow> int \<Rightarrow> string \<Rightarrow> Ctx" where
  "NewCtx h cl ns masterNum name =
     sortRedisNodeByStatefulSet h ns
       \<lparr>expectedMasterNum = masterNum, clusterName = name, cluster = cl, nodes = [], currentMasters = [],
        newMastersBySts = [], slavesByMaster = [], bestEffort = False\<rparr>"

definition Ctx_PlaceMasters :: "ord \<Rightarrow> heap \<Rightarrow> string \<Rightarrow> Ctx \<Rightarrow> (ref \<times> Ctx) go" where
  "Ctx_PlaceMasters ord h ssName c =
     (let allMasters = currentMasters c @
            List.map_filter (mget (newMastersBySts c)) (ord (mkeys (newMastersBySts c)));
          ns = mgetd [] (nodes c) ssName
      in case find (\<lambda>cNode. snd (GetNodesByFunc (\<lambda>n. NodeName (h n) = NodeName (h cNode)) allMasters) \<noteq> None) ns of
           Some cNode \<Rightarrow> Ret (cNode, c)
         | None \<Rightarrow> (case ns of [] \<Rightarrow> Panic ''index out of range'' | n # _ \<Rightarrow> Ret (n, c\<lparr>bestEffort := True\<rparr>)))"

fun dispatchLoop :: "(nat \<Rightarrow> ord) \<Rightarrow> heap \<Rightarrow> nat list \<Rightarrow> Ctx \<Rightarrow> (go_error option \<times> Ctx) go" where
  "dispatchLoop ords h [] c = Ret (None, c)"
| "dispatchLoop ords h (i # is) c =
     (let stsName = ClusterStatefulSetName (clusterName c) i in
      case mget (nodes c) stsName of
        None \<Rightarrow> Ret (Some (ErrText (''missing statefulset '' @ stsName)), c)
      | Some ns \<Rightarrow>
          let currentMasterNodes = FilterByFunc (\<lambda>n. IsMasterWithSlot (h n)) ns in
          if length currentMasterNodes = 0 then
            gbind (Ctx_PlaceMasters (ords i) h stsName c)
              (\<lambda>(master, c). dispatchLoop ords h is (c\<lparr>newMastersBySts := mput stsName master (newMastersBySts c)\<rparr>))
          else if length currentMasterNodes = 1 then
            dispatchLoop ords h is (c\<lparr>newMastersBySts := mput stsName (currentMasterNodes ! 0) (newMastersBySts c)\<rparr>)
          else Ret (Some (ErrText (''split brain: '' @ stsName)), c))"

definition Ctx_DispatchMasters :: "(nat \<Rightarrow> ord) \<Rightarrow> heap \<Rightarrow> Ctx \<Rightarrow> (go_error option \<times> Ctx) go" where
  "Ctx_DispatchMasters ords h c = dispatchLoop ords h [0..<nat (expectedMasterNum c)] c"

definition placeSlave :: "heap \<Rightarrow> ref \<Rightarrow> ref \<Rightarrow> Ctx \<Rightarrow> Ctx" where
  "placeSlave h master node c =
     (if IP (h node) = IP (h master) then c
      else
        let c = (if NodeName (h node) \<noteq> NodeName (h master) then c\<lparr>bestEffort := False\<rparr> else c);
            attach = c\<lparr>slavesByMaster := mappend (ID (h master)) node (slavesByMaster c)\<rparr>
        in if GetRole (h node) = RedisClusterNodeRoleSlave
           then (if MasterReferent (h node) \<noteq> ID (h master) then attach else c)
           else attach)"

text \<open>A stateful set without a new master gives a nil master, dereferenced at its first node.\<close>

definition placeSlavesSts :: "heap \<Rightarrow> string \<Rightarrow> Ctx \<Rightarrow> Ctx go" where
  "placeSlavesSts h ssName c =
     (case mgetd [] (nodes c) ssName of
        [] \<Rightarrow> Ret c
      | ns \<Rightarrow> (case mget (newMastersBySts c) ssName of
                 None \<Rightarrow> Panic ''nil pointer dereference''
               | Some master \<Rightarrow> Ret (fold (placeSlave h master) ns c)))"

definition Ctx_PlaceSlaves :: "ord \<Rightarrow> heap \<Rightarrow> Ctx \<Rightarrow> (go_error option \<times> Ctx) go" where
  "Ctx_PlaceSlaves ord h c =
     gbind (gfold (placeSlavesSts h) (ord (mkeys (nodes c))) (c\<lparr>bestEffort := True\<rparr>)) (\<lambda>c. Ret (None, c))"

definition GetCurrentMasters :: "Ctx \<Rightarrow> ref list" where
  "GetCurrentMasters c = currentMasters c"

definition GetNewMasters :: "ord \<Rightarrow> Ctx \<Rightarrow> ref list" where
  "GetNewMasters ord c = List.map_filter (mget (newMastersBySts c)) (ord (mkeys (newMastersBySts c)))"

definition GetSlaves :: "Ctx \<Rightarrow> (string, ref list) gomap" where
  "GetSlaves c = slavesByMaster c"

definition GetStatefulsetNodes :: "Ctx \<Rightarrow> (string, ref list) gomap" where
  "GetStatefulsetNodes c = nodes c"

section \<open>roles.go\<close>

fun attachSlaves ::
    "'k env \<Rightarrow> string \<Rightarrow> ref list \<Rightarrow> heap \<Rightarrow> go_error option \<Rightarrow> 'k net \<Rightarrow> ((heap \<times> go_error option) \<times> 'k net) go" where
  "attachSlaves env masterID [] h globalErr s = Ret ((h, globalErr), s)"
| "attachSlaves env masterID (slave # slaves) h globalErr s =
     gbind (AttachSlaveToMaster env (h slave) masterID s) (\<lambda>((e, n), s).
       attachSlaves env masterID slaves (h(slave := n)) (if e \<noteq> None then e else globalErr) s)"

fun attachLoop ::
    "'k env \<Rightarrow> Ctx \<Rightarrow> string list \<Rightarrow> heap \<Rightarrow> go_error option \<Rightarrow> 'k net \<Rightarrow> ((heap \<times> go_error option) \<times> 'k net) go" where
  "attachLoop env c [] h globalErr s = Ret ((h, globalErr), s)"
| "attachLoop env c (masterID # ms) h globalErr s =
     (case GetNodeByID (cluster c) masterID of
        Inl e \<Rightarrow> attachLoop env c ms h globalErr s
      | Inr masterNode \<Rightarrow>
          gbind (attachSlaves env (ID (h masterNode)) (mgetd [] (slavesByMaster c) masterID) h globalErr s)
            (\<lambda>((h, globalErr), s). attachLoop env c ms h globalErr s))"

definition AttachingSlavesToMaster ::
    "'k env \<Rightarrow> Ctx \<Rightarrow> heap \<Rightarrow> 'k net \<Rightarrow> ((heap \<times> go_error option) \<times> 'k net) go" where
  "AttachingSlavesToMaster env c h s =
     attachLoop env c (rangeOrd env (trace s) ''AttachingSlavesToMaster'' (mkeys (slavesByMaster c))) h None s"

end
