(* ===== verification/Migration.thy ===== *)
theory Migration
  imports Placement
begin

text \<open>
  Moving slots when masters are removed: \<open>src/pkg/controller/clustering/migration.go\<close>.
  \<open>buildSlotsByNode\<close> plans which new master receives which slots, \<open>feedMigInfo\<close> adds where each
  comes from, \<open>DispatchSlotToNewMasters\<close> carries the plan out. The key \<open>From\<close> of a move is
  \<open>None\<close> for slots no master has.
\<close>

type_synonym migrationInfo = "ref option \<times> ref"

type_synonym mapSlotByMigInfo = "(migrationInfo, Slot list) gomap"

section \<open>DispatchMasters\<close>

definition DispatchMasters ::
    "(nat \<Rightarrow> ord) \<Rightarrow> ((ref \<Rightarrow> ref \<Rightarrow> bool) \<Rightarrow> ref list \<Rightarrow> ref list) \<Rightarrow> heap \<Rightarrow> ref Cluster \<Rightarrow> ref list \<Rightarrow> int \<Rightarrow>
     ((go_error + ref list \<times> ref list \<times> ref list) \<times> ref Cluster) go" where
  "DispatchMasters ords srt h cl ns nbMaster =
     (let currentMasterNodes = FilterByFunc (\<lambda>n. IsMasterWithSlot (h n)) ns;
          currentMasterWithNoSlot = FilterByFunc (\<lambda>n. IsMasterWithNoSlot (h n)) ns;
          allMasterNodes = currentMasterNodes @ currentMasterWithNoSlot
      in gbind (PlaceMasters ords h cl currentMasterNodes currentMasterWithNoSlot nbMaster)
        (\<lambda>(sel, besteffort, err).
          case err of
            Some e \<Rightarrow> Ret (Inl (ErrWith (''not enough master available current:'' @
                fmt_nat (length allMasterNodes) @ '' target:'' @ fmt_int nbMaster @ '', err:'') e), cl)
          | None \<Rightarrow>
              Ret (Inr (SortByFunc srt (\<lambda>a b. ID (h a) < ID (h b)) sel, currentMasterNodes, allMasterNodes),
                cl\<lparr>ClStatus := ClusterStatusCalculatingRebalancing,
                   ClNodesPlacement := (if besteffort then NodesPlacementInfoBestEffort else NodesPlacementInfoOptimal)\<rparr>)))"

section \<open>The plan\<close>

definition migrateFromStep ::
    "heap \<Rightarrow> nat \<Rightarrow> ref \<Rightarrow> (string, Slot list) gomap \<Rightarrow> (string, Slot list) gomap" where
  "migrateFromStep h nbSlotByNode node m =
     (if TotalSlots (h node) \<ge> nbSlotByNode then
        (if length (drop nbSlotByNode (NSlots (h node))) > 0
         then mput (ID (h node)) (mgetd [] m (ID (h node)) @ drop nbSlotByNode (NSlots (h node))) m else m)
      else m)"

definition retrieveSlotToMigrateFrom :: "heap \<Rightarrow> ref list \<Rightarrow> nat \<Rightarrow> (string, Slot list) gomap" where
  "retrieveSlotToMigrateFrom h oldMasterNodes nbSlotByNode =
     fold (migrateFromStep h nbSlotByNode) oldMasterNodes []"

definition retrieveSlotToMigrateFromRemovedNodes ::
    "heap \<Rightarrow> ref list \<Rightarrow> ref list \<Rightarrow> (string, Slot list) gomap" where
  "retrieveSlotToMigrateFromRemovedNodes h newMasterNodes oldMasterNodes =
     (let removedNodes = filter (\<lambda>old. \<not> list_ex (\<lambda>new. ID (h old) = ID (h new)) newMasterNodes) oldMasterNodes
      in fold (\<lambda>node m. mput (ID (h node)) (NSlots (h node)) m) removedNodes [])"

text \<open>\<open>for i := a; i < b; i++\<close>\<close>

function slotsFrom :: "Slot \<Rightarrow> Slot \<Rightarrow> Slot list" where
  "slotsFrom a b = (if a < b then a # slotsFrom (a + 1) b else [])"
  by pat_completeness auto
termination
proof (relation "measure (\<lambda>(a, b). unat b - unat a)")
  fix a b :: Slot assume ab: "a < b"
  then have "a \<noteq> - 1" by (metis word_order.extremum_strict)
  then have "unat (a + 1) = Suc (unat a)" by (rule unat_Suc_slot)
  then show "((a + 1, b), a, b) \<in> measure (\<lambda>(a, b). unat b - unat a)"
    using ab by (simp add: word_less_nat_alt)
qed simp

declare slotsFrom.simps [simp del]

fun lostLoop :: "Slot list \<Rightarrow> Slot \<Rightarrow> Slot list \<Rightarrow> Slot \<times> Slot list" where
  "lostLoop [] prev lostSlots = (prev, lostSlots)"
| "lostLoop (slot # slots) prev lostSlots =
     lostLoop slots slot (if slot > prev + 1 then lostSlots @ slotsFrom (prev + 1) slot else lostSlots)"

definition retrieveLostSlots :: "heap \<Rightarrow> ref list \<Rightarrow> nat \<Rightarrow> Slot list" where
  "retrieveLostSlots h oldMasterNodes nbSlots =
     (let currentFullRange = sort (concat (map (\<lambda>n. NSlots (h n)) oldMasterNodes));
          lostSlots = (if length currentFullRange = 0 \<or> currentFullRange ! 0 \<noteq> 0 then [0] else []);
          (prev, lostSlots) = lostLoop currentFullRange 0 lostSlots
      in lostSlots @ slotsFrom (prev + 1) (of_nat nbSlots))"

text \<open>
  Handing out the available slots: the index of the node being filled, the slots counted for
  each new master, and what each is to receive.
\<close>

type_synonym fill_state = "nat \<times> Slot list list \<times> (string, Slot list) gomap"

definition fillStep :: "heap \<Rightarrow> ref list \<Rightarrow> nat \<Rightarrow> Slot \<Rightarrow> fill_state \<Rightarrow> fill_state" where
  "fillStep h newMasterNodes nbSlotByNode slot st =
     (case st of (idNode, slotOfNode, slotToAddByNode) \<Rightarrow>
        let missingSlots = int nbSlotByNode - int (length (slotOfNode ! idNode));
            idNode = (if missingSlots > 0 then idNode
                      else if idNode + 1 > length newMasterNodes - 1 then idNode else idNode + 1)
        in (idNode, slotOfNode[idNode := slotOfNode ! idNode @ [slot]],
            mappend (ID (h (newMasterNodes ! idNode))) slot slotToAddByNode))"

definition buildSlotByNodeFromAvailableSlots ::
    "ord \<Rightarrow> heap \<Rightarrow> ref list \<Rightarrow> nat \<Rightarrow> (string, Slot list) gomap \<Rightarrow> (string, Slot list) gomap" where
  "buildSlotByNodeFromAvailableSlots ord h newMasterNodes nbSlotByNode slotToMigrateByNode =
     (if length newMasterNodes = 0 then []
      else
        let available = concat (map (mgetd [] slotToMigrateByNode) (ord (mkeys slotToMigrateByNode)));
            (idNode, slotOfNode, slotToAddByNode) =
              fold (fillStep h newMasterNodes nbSlotByNode) available
                (0, map (\<lambda>n. NSlots (h n)) newMasterNodes, [])
        in slotToAddByNode)"

definition slotsPerMaster :: "nat \<Rightarrow> nat \<Rightarrow> nat" where
  "slotsPerMaster nbSlots nbNode =
     nat (f_to_int (f_ceil (f_div (f_of_int (int nbSlots)) (f_of_int (int nbNode)))))"

text \<open>The rest of the source function computes the numbers it logs.\<close>

definition buildSlotsByNode ::
    "ord \<Rightarrow> heap \<Rightarrow> ref list \<Rightarrow> ref list \<Rightarrow> ref list \<Rightarrow> nat \<Rightarrow> (string, Slot list) gomap" where
  "buildSlotsByNode ord h newMasterNodes oldMasterNodes allMasterNodes nbSlots =
     (let nbNode = length newMasterNodes in
      if nbNode = 0 then []
      else
        let nbSlotByNode = slotsPerMaster nbSlots nbNode;
            m = retrieveSlotToMigrateFrom h oldMasterNodes nbSlotByNode;
            deleted = retrieveSlotToMigrateFromRemovedNodes h newMasterNodes oldMasterNodes;
            m = fold (\<lambda>(i, slots) m. mput i slots m) deleted m;
            m = mput [] (retrieveLostSlots h oldMasterNodes nbSlots) m
        in buildSlotByNodeFromAvailableSlots ord h newMasterNodes nbSlotByNode m)"

section \<open>Sources and targets\<close>

fun feedSlot ::
    "heap \<Rightarrow> ref list \<Rightarrow> string \<Rightarrow> Slot \<Rightarrow> ref list \<Rightarrow> mapSlotByMigInfo \<times> int \<Rightarrow> mapSlotByMigInfo \<times> int" where
  "feedSlot h newMasterNodes i s [] (mapOut, n) =
     (case Nodes_GetNodeByID (\<lambda>r. ID (h r)) newMasterNodes i of
        Inl e \<Rightarrow> (mapOut, n)
      | Inr newNode \<Rightarrow> (mappend (None, newNode) s mapOut, n + 1))"
| "feedSlot h newMasterNodes i s (oldNode # olds) (mapOut, n) =
     (if ID (h oldNode) = i then
        (if Contains (NSlots (h oldNode)) s then (mapOut, n)
         else feedSlot h newMasterNodes i s olds (mapOut, n))
      else if Contains (NSlots (h oldNode)) s then
        (case Nodes_GetNodeByID (\<lambda>r. ID (h r)) newMasterNodes i of
           Inl e \<Rightarrow> feedSlot h newMasterNodes i s olds (mapOut, n)
         | Inr newNode \<Rightarrow> (mappend (Some oldNode, newNode) s mapOut, n + 1))
      else feedSlot h newMasterNodes i s olds (mapOut, n))"

definition feedMigInfo ::
    "ord \<Rightarrow> ord \<Rightarrow> heap \<Rightarrow> ref list \<Rightarrow> ref list \<Rightarrow> ref list \<Rightarrow> nat \<Rightarrow> mapSlotByMigInfo \<times> int" where
  "feedMigInfo ord1 ord2 h newMasterNodes oldMasterNodes allMasterNodes nbSlots =
     (let mapSlotToUpdate = buildSlotsByNode ord1 h newMasterNodes oldMasterNodes allMasterNodes nbSlots
      in fold (\<lambda>i st. fold (\<lambda>s. feedSlot h newMasterNodes i s oldMasterNodes) (mgetd [] mapSlotToUpdate i) st)
           (ord2 (mkeys mapSlotToUpdate)) ([], 0))"

section \<open>Carrying the plan out\<close>

text \<open>SETSLOT NODE on the other masters; its errors are only logged.\<close>

fun tellOthers ::
    "'k env \<Rightarrow> heap \<Rightarrow> ref \<Rightarrow> ref \<Rightarrow> Slot list \<Rightarrow> ref list \<Rightarrow> 'k net \<Rightarrow> 'k net go" where
  "tellOthers env h from to slots [] s = Ret s"
| "tellOthers env h from to slots (master # ms) s =
     (if IPPort (h master) = IPPort (h to) \<or> IPPort (h master) = IPPort (h from)
      then tellOthers env h from to slots ms s
      else if TotalSlots (h master) = 0 then tellOthers env h from to slots ms s
      else gbind (SetSlots env (IPPort (h master)) ''NODE'' slots (ID (h to)) s)
        (\<lambda>(_, s). tellOthers env h from to slots ms s))"

definition moveSlots ::
    "'k env \<Rightarrow> ref list \<Rightarrow> ref \<Rightarrow> ref \<Rightarrow> Slot list \<Rightarrow> heap \<Rightarrow> 'k net \<Rightarrow> ((go_error option \<times> heap) \<times> 'k net) go" where
  "moveSlots env allMasterNodes from to slots h s =
     gbind (SetSlots env (IPPort (h to)) ''IMPORTING'' slots (ID (h from)) s) (\<lambda>(e, s).
     case e of Some e \<Rightarrow> Ret ((Some e, h), s) | None \<Rightarrow>
     gbind (SetSlots env (IPPort (h from)) ''MIGRATING'' slots (ID (h to)) s) (\<lambda>(e, s).
     case e of Some e \<Rightarrow> Ret ((Some e, h), s) | None \<Rightarrow>
     gbind (MigrateKeys env (IPPort (h from)) (h to) slots 10 30000 True s) (\<lambda>(_, s).
     gbind (SetSlots env (IPPort (h to)) ''NODE'' slots (ID (h to)) s) (\<lambda>(_, s).
     gbind (SetSlots env (IPPort (h from)) ''NODE'' slots (ID (h to)) s) (\<lambda>(_, s).
     let h = h(from := (h from)\<lparr>NSlots := RemoveSlots (NSlots (h from)) slots\<rparr>) in
     gbind (tellOthers env h from to slots allMasterNodes s) (\<lambda>s. Ret ((None, h), s)))))))"

definition dispatchMove ::
    "'k env \<Rightarrow> ref list \<Rightarrow> migrationInfo \<Rightarrow> Slot list \<Rightarrow> heap \<Rightarrow> 'k net \<Rightarrow> ((go_error option \<times> heap) \<times> 'k net) go" where
  "dispatchMove env allMasterNodes mi slots h s =
     (let to = snd mi in
      gbind (case fst mi of
               None \<Rightarrow> gbind (Admin_AddSlots env (IPPort (h to)) slots s) (\<lambda>(e, s). Ret ((e, h), s))
             | Some from \<Rightarrow> moveSlots env allMasterNodes from to slots h s)
        (\<lambda>((e, h), s). case e of
           Some e \<Rightarrow> Ret ((Some e, h), s)
         | None \<Rightarrow> Ret ((None, h(to := (h to)\<lparr>NSlots := AddSlots (NSlots (h to)) slots\<rparr>)), s)))"

fun dispatchMoves ::
    "'k env \<Rightarrow> ref list \<Rightarrow> mapSlotByMigInfo \<Rightarrow> migrationInfo list \<Rightarrow> heap \<Rightarrow> 'k net \<Rightarrow>
     ((go_error option \<times> heap) \<times> 'k net) go" where
  "dispatchMoves env allMasterNodes m [] h s = Ret ((None, h), s)"
| "dispatchMoves env allMasterNodes m (mi # mis) h s =
     gbind (dispatchMove env allMasterNodes mi (mgetd [] m mi) h s) (\<lambda>((e, h), s).
       case e of Some e \<Rightarrow> Ret ((Some e, h), s) | None \<Rightarrow> dispatchMoves env allMasterNodes m mis h s)"

definition DispatchSlotToNewMasters ::
    "'k env \<Rightarrow> ref list \<Rightarrow> ref list \<Rightarrow> ref list \<Rightarrow> Ctx \<Rightarrow> heap \<Rightarrow> 'k net \<Rightarrow>
     ((go_error option \<times> Ctx \<times> heap) \<times> 'k net) go" where
  "DispatchSlotToNewMasters env newMasterNodes currentMasterNodes allMasterNodes c h s =
     (let (migrationSlotInfo, n) =
            feedMigInfo (rangeOrd env (trace s) ''buildSlotByNodeFromAvailableSlots'')
              (rangeOrd env (trace s) ''feedMigInfo'') h newMasterNodes currentMasterNodes allMasterNodes
              (unat (GetHashMaxSlot + 1));
          c = c\<lparr>cluster := (cluster c)\<lparr>NbslotsToMigrate := n, ClStatus := ClusterStatusRebalancing\<rparr>\<rparr>
      in gbind (dispatchMoves env allMasterNodes migrationSlotInfo
                  (rangeMoves env (trace s) (mkeys migrationSlotInfo)) h s)
           (\<lambda>((e, h), s). Ret ((e, c, h), s)))"

end
