(* ===== verification/Rebalance.thy ===== *)
theory Rebalance
  imports Migration
begin

text \<open>
  \<open>src/pkg/controller/clustering/rebalance.go\<close>: giving all slots to the masters of a new
  cluster (\<open>AllocSlots\<close>) and moving slots to masters that were added
  (\<open>RebalancedCluster\<close>). Both compute in \<open>float64\<close>. The loop that spreads the rest of the
  division has no bound of its own and is a partial function: where it does not end it has no
  result, and the outcome of the call is \<open>Hang\<close>. The loop that pairs receivers with donors takes
  \<open>fuel\<close>; out of fuel is \<open>Hang\<close> too.
\<close>

section \<open>Balances\<close>

definition SetBalance :: "ref \<Rightarrow> int \<Rightarrow> heap \<Rightarrow> heap" where
  "SetBalance r b h = h(r := (h r)\<lparr>balance := b\<rparr>)"

definition expectedSlots :: "nat \<Rightarrow> int" where
  "expectedSlots nbNode =
     f_to_int (f_div (f_of_int (uint (GetHashMaxSlot + 1))) (f_of_int (int nbNode)))"

definition initBalance :: "nat \<Rightarrow> ref \<Rightarrow> heap \<Rightarrow> heap" where
  "initBalance nbNode node h = SetBalance node (int (length (NSlots (h node))) - expectedSlots nbNode) h"

definition lowerStep :: "ref \<Rightarrow> heap \<times> int \<Rightarrow> heap \<times> int" where
  "lowerStep node st =
     (case st of (h, totalBalance) \<Rightarrow>
        if balance (h node) < 0 \<and> totalBalance > 0
        then (SetBalance node (balance (h node) - 1) h, totalBalance - 1) else (h, totalBalance))"

text \<open>
  The outer loop, as a partial function: nothing but its own test ends it, and \<open>None\<close> is that it
  never does.
\<close>

partial_function (option) lowerLoop :: "ref list \<Rightarrow> heap \<Rightarrow> int \<Rightarrow> heap go option" where
  "lowerLoop ns h totalBalance =
     (if totalBalance > 0
      then (case fold lowerStep ns (h, totalBalance) of (h, totalBalance) \<Rightarrow> lowerLoop ns h totalBalance)
      else Some (Ret h))"

section \<open>Which slots to move\<close>

type_synonym MovedNode = "ref \<times> Slot"

definition pickStep :: "ref \<Rightarrow> Slot list \<Rightarrow> int \<Rightarrow> nat \<Rightarrow> MovedNode list \<Rightarrow> MovedNode list go" where
  "pickStep node keys numSlots i moved =
     (if int (length moved) < numSlots
      then (if i < length keys then Ret (moved @ [(node, keys ! i)]) else Panic ''index out of range'')
      else Ret moved)"

definition shareOf :: "nat \<Rightarrow> int \<Rightarrow> int \<Rightarrow> nat \<Rightarrow> int" where
  "shareOf idx numSlots sourceTotSlots nodeSlots =
     (let n = f_mul (f_div (f_of_int numSlots) (f_of_int sourceTotSlots)) (f_of_int (int nodeSlots))
      in f_to_int (if idx = 0 then f_ceil n else f_floor n))"

definition reshardStep :: "heap \<Rightarrow> int \<Rightarrow> int \<Rightarrow> nat \<times> ref \<Rightarrow> MovedNode list \<Rightarrow> MovedNode list go" where
  "reshardStep h numSlots sourceTotSlots idxNode moved =
     (case idxNode of (idx, node) \<Rightarrow>
        gfold (pickStep node (NSlots (h node)) numSlots)
          [0..<nat (shareOf idx numSlots sourceTotSlots (TotalSlots (h node)))] moved)"

definition computeReshardTable ::
    "((ref \<Rightarrow> ref \<Rightarrow> bool) \<Rightarrow> ref list \<Rightarrow> ref list) \<Rightarrow> heap \<Rightarrow> ref list \<Rightarrow> int \<Rightarrow> MovedNode list go" where
  "computeReshardTable srt h src numSlots =
     (let sources = SortByFunc srt (\<lambda>a b. TotalSlots (h a) < TotalSlots (h b)) src;
          sourceTotSlots = int (sum_list (map (\<lambda>n. TotalSlots (h n)) sources))
      in gfold (reshardStep h numSlots sourceTotSlots) (zip [0..<length sources] sources) [])"

section \<open>Moving one slot\<close>

definition moveSlot ::
    "'k env \<Rightarrow> MovedNode \<Rightarrow> ref \<Rightarrow> heap \<Rightarrow> 'k net \<Rightarrow> ((go_error option \<times> heap) \<times> 'k net) go" where
  "moveSlot env source target h s =
     (case source of (src, slot) \<Rightarrow>
        gbind (SetSlot env (IPPort (h target)) ''IMPORTING'' slot (ID (h target)) s) (\<lambda>(e, s).
        case e of Some e \<Rightarrow> Ret ((Some e, h), s) | None \<Rightarrow>
        gbind (SetSlot env (IPPort (h src)) ''MIGRATING'' slot (ID (h src)) s) (\<lambda>(e, s).
        case e of Some e \<Rightarrow> Ret ((Some e, h), s) | None \<Rightarrow>
        gbind (MigrateKeysInSlot env (IPPort (h src)) (h target) slot 10 30000 True s) (\<lambda>((_, e), s).
        case e of Some e \<Rightarrow> Ret ((Some e, h), s) | None \<Rightarrow>
        gbind (SetSlot env (IPPort (h target)) ''NODE'' slot (ID (h target)) s) (\<lambda>(_, s).
        gbind (SetSlot env (IPPort (h src)) ''NODE'' slot (ID (h target)) s) (\<lambda>(_, s).
        Ret ((None, h(src := (h src)\<lparr>NSlots := RemoveSlot (NSlots (h src)) slot\<rparr>)), s)))))))"

fun moveTable ::
    "'k env \<Rightarrow> MovedNode list \<Rightarrow> ref \<Rightarrow> heap \<Rightarrow> 'k net \<Rightarrow> ((go_error option \<times> heap) \<times> 'k net) go" where
  "moveTable env [] dst h s = Ret ((None, h), s)"
| "moveTable env (e # table) dst h s =
     gbind (moveSlot env e dst h s) (\<lambda>((err, h), s).
       case err of Some err \<Rightarrow> Ret ((Some err, h), s) | None \<Rightarrow> moveTable env table dst h s)"

section \<open>RebalancedCluster\<close>

definition pairSlots :: "int \<Rightarrow> int \<Rightarrow> float64" where
  "pairSlots dstBalance srcBalance =
     (if f_lt (f_abs (f_of_int dstBalance)) (f_abs (f_of_int srcBalance))
      then f_abs (f_of_int dstBalance) else f_abs (f_of_int srcBalance))"

definition movePair ::
    "'k env \<Rightarrow> ref \<Rightarrow> ref \<Rightarrow> float64 \<Rightarrow> heap \<Rightarrow> 'k net \<Rightarrow> ((go_error option \<times> heap) \<times> 'k net) go" where
  "movePair env dst src numSlots h s =
     (if f_lt (Fin 0) numSlots
      then gbind (computeReshardTable (sortRefs env) h [src] (f_to_int numSlots)) (\<lambda>table.
             moveTable env table dst h s)
      else Ret ((None, h), s))"

fun pairLoop ::
    "nat \<Rightarrow> 'k env \<Rightarrow> ref list \<Rightarrow> int \<Rightarrow> int \<Rightarrow> heap \<Rightarrow> 'k net \<Rightarrow> ((go_error option \<times> heap) \<times> 'k net) go" where
  "pairLoop fuel env sn dstIdx srcIdx h s =
     (if \<not> dstIdx < srcIdx then Ret ((None, h), s)
      else case fuel of
        0 \<Rightarrow> Hang
      | Suc fuel \<Rightarrow>
          let dst = sn ! nat dstIdx; src = sn ! nat srcIdx;
              numSlots = pairSlots (balance (h dst)) (balance (h src))
          in gbind (movePair env dst src numSlots h s) (\<lambda>((err, h), s).
               case err of
                 Some err \<Rightarrow> Ret ((Some err, h), s)
               | None \<Rightarrow>
                   let h = SetBalance dst (balance (h dst) + f_to_int numSlots) h;
                       h = SetBalance src (balance (h src) - f_to_int numSlots) h
                   in pairLoop fuel env sn (if balance (h dst) = 0 then dstIdx + 1 else dstIdx)
                        (if balance (h src) = 0 then srcIdx - 1 else srcIdx) h s))"

declare pairLoop.simps [simp del]

text \<open>
  The result has the caller's slice of masters as the call leaves it: \<open>SortByFunc\<close> sorts in
  place.
\<close>

definition RebalancedCluster ::
    "nat \<Rightarrow> 'k env \<Rightarrow> ref list \<Rightarrow> heap \<Rightarrow> 'k net \<Rightarrow> ((go_error option \<times> ref list \<times> heap) \<times> 'k net) go" where
  "RebalancedCluster fuel env newMasterNodes h s =
     (let h = fold (initBalance (length newMasterNodes)) newMasterNodes h;
          totalBalance = sum_list (map (\<lambda>n. balance (h n)) newMasterNodes)
      in gbind (of_loop (lowerLoop newMasterNodes h totalBalance)) (\<lambda>h.
           let sn = SortByFunc (sortRefs env) (\<lambda>a b. balance (h a) < balance (h b)) newMasterNodes
           in gbind (pairLoop fuel env sn 0 (int (length sn) - 1) h s) (\<lambda>((e, h), s). Ret ((e, sn, h), s))))"

section \<open>AllocSlots\<close>

definition lastSlot :: "int \<Rightarrow> float64 \<Rightarrow> nat \<Rightarrow> nat \<Rightarrow> int \<Rightarrow> float64 \<Rightarrow> int" where
  "lastSlot clusterHashSlots slotsPerNode mastersNum index first cursor =
     (let last1 = Round (f_sub (f_add cursor slotsPerNode) (Fin 1));
          last2 = (if last1 > clusterHashSlots \<or> int index = int mastersNum - 1 then clusterHashSlots - 1 else last1)
      in if last2 < first then first else last2)"

fun allocLoop ::
    "'k env \<Rightarrow> int \<Rightarrow> float64 \<Rightarrow> nat \<Rightarrow> ref list \<Rightarrow> nat \<Rightarrow> int \<Rightarrow> float64 \<Rightarrow> heap \<Rightarrow> 'k net \<Rightarrow>
     ((go_error option \<times> heap) \<times> 'k net) go" where
  "allocLoop env clusterHashSlots slotsPerNode mastersNum [] index first cursor h s = Ret ((None, h), s)"
| "allocLoop env clusterHashSlots slotsPerNode mastersNum (node # ns) index first cursor h s =
     (let last1 = lastSlot clusterHashSlots slotsPerNode mastersNum index first cursor
      in gbind (BuildSlotSlice (word_of_int first) (word_of_int last1)) (\<lambda>slots.
         let h = h(node := (h node)\<lparr>NSlots := slots\<rparr>) in
         gbind (Admin_AddSlots env (IPPort (h node)) slots s) (\<lambda>(e, s).
           case e of
             Some e \<Rightarrow> Ret ((Some e, h), s)
           | None \<Rightarrow> allocLoop env clusterHashSlots slotsPerNode mastersNum ns (index + 1) (last1 + 1)
                       (f_add cursor slotsPerNode) h s)))"

definition AllocSlots ::
    "'k env \<Rightarrow> ref list \<Rightarrow> heap \<Rightarrow> 'k net \<Rightarrow> ((go_error option \<times> heap) \<times> 'k net) go" where
  "AllocSlots env newMasterNodes h s =
     (let mastersNum = length newMasterNodes;
          clusterHashSlots = uint (GetHashMaxSlot + 1);
          slotsPerNode = f_div (f_of_int clusterHashSlots) (f_of_int (int mastersNum))
      in allocLoop env clusterHashSlots slotsPerNode mastersNum newMasterNodes 0 0 (Fin 0) h s)"

end
