(* ===== verification/Alloc_Facts.thy ===== *)
theory Alloc_Facts
  imports Rebalance
begin

text \<open>
  \<open>AllocSlots\<close> gives consecutive ranges to the masters of a new cluster. Its cursor is a
  sum of rounded numbers; the lemmas bound how far it drifts from the exact quotient and show
  that the ranges it rounds to cover every slot once and differ in size by at most one.
\<close>

section \<open>Rounding to a whole number\<close>

lemma fl_near:
  assumes "\<bar>x\<bar> < 32768"
  shows "\<bar>fl x - x\<bar> \<le> 1 / 549755813888"
proof -
  have "(2::rat) powi (14 + 1) = 32768" by (simp add: power_int_def)
  then have "\<bar>fl x - x\<bar> \<le> 2 powi (14 - 53)" using assms by (intro fl_err) simp_all
  also have "(2::rat) powi (14 - 53) = 1 / 549755813888" by (simp add: power_int_def field_simps)
  finally show ?thesis .
qed

lemma rnd_near:
  assumes "\<bar>x\<bar> < 32768"
  shows "\<exists>y. rnd x = Fin y \<and> \<bar>y - x\<bar> \<le> 1 / 549755813888"
proof -
  have "\<bar>x\<bar> < 2 ^ 100" using assms by simp
  then show ?thesis using fl_near [OF assms] by (simp add: rnd_Fin)
qed

lemma Round_near:
  assumes "\<bar>x\<bar> < 16384 + 1"
  shows "\<bar>of_int (Round (Fin x)) - x\<bar> \<le> 1 / 2 + 1 / 549755813888"
    and "- 1 / 4 < x \<Longrightarrow> 0 \<le> Round (Fin x)"
proof -
  let ?s = "if x < 0 then - 1 / 2 else 1 / 2 :: rat"
  have "f_copysign (1 / 2) (Fin x) = Fin ?s" by (simp add: f_copysign_def sgn_if)
  moreover have s: "\<bar>x + ?s\<bar> < 32768" using assms by (auto simp: abs_if split: if_splits)
  then obtain z where z: "rnd (x + ?s) = Fin z" "\<bar>z - (x + ?s)\<bar> \<le> 1 / 549755813888" using rnd_near by blast
  moreover have "\<bar>z\<bar> < 2 ^ 62"
  proof -
    have "\<bar>z\<bar> \<le> \<bar>x + ?s\<bar> + 1 / 549755813888" using z(2) by linarith
    then show ?thesis using s by simp
  qed
  ultimately have R: "Round (Fin x) = trunc z" by (simp add: Round_def f_to_int_Fin del: f_to_int.simps)
  have tr: "of_int (trunc z) \<le> z \<and> z < of_int (trunc z) + 1" if "0 \<le> z"
    using that by (simp add: trunc_def) linarith
  have tl: "z \<le> of_int (trunc z) \<and> of_int (trunc z) < z + 1" if "z < 0"
    using that by (simp add: trunc_def) linarith
  show "\<bar>of_int (Round (Fin x)) - x\<bar> \<le> 1 / 2 + 1 / 549755813888"
  proof (cases "x < 0")
    case True
    then have "z < 0" using z(2) unfolding if_P [OF True] abs_le_iff by linarith
    then show ?thesis using tl z(2) unfolding R if_P [OF True] abs_le_iff by linarith
  next
    case False
    then have "0 \<le> z" using z(2) unfolding if_not_P [OF False] abs_le_iff by linarith
    then show ?thesis using tr z(2) unfolding R if_not_P [OF False] abs_le_iff by linarith
  qed
  show "0 \<le> Round (Fin x)" if "- 1 / 4 < x"
  proof -
    have "- 1 / 2 \<le> ?s" by simp
    then have "- 1 < z" using z(2) that unfolding abs_le_iff by linarith
    then show ?thesis unfolding R by (simp add: trunc_def)
  qed
qed

section \<open>The cursor\<close>

definition quota :: "nat \<Rightarrow> rat" where
  "quota n = 16384 / of_nat n"

definition cursor_ok :: "nat \<Rightarrow> nat \<Rightarrow> rat \<Rightarrow> bool" where
  "cursor_ok n i c \<longleftrightarrow> \<bar>c - of_nat i * quota n\<bar> \<le> of_nat i / 274877906944"

text \<open>The bound on the distance of a range's first slot from the exact quotient.\<close>

definition first_ok :: "nat \<Rightarrow> nat \<Rightarrow> int \<Rightarrow> bool" where
  "first_ok n i a \<longleftrightarrow> 0 \<le> a \<and> \<bar>of_int a - of_nat i * quota n\<bar> \<le> 1 / 2 + 1 / 1048576"

lemma quota_bounds:
  assumes "0 < n" "n \<le> 16384"
  shows "1 \<le> quota n" "quota n \<le> 16384" "i \<le> n \<Longrightarrow> of_nat i * quota n \<le> 16384" "of_nat n * quota n = 16384"
proof -
  have n: "(1::rat) \<le> of_nat n" "of_nat n \<le> (16384::rat)" "(0::rat) < of_nat n"
  proof -
    show "(1::rat) \<le> of_nat n" using assms(1) by simp
    have "(of_nat n :: rat) \<le> of_nat 16384" using assms(2) by (simp only: of_nat_le_iff)
    then show "of_nat n \<le> (16384::rat)" by simp
    show "(0::rat) < of_nat n" using assms(1) by simp
  qed
  show "1 \<le> quota n" using n by (simp add: quota_def le_divide_eq)
  show q: "quota n \<le> 16384" using n by (simp add: quota_def divide_le_eq)
  show e: "of_nat n * quota n = 16384" using n by (simp add: quota_def)
  show "of_nat i * quota n \<le> 16384" if "i \<le> n"
  proof -
    have "of_nat i * quota n \<le> of_nat n * quota n"
      using that \<open>1 \<le> quota n\<close> by (intro mult_right_mono) simp_all
    then show ?thesis using e by simp
  qed
qed

lemma slotsPerNode_eq:
  assumes "0 < n" "n \<le> 16384"
  shows "f_div (f_of_int 16384) (f_of_int (int n)) = Fin (fl (quota n))"
    and "\<bar>fl (quota n) - quota n\<bar> \<le> 1 / 549755813888"
proof -
  show "f_div (f_of_int 16384) (f_of_int (int n)) = Fin (fl (quota n))"
    using f_div_small [of 16384 "int n"] assms by (simp add: quota_def)
  show "\<bar>fl (quota n) - quota n\<bar> \<le> 1 / 549755813888"
    using quota_bounds(1,2) [OF assms] by (intro fl_near) simp
qed

lemma cursor_step:
  assumes n: "0 < n" "n \<le> 16384" and i: "i < n" and c: "cursor_ok n i c"
  shows "\<exists>d. f_add (Fin c) (Fin (fl (quota n))) = Fin d \<and> cursor_ok n (Suc i) d"
proof -
  note q = quota_bounds [OF n] and spn = slotsPerNode_eq(2) [OF n]
  have i': "(of_nat i :: rat) \<le> 16384" using i n by (metis less_imp_le of_nat_le_iff of_nat_numeral order_trans)
  have a: "\<bar>c - of_nat i * quota n\<bar> \<le> of_nat i / 274877906944" using c by (simp add: cursor_ok_def)
  have "of_nat (Suc i) * quota n \<le> 16384" "0 \<le> of_nat i * quota n" using q(1) q(3) [of "Suc i"] i by simp_all
  moreover have "of_nat (Suc i) * quota n = of_nat i * quota n + quota n" by (simp add: distrib_right)
  moreover have "(of_nat i / 274877906944 :: rat) \<le> 16384 / 274877906944" using i' by (intro divide_right_mono) simp_all
  ultimately have "\<bar>c + fl (quota n)\<bar> < 32768" using a spn q(1) unfolding abs_le_iff abs_less_iff by linarith
  then obtain d where d: "rnd (c + fl (quota n)) = Fin d" "\<bar>d - (c + fl (quota n))\<bar> \<le> 1 / 549755813888"
    using rnd_near by blast
  have "\<bar>d - of_nat (Suc i) * quota n\<bar> \<le> 1 / 549755813888 + of_nat i / 274877906944 + 1 / 549755813888"
    using a spn d(2) unfolding of_nat_Suc distrib_right abs_le_iff by linarith
  also have "\<dots> = of_nat (Suc i) / 274877906944" by (simp add: add_divide_distrib)
  finally show ?thesis using d(1) by (simp add: cursor_ok_def)
qed

lemma round_cursor:
  assumes n: "0 < n" "n \<le> 16384" and i: "i < n" and d: "cursor_ok n (Suc i) d"
  shows "first_ok n (Suc i) (Round (f_sub (Fin d) (Fin 1)) + 1)"
    and "0 \<le> Round (f_sub (Fin d) (Fin 1))"
proof -
  note q = quota_bounds [OF n]
  let ?t = "of_nat (Suc i) * quota n"
  have i': "(of_nat (Suc i) :: rat) \<le> 16384" using i n by (metis Suc_leI of_nat_le_iff of_nat_numeral order_trans)
  have "(of_nat (Suc i) / 274877906944 :: rat) \<le> 16384 / 274877906944" using i' by (intro divide_right_mono) simp_all
  then have a: "\<bar>d - ?t\<bar> \<le> 1 / 16777216" using d by (simp add: cursor_ok_def)
  have t: "?t \<le> 16384" "1 \<le> ?t"
  proof -
    show "?t \<le> 16384" using q(3) [of "Suc i"] i by simp
    have "1 * 1 \<le> of_nat (Suc i) * quota n" using q(1) by (intro mult_mono) simp_all
    then show "1 \<le> ?t" by simp
  qed
  have "\<bar>d + - 1\<bar> < 32768" using a t unfolding abs_le_iff abs_less_iff by linarith
  then obtain y where y: "rnd (d + - 1) = Fin y" "\<bar>y - (d + - 1)\<bar> \<le> 1 / 549755813888" using rnd_near by blast
  have sub: "f_sub (Fin d) (Fin 1) = Fin y" using y(1) by (simp add: f_sub_def)
  have yb: "\<bar>y\<bar> < 16384 + 1" "- 1 / 4 < y" using a t y(2) unfolding abs_le_iff abs_less_iff by linarith+
  show "0 \<le> Round (f_sub (Fin d) (Fin 1))" unfolding sub using Round_near(2) [OF yb] .
  then show "first_ok n (Suc i) (Round (f_sub (Fin d) (Fin 1)) + 1)"
    using Round_near(1) [OF yb(1)] a y(2) unfolding first_ok_def sub abs_le_iff of_int_add of_int_1 by linarith
qed

section \<open>The ranges\<close>

lemma first_ok_below:
  assumes n: "0 < n" "n \<le> 16384" and i: "i < n" and a: "first_ok n i a"
  shows "a \<le> 16383"
proof -
  note q = quota_bounds [OF n]
  have "of_nat (Suc i) * quota n \<le> 16384" using q(3) [of "Suc i"] i by simp
  then have "of_int a < (16384::rat)"
    using a q(1) unfolding first_ok_def abs_le_iff of_nat_Suc distrib_right by linarith
  then show ?thesis by simp
qed

lemma lastSlot_ok:
  assumes n: "0 < n" "n \<le> 16384" and i: "i < n" and c: "cursor_ok n i c" and a: "first_ok n i a"
  defines "l \<equiv> lastSlot 16384 (Fin (fl (quota n))) n i a (Fin c)"
  shows "a \<le> l" "l \<le> 16383" "first_ok n (Suc i) (l + 1)" "Suc i = n \<Longrightarrow> l = 16383"
proof -
  note q = quota_bounds [OF n] and below = first_ok_below [OF n i a]
  obtain d where d: "f_add (Fin c) (Fin (fl (quota n))) = Fin d" "cursor_ok n (Suc i) d"
    using cursor_step [OF n i c] by blast
  let ?r = "Round (f_sub (Fin d) (Fin 1))"
  note R = round_cursor [OF n i d(2)]
  have l: "l = max a (if ?r > 16384 \<or> Suc i = n then 16383 else ?r)"
    using n(1) by (auto simp: l_def lastSlot_def Let_def d(1) max_def simp del: f_add.simps)
  have both: "first_ok n (Suc i) (max a ?r + 1)"
  proof -
    have "of_int (max a ?r) = max (of_int a) (of_int ?r :: rat)" by (simp add: of_int_max)
    moreover have "of_int a + 1 \<le> of_nat (Suc i) * quota n + 1 / 2 + 1 / 1048576"
      using a q(1) unfolding first_ok_def abs_le_iff of_nat_Suc distrib_right by linarith
    ultimately show ?thesis
      using R unfolding first_ok_def abs_le_iff of_int_add of_int_1 by linarith
  qed
  show "a \<le> l" by (simp add: l)
  show last: "l = 16383" if "Suc i = n" using that below by (simp add: l)
  show up: "l \<le> 16383"
  proof (cases "Suc i = n")
    case False
    then have "Suc i < n" using i by simp
    then have "?r + 1 \<le> 16383" using first_ok_below [OF n _ R(1)] by blast
    then show ?thesis using False below by (simp add: l)
  qed (simp add: last)
  show "first_ok n (Suc i) (l + 1)"
  proof (cases "Suc i = n")
    case True
    then show ?thesis using q(4) by (simp add: first_ok_def last)
  next
    case False
    then have "Suc i < n" using i by simp
    then have "?r + 1 \<le> 16383" using first_ok_below [OF n _ R(1)] by blast
    then have "l = max a ?r" using False by (simp add: l)
    then show ?thesis using both by simp
  qed
qed

text \<open>A range has the quotient, or one more when the division leaves a rest.\<close>

lemma range_size:
  assumes n: "0 < n" "n \<le> 16384" and "first_ok n i a" "first_ok n (Suc i) b"
  shows "b - a = 16384 div int n \<or> (\<not> n dvd 16384 \<and> b - a = 16384 div int n + 1)"
proof -
  let ?k = "16384 div int n"
  have b: "0 < int n" "int n \<le> 16384" using n by simp_all
  have q: "quota n = of_int 16384 / of_int (int n)" by (simp add: quota_def)
  have d: "int n dvd 16384 \<longleftrightarrow> n dvd 16384" by (metis int_dvd_int_iff of_nat_numeral)
  have near: "of_int (b - a) \<le> quota n + 1 + 1 / 524288" "quota n - 1 - 1 / 524288 \<le> of_int (b - a)"
    using assms(3,4) unfolding first_ok_def abs_le_iff of_nat_Suc distrib_right of_int_diff by linarith+
  show ?thesis
  proof (cases "int n dvd 16384")
    case True
    then have qk: "quota n = of_int ?k"
      unfolding q by (metis b(1) less_irrefl nonzero_mult_div_cancel_left of_int_eq_0_iff of_int_mult dvd_mult_div_cancel)
    have eq: "c = int j * ?k" if "first_ok n j c" for c j
    proof -
      have e: "(of_nat j * quota n :: rat) = of_int (int j * ?k)" by (simp add: qk)
      have "of_int c < (of_int (int j * ?k) + 1 :: rat)" "(of_int (int j * ?k) :: rat) < of_int c + 1"
        using that unfolding first_ok_def abs_le_iff e by linarith+
      then show ?thesis by linarith
    qed
    show ?thesis using eq [OF assms(3)] eq [OF assms(4)] by (simp add: distrib_right)
  next
    case False
    note Q = quot_bounds(2) [OF b(1) False] quot_bounds(3) [OF b(1), of 16384]
    have "(of_int (int n) :: rat) \<le> of_int 16384" using b(2) by (simp only: of_int_le_iff)
    then have "1 / 16384 \<le> (1 / of_int (int n) :: rat)" using b(1) by (intro divide_left_mono) simp_all
    then have "of_int (b - a) < (of_int ?k + 2 :: rat)" "(of_int ?k - 1 :: rat) < of_int (b - a)"
      using near Q unfolding q by linarith+
    then have "b - a = ?k \<or> b - a = ?k + 1" by linarith
    then show ?thesis using False d by blast
  qed
qed

lemma not_max_slot_int: "0 \<le> x \<Longrightarrow> x \<le> 16383 \<Longrightarrow> (word_of_int x :: Slot) \<noteq> - 1"
proof
  assume x: "0 \<le> x" "x \<le> 16383" and "(word_of_int x :: Slot) = - 1"
  then have "uint (word_of_int x :: Slot) = uint (- 1 :: Slot)" by simp
  moreover have "uint (- 1 :: Slot) = 2 ^ 64 - 1" by (simp add: unsigned_minus_1_eq_mask mask_eq_exp_minus_1)
  ultimately show False using x by (simp add: uint_word_of_int)
qed

lemma slots_between_ints:
  assumes "0 \<le> a" "a \<le> b" "b \<le> 16383"
  shows "slots_between (word_of_int a) (word_of_int b) = map of_nat [nat a..<nat (b + 1)]"
proof -
  have "unat (word_of_int x :: Slot) = nat x" if "0 \<le> x" "x \<le> 16383" for x
    using that by (simp add: unat_eq_nat_uint uint_word_of_int)
  then show ?thesis using assms by (simp add: slots_between_def Suc_nat_eq_nat_zadd1 add.commute)
qed

definition alloc_size_ok :: "nat \<Rightarrow> nat \<Rightarrow> bool" where
  "alloc_size_ok n k \<longleftrightarrow> k = 16384 div n \<or> (\<not> n dvd 16384 \<and> k = Suc (16384 div n))"

lemma range_size_nat:
  assumes "0 < n" "n \<le> 16384" "first_ok n i a" "first_ok n (Suc i) b" "a \<le> b"
  shows "alloc_size_ok n (nat b - nat a)"
proof -
  have "int (16384 div n) = 16384 div int n" by (simp add: zdiv_int)
  then show ?thesis
    using range_size [OF assms(1-4)] assms(3,5) unfolding alloc_size_ok_def first_ok_def by linarith
qed

lemma allocLoop_spec:
  assumes n: "0 < n" "n \<le> 16384"
    and run: "allocLoop env 16384 (Fin (fl (quota n))) n ns i a (Fin c) h s = Ret ((None, h'), s')"
    and "distinct ns" "i + length ns = n" "cursor_ok n i c" "first_ok n i a" "ns = [] \<longrightarrow> a = 16384"
  shows "concat (map (\<lambda>r. NSlots (h' r)) ns) = map of_nat [nat a..<16384] \<and>
    (\<forall>r\<in>set ns. alloc_size_ok n (length (NSlots (h' r)))) \<and> (\<forall>r. r \<notin> set ns \<longrightarrow> h' r = h r)"
  using assms(3-)
proof (induction ns arbitrary: i a c h s)
  case (Cons r ns)
  let ?l = "lastSlot 16384 (Fin (fl (quota n))) n i a (Fin c)"
  have i: "i < n" using Cons.prems(3) by simp
  note L = lastSlot_ok [OF n i Cons.prems(4,5)]
  have a0: "0 \<le> a" using Cons.prems(5) by (simp add: first_ok_def)
  let ?S = "map of_nat [nat a..<nat (?l + 1)] :: Slot list"
  have "(word_of_int ?l :: Slot) \<noteq> - 1"
    using L(1,2) a0 by (intro not_max_slot_int) simp_all
  then have build: "BuildSlotSlice (word_of_int a) (word_of_int ?l) = Ret ?S"
    using slots_between_ints [OF a0 L(1,2)] by (simp add: BuildSlotSlice_eq)
  obtain d where d: "f_add (Fin c) (Fin (fl (quota n))) = Fin d" "cursor_ok n (Suc i) d"
    using cursor_step [OF n i Cons.prems(4)] by blast
  let ?h = "h(r := (h r)\<lparr>NSlots := ?S\<rparr>)"
  obtain s1 where run: "allocLoop env 16384 (Fin (fl (quota n))) n ns (Suc i) (?l + 1) (Fin d) ?h s1 = Ret ((None, h'), s')"
    using Cons.prems(1)
    by (auto simp: build d(1) Let_def gbind_Ret_iff simp del: f_add.simps split: option.splits)
  have IH: "concat (map (\<lambda>r. NSlots (h' r)) ns) = map of_nat [nat (?l + 1)..<16384] \<and>
    (\<forall>r\<in>set ns. alloc_size_ok n (length (NSlots (h' r)))) \<and> (\<forall>x. x \<notin> set ns \<longrightarrow> h' x = ?h x)"
    using Cons.prems(2,3) L(3,4) d(2) by (intro Cons.IH [OF run]) auto
  then have hr: "NSlots (h' r) = ?S" using Cons.prems(2) by simp
  have "nat a \<le> nat (?l + 1)" "nat (?l + 1) \<le> 16384" using L(1,2) a0 by linarith+
  then have "[nat a..<16384] = [nat a..<nat (?l + 1)] @ [nat (?l + 1)..<16384]"
    using upt_add_eq_append [of "nat a" "nat (?l + 1)" "16384 - nat (?l + 1)"] by simp
  then have "map of_nat [nat a..<16384] = ?S @ map of_nat [nat (?l + 1)..<16384]" by (simp only: map_append)
  then have "concat (map (\<lambda>r. NSlots (h' r)) (r # ns)) = map of_nat [nat a..<16384]"
    using IH hr by simp
  moreover have "alloc_size_ok n (length (NSlots (h' r)))"
    using range_size_nat [OF n Cons.prems(5) L(3)] L(1) by (simp add: hr)
  ultimately show ?case using IH by auto
qed (simp add: first_ok_def)

lemma AllocSlots_spec:
  assumes "AllocSlots env news h s = Ret ((None, h'), s')" "distinct news" "news \<noteq> []" "length news \<le> 16384"
  shows "concat (map (\<lambda>r. NSlots (h' r)) news) = map of_nat [0..<16384]"
    and "r \<in> set news \<Longrightarrow> alloc_size_ok (length news) (length (NSlots (h' r)))"
    and "r \<notin> set news \<Longrightarrow> h' r = h r"
proof -
  let ?n = "length news"
  have n: "0 < ?n" "?n \<le> 16384" using assms(3,4) by simp_all
  have N: "uint (GetHashMaxSlot + 1) = 16384" by (simp add: GetHashMaxSlot_def DefaultHashMaxSlots_def)
  have "allocLoop env 16384 (Fin (fl (quota ?n))) ?n news 0 0 (Fin 0) h s = Ret ((None, h'), s')"
    using assms(1) slotsPerNode_eq(1) [OF n] by (simp add: AllocSlots_def N Let_def)
  note S = allocLoop_spec [OF n this assms(2)]
  show "concat (map (\<lambda>r. NSlots (h' r)) news) = map of_nat [0..<16384]"
    and "r \<in> set news \<Longrightarrow> alloc_size_ok (length news) (length (NSlots (h' r)))"
    and "r \<notin> set news \<Longrightarrow> h' r = h r"
    using S assms(3) by (simp_all add: cursor_ok_def first_ok_def)
qed

end
