(* ===== verification/Rebalance_Facts.thy ===== *)
theory Rebalance_Facts
  imports Alloc_Facts
begin

text \<open>
  \<open>RebalancedCluster\<close>: when the loop that spreads the rest of the division ends and when it
  does not, and what the pairing of receivers with donors leaves: every balance at zero, every
  donor with the first slots given away and exactly its share left.
\<close>

section \<open>The expected share\<close>

lemma expectedSlots_eq:
  assumes "0 < n" "n < 2 ^ 26"
  shows "expectedSlots n = 16384 div int n"
proof -
  have N: "uint (GetHashMaxSlot + 1) = 16384" by (simp add: GetHashMaxSlot_def DefaultHashMaxSlots_def)
  have i: "0 < int n" "int n < 2 ^ 26" using assms by simp_all
  let ?x = "fl (of_int 16384 / of_int (int n))"
  have fl: "\<lfloor>?x\<rfloor> = 16384 div int n" by (rule fl_quot(1)) (use i in simp_all)
  have k: "0 \<le> 16384 div int n" "16384 div int n \<le> 16384"
    using i(1) zdiv_mono2 [of 16384 1 "int n"] by (simp_all add: pos_imp_zdiv_nonneg_iff)
  have x: "0 \<le> ?x" using fl k(1) by (metis zero_le_floor)
  have "?x < of_int (16384 div int n + 1)" using fl by linarith
  also have "\<dots> \<le> of_int (16385)" using k(2) by (simp only: of_int_le_iff)
  finally have "\<bar>?x\<bar> < 2 ^ 62" using x by simp
  then have "f_to_int (Fin ?x) = trunc ?x" by (rule f_to_int_Fin)
  also have "\<dots> = 16384 div int n" using x fl by (simp only: trunc_def if_True)
  finally have "f_to_int (Fin ?x) = 16384 div int n" .
  moreover have "f_div (f_of_int 16384) (f_of_int (int n)) = Fin ?x"
    by (rule f_div_small) (use i in simp_all)
  ultimately show ?thesis unfolding expectedSlots_def N by (simp del: f_to_int.simps)
qed

section \<open>Spreading the rest\<close>

lemma SetBalance_simps [simp]:
  "balance (SetBalance r b h x) = (if x = r then b else balance (h x))"
  "NSlots (SetBalance r b h x) = NSlots (h x)"
  "ID (SetBalance r b h x) = ID (h x)" "IPPort (SetBalance r b h x) = IPPort (h x)"
  by (simp_all add: SetBalance_def IPPort_def)

lemma initBalance_spec:
  assumes "distinct ns"
  shows "balance (fold (initBalance n) ns h r) =
      (if r \<in> set ns then int (length (NSlots (h r))) - expectedSlots n else balance (h r))"
    and "NSlots (fold (initBalance n) ns h r) = NSlots (h r)"
  using assms by (induction ns arbitrary: h) (auto simp: initBalance_def)

text \<open>What a round keeps: donors and slots as they were, receivers lower, the sum above the rest.\<close>

definition lowered :: "ref list \<Rightarrow> heap \<times> int \<Rightarrow> heap \<times> int \<Rightarrow> bool" where
  "lowered ns st st' \<longleftrightarrow>
     (\<forall>r. NSlots (fst st' r) = NSlots (fst st r) \<and>
        (if balance (fst st r) < 0 \<and> r \<in> set ns then balance (fst st' r) \<le> balance (fst st r)
         else balance (fst st' r) = balance (fst st r))) \<and>
     (0 \<le> snd st \<longrightarrow> 0 \<le> snd st') \<and>
     (\<Sum>r\<in>set ns. balance (fst st' r)) - snd st' = (\<Sum>r\<in>set ns. balance (fst st r)) - snd st"

lemma lowered_refl: "lowered ns st st"
  by (simp add: lowered_def)

lemma lowered_trans:
  assumes "lowered ns a b" "lowered ns b c"
  shows "lowered ns a c"
  unfolding lowered_def
proof (intro conjI allI)
  fix r
  show "NSlots (fst c r) = NSlots (fst a r)" using assms by (simp add: lowered_def)
  show "if balance (fst a r) < 0 \<and> r \<in> set ns then balance (fst c r) \<le> balance (fst a r)
      else balance (fst c r) = balance (fst a r)"
    using assms unfolding lowered_def by (smt (verit))
qed (use assms in \<open>auto simp: lowered_def\<close>)

lemma lowered_neg:
  assumes "lowered ns st st'" "r \<in> set ns" "balance (fst st r) < 0"
  shows "balance (fst st' r) < 0"
proof -
  have "balance (fst st' r) \<le> balance (fst st r)" using assms by (simp add: lowered_def)
  then show ?thesis using assms(3) by simp
qed

lemma lowered_step: "r \<in> set ns \<Longrightarrow> lowered ns st (lowerStep r st)"
proof -
  assume r: "r \<in> set ns"
  obtain h t where st: "st = (h, t)" by (cases st)
  have "(\<Sum>x\<in>set ns. balance (SetBalance r (balance (h r) - 1) h x)) =
    (balance (h r) - 1) + (\<Sum>x\<in>set ns - {r}. balance (h x))"
    using r by (simp add: sum.remove [of "set ns" r])
  moreover have "(\<Sum>x\<in>set ns. balance (h x)) = balance (h r) + (\<Sum>x\<in>set ns - {r}. balance (h x))"
    using r by (simp add: sum.remove)
  ultimately show ?thesis using r by (simp add: lowered_def lowerStep_def st)
qed

lemma lowered_fold: "set xs \<subseteq> set ns \<Longrightarrow> lowered ns st (fold lowerStep xs st)"
proof (induction xs arbitrary: st)
  case (Cons r xs)
  then have "lowered ns st (lowerStep r st)" "lowered ns (lowerStep r st) (fold lowerStep xs (lowerStep r st))"
    using lowered_step by auto
  then show ?case using lowered_trans by simp
qed (simp add: lowered_refl)

lemma lowerStep_decreases:
  "snd (lowerStep r st) \<le> snd st" "0 \<le> snd st \<Longrightarrow> 0 \<le> snd (lowerStep r st)"
  by (auto simp: lowerStep_def split: prod.splits)

lemma fold_lower_decreases:
  "snd (fold lowerStep ns st) \<le> snd st" "0 \<le> snd st \<Longrightarrow> 0 \<le> snd (fold lowerStep ns st)"
proof -
  show "snd (fold lowerStep ns st) \<le> snd st"
  proof (induction ns arbitrary: st)
    case (Cons r ns)
    show ?case using Cons.IH [of "lowerStep r st"] lowerStep_decreases(1) [of r st] by simp
  qed simp
  show "0 \<le> snd st \<Longrightarrow> 0 \<le> snd (fold lowerStep ns st)"
    by (induction ns arbitrary: st) (simp_all add: lowerStep_decreases(2))
qed

lemma fold_lower_progress:
  assumes "\<exists>r\<in>set ns. balance (fst st r) < 0" "0 < snd st"
  shows "snd (fold lowerStep ns st) < snd st"
  using assms
proof (induction ns arbitrary: st)
  case (Cons r ns)
  obtain h t where st: "st = (h, t)" by (cases st)
  show ?case
  proof (cases "balance (h r) < 0")
    case True
    then have "snd (lowerStep r st) < t" using Cons.prems(2) by (simp add: lowerStep_def st)
    then show ?thesis using fold_lower_decreases(1) [of ns "lowerStep r st"] by (simp add: st)
  next
    case False
    then have "lowerStep r st = st" by (simp add: lowerStep_def st)
    moreover have "\<exists>r\<in>set ns. balance (fst st r) < 0" using Cons.prems(1) False by (auto simp: st)
    ultimately show ?thesis using Cons.IH [of st] Cons.prems(2) by simp
  qed
qed simp

text \<open>
  A round with a negative balance takes at least one from the rest, so the loop ends. A round
  without one changes nothing: no number of rounds ends the loop.
\<close>

lemma lowerLoop_ends: "t \<le> 0 \<Longrightarrow> lowerLoop ns h t = Some (Ret h)"
  by (subst lowerLoop.simps) simp

lemma lowerLoop_round:
  "0 < t \<Longrightarrow> lowerLoop ns h t =
     lowerLoop ns (fst (fold lowerStep ns (h, t))) (snd (fold lowerStep ns (h, t)))"
  by (subst lowerLoop.simps) (simp add: case_prod_unfold)

lemma lowerLoop_spec:
  "0 \<le> t \<Longrightarrow> t = 0 \<or> (\<exists>r\<in>set ns. balance (h r) < 0) \<Longrightarrow>
   \<exists>h'. lowerLoop ns h t = Some (Ret h') \<and> lowered ns (h, t) (h', 0)"
proof (induction "nat t" arbitrary: h t rule: less_induct)
  case less
  let ?st = "fold lowerStep ns (h, t)"
  show ?case
  proof (cases "t = 0")
    case True
    then show ?thesis using lowerLoop_ends [of t ns h] lowered_refl [of ns "(h, 0)"] by blast
  next
    case False
    then have t: "0 < t" and neg: "\<exists>r\<in>set ns. balance (h r) < 0" using less.prems by auto
    have l: "lowered ns (h, t) ?st" by (rule lowered_fold) simp
    then have "\<exists>r\<in>set ns. balance (fst ?st r) < 0" using neg lowered_neg [OF l] by auto
    moreover have "0 \<le> snd ?st" using l t by (simp add: lowered_def)
    moreover have "nat (snd ?st) < nat t" using fold_lower_progress [of ns "(h, t)"] neg t by simp
    ultimately obtain h' where h': "lowerLoop ns (fst ?st) (snd ?st) = Some (Ret h')" "lowered ns ?st (h', 0)"
      using less.hyps [of "snd ?st" "fst ?st"] by auto
    then show ?thesis using lowerLoop_round [OF t, of ns h] lowered_trans [OF l h'(2)] by metis
  qed
qed

lemma fold_lower_idle:
  "\<forall>r\<in>set ns. 0 \<le> balance (h r) \<Longrightarrow> fold lowerStep ns (h, t) = (h, t)"
  by (induction ns) (auto simp: lowerStep_def)

lemma lowerLoop_hang:
  assumes "0 < t" "\<forall>r\<in>set ns. 0 \<le> balance (h r)"
  shows "lowerLoop ns h t = None"
proof (rule ccontr)
  assume "lowerLoop ns h t \<noteq> None"
  then obtain y where y: "lowerLoop ns h t = Some y" by blast
  have "\<not> (0 < t \<and> (\<forall>r\<in>set ns. 0 \<le> balance (h r)))"
  proof (rule lowerLoop.raw_induct [where P = "\<lambda>ns h t y. \<not> (0 < t \<and> (\<forall>r\<in>set ns. 0 \<le> balance (h r)))", OF _ y])
    fix loop :: "ref list \<Rightarrow> heap \<Rightarrow> int \<Rightarrow> heap go option" and ns h t y
    assume IH: "\<And>ns h t y. loop ns h t = Some y \<Longrightarrow> \<not> (0 < t \<and> (\<forall>r\<in>set ns. 0 \<le> balance (h r)))"
      and body: "(if 0 < t then case fold lowerStep ns (h, t) of (h, t) \<Rightarrow> loop ns h t else Some (Ret h)) = Some y"
    show "\<not> (0 < t \<and> (\<forall>r\<in>set ns. 0 \<le> balance (h r)))"
    proof
      assume idle: "0 < t \<and> (\<forall>r\<in>set ns. 0 \<le> balance (h r))"
      then have "loop ns h t = Some y" using body by (simp add: fold_lower_idle)
      then show False using IH idle by blast
    qed
  qed
  then show False using assms by blast
qed

section \<open>The plan for one donor\<close>

lemma shareOf_covers:
  assumes "0 < k" "k \<le> int t" "t \<le> 16384"
  shows "k \<le> shareOf 0 k (int t) t"
proof -
  let ?x = "of_int k / of_int (int t) :: rat"
  have t: "0 < int t" "int t \<le> 16384" using assms by simp_all
  have d: "f_div (f_of_int k) (f_of_int (int t)) = Fin (fl ?x)" "\<bar>fl ?x - ?x\<bar> \<le> 1 / 2 ^ 28"
    using f_div_small [of k "int t"] fl_quot(3) [of k "int t"] assms t by simp_all
  have T: "(0::rat) < of_int (int t)" "of_int (int t) \<le> (16384::rat)"
  proof -
    show "(0::rat) < of_int (int t)" using t(1) by simp
    have "(of_int (int t) :: rat) \<le> of_int 16384" using t(2) by (simp only: of_int_le_iff)
    then show "of_int (int t) \<le> (16384::rat)" by simp
  qed
  have xk: "?x * of_int (int t) = of_int k" using T(1) by simp
  have K: "of_int k \<le> (16384::rat)" "1 \<le> (of_int k :: rat)"
  proof -
    have "(of_int k :: rat) \<le> of_int 16384" using assms by (simp only: of_int_le_iff)
    then show "of_int k \<le> (16384::rat)" by simp
    show "1 \<le> (of_int k :: rat)" using assms(1) by simp
  qed
  have "\<bar>(fl ?x - ?x) * of_int (int t)\<bar> \<le> 1 / 2 ^ 28 * 16384"
    unfolding abs_mult using d(2) T by (intro mult_mono) simp_all
  also have "(1 / 2 ^ 28 * 16384 :: rat) \<le> 1 / 4" by simp
  finally have m: "\<bar>fl ?x * of_int (int t) - of_int k\<bar> \<le> 1 / 4" by (simp only: left_diff_distrib xk)
  then have "\<bar>fl ?x * of_int (int t)\<bar> < 32768" using K unfolding abs_le_iff abs_less_iff by linarith
  then obtain y where y: "rnd (fl ?x * of_int (int t)) = Fin y" "\<bar>y - fl ?x * of_int (int t)\<bar> \<le> 1 / 549755813888"
    using rnd_near by blast
  have small: "\<bar>int t\<bar> < 2 ^ 53" using t by simp
  have prod: "f_mul (f_div (f_of_int k) (f_of_int (int t))) (f_of_int (int t)) = Fin y"
    unfolding d(1) unfolding f_of_int_small [OF small] f_mul.simps by (rule y(1))
  have yk: "of_int (k - 1) < y" "y < of_int (k + 1)"
    using m y(2) unfolding abs_le_iff of_int_diff of_int_add of_int_1 by linarith+
  then have c: "k \<le> \<lceil>y\<rceil>" "\<lceil>y\<rceil> \<le> k + 1" by linarith+
  then have "\<bar>of_int \<lceil>y\<rceil> :: rat\<bar> \<le> of_int 16385"
    using assms by (simp only: of_int_abs [symmetric] of_int_le_iff)
  then have "f_to_int (Fin (of_int \<lceil>y\<rceil>)) = trunc (of_int \<lceil>y\<rceil>)" by (intro f_to_int_Fin) simp
  then have "shareOf 0 k (int t) t = \<lceil>y\<rceil>" unfolding shareOf_def Let_def prod by (simp add: trunc_def del: f_to_int.simps)
  then show ?thesis using c(1) by simp
qed

lemma pick_full:
  "int (length moved) \<ge> k \<Longrightarrow> gfold (pickStep node keys k) is moved = Ret moved"
  by (induction "is") (simp_all add: pickStep_def)

lemma pick_prefix:
  assumes "m \<le> length keys" "int m \<le> k"
  shows "gfold (pickStep node keys k) [0..<m] [] = Ret (map (Pair node) (take m keys))"
  using assms
proof (induction m)
  case (Suc m)
  then show ?case by (simp add: gfold_append pickStep_def take_Suc_conv_app_nth)
qed simp

lemma computeReshardTable_single:
  assumes srt: "is_sorter srt"
    and k: "0 < k" "k \<le> int (length (NSlots (h src)))" "length (NSlots (h src)) \<le> 16384"
  shows "computeReshardTable srt h [src] k = Ret (map (Pair src) (take (nat k) (NSlots (h src))))"
proof -
  let ?t = "length (NSlots (h src))" let ?m = "nat (shareOf 0 k (int ?t) ?t)"
  have "srt (\<lambda>a b. TotalSlots (h a) < TotalSlots (h b)) [src] = [src]"
    using is_sortD(1) [OF is_sorter_key [OF srt], of "\<lambda>a. TotalSlots (h a)" "[src]"] by (metis mset_single_iff mset.simps)
  moreover have "gfold f [] = Ret" for f :: "nat \<times> ref \<Rightarrow> MovedNode list \<Rightarrow> MovedNode list go" by (rule ext) simp
  ultimately have e: "computeReshardTable srt h [src] k = gfold (pickStep src (NSlots (h src)) k) [0..<?m] []"
    by (simp add: computeReshardTable_def SortByFunc_def reshardStep_def TotalSlots_def)
  have "nat k \<le> ?m" using shareOf_covers [OF k] by (rule nat_mono)
  then have "[0..<?m] = [0..<nat k] @ [nat k..<?m]"
    using upt_add_eq_append [of 0 "nat k" "?m - nat k"] unfolding le_add_diff_inverse [OF \<open>nat k \<le> ?m\<close>] by simp
  then show ?thesis using k pick_prefix [of "nat k" "NSlots (h src)" k src]
    by (simp add: e gfold_append pick_full)
qed

section \<open>Moving the slots of one donor\<close>

lemma moveSlot_success:
  assumes "moveSlot env (src, slot) dst h s = Ret ((None, h'), s')"
  shows "h' = h(src := (h src)\<lparr>NSlots := remove1 slot (NSlots (h src))\<rparr>)"
  using assms
  by (auto simp: moveSlot_def gbind_Ret_iff RemoveSlot_remove1 case_prod_unfold split: option.splits)

lemma moveTable_success:
  assumes "moveTable env (map (Pair src) slots) dst h s = Ret ((None, h'), s')"
    and "NSlots (h src) = slots @ rest"
  shows "h' = h(src := (h src)\<lparr>NSlots := rest\<rparr>)"
  using assms
proof (induction slots arbitrary: h s)
  case (Cons x xs)
  from Cons.prems(1) obtain h1 s1 where
    1: "moveSlot env (src, x) dst h s = Ret ((None, h1), s1)" "moveTable env (map (Pair src) xs) dst h1 s1 = Ret ((None, h'), s')"
    by (auto simp: gbind_Ret_iff split: option.splits)
  have h1: "h1 = h(src := (h src)\<lparr>NSlots := xs @ rest\<rparr>)" using moveSlot_success [OF 1(1)] Cons.prems(2) by simp
  then have "NSlots (h1 src) = xs @ rest" by simp
  then have "h' = h1(src := (h1 src)\<lparr>NSlots := rest\<rparr>)" by (rule Cons.IH [OF 1(2)])
  then show ?case by (auto simp: h1 fun_eq_iff)
next
  case Nil
  then have "h' = h" "(h src)\<lparr>NSlots := rest\<rparr> = h src" by simp_all
  then show ?case by (simp only: fun_upd_triv)
qed

lemma pairSlots_eq:
  assumes "\<bar>b\<bar> < 2 ^ 53" "\<bar>c\<bar> < 2 ^ 53"
  shows "pairSlots b c = Fin (of_int (min \<bar>b\<bar> \<bar>c\<bar>))"
  using assms by (auto simp: pairSlots_def f_of_int_small min_def simp flip: of_int_abs)

lemma f_to_int_small:
  assumes "\<bar>k\<bar> < 2 ^ 53"
  shows "f_to_int (Fin (of_int k)) = k"
proof -
  have "(of_int \<bar>k\<bar> :: rat) < of_int (2 ^ 53)" using assms by (simp only: of_int_less_iff)
  then have "\<bar>of_int k :: rat\<bar> < 2 ^ 62" by simp
  then show ?thesis by (simp add: f_to_int_Fin trunc_def del: f_to_int.simps)
qed

lemma movePair_success:
  assumes run: "movePair env dst src (Fin (of_int k)) h s = Ret ((None, h'), s')"
    and srt: "is_sorter (sortRefs env)"
    and k: "0 \<le> k" "k \<le> int (length (NSlots (h src)))" "length (NSlots (h src)) \<le> 16384"
  shows "h' = h(src := (h src)\<lparr>NSlots := drop (nat k) (NSlots (h src))\<rparr>)"
proof (cases "k = 0")
  case True
  then have "h' = h" using run by (simp add: movePair_def)
  then show ?thesis using True by simp
next
  case False
  then have "0 < k" using k(1) by simp
  moreover have "f_to_int (Fin (of_int k)) = k" by (rule f_to_int_small) (use k in simp)
  ultimately have "moveTable env (map (Pair src) (take (nat k) (NSlots (h src)))) dst h s = Ret ((None, h'), s')"
    using run computeReshardTable_single [where k = k and h = h and src = src, OF srt _ k(2,3)]
    by (simp add: movePair_def del: f_to_int.simps)
  then show ?thesis by (rule moveTable_success) simp
qed

section \<open>Pairing receivers and donors\<close>

text \<open>
  The balances in their sorted order: outside the two indices zero, at the lower one a
  receiver, at the upper one a donor, between them still sorted.
\<close>

definition pair_inv :: "nat \<Rightarrow> (nat \<Rightarrow> int) \<Rightarrow> nat \<Rightarrow> nat \<Rightarrow> bool" where
  "pair_inv N b i j \<longleftrightarrow> j < N \<and> i \<le> Suc j \<and> (\<forall>k<N. k < i \<or> j < k \<longrightarrow> b k = 0) \<and> sum b {..<N} = 0 \<and>
     (i \<le> j \<longrightarrow> b i \<le> 0 \<and> 0 \<le> b j) \<and> (\<forall>k l. i < k \<longrightarrow> k \<le> l \<longrightarrow> l < j \<longrightarrow> b k \<le> b l)"

lemma sum_zero_nonneg:
  fixes b :: "nat \<Rightarrow> int"
  assumes "sum b {..<N} = 0" "\<forall>k<N. 0 \<le> b k" "k < N"
  shows "b k = 0"
  using assms sum_nonneg_eq_0_iff [of "{..<N}" b] by auto

lemma sum_zero_nonpos:
  fixes b :: "nat \<Rightarrow> int"
  assumes "sum b {..<N} = 0" "\<forall>k<N. b k \<le> 0" "k < N"
  shows "b k = 0"
  using sum_zero_nonneg [of "\<lambda>k. - b k" N k] assms by (simp add: sum_negf)

lemma pair_inv_done:
  assumes "pair_inv N b i j" "\<not> i < j" "k < N"
  shows "b k = 0"
proof -
  note I = assms(1) [unfolded pair_inv_def]
  show ?thesis
  proof (cases "k = i \<and> i = j")
    case True
    have "0 \<le> b l" if "l < N" for l
    proof (cases "l = i")
      case False
      then have "l < i \<or> j < l" using True by auto
      then show ?thesis using I that by fastforce
    qed (use I True in simp)
    then show ?thesis using sum_zero_nonneg I assms(3) by blast
  next
    case False
    then have "k < i \<or> j < k" using assms(2) I by linarith
    then show ?thesis using I assms(3) by blast
  qed
qed

lemma pair_inv_start:
  assumes "0 < N" "sum b {..<N} = 0" "\<And>k l. k \<le> l \<Longrightarrow> l < N \<Longrightarrow> b k \<le> b l"
  shows "pair_inv N b 0 (N - 1)"
proof -
  have "b 0 \<le> 0"
  proof (rule ccontr)
    assume "\<not> b 0 \<le> 0"
    then have "\<forall>k<N. 0 \<le> b k" using assms(3) by (metis le0 linear order_trans)
    then show False using sum_zero_nonneg [OF assms(2) _ assms(1)] \<open>\<not> b 0 \<le> 0\<close> by simp
  qed
  moreover have "0 \<le> b (N - 1)"
  proof (rule ccontr)
    assume neg: "\<not> 0 \<le> b (N - 1)"
    have "b k \<le> b (N - 1)" if "k < N" for k using assms(3) [of k "N - 1"] that assms(1) by simp
    then have "\<forall>k<N. b k \<le> 0" using neg by fastforce
    then show False using sum_zero_nonpos [OF assms(2), of "N - 1"] neg assms(1) by simp
  qed
  ultimately show ?thesis using assms by (auto simp: pair_inv_def)
qed

text \<open>One step: the smaller of the two amounts changes hands, and an index at zero moves on.\<close>

lemma sum_two_upd:
  fixes b :: "nat \<Rightarrow> int"
  assumes "i < N" "j < N" "i \<noteq> j"
  shows "sum (b(i := b i + m, j := b j - m)) {..<N} = sum b {..<N}"
proof -
  have "sum (b(i := b i + m, j := b j - m)) {..<N} =
    (\<Sum>k<N. b k + ((if k = i then m else 0) + (if k = j then - m else 0)))"
    using assms(3) by (intro sum.cong) auto
  also have "\<dots> = sum b {..<N}" using assms by (simp add: sum.distrib sum.delta)
  finally show ?thesis .
qed

text \<open>Behind an end that has reached zero the next balance has the right sign: the others are in
  order and the sum is zero.\<close>

lemma pair_ends:
  fixes c :: "nat \<Rightarrow> int"
  assumes sum: "sum c {..<N} = 0" and out: "\<And>k. k < N \<Longrightarrow> k < i \<or> j < k \<Longrightarrow> c k = 0"
    and srt: "\<And>k l. i < k \<Longrightarrow> k \<le> l \<Longrightarrow> l < j \<Longrightarrow> c k \<le> c l" and ij: "i < j" "j < N"
  shows "c i = 0 \<Longrightarrow> 0 \<le> c j \<Longrightarrow> c (i + 1) \<le> 0"
    and "c i \<le> 0 \<Longrightarrow> c j = 0 \<Longrightarrow> 0 \<le> c (j - 1)"
proof -
  assume e: "c i = 0" "0 \<le> c j"
  show "c (i + 1) \<le> 0"
  proof (rule ccontr)
    assume pos: "\<not> c (i + 1) \<le> 0"
    have "0 \<le> c k" if "k < N" for k
    proof (cases "i < k \<and> k < j")
      case True
      then show ?thesis using pos srt [of "i + 1" k] by simp
    qed (use out [OF that] e in \<open>metis linorder_neqE_nat order_refl\<close>)
    then show False using sum_zero_nonneg [OF sum, of "i + 1"] pos ij by simp
  qed
next
  assume e: "c i \<le> 0" "c j = 0"
  show "0 \<le> c (j - 1)"
  proof (rule ccontr)
    assume neg: "\<not> 0 \<le> c (j - 1)"
    have "c k \<le> 0" if "k < N" for k
    proof (cases "i < k \<and> k < j")
      case True
      then show ?thesis using neg srt [of k "j - 1"] by fastforce
    qed (use out [OF that] e in \<open>metis linorder_neqE_nat order_refl\<close>)
    then show False using sum_zero_nonpos [OF sum, of "j - 1"] neg ij by simp
  qed
qed

lemma pair_inv_step:
  assumes inv: "pair_inv N b i j" and ij: "i < j"
  defines "m \<equiv> min \<bar>b i\<bar> \<bar>b j\<bar>"
  defines "c \<equiv> b(i := b i + m, j := b j - m)"
  defines "i' \<equiv> if c i = 0 then i + 1 else i" and "j' \<equiv> if c j = 0 then j - 1 else j"
  shows "pair_inv N c i' j'" and "j' - i' < j - i \<or> \<not> i' < j'" and "c i \<le> 0" "0 \<le> c j" "c i = 0 \<or> c j = 0"
proof -
  note I = inv [unfolded pair_inv_def]
  have ci: "c i = b i + m" "c j = b j - m" using ij by (simp_all add: c_def)
  have signs: "b i \<le> 0" "0 \<le> b j" using I ij by auto
  then show ci0: "c i \<le> 0" and cj0: "0 \<le> c j" and one: "c i = 0 \<or> c j = 0"
    unfolding ci m_def by (auto simp: min_def)
  show "j' - i' < j - i \<or> \<not> i' < j'" using one ij by (auto simp: i'_def j'_def)
  have N: "i < N" "j < N" using I ij by auto
  have sum: "sum c {..<N} = 0" unfolding c_def using sum_two_upd [OF N] ij I by simp
  have mid: "c k = b k" if "k \<noteq> i" "k \<noteq> j" for k using that by (simp add: c_def)
  have out: "c k = 0" if "k < N" "k < i \<or> j < k" for k
  proof -
    have "k \<noteq> i" "k \<noteq> j" using that(2) ij by auto
    moreover have "b k = 0" using that I by blast
    ultimately have "k \<noteq> i" "k \<noteq> j" "b k = 0" by blast+
    then show ?thesis using mid by simp
  qed
  have out': "c k = 0" if "k < N" "k < i' \<or> j' < k" for k
  proof (cases "k < i \<or> j < k")
    case False
    then have "(k = i \<and> c i = 0) \<or> (k = j \<and> c j = 0)"
      using that(2) ij by (auto simp: i'_def j'_def split: if_splits)
    then show ?thesis by blast
  next
    case True
    then show ?thesis using out that(1) by blast
  qed
  have srtc: "c k \<le> c l" if "i < k" "k \<le> l" "l < j" for k l
    using that I mid by auto
  then have srt: "c k \<le> c l" if "i' < k" "k \<le> l" "l < j'" for k l
    using that by (auto simp: i'_def j'_def split: if_splits)
  have low: "c i' \<le> 0"
    using pair_ends(1) [OF sum out srtc ij N(2) _ cj0] ci0 by (simp add: i'_def)
  have high: "0 \<le> c j'"
    using pair_ends(2) [OF sum out srtc ij N(2) ci0] cj0 by (simp add: j'_def)
  have "j' < N" "i' \<le> Suc j'" using N ij by (auto simp: i'_def j'_def)
  then show "pair_inv N c i' j'" unfolding pair_inv_def using out' sum low high srt by blast
qed

text \<open>A node against its state when the pairing starts.\<close>

definition share_ok :: "heap \<Rightarrow> heap \<Rightarrow> ref \<Rightarrow> bool" where
  "share_ok h0 h r \<longleftrightarrow>
     (if 0 \<le> balance (h0 r)
      then 0 \<le> balance (h r) \<and> balance (h r) \<le> balance (h0 r) \<and>
        NSlots (h r) = drop (nat (balance (h0 r) - balance (h r))) (NSlots (h0 r))
      else balance (h0 r) \<le> balance (h r) \<and> balance (h r) \<le> 0 \<and> NSlots (h r) = NSlots (h0 r))"

definition donors_ok :: "ref list \<Rightarrow> heap \<Rightarrow> bool" where
  "donors_ok sn h0 \<longleftrightarrow>
     distinct sn \<and> (\<forall>r\<in>set sn. \<bar>balance (h0 r)\<bar> < 2 ^ 53 \<and> length (NSlots (h0 r)) \<le> 16384 \<and>
       balance (h0 r) \<le> int (length (NSlots (h0 r))))"

definition loop_ok :: "ref list \<Rightarrow> heap \<Rightarrow> heap \<Rightarrow> nat \<Rightarrow> nat \<Rightarrow> bool" where
  "loop_ok sn h0 h i j \<longleftrightarrow>
     pair_inv (length sn) (\<lambda>k. balance (h (sn ! k))) i j \<and> (\<forall>r\<in>set sn. share_ok h0 h r)"

lemma share_ok_bound: "share_ok h0 h r \<Longrightarrow> \<bar>balance (h r)\<bar> \<le> \<bar>balance (h0 r)\<bar>"
  by (auto simp: share_ok_def split: if_splits)

lemma share_ok_slots:
  "share_ok h0 h r \<Longrightarrow> balance (h0 r) \<le> int (length (NSlots (h0 r))) \<Longrightarrow>
   balance (h r) \<le> int (length (NSlots (h r))) \<and> length (NSlots (h r)) \<le> length (NSlots (h0 r))"
  by (auto simp: share_ok_def split: if_splits)

lemma pair_amount:
  assumes D: "donors_ok sn h0" and L: "loop_ok sn h0 h i j" and ij: "i < j"
  defines "m \<equiv> min \<bar>balance (h (sn ! i))\<bar> \<bar>balance (h (sn ! j))\<bar>"
  shows "0 \<le> m \<and> m \<le> int (length (NSlots (h (sn ! j)))) \<and> length (NSlots (h (sn ! j))) \<le> 16384"
proof -
  let ?src = "sn ! j"
  have mem: "?src \<in> set sn" using L ij by (auto simp: loop_ok_def pair_inv_def)
  have sh: "share_ok h0 h ?src" using L mem by (auto simp: loop_ok_def)
  have pos: "0 \<le> balance (h ?src)" using L ij by (simp add: loop_ok_def pair_inv_def)
  have "balance (h0 ?src) \<le> int (length (NSlots (h0 ?src)))" "length (NSlots (h0 ?src)) \<le> 16384"
    using D mem by (auto simp: donors_ok_def)
  then show ?thesis using share_ok_slots [OF sh] pos by (auto simp: m_def)
qed

lemma pair_move:
  assumes D: "donors_ok sn h0" and L: "loop_ok sn h0 h i j" and ij: "i < j"
    and srt: "is_sorter (sortRefs env)"
  defines "dst \<equiv> sn ! i" and "src \<equiv> sn ! j"
  defines "m \<equiv> min \<bar>balance (h dst)\<bar> \<bar>balance (h src)\<bar>"
  shows "pairSlots (balance (h dst)) (balance (h src)) = Fin (of_int m)" "f_to_int (Fin (of_int m)) = m"
    and "movePair env dst src (Fin (of_int m)) h s = Ret ((None, h1), s1) \<Longrightarrow>
      h1 = h(src := (h src)\<lparr>NSlots := drop (nat m) (NSlots (h src))\<rparr>)"
proof -
  have mem: "dst \<in> set sn" "src \<in> set sn"
    using L ij by (auto simp: dst_def src_def loop_ok_def pair_inv_def)
  have sh: "share_ok h0 h dst" "share_ok h0 h src" using L mem by (auto simp: loop_ok_def)
  have b: "\<bar>balance (h dst)\<bar> < 2 ^ 53" "\<bar>balance (h src)\<bar> < 2 ^ 53"
    using D mem share_ok_bound [OF sh(1)] share_ok_bound [OF sh(2)] by (fastforce simp: donors_ok_def)+
  show "pairSlots (balance (h dst)) (balance (h src)) = Fin (of_int m)"
    unfolding m_def by (rule pairSlots_eq [OF b])
  show "f_to_int (Fin (of_int m)) = m" by (rule f_to_int_small) (use b in \<open>auto simp: m_def\<close>)
  have "m \<le> int (length (NSlots (h src)))" "length (NSlots (h src)) \<le> 16384" "0 \<le> m"
    using pair_amount [OF D L ij] by (auto simp: m_def dst_def src_def)
  then show "h1 = h(src := (h src)\<lparr>NSlots := drop (nat m) (NSlots (h src))\<rparr>)"
    if "movePair env dst src (Fin (of_int m)) h s = Ret ((None, h1), s1)"
    using movePair_success [OF that srt] by blast
qed

text \<open>Moving no more than either side has to spare keeps what was said of the two.\<close>

lemma share_ok_moves:
  assumes r: "share_ok h0 h r" and sg: "balance (h dst) \<le> 0" "0 \<le> balance (h src)" and ne: "dst \<noteq> src"
    and m: "m = min \<bar>balance (h dst)\<bar> \<bar>balance (h src)\<bar>"
    and h3: "balance (h3 r) = (if r = dst then balance (h dst) + m else if r = src then balance (h src) - m else balance (h r))"
      "NSlots (h3 r) = (if r = src then drop (nat m) (NSlots (h src)) else NSlots (h r))"
  shows "share_ok h0 h3 r"
proof -
  have le: "0 \<le> m" "m \<le> - balance (h dst)" "m \<le> balance (h src)" using sg by (auto simp: m)
  consider "r = dst" | "r = src" | "r \<noteq> dst" "r \<noteq> src" by blast
  then show ?thesis
  proof cases
    case 1
    then have "m = 0" if "0 \<le> balance (h0 dst)" using le that r by (auto simp: share_ok_def)
    then show ?thesis using r ne 1 le unfolding share_ok_def h3
      by (cases "0 \<le> balance (h0 dst)") (auto split: if_splits)
  next
    case 2
    then show ?thesis using r ne le unfolding share_ok_def h3
      by (auto simp: nat_add_distrib [symmetric] algebra_simps split: if_splits)
  next
    case 3
    then show ?thesis using r unfolding share_ok_def h3 by simp
  qed
qed

lemma pair_step:
  assumes D: "donors_ok sn h0" and L: "loop_ok sn h0 h i j" and ij: "i < j"
  defines "dst \<equiv> sn ! i" and "src \<equiv> sn ! j"
  defines "m \<equiv> min \<bar>balance (h dst)\<bar> \<bar>balance (h src)\<bar>"
  defines "h1 \<equiv> h(src := (h src)\<lparr>NSlots := drop (nat m) (NSlots (h src))\<rparr>)"
  defines "h2 \<equiv> SetBalance dst (balance (h1 dst) + m) h1"
  defines "h3 \<equiv> SetBalance src (balance (h2 src) - m) h2"
  defines "i' \<equiv> if balance (h3 dst) = 0 then i + 1 else i" and "j' \<equiv> if balance (h3 src) = 0 then j - 1 else j"
  shows "loop_ok sn h0 h3 i' j'" and "j' - i' < j - i \<or> \<not> i' < j'" "1 \<le> j"
proof -
  let ?b = "\<lambda>k. balance (h (sn ! k))" let ?c = "?b(i := ?b i + m, j := ?b j - m)"
  have inv: "pair_inv (length sn) ?b i j" using L by (simp add: loop_ok_def)
  have idx: "i < length sn" "j < length sn" "distinct sn" using inv ij D by (auto simp: pair_inv_def donors_ok_def)
  have ne: "dst \<noteq> src" unfolding dst_def src_def using idx ij by (simp add: nth_eq_iff_index_eq)
  have h3: "balance (h3 r) = (if r = dst then ?b i + m else if r = src then ?b j - m else balance (h r))"
    "NSlots (h3 r) = (if r = src then drop (nat m) (NSlots (h src)) else NSlots (h r))" for r
    using ne by (auto simp: h3_def h2_def h1_def dst_def src_def)
  have c: "balance (h3 (sn ! k)) = ?c k" if "k < length sn" for k
    using that idx ij by (auto simp: h3 dst_def src_def nth_eq_iff_index_eq)
  have m: "m = min \<bar>?b i\<bar> \<bar>?b j\<bar>" by (simp add: m_def dst_def src_def)
  note S = pair_inv_step [OF inv ij, folded m]
  have ends: "balance (h3 dst) = ?c i" "balance (h3 src) = ?c j" using c idx by (simp_all add: dst_def src_def)
  have ij': "i' = (if ?c i = 0 then i + 1 else i)" "j' = (if ?c j = 0 then j - 1 else j)"
    by (simp_all only: i'_def j'_def ends)
  show "j' - i' < j - i \<or> \<not> i' < j'" using S(2) by (simp only: ij')
  show "1 \<le> j" using ij by simp
  have "pair_inv (length sn) ?c i' j'" using S(1) by (simp only: ij')
  moreover have "sum (\<lambda>k. balance (h3 (sn ! k))) {..<length sn} = sum ?c {..<length sn}"
    by (rule sum.cong) (simp_all only: lessThan_iff c)
  ultimately have "pair_inv (length sn) (\<lambda>k. balance (h3 (sn ! k))) i' j'"
    unfolding pair_inv_def using c by (smt (verit) le_less_trans less_imp_le)
  moreover have "share_ok h0 h3 r" if "r \<in> set sn" for r
  proof (rule share_ok_moves)
    show "share_ok h0 h r" using L that by (simp add: loop_ok_def)
    show "balance (h dst) \<le> 0" "0 \<le> balance (h src)" using inv ij by (auto simp: pair_inv_def dst_def src_def)
    show "m = min \<bar>balance (h dst)\<bar> \<bar>balance (h src)\<bar>" by (simp add: m_def)
  qed (use ne h3 in \<open>simp_all add: dst_def src_def\<close>)
  ultimately show "loop_ok sn h0 h3 i' j'" by (simp add: loop_ok_def)
qed

lemma pairLoop_unfold:
  assumes D: "donors_ok sn h0" and L: "loop_ok sn h0 h i j" and ij: "i < j"
    and srt: "is_sorter (sortRefs env)"
  shows "\<exists>h3 i' j'. loop_ok sn h0 h3 i' j' \<and> (j' - i' < j - i \<or> \<not> i' < j') \<and>
    (\<forall>fuel. pairLoop (Suc fuel) env sn (int i) (int j) h s =
      gbind (movePair env (sn ! i) (sn ! j) (pairSlots (balance (h (sn ! i))) (balance (h (sn ! j)))) h s)
        (\<lambda>((err, h), s). case err of Some err \<Rightarrow> Ret ((Some err, h), s)
          | None \<Rightarrow> pairLoop fuel env sn (int i') (int j') h3 s))"
proof -
  let ?dst = "sn ! i" let ?src = "sn ! j"
  let ?m = "min \<bar>balance (h ?dst)\<bar> \<bar>balance (h ?src)\<bar>"
  let ?h1 = "h(?src := (h ?src)\<lparr>NSlots := drop (nat ?m) (NSlots (h ?src))\<rparr>)"
  let ?h2 = "SetBalance ?dst (balance (?h1 ?dst) + ?m) ?h1"
  let ?h3 = "SetBalance ?src (balance (?h2 ?src) - ?m) ?h2"
  let ?i = "if balance (?h3 ?dst) = 0 then i + 1 else i" let ?j = "if balance (?h3 ?src) = 0 then j - 1 else j"
  note M = pair_move [OF D L ij srt] and S = pair_step [OF D L ij]
  have idx: "(if balance (?h3 ?dst) = 0 then int i + 1 else int i) = int ?i"
    "(if balance (?h3 ?src) = 0 then int j - 1 else int j) = int ?j"
    using S(3) by (simp_all add: of_nat_diff)
  have "pairLoop (Suc fuel) env sn (int i) (int j) h s =
      gbind (movePair env ?dst ?src (pairSlots (balance (h ?dst)) (balance (h ?src))) h s)
        (\<lambda>((err, h), s). case err of Some err \<Rightarrow> Ret ((Some err, h), s)
          | None \<Rightarrow> pairLoop fuel env sn (int ?i) (int ?j) ?h3 s)" for fuel
  proof (cases "movePair env ?dst ?src (Fin (of_int ?m)) h s")
    case (Ret x)
    obtain err h1 s1 where x: "x = ((err, h1), s1)" by (metis surj_pair)
    show ?thesis
    proof (cases err)
      case None
      then have h1: "h1 = ?h1" using M(3) Ret x by blast
      show ?thesis
        by (simp only: pairLoop.simps [of "Suc fuel"] of_nat_less_iff ij not_True_eq_False if_False nat.case
            Let_def nat_int M(1) Ret x None h1 gbind.simps prod.case option.case M(2) idx)
    qed (use ij Ret x in \<open>simp add: pairLoop.simps [of "Suc fuel"] M(1,2) Let_def del: f_to_int.simps\<close>)
  qed (use ij in \<open>simp_all add: pairLoop.simps [of "Suc fuel"] M(1,2) Let_def del: f_to_int.simps\<close>)
  then show ?thesis using S(1,2) by blast
qed

lemma pairLoop_end:
  "\<not> i < j \<Longrightarrow> pairLoop fuel env sn (int i) (int j) h s = Ret ((None, h), s)"
  by (simp add: pairLoop.simps [of fuel])

text \<open>The gap between the indices bounds the number of rounds: more fuel changes nothing.\<close>

lemma pairLoop_fuel:
  assumes D: "donors_ok sn h0" and srt: "is_sorter (sortRefs env)"
  shows "loop_ok sn h0 h i j \<Longrightarrow> j - i \<le> g \<Longrightarrow> j - i \<le> f \<Longrightarrow>
    pairLoop f env sn (int i) (int j) h s = pairLoop g env sn (int i) (int j) h s"
proof (induction f arbitrary: g h i j s)
  case 0
  then show ?case by (simp add: pairLoop_end)
next
  case (Suc f)
  show ?case
  proof (cases "i < j")
    case True
    then obtain g' where g: "g = Suc g'" using Suc.prems(2) by (cases g) auto
    obtain h3 i' j' where U: "loop_ok sn h0 h3 i' j'" "j' - i' < j - i \<or> \<not> i' < j'"
      "\<And>fuel. pairLoop (Suc fuel) env sn (int i) (int j) h s =
        gbind (movePair env (sn ! i) (sn ! j) (pairSlots (balance (h (sn ! i))) (balance (h (sn ! j)))) h s)
          (\<lambda>((err, h), s). case err of Some err \<Rightarrow> Ret ((Some err, h), s)
            | None \<Rightarrow> pairLoop fuel env sn (int i') (int j') h3 s)"
      using pairLoop_unfold [OF D Suc.prems(1) True srt] by blast
    have "pairLoop f env sn (int i') (int j') h3 s1 = pairLoop g' env sn (int i') (int j') h3 s1" for s1
      using U(1,2) Suc.prems True g by (intro Suc.IH) auto
    then show ?thesis unfolding g U(3) by (simp only: )
  qed (simp add: pairLoop_end)
qed

lemma pairLoop_success:
  assumes D: "donors_ok sn h0" and srt: "is_sorter (sortRefs env)"
  shows "loop_ok sn h0 h i j \<Longrightarrow> pairLoop f env sn (int i) (int j) h s = Ret ((None, h'), s') \<Longrightarrow>
    (\<forall>r\<in>set sn. share_ok h0 h' r \<and> balance (h' r) = 0)"
proof (induction f arbitrary: h i j s)
  case 0
  then have "\<not> i < j" "h' = h" by (auto simp: pairLoop.simps [of 0] split: if_splits)
  then show ?case using 0(1) pair_inv_done by (auto simp: loop_ok_def in_set_conv_nth)
next
  case (Suc f)
  show ?case
  proof (cases "i < j")
    case True
    then show ?thesis
      using pairLoop_unfold [OF D Suc.prems(1) True srt, of s] Suc.prems(2) Suc.IH
      by (fastforce simp: gbind_Ret_iff split: option.splits)
  next
    case False
    then have "h' = h" using Suc.prems(2) by (simp add: pairLoop_end)
    then show ?thesis using Suc.prems(1) pair_inv_done False by (auto simp: loop_ok_def in_set_conv_nth)
  qed
qed

section \<open>RebalancedCluster\<close>

text \<open>Masters that hold all slots between them.\<close>

definition all_assigned :: "heap \<Rightarrow> ref list \<Rightarrow> bool" where
  "all_assigned h ns \<longleftrightarrow> ns \<noteq> [] \<and> distinct ns \<and> length ns \<le> 16384 \<and>
     sum_list (map (\<lambda>r. length (NSlots (h r))) ns) = 16384"

definition share :: "ref list \<Rightarrow> nat" where
  "share ns = 16384 div length ns"

lemma balances_start:
  assumes "all_assigned h ns"
  defines "h1 \<equiv> fold (initBalance (length ns)) ns h"
  shows "r \<in> set ns \<Longrightarrow> balance (h1 r) = int (length (NSlots (h r))) - int (share ns)"
    and "NSlots (h1 r) = NSlots (h r)"
    and "sum_list (map (\<lambda>r. balance (h1 r)) ns) = int (16384 mod length ns)"
    and "(\<Sum>r\<in>set ns. balance (h1 r)) = int (16384 mod length ns)"
    and "(\<Sum>r\<in>set ns. int (length (NSlots (h r)))) = 16384"
proof -
  note A = assms(1) [unfolded all_assigned_def]
  have e: "expectedSlots (length ns) = int (share ns)"
    using expectedSlots_eq [of "length ns"] A by (simp add: share_def zdiv_int)
  have B: "balance (h1 r) = (if r \<in> set ns then int (length (NSlots (h r))) - int (share ns) else balance (h r))"
    "NSlots (h1 r) = NSlots (h r)" for r
    using initBalance_spec [of ns "length ns" h r] A e by (simp_all add: h1_def)
  then show b: "r \<in> set ns \<Longrightarrow> balance (h1 r) = int (length (NSlots (h r))) - int (share ns)"
    and "NSlots (h1 r) = NSlots (h r)" for r by simp_all
  have "(\<Sum>r\<in>set ns. length (NSlots (h r))) = 16384"
    using A sum_list_distinct_conv_sum_set [of ns "\<lambda>r. length (NSlots (h r))"] by simp
  then have "int (\<Sum>r\<in>set ns. length (NSlots (h r))) = int 16384" by (rule arg_cong)
  then show s: "(\<Sum>r\<in>set ns. int (length (NSlots (h r)))) = 16384" by simp
  have "(\<Sum>r\<in>set ns. balance (h1 r)) = (\<Sum>r\<in>set ns. int (length (NSlots (h r))) - int (share ns))"
    by (rule sum.cong) (simp_all add: b)
  also have "\<dots> = 16384 - int (length ns * share ns)" using s A by (simp add: sum_subtractf distinct_card)
  also have "int (length ns * share ns) = 16384 - int (16384 mod length ns)"
  proof -
    have "length ns * share ns + 16384 mod length ns = 16384" by (simp add: share_def)
    then have "int (length ns * share ns) + int (16384 mod length ns) = int 16384" by (metis of_nat_add)
    then show ?thesis by linarith
  qed
  finally show t: "(\<Sum>r\<in>set ns. balance (h1 r)) = int (16384 mod length ns)" by simp
  then show "sum_list (map (\<lambda>r. balance (h1 r)) ns) = int (16384 mod length ns)"
    using A by (simp add: sum_list_distinct_conv_sum_set)
qed

lemma donors_ok_start:
  assumes A: "all_assigned h ns" and b: "\<And>r. r \<in> set ns \<Longrightarrow> balance (h0 r) \<le> int (length (NSlots (h r)))"
    and n: "\<And>r. NSlots (h0 r) = NSlots (h r)" and z: "(\<Sum>r\<in>set ns. balance (h0 r)) = 0" and sn: "mset sn = mset ns"
  shows "donors_ok sn h0"
  unfolding donors_ok_def
proof (intro conjI ballI)
  have A': "distinct ns" using A by (simp add: all_assigned_def)
  note T = balances_start(5) [OF A]
  show "distinct sn" using A' sn by (metis mset_eq_imp_distinct_iff)
  fix r assume "r \<in> set sn"
  then have r: "r \<in> set ns" using sn by (metis mset_eq_setD)
  have split: "sum f (set ns) = f r + sum f (set ns - {r})" for f :: "ref \<Rightarrow> int"
    using r by (simp add: sum.remove)
  have "0 \<le> (\<Sum>x\<in>set ns - {r}. int (length (NSlots (h x))))" by (rule sum_nonneg) simp
  then have l: "int (length (NSlots (h r))) \<le> 16384" using T split by (smt (verit))
  have "(\<Sum>x\<in>set ns - {r}. balance (h0 x)) \<le> (\<Sum>x\<in>set ns - {r}. int (length (NSlots (h x))))"
    by (rule sum_mono) (use b in simp)
  then have low: "- 16384 \<le> balance (h0 r)"
    using T z split [of "\<lambda>x. balance (h0 x)"] split [of "\<lambda>x. int (length (NSlots (h x)))"] by linarith
  show "length (NSlots (h0 r)) \<le> 16384" using l by (simp add: n)
  show "balance (h0 r) \<le> int (length (NSlots (h0 r)))" using b [OF r] by (simp add: n)
  show "\<bar>balance (h0 r)\<bar> < 2 ^ 53" using low l b [OF r] by simp
qed

lemma RebalancedCluster_start:
  assumes A: "all_assigned h ns" and srt: "is_sorter (sortRefs env)"
    and ends: "length ns dvd 16384 \<or> (\<exists>r\<in>set ns. length (NSlots (h r)) < share ns)"
  shows "\<exists>h0 sn. mset sn = mset ns \<and> donors_ok sn h0 \<and> loop_ok sn h0 h0 0 (length ns - 1) \<and>
    (\<forall>r\<in>set ns. NSlots (h0 r) = NSlots (h r) \<and>
       (if share ns \<le> length (NSlots (h r)) then balance (h0 r) = int (length (NSlots (h r)) - share ns)
        else balance (h0 r) < 0)) \<and>
    (\<forall>fuel s. RebalancedCluster fuel env ns h s =
       gbind (pairLoop fuel env sn (int 0) (int (length ns - 1)) h0 s) (\<lambda>((e, h), s). Ret ((e, sn, h), s)))"
proof -
  note A' = A [unfolded all_assigned_def]
  let ?h1 = "fold (initBalance (length ns)) ns h" let ?t = "int (16384 mod length ns)"
  note B = balances_start [OF A]
  have "?t = 0 \<or> (\<exists>r\<in>set ns. balance (?h1 r) < 0)"
    using ends B(1) by (auto simp: dvd_eq_mod_eq_0)
  then obtain h0 where h0: "lowerLoop ns ?h1 ?t = Some (Ret h0)" "lowered ns (?h1, ?t) (h0, 0)"
    using lowerLoop_spec [of ?t ns ?h1] by auto
  define sn where "sn = sortRefs env (\<lambda>a b. balance (h0 a) < balance (h0 b)) ns"
  have sn: "mset sn = mset ns" and sorted: "sorted_wrt (\<lambda>a b. \<not> balance (h0 b) < balance (h0 a)) sn"
    unfolding sn_def using is_sortD(1,2) [OF is_sorter_key [OF srt, of "\<lambda>a. balance (h0 a)"]] by auto
  have len: "length sn = length ns" using sn by (rule mset_eq_length)
  have slots: "NSlots (h0 r) = NSlots (h r)" for r using h0(2) B(2) by (simp add: lowered_def)
  have bal: "if share ns \<le> length (NSlots (h r)) then balance (h0 r) = int (length (NSlots (h r)) - share ns)
      else balance (h0 r) < 0" if "r \<in> set ns" for r
  proof -
    have "if balance (?h1 r) < 0 \<and> r \<in> set ns then balance (h0 r) \<le> balance (?h1 r) else balance (h0 r) = balance (?h1 r)"
      using h0(2) unfolding lowered_def fst_conv by blast
    then show ?thesis using B(1) [OF that] that by (cases "share ns \<le> length (NSlots (h r))") (auto split: if_splits)
  qed
  have le: "balance (h0 r) \<le> int (length (NSlots (h r)))" if "r \<in> set ns" for r
    using bal [OF that] by (auto split: if_splits)
  have z: "(\<Sum>r\<in>set ns. balance (h0 r)) = 0" using h0(2) B(4) by (simp add: lowered_def)
  have D: "donors_ok sn h0" by (rule donors_ok_start [OF A le slots z sn])
  have "pair_inv (length sn) (\<lambda>k. balance (h0 (sn ! k))) 0 (length sn - 1)"
  proof (rule pair_inv_start)
    show "0 < length sn" using len A' by simp
    have "(\<Sum>k<length sn. balance (h0 (sn ! k))) = sum_list (map (\<lambda>r. balance (h0 r)) sn)"
      by (simp add: sum_list_sum_nth atLeast0LessThan)
    also have "\<dots> = (\<Sum>r\<in>set sn. balance (h0 r))"
      using D by (simp add: donors_ok_def sum_list_distinct_conv_sum_set)
    finally show "(\<Sum>k<length sn. balance (h0 (sn ! k))) = 0" using z mset_eq_setD [OF sn] by simp
    show "balance (h0 (sn ! k)) \<le> balance (h0 (sn ! l))" if "k \<le> l" "l < length sn" for k l
      using sorted_wrt_nth_less [OF sorted, of k l] that by (cases "k = l") auto
  qed
  moreover have "share_ok h0 h0 r" for r by (simp add: share_ok_def)
  ultimately have L: "loop_ok sn h0 h0 0 (length ns - 1)" by (simp add: loop_ok_def len)
  have "int (length sn) - 1 = int (length ns - 1)" using len A' by (simp add: of_nat_diff Suc_leI)
  then have "RebalancedCluster fuel env ns h s =
       gbind (pairLoop fuel env sn (int 0) (int (length ns - 1)) h0 s) (\<lambda>((e, h), s). Ret ((e, sn, h), s))" for fuel s
    by (simp add: RebalancedCluster_def Let_def B(3) h0(1) SortByFunc_def flip: sn_def)
  then show ?thesis using sn D L slots bal by blast
qed

lemma RebalancedCluster_shares:
  assumes run: "RebalancedCluster fuel env ns h s = Ret ((None, sn, h'), s')"
    and A: "all_assigned h ns" and srt: "is_sorter (sortRefs env)"
    and ends: "length ns dvd 16384 \<or> (\<exists>r\<in>set ns. length (NSlots (h r)) < share ns)" and r: "r \<in> set ns"
  shows "NSlots (h' r) = (if share ns \<le> length (NSlots (h r))
      then drop (length (NSlots (h r)) - share ns) (NSlots (h r)) else NSlots (h r))"
    and "balance (h' r) = 0"
proof -
  obtain h0 sn' where 0: "mset sn' = mset ns" "donors_ok sn' h0" "loop_ok sn' h0 h0 0 (length ns - 1)"
    "\<forall>r\<in>set ns. NSlots (h0 r) = NSlots (h r) \<and>
       (if share ns \<le> length (NSlots (h r)) then balance (h0 r) = int (length (NSlots (h r)) - share ns)
        else balance (h0 r) < 0)"
    "\<And>fuel s. RebalancedCluster fuel env ns h s =
       gbind (pairLoop fuel env sn' (int 0) (int (length ns - 1)) h0 s) (\<lambda>((e, h), s). Ret ((e, sn', h), s))"
    using RebalancedCluster_start [OF A srt ends] by blast
  from run have "pairLoop fuel env sn' (int 0) (int (length ns - 1)) h0 s = Ret ((None, h'), s')"
    unfolding 0(5) by (auto simp: gbind_Ret_iff)
  then have S: "share_ok h0 h' r \<and> balance (h' r) = 0"
    using pairLoop_success [OF 0(2) srt 0(3)] r mset_eq_setD [OF 0(1)] by blast
  then show "balance (h' r) = 0" by blast
  show "NSlots (h' r) = (if share ns \<le> length (NSlots (h r))
      then drop (length (NSlots (h r)) - share ns) (NSlots (h r)) else NSlots (h r))"
    using S bspec [OF 0(4) r] by (cases "share ns \<le> length (NSlots (h r))") (auto simp: share_ok_def nat_diff_distrib)
qed

lemma RebalancedCluster_fuel:
  assumes A: "all_assigned h ns" and srt: "is_sorter (sortRefs env)"
    and ends: "length ns dvd 16384 \<or> (\<exists>r\<in>set ns. length (NSlots (h r)) < share ns)" and f: "length ns \<le> fuel"
  shows "RebalancedCluster fuel env ns h s = RebalancedCluster (length ns) env ns h s"
proof -
  obtain h0 sn' where 0: "mset sn' = mset ns" "donors_ok sn' h0" "loop_ok sn' h0 h0 0 (length ns - 1)"
    "\<And>fuel s. RebalancedCluster fuel env ns h s =
       gbind (pairLoop fuel env sn' (int 0) (int (length ns - 1)) h0 s) (\<lambda>((e, h), s). Ret ((e, sn', h), s))"
    using RebalancedCluster_start [OF A srt ends] by blast
  have "pairLoop fuel env sn' (int 0) (int (length ns - 1)) h0 s = pairLoop (length ns) env sn' (int 0) (int (length ns - 1)) h0 s"
    using f by (intro pairLoop_fuel [OF 0(2) srt 0(3)]) auto
  then show ?thesis by (simp only: 0(4))
qed

lemma RebalancedCluster_hangs:
  assumes A: "all_assigned h ns" and "\<not> length ns dvd 16384" "\<forall>r\<in>set ns. share ns \<le> length (NSlots (h r))"
  shows "RebalancedCluster fuel env ns h s = Hang"
proof -
  note B = balances_start [OF A]
  have "0 < int (16384 mod length ns)" using assms(2) by (simp add: dvd_eq_mod_eq_0)
  moreover have "\<forall>r\<in>set ns. 0 \<le> balance (fold (initBalance (length ns)) ns h r)" using B(1) assms(3) by simp
  ultimately have "lowerLoop ns (fold (initBalance (length ns)) ns h) (int (16384 mod length ns)) = None"
    by (rule lowerLoop_hang)
  then show ?thesis by (simp add: RebalancedCluster_def Let_def B(3))
qed

end
