(* ===== verification/Migration_Facts.thy ===== *)
theory Migration_Facts
  imports Migration
begin

text \<open>
  What the scale-down of \<open>Migration\<close> does to the ownership of slots. The lemmas follow the
  code: the lost slots are exactly those no master has, handing out conserves the available
  slots, every planned move names the owner as its source, and carrying the plan out leaves
  each slot with one of the new masters.
\<close>

section \<open>Lost slots\<close>

lemma slot_Suc_le: "a \<noteq> - 1 \<Longrightarrow> a + 1 \<le> s \<longleftrightarrow> a < s" for a s :: Slot
  using unat_Suc_slot [of a] by (simp add: word_le_nat_alt word_less_nat_alt Suc_le_eq)

lemma set_slotsFrom: "set (slotsFrom a b) = {s. a \<le> s \<and> s < b}"
proof (induction a b rule: slotsFrom.induct)
  case (1 a b)
  show ?case
  proof (cases "a < b")
    case True
    then have "a \<noteq> - 1" by (metis word_order.extremum_strict)
    then have "set (slotsFrom a b) = insert a {s. a < s \<and> s < b}"
      using True 1 by (simp add: slotsFrom.simps [of a b] slot_Suc_le)
    also have "\<dots> = {s. a \<le> s \<and> s < b}" using True by (auto simp: order_le_less)
    finally show ?thesis .
  next
    case False
    then have "{s. a \<le> s \<and> s < b} = {}" by (auto dest: order_le_less_trans)
    then show ?thesis using False by (simp add: slotsFrom.simps [of a b])
  qed
qed

lemma distinct_slotsFrom: "distinct (slotsFrom a b)"
proof (induction a b rule: slotsFrom.induct)
  case (1 a b)
  show ?case
  proof (cases "a < b")
    case True
    then have "a \<noteq> - 1" by (metis word_order.extremum_strict)
    then show ?thesis using True 1 by (simp add: slotsFrom.simps [of a b] set_slotsFrom slot_Suc_le)
  next
    case False
    then show ?thesis by (subst slotsFrom.simps) simp
  qed
qed

lemma not_max_slot: "unat (s :: Slot) < nb \<Longrightarrow> nb < 2 ^ 64 \<Longrightarrow> s \<noteq> - 1"
  by (auto simp: unsigned_minus_1_eq_mask mask_eq_exp_minus_1)

lemma lostLoop_spec:
  assumes "sorted (p # slots)" "\<forall>s\<in>set (p # slots). s \<noteq> - 1" "lostLoop slots p lost = (p', lost')"
    and "distinct lost" "\<forall>x\<in>set lost. x \<le> p"
  shows "p' = last (p # slots)" and "set lost' = set lost \<union> ({s. p < s \<and> s < p'} - set slots)"
    and "distinct lost' \<and> (\<forall>x\<in>set lost'. x \<le> p')"
proof -
  have "p' = last (p # slots) \<and> set lost' = set lost \<union> ({s. p < s \<and> s < p'} - set slots) \<and>
      distinct lost' \<and> (\<forall>x\<in>set lost'. x \<le> p')"
    using assms
  proof (induction slots arbitrary: p lost)
    case (Cons a slots)
    let ?l = "if a > p + 1 then lost @ slotsFrom (p + 1) a else lost"
    have pm: "p \<noteq> - 1" and pa: "p \<le> a" using Cons.prems by auto
    have new: "set ?l = set lost \<union> {s. p < s \<and> s < a}"
    proof (cases "a > p + 1")
      case True
      then show ?thesis using pm by (auto simp: set_slotsFrom slot_Suc_le)
    next
      case False
      then have "a \<le> p + 1" by simp
      have False if "p < s" "s < a" for s
      proof -
        have "p + 1 \<le> s" using that(1) by (simp only: slot_Suc_le [OF pm])
        then have "a \<le> s" using \<open>a \<le> p + 1\<close> by (rule order_trans [rotated])
        then show False using that(2) by simp
      qed
      then have "{s. p < s \<and> s < a} = {}" by blast
      then show ?thesis using False by (simp only: if_False Un_empty_right)
    qed
    have d: "distinct ?l" using Cons.prems pm by (auto simp: set_slotsFrom slot_Suc_le distinct_slotsFrom)
    have le: "\<forall>x\<in>set ?l. x \<le> a" unfolding new using Cons.prems(5) pa by auto
    have eq: "lostLoop slots a ?l = (p', lost')" using Cons.prems(3) by simp
    have IH: "p' = last (a # slots) \<and> set lost' = set ?l \<union> ({s. a < s \<and> s < p'} - set slots) \<and>
      distinct lost' \<and> (\<forall>x\<in>set lost'. x \<le> p')"
      by (rule Cons.IH [OF _ _ eq d le]) (use Cons.prems(1,2) in simp_all)
    have ap: "a \<le> p'" using IH Cons.prems(1) by (cases slots) auto
    have "\<forall>x\<in>set slots. a \<le> x" using Cons.prems(1) by simp
    then have "set lost \<union> {s. p < s \<and> s < a} \<union> ({s. a < s \<and> s < p'} - set slots) =
        set lost \<union> ({s. p < s \<and> s < p'} - set (a # slots))"
      using ap pa by force
    then show ?case using IH new by (metis last_ConsR list.distinct(1))
  qed auto
  then show "p' = last (p # slots)" and "set lost' = set lost \<union> ({s. p < s \<and> s < p'} - set slots)"
    and "distinct lost' \<and> (\<forall>x\<in>set lost'. x \<le> p')" by blast+
qed

lemma sorted_le_last: "sorted xs \<Longrightarrow> x \<in> set xs \<Longrightarrow> x \<le> last xs"
  by (induction xs) auto

lemma slot_zero_least: "(0::Slot) \<le> s"
  by (simp add: word_le_nat_alt)

text \<open>Slot 0, the gaps, and what is above the last slot: together the slots that are missing.\<close>

lemma first_lost:
  assumes "sorted full"
  shows "set (if length full = 0 \<or> full ! 0 \<noteq> 0 then [0] else [] :: Slot list) = {0} - set full"
proof (cases full)
  case (Cons a as)
  have "0 \<in> set full \<longleftrightarrow> full ! 0 = 0"
    using assms Cons slot_zero_least by (metis antisym list.set_intros(1) nth_Cons_0 set_ConsD sorted_simps(2))
  then show ?thesis using Cons by auto
qed simp

lemma lost_parts:
  fixes p :: Slot
  assumes max: "\<And>s. s \<in> F \<Longrightarrow> s \<le> p" and p: "p \<in> F \<or> (F = {} \<and> p = 0)" and unp: "unat p < nb" and nb: "0 < nb"
  shows "({0} - F) \<union> ({s. 0 < s \<and> s < p} - F) \<union> {s. p < s \<and> unat s < nb} = {s. unat s < nb} - F"
proof (rule set_eqI)
  fix s
  have low: "unat s < nb" if "s < p" using that unp by (simp add: word_less_nat_alt)
  consider "s = 0" | "0 < s" "s < p" | "s = p" "s \<noteq> 0" | "p < s" "s \<noteq> 0"
    using slot_zero_least [of s] by (metis linorder_cases order_le_less)
  then show "s \<in> ({0} - F) \<union> ({s. 0 < s \<and> s < p} - F) \<union> {s. p < s \<and> unat s < nb} \<longleftrightarrow> s \<in> {s. unat s < nb} - F"
  proof cases
    case 1
    then show ?thesis using nb slot_zero_least [of p] max [of 0] by auto
  next
    case 4
    then show ?thesis using max [of s] by (auto dest: order_le_less_trans)
  qed (use low p in auto)
qed

lemma retrieveLostSlots_spec:
  assumes b: "\<And>n s. n \<in> set olds \<Longrightarrow> s \<in> set (NSlots (h n)) \<Longrightarrow> unat s < nb" and nb: "0 < nb" "nb < 2 ^ 64"
  shows "set (retrieveLostSlots h olds nb) = {s. unat s < nb} - (\<Union>n\<in>set olds. set (NSlots (h n)))"
    and "distinct (retrieveLostSlots h olds nb)"
proof -
  let ?full = "sort (concat (map (\<lambda>n. NSlots (h n)) olds))"
  let ?l0 = "if length ?full = 0 \<or> ?full ! 0 \<noteq> 0 then [0] else [] :: Slot list"
  obtain p' l' where l: "lostLoop ?full 0 ?l0 = (p', l')" by fastforce
  have set_full: "set ?full = (\<Union>n\<in>set olds. set (NSlots (h n)))" by auto
  have bound: "\<And>s. s \<in> set ?full \<Longrightarrow> unat s < nb" using b by (auto simp: set_full)
  have nm: "\<forall>s\<in>set (0 # ?full). s \<noteq> - 1" using bound nb not_max_slot by fastforce
  have srt: "sorted (0 # ?full)" by (simp add: slot_zero_least)
  note spec = lostLoop_spec [OF srt nm l]
  have p': "p' = last (0 # ?full)" and s': "set l' = set ?l0 \<union> ({s. 0 < s \<and> s < p'} - set ?full)"
    and d': "distinct l'" "\<forall>x\<in>set l'. x \<le> p'"
    using spec by (auto split: if_splits)
  have unp: "unat p' < nb" using p' bound [of p'] nb(1) by (cases ?full) (auto split: if_splits)
  then have pm: "p' \<noteq> - 1" using nb(2) not_max_slot by blast
  have un: "unat (of_nat nb :: Slot) = nb" using nb(2) by (simp add: unat_of_nat)
  have res: "retrieveLostSlots h olds nb = l' @ slotsFrom (p' + 1) (of_nat nb)"
    unfolding retrieveLostSlots_def Let_def l prod.case ..
  have top: "set (slotsFrom (p' + 1) (of_nat nb)) = {s. p' < s \<and> unat s < nb}"
    using pm un by (auto simp: set_slotsFrom slot_Suc_le word_less_nat_alt)
  have max: "s \<le> p'" if "s \<in> set ?full" for s
  proof -
    have "?full \<noteq> []" using that by (metis empty_iff list.set(1))
    then have "p' = last ?full" using p' by (metis last_ConsR)
    then show ?thesis using sorted_le_last [OF sorted_sort that] by simp
  qed
  have p'_in: "p' \<in> set ?full \<or> (set ?full = {} \<and> p' = 0)" using p' by (cases ?full) auto
  show "set (retrieveLostSlots h olds nb) = {s. unat s < nb} - (\<Union>n\<in>set olds. set (NSlots (h n)))"
    unfolding res set_append s' top first_lost [OF sorted_sort] set_full [symmetric]
    by (rule lost_parts [OF max p'_in unp nb(1)])
  show "distinct (retrieveLostSlots h olds nb)"
    unfolding res using d' distinct_slotsFrom top by fastforce
qed

section \<open>Handing out the available slots\<close>

text \<open>\<open>received h news add i\<close>: the slots planned for the new master with index \<open>i\<close>.\<close>

definition received :: "heap \<Rightarrow> ref list \<Rightarrow> (string, Slot list) gomap \<Rightarrow> nat \<Rightarrow> Slot list" where
  "received h news add i = mgetd [] add (ID (h (news ! i)))"

definition fill_inv :: "heap \<Rightarrow> ref list \<Rightarrow> Slot list \<Rightarrow> fill_state \<Rightarrow> bool" where
  "fill_inv h news avail st \<longleftrightarrow>
     (case st of (k, sof, add) \<Rightarrow>
        k < length news \<and> length sof = length news \<and> wf_map add \<and>
        set (mkeys add) \<subseteq> (\<lambda>n. ID (h n)) ` set news \<and>
        (\<forall>i<length news. sof ! i = NSlots (h (news ! i)) @ received h news add i) \<and>
        (\<Sum>i<length news. mset (received h news add i)) = mset avail)"

lemma ids_nth_eq:
  assumes "distinct (map (\<lambda>n. ID (h n)) news)" "i < length news" "j < length news"
  shows "ID (h (news ! i)) = ID (h (news ! j)) \<longleftrightarrow> i = j"
  using assms nth_eq_iff_index_eq [OF assms(1), of i j] by auto

lemma received_mappend:
  assumes "distinct (map (\<lambda>n. ID (h n)) news)" "i < length news" "j < length news"
  shows "received h news (mappend (ID (h (news ! j))) s add) i =
     (if i = j then received h news add i @ [s] else received h news add i)"
  using ids_nth_eq [OF assms] by (simp add: received_def)

lemma sum_upd_mset:
  fixes f :: "nat \<Rightarrow> 'a multiset"
  assumes "j < n"
  shows "(\<Sum>i<n. if i = j then f i + x else f i) = (\<Sum>i<n. f i) + x"
proof -
  have "(\<Sum>i<n. if i = j then f i + x else f i) = (\<Sum>i<n. f i + (if i = j then x else {#}))"
    by (intro sum.cong) auto
  also have "\<dots> = (\<Sum>i<n. f i) + (\<Sum>i<n. if i = j then x else {#})" by (rule sum.distrib)
  also have "(\<Sum>i<n. if i = j then x else {#}) = x" using assms by (simp add: sum.delta)
  finally show ?thesis .
qed

definition next_index :: "nat \<Rightarrow> nat \<Rightarrow> nat \<Rightarrow> Slot list list \<Rightarrow> nat" where
  "next_index n nb k sof =
     (if length (sof ! k) < nb then k else if k + 1 > n - 1 then k else k + 1)"

lemma fillStep_eq:
  "fillStep h news nb s (k, sof, add) =
     (let j = next_index (length news) nb k sof
      in (j, sof[j := sof ! j @ [s]], mappend (ID (h (news ! j))) s add))"
  by (simp add: fillStep_def next_index_def Let_def)

lemma next_index_less: "k < n \<Longrightarrow> next_index n nb k sof < n"
  by (auto simp: next_index_def)

lemma fill_inv_step:
  assumes d: "distinct (map (\<lambda>n. ID (h n)) news)" and inv: "fill_inv h news avail (k, sof, add)"
  shows "fill_inv h news (avail @ [s]) (fillStep h news nb s (k, sof, add))"
proof -
  let ?n = "length news" let ?j = "next_index ?n nb k sof"
  let ?add = "mappend (ID (h (news ! ?j))) s add"
  have j: "?j < ?n" using inv by (intro next_index_less) (simp add: fill_inv_def)
  have rc: "received h news ?add i = (if i = ?j then received h news add i @ [s] else received h news add i)"
    if "i < ?n" for i using received_mappend [OF d that j] .
  have "(\<Sum>i<?n. mset (received h news ?add i)) =
      (\<Sum>i<?n. if i = ?j then mset (received h news add i) + {#s#} else mset (received h news add i))"
    by (intro sum.cong) (auto simp: rc)
  also have "\<dots> = mset (avail @ [s])" using inv by (simp add: sum_upd_mset [OF j] fill_inv_def)
  finally have sum: "(\<Sum>i<?n. mset (received h news ?add i)) = mset (avail @ [s])" .
  have keys: "set (mkeys ?add) \<subseteq> (\<lambda>n. ID (h n)) ` set news"
    using inv j by (auto simp: fill_inv_def mappend_def)
  show ?thesis using inv j sum keys
    by (auto simp: fill_inv_def fillStep_eq Let_def rc nth_list_update)
qed

lemma fill_inv_fold:
  assumes "distinct (map (\<lambda>n. ID (h n)) news)" "fill_inv h news done st"
  shows "fill_inv h news (done @ avail) (fold (fillStep h news nb) avail st)"
  using assms(2)
proof (induction avail arbitrary: "done" st)
  case (Cons s avail)
  obtain k sof add where st: "st = (k, sof, add)" by (cases st)
  have "fill_inv h news (done @ [s]) (fillStep h news nb s st)"
    unfolding st by (rule fill_inv_step [OF assms(1)]) (use Cons.prems st in simp)
  from Cons.IH [OF this] show ?case by simp
qed simp

lemma fill_inv_start:
  "news \<noteq> [] \<Longrightarrow> fill_inv h news [] (0, map (\<lambda>n. NSlots (h n)) news, [])"
  by (simp add: fill_inv_def received_def mgetd_def mkeys_def)

text \<open>
  No new master is planned to end above the target by more than one slot, provided the
  available slots fit: \<open>t i\<close> counts the slots it keeps.
\<close>

definition fill_bound :: "(nat \<Rightarrow> nat) \<Rightarrow> heap \<Rightarrow> ref list \<Rightarrow> nat \<Rightarrow> fill_state \<Rightarrow> bool" where
  "fill_bound t h news nb st \<longleftrightarrow>
     (case st of (k, sof, add) \<Rightarrow>
        (\<forall>i<length news. k < i \<longrightarrow> received h news add i = []) \<and>
        (\<forall>i<k. nb \<le> t i + length (received h news add i)) \<and>
        (\<forall>i<length news. t i + length (received h news add i) \<le> Suc nb))"

definition keeps_count :: "heap \<Rightarrow> ref list \<Rightarrow> nat \<Rightarrow> nat \<Rightarrow> nat" where
  "keeps_count h news nb i = min (length (NSlots (h (news ! i)))) nb"

lemma sum_received_length:
  assumes "fill_inv h news avail (k, sof, add)"
  shows "(\<Sum>i<length news. length (received h news add i)) = length avail"
proof -
  have "size (\<Sum>i<length news. mset (received h news add i)) = size (mset avail)"
    using assms by (simp add: fill_inv_def)
  then show ?thesis by simp
qed

lemma fill_bound_step:
  assumes d: "distinct (map (\<lambda>n. ID (h n)) news)" and inv: "fill_inv h news avail (k, sof, add)"
    and b: "fill_bound (keeps_count h news nb) h news nb (k, sof, add)"
    and fits: "(\<Sum>i<length news. keeps_count h news nb i) + length avail < length news * nb"
  shows "fill_bound (keeps_count h news nb) h news nb (fillStep h news nb s (k, sof, add))"
proof -
  let ?n = "length news" let ?j = "next_index ?n nb k sof" let ?t = "keeps_count h news nb"
  let ?r = "\<lambda>i. length (received h news add i)"
  have k: "k < ?n" and sof: "\<And>i. i < ?n \<Longrightarrow> length (sof ! i) = length (NSlots (h (news ! i))) + ?r i"
    using inv by (simp_all add: fill_inv_def)
  have rc: "length (received h news (mappend (ID (h (news ! ?j))) s add) i) = (if i = ?j then Suc (?r i) else ?r i)"
    if "i < ?n" for i using received_mappend [OF d that next_index_less [OF k]] by simp
  have full: "nb \<le> ?t i + ?r i" if "i < ?n" "nb \<le> length (sof ! i)" for i
    using that sof by (auto simp: keeps_count_def)
  have "\<not> (nb \<le> length (sof ! k) \<and> ?n \<le> Suc k)"
  proof
    assume f: "nb \<le> length (sof ! k) \<and> ?n \<le> Suc k"
    have "nb \<le> ?t i + ?r i" if "i < ?n" for i
    proof (cases "i = k")
      case True
      then show ?thesis using f full [OF k] by simp
    next
      case False
      then have "i < k" using that f by simp
      then show ?thesis using b by (simp add: fill_bound_def)
    qed
    then have "(\<Sum>i<?n. nb) \<le> (\<Sum>i<?n. ?t i + ?r i)" by (intro sum_mono) auto
    also have "\<dots> = (\<Sum>i<?n. ?t i) + length avail"
      using sum_received_length [OF inv] by (simp add: sum.distrib)
    finally show False using fits by simp
  qed
  then have "length (sof ! k) < nb \<and> ?j = k \<or> nb \<le> length (sof ! k) \<and> ?j = Suc k"
    by (auto simp: next_index_def)
  then consider "length (sof ! k) < nb" "?j = k" | "nb \<le> length (sof ! k)" "?j = Suc k" by blast
  then show ?thesis
  proof cases
    case 1
    have "?t k + ?r k < nb" using 1 sof [OF k] by (simp add: keeps_count_def)
    then show ?thesis using b rc 1 k
      by (auto simp: fill_bound_def fillStep_eq Let_def received_mappend [OF d _ k])
  next
    case 2
    have j: "Suc k < ?n" using 2 next_index_less [OF k, of nb sof] by simp
    have "?r (Suc k) = 0" "?t (Suc k) \<le> nb"
      using b j by (simp_all add: fill_bound_def keeps_count_def)
    then show ?thesis using b rc 2 k j full [OF k]
      by (auto simp: fill_bound_def fillStep_eq Let_def received_mappend [OF d _ j] less_Suc_eq)
  qed
qed

lemma fill_bound_fold:
  assumes d: "distinct (map (\<lambda>n. ID (h n)) news)"
  shows "fill_inv h news done st \<Longrightarrow> fill_bound (keeps_count h news nb) h news nb st \<Longrightarrow>
    (\<Sum>i<length news. keeps_count h news nb i) + length (done @ avail) \<le> length news * nb \<Longrightarrow>
    fill_bound (keeps_count h news nb) h news nb (fold (fillStep h news nb) avail st)"
proof (induction avail arbitrary: "done" st)
  case (Cons s avail)
  obtain k sof add where st: "st = (k, sof, add)" by (cases st)
  have "fill_inv h news (done @ [s]) (fillStep h news nb s st)"
    using fill_inv_step [OF d] Cons.prems(1) st by blast
  moreover have "fill_bound (keeps_count h news nb) h news nb (fillStep h news nb s st)"
    unfolding st by (rule fill_bound_step [OF d]) (use Cons.prems st in auto)
  ultimately show ?case using Cons.IH [of "done @ [s]"] Cons.prems(3) by simp
qed simp

lemma fill_bound_start:
  "fill_bound (keeps_count h news nb) h news nb (0, map (\<lambda>n. NSlots (h n)) news, [])"
  by (auto simp: fill_bound_def received_def mgetd_def keeps_count_def)

text \<open>What \<open>buildSlotByNodeFromAvailableSlots\<close> guarantees, for any order of the map.\<close>

definition available :: "ord \<Rightarrow> (string, Slot list) gomap \<Rightarrow> Slot list" where
  "available ord m = concat (map (mgetd [] m) (ord (mkeys m)))"

lemma build_conserves:
  assumes "distinct (map (\<lambda>n. ID (h n)) news)" "news \<noteq> []"
  defines "add \<equiv> \<lambda>ord nb m. buildSlotByNodeFromAvailableSlots ord h news nb m"
  shows "(\<Sum>i<length news. mset (received h news (add ord nb m) i)) = mset (available ord m)"
    and "set (mkeys (add ord nb m)) \<subseteq> (\<lambda>n. ID (h n)) ` set news" and "wf_map (add ord nb m)"
    and "(\<Sum>i<length news. keeps_count h news nb i) + length (available ord m) \<le> length news * nb \<Longrightarrow>
      i < length news \<Longrightarrow> keeps_count h news nb i + length (received h news (add ord nb m) i) \<le> Suc nb"
proof -
  let ?st0 = "(0, map (\<lambda>n. NSlots (h n)) news, [])"
  obtain k sof a where st: "fold (fillStep h news nb) (available ord m) ?st0 = (k, sof, a)"
    by (cases "fold (fillStep h news nb) (available ord m) ?st0")
  have a: "add ord nb m = a"
    using assms(2) st by (simp add: add_def buildSlotByNodeFromAvailableSlots_def available_def)
  have inv: "fill_inv h news ([] @ available ord m) (k, sof, a)"
    using fill_inv_fold [OF assms(1) fill_inv_start [OF assms(2)], of "available ord m" nb] st by simp
  then show "(\<Sum>i<length news. mset (received h news (add ord nb m) i)) = mset (available ord m)"
    and "set (mkeys (add ord nb m)) \<subseteq> (\<lambda>n. ID (h n)) ` set news" and "wf_map (add ord nb m)"
    by (simp_all add: a fill_inv_def)
  show "keeps_count h news nb i + length (received h news (add ord nb m) i) \<le> Suc nb"
    if "(\<Sum>i<length news. keeps_count h news nb i) + length (available ord m) \<le> length news * nb" "i < length news"
    using fill_bound_fold [OF assms(1) fill_inv_start [OF assms(2)] fill_bound_start, of nb "available ord m"] that
    by (simp add: st a fill_bound_def)
qed

section \<open>The slots to hand out\<close>

text \<open>
  The situation a scale-down starts from: distinct nodes with distinct non-empty IDs, no slot
  owned twice among the current masters, every slot below \<open>N\<close>, and no slots on a new master
  that is not a current one.
\<close>

definition scale_down_ok :: "heap \<Rightarrow> ref list \<Rightarrow> ref list \<Rightarrow> nat \<Rightarrow> bool" where
  "scale_down_ok h news olds N \<longleftrightarrow>
     news \<noteq> [] \<and> distinct news \<and> distinct olds \<and>
     distinct (map (\<lambda>r. ID (h r)) (remdups (olds @ news))) \<and> list_all (\<lambda>r. ID (h r) \<noteq> []) (olds @ news) \<and>
     distinct (concat (map (\<lambda>r. NSlots (h r)) olds)) \<and>
     list_all (\<lambda>r. list_all (\<lambda>s. unat s < N) (NSlots (h r))) olds \<and>
     list_all (\<lambda>r. r \<in> set olds \<or> NSlots (h r) = []) news \<and> 0 < N \<and> N < 2 ^ 64"

lemma distinct_concat_mapD:
  assumes "distinct (concat (map f xs))" "distinct xs" "x \<in> set xs"
  shows "distinct (f x)" and "y \<in> set xs \<Longrightarrow> x \<noteq> y \<Longrightarrow> set (f x) \<inter> set (f y) = {}"
proof -
  have "distinct (f x) \<and> (\<forall>y\<in>set xs. x \<noteq> y \<longrightarrow> set (f x) \<inter> set (f y) = {})"
    using assms by (induction xs) auto
  then show "distinct (f x)" and "y \<in> set xs \<Longrightarrow> x \<noteq> y \<Longrightarrow> set (f x) \<inter> set (f y) = {}" by blast+
qed

lemma distinct_concat_mapI:
  assumes "distinct xs" "\<And>x. x \<in> set xs \<Longrightarrow> distinct (f x)"
    and "\<And>x y. x \<in> set xs \<Longrightarrow> y \<in> set xs \<Longrightarrow> x \<noteq> y \<Longrightarrow> set (f x) \<inter> set (f y) = {}"
  shows "distinct (concat (map f xs))"
  using assms by (induction xs) (simp, fastforce)

lemma scale_down_okD:
  assumes "scale_down_ok h news olds N"
  shows "news \<noteq> []" "distinct news" "distinct olds"
    and "\<And>r r'. r \<in> set olds \<union> set news \<Longrightarrow> r' \<in> set olds \<union> set news \<Longrightarrow> ID (h r) = ID (h r') \<Longrightarrow> r = r'"
    and "\<And>r. r \<in> set olds \<union> set news \<Longrightarrow> ID (h r) \<noteq> []"
    and "\<And>r. r \<in> set olds \<Longrightarrow> distinct (NSlots (h r))"
    and "\<And>r r'. r \<in> set olds \<Longrightarrow> r' \<in> set olds \<Longrightarrow> r \<noteq> r' \<Longrightarrow> set (NSlots (h r)) \<inter> set (NSlots (h r')) = {}"
    and "\<And>r s. r \<in> set olds \<Longrightarrow> s \<in> set (NSlots (h r)) \<Longrightarrow> unat s < N"
    and "\<And>r. r \<in> set news \<Longrightarrow> r \<notin> set olds \<Longrightarrow> NSlots (h r) = []"
    and "0 < N" "N < 2 ^ 64"
proof -
  note A = assms [unfolded scale_down_ok_def list_all_iff]
  show "news \<noteq> []" "distinct news" "distinct olds" "0 < N" "N < 2 ^ 64" using A by blast+
  have inj: "inj_on (\<lambda>r. ID (h r)) (set (remdups (olds @ news)))"
    using A by (simp add: distinct_map)
  then show "r = r'" if "r \<in> set olds \<union> set news" "r' \<in> set olds \<union> set news" "ID (h r) = ID (h r')" for r r'
    using that by (auto dest: inj_onD)
  show "ID (h r) \<noteq> []" if "r \<in> set olds \<union> set news" for r using A that by auto
  have dc: "distinct (concat (map (\<lambda>r. NSlots (h r)) olds))" "distinct olds" using A by blast+
  show "distinct (NSlots (h r))" if "r \<in> set olds" for r using distinct_concat_mapD(1) [OF dc that] .
  show "set (NSlots (h r)) \<inter> set (NSlots (h r')) = {}" if "r \<in> set olds" "r' \<in> set olds" "r \<noteq> r'" for r r'
    using distinct_concat_mapD(2) [OF dc that(1,2,3)] .
  show "unat s < N" if "r \<in> set olds" "s \<in> set (NSlots (h r))" for r s using A that by auto
  show "NSlots (h r) = []" if "r \<in> set news" "r \<notin> set olds" for r using A that by auto
qed

definition migrate_map :: "heap \<Rightarrow> ref list \<Rightarrow> ref list \<Rightarrow> nat \<Rightarrow> nat \<Rightarrow> (string, Slot list) gomap" where
  "migrate_map h news olds nb N =
     mput [] (retrieveLostSlots h olds N)
       (fold (\<lambda>(i, slots) m. mput i slots m) (retrieveSlotToMigrateFromRemovedNodes h news olds)
         (retrieveSlotToMigrateFrom h olds nb))"

lemma buildSlotsByNode_eq:
  "news \<noteq> [] \<Longrightarrow> buildSlotsByNode ord h news olds alls N =
     buildSlotByNodeFromAvailableSlots ord h news (slotsPerMaster N (length news))
       (migrate_map h news olds (slotsPerMaster N (length news)) N)"
  by (simp add: buildSlotsByNode_def migrate_map_def Let_def)

lemma mgetd_migrateFrom:
  assumes "distinct (map (\<lambda>r. ID (h r)) olds)"
  shows "mgetd [] (fold (migrateFromStep h nb) olds m) k =
     mgetd [] m k @ concat (map (\<lambda>o1. if ID (h o1) = k then drop nb (NSlots (h o1)) else []) olds)"
  by (induction olds arbitrary: m) (auto simp: migrateFromStep_def TotalSlots_def)

lemma concat_map_single:
  assumes "distinct (map g xs)" "x \<in> set xs"
  shows "concat (map (\<lambda>y. if g y = g x then f y else []) xs) = f x"
proof -
  have none: "concat (map (\<lambda>y. if g y = k then f y else []) ys) = []" if "k \<notin> g ` set ys" for ys k
    using that by (induction ys) auto
  show ?thesis using assms
  proof (induction xs)
    case (Cons a xs)
    have na: "g a \<notin> g ` set xs" using Cons.prems(1) by simp
    show ?case
    proof (cases "x = a")
      case True
      then show ?thesis using none [OF na] by simp
    next
      case False
      then have "x \<in> set xs" using Cons.prems(2) by simp
      moreover then have "g a \<noteq> g x" using na by (metis imageI)
      ultimately show ?thesis using Cons.IH Cons.prems(1) by simp
    qed
  qed simp
qed

lemma wf_migrateFrom: "wf_map m \<Longrightarrow> wf_map (fold (migrateFromStep h nb) olds m)"
  by (induction olds arbitrary: m) (simp_all add: migrateFromStep_def gm.wf_insert)

lemma mget_removed:
  "mget (fold (\<lambda>n m. mput (ID (h n)) (NSlots (h n)) m) rs m) k =
     (case filter (\<lambda>n. ID (h n) = k) rs of [] \<Rightarrow> mget m k | ns \<Rightarrow> Some (NSlots (h (last ns))))"
  by (induction rs arbitrary: m) (auto split: list.splits)

lemma mget_removed_nodes:
  assumes "distinct (map (\<lambda>r. ID (h r)) olds)"
  shows "mget (retrieveSlotToMigrateFromRemovedNodes h news olds) k =
     (if \<exists>o1\<in>set olds. ID (h o1) = k \<and> k \<notin> (\<lambda>r. ID (h r)) ` set news
      then Some (concat (map (\<lambda>o1. if ID (h o1) = k then NSlots (h o1) else []) olds)) else None)"
proof -
  let ?rs = "filter (\<lambda>old. \<not> list_ex (\<lambda>new. ID (h old) = ID (h new)) news) olds"
  have rs: "set ?rs = {r \<in> set olds. ID (h r) \<notin> (\<lambda>r. ID (h r)) ` set news}"
    by (auto simp: list_ex_iff)
  have eq: "mget (retrieveSlotToMigrateFromRemovedNodes h news olds) k =
      (case filter (\<lambda>n. ID (h n) = k) ?rs of [] \<Rightarrow> None | ns \<Rightarrow> Some (NSlots (h (last ns))))"
    by (simp only: retrieveSlotToMigrateFromRemovedNodes_def Let_def mget_removed mget_Nil)
  show ?thesis
  proof (cases "\<exists>o1\<in>set olds. ID (h o1) = k \<and> k \<notin> (\<lambda>r. ID (h r)) ` set news")
    case True
    then obtain o1 where o1: "o1 \<in> set olds" "ID (h o1) = k" "k \<notin> (\<lambda>r. ID (h r)) ` set news" by blast
    let ?f = "filter (\<lambda>n. ID (h n) = k) ?rs"
    have "o1 \<in> set ?f" using o1 by (auto simp: list_ex_iff)
    then have ne: "?f \<noteq> []" by (metis empty_iff list.set(1))
    then have "last ?f \<in> set ?f" by (rule last_in_set)
    then have "last ?f \<in> set olds" "ID (h (last ?f)) = k" by simp_all
    then have "last ?f = o1" using assms o1 by (auto simp: distinct_map dest: inj_onD)
    then have "mget (retrieveSlotToMigrateFromRemovedNodes h news olds) k = Some (NSlots (h o1))"
      using eq ne by (cases ?f) (simp_all only: list.case)
    then show ?thesis using True concat_map_single [OF assms o1(1), of "\<lambda>r. NSlots (h r)"] o1(2) by simp
  next
    case False
    then have "set (filter (\<lambda>n. ID (h n) = k) ?rs) = {}" using rs by auto
    then show ?thesis using False eq by (simp only: set_empty list.case if_False)
  qed
qed

lemma wf_removed_nodes: "wf_map (retrieveSlotToMigrateFromRemovedNodes h news olds)"
proof -
  have "wf_map m \<Longrightarrow> wf_map (fold (\<lambda>n m. mput (ID (h n)) (NSlots (h n)) m) rs m)" for rs m
    by (induction rs arbitrary: m) (simp_all add: gm.wf_insert)
  then show ?thesis by (simp add: retrieveSlotToMigrateFromRemovedNodes_def Let_def)
qed

lemma mget_fold_mput:
  assumes "wf_map d"
  shows "mget (fold (\<lambda>(i, v) m. mput i v m) d m) k = (case mget d k of None \<Rightarrow> mget m k | Some v \<Rightarrow> Some v)"
proof -
  have "map_of (rev d) = map_of d" using assms by (subst map_of_inject_set) (auto simp: wf_map_def rev_map [symmetric])
  then show ?thesis using gm.fold_insert_lookup [of d m k] by (simp add: mget_def)
qed

text \<open>What a current master gives away: all its slots when it goes, else those above the target.\<close>

definition gives :: "heap \<Rightarrow> ref list \<Rightarrow> nat \<Rightarrow> ref \<Rightarrow> Slot list" where
  "gives h news nb o1 = (if o1 \<in> set news then drop nb (NSlots (h o1)) else NSlots (h o1))"

lemma migrate_map_spec:
  assumes ok: "scale_down_ok h news olds N"
  shows "mgetd [] (migrate_map h news olds nb N) [] = retrieveLostSlots h olds N"
    and "o1 \<in> set olds \<Longrightarrow> mgetd [] (migrate_map h news olds nb N) (ID (h o1)) = gives h news nb o1"
    and "k \<noteq> [] \<Longrightarrow> k \<notin> (\<lambda>r. ID (h r)) ` set olds \<Longrightarrow> mgetd [] (migrate_map h news olds nb N) k = []"
    and "wf_map (migrate_map h news olds nb N)"
proof -
  note D = scale_down_okD [OF ok]
  have dist: "distinct (map (\<lambda>r. ID (h r)) olds)"
    using D(3,4) by (auto simp: distinct_map inj_on_def)
  note look = mget_fold_mput [OF wf_removed_nodes, of h news olds "retrieveSlotToMigrateFrom h olds nb"]
  have base: "mgetd [] (retrieveSlotToMigrateFrom h olds nb) k =
      concat (map (\<lambda>o1. if ID (h o1) = k then drop nb (NSlots (h o1)) else []) olds)" for k
    using mgetd_migrateFrom [OF dist, of nb "[]" k] by (simp add: retrieveSlotToMigrateFrom_def mgetd_def)
  have M: "mgetd [] (migrate_map h news olds nb N) k =
     (if k = [] then retrieveLostSlots h olds N
      else case mget (retrieveSlotToMigrateFromRemovedNodes h news olds) k of
        Some v \<Rightarrow> v | None \<Rightarrow> mgetd [] (retrieveSlotToMigrateFrom h olds nb) k)" for k
    by (simp add: migrate_map_def mgetd_def look split: option.splits)
  show "mgetd [] (migrate_map h news olds nb N) [] = retrieveLostSlots h olds N" by (simp add: M)
  show "mgetd [] (migrate_map h news olds nb N) (ID (h o1)) = gives h news nb o1" if o1: "o1 \<in> set olds"
  proof -
    have ne: "ID (h o1) \<noteq> []" using D(5) o1 by simp
    have iff: "ID (h o1) \<in> (\<lambda>r. ID (h r)) ` set news \<longleftrightarrow> o1 \<in> set news"
      using D(4) o1 by (auto simp: image_iff)
    show ?thesis
    proof (cases "o1 \<in> set news")
      case True
      then have "mget (retrieveSlotToMigrateFromRemovedNodes h news olds) (ID (h o1)) = None"
        using iff by (simp add: mget_removed_nodes [OF dist])
      then show ?thesis using True ne
        by (simp add: M base gives_def concat_map_single [OF dist o1])
    next
      case False
      then have "mget (retrieveSlotToMigrateFromRemovedNodes h news olds) (ID (h o1)) = Some (NSlots (h o1))"
        using iff o1 concat_map_single [OF dist o1, of "\<lambda>r. NSlots (h r)"]
        by (auto simp: mget_removed_nodes [OF dist])
      then show ?thesis using False ne by (simp add: M gives_def)
    qed
  qed
  show "mgetd [] (migrate_map h news olds nb N) k = []"
    if k: "k \<noteq> []" "k \<notin> (\<lambda>r. ID (h r)) ` set olds" for k
  proof -
    have "mget (retrieveSlotToMigrateFromRemovedNodes h news olds) k = None"
      using k by (auto simp: mget_removed_nodes [OF dist])
    moreover have "mgetd [] (retrieveSlotToMigrateFrom h olds nb) k = []"
      unfolding base using k(2) by auto
    ultimately show ?thesis using k(1) by (simp add: M)
  qed
  have "wf_map (retrieveSlotToMigrateFrom h olds nb)"
    unfolding retrieveSlotToMigrateFrom_def by (rule wf_migrateFrom) simp
  then show "wf_map (migrate_map h news olds nb N)"
    unfolding migrate_map_def by (intro gm.wf_insert gm.fold_insert_wf)
qed

text \<open>Every key of the map is the empty one, a current master, or has no slots.\<close>

lemma migrate_map_keys:
  assumes "scale_down_ok h news olds N"
  shows "k = [] \<or> (\<exists>o1\<in>set olds. k = ID (h o1)) \<or> mgetd [] (migrate_map h news olds nb N) k = []"
  using migrate_map_spec(3) [OF assms, of k nb] by blast

lemma gives_subset: "set (gives h news nb o1) \<subseteq> set (NSlots (h o1))"
  by (auto simp: gives_def dest: in_set_dropD)

lemma lost_of_ok:
  assumes "scale_down_ok h news olds N"
  shows "set (retrieveLostSlots h olds N) = {s. unat s < N} - (\<Union>o1\<in>set olds. set (NSlots (h o1)))"
    and "distinct (retrieveLostSlots h olds N)"
  by (rule retrieveLostSlots_spec; use scale_down_okD(8,10,11) [OF assms] in blast)+

lemma migrate_map_disjoint:
  assumes ok: "scale_down_ok h news olds N" and ne: "k \<noteq> l"
  shows "set (mgetd [] (migrate_map h news olds nb N) k) \<inter> set (mgetd [] (migrate_map h news olds nb N) l) = {}"
proof -
  let ?M = "migrate_map h news olds nb N"
  note M = migrate_map_spec(1,2) [OF ok, where nb = nb] and keys = migrate_map_keys [OF ok, where nb = nb]
  have from_lost: "set (mgetd [] ?M []) \<inter> set (mgetd [] ?M (ID (h o1))) = {}" if "o1 \<in> set olds" for o1
    using M that lost_of_ok(1) [OF ok] gives_subset [of h news nb o1] by auto
  consider "mgetd [] ?M k = []" | "mgetd [] ?M l = []" | "k = []" "\<exists>o1\<in>set olds. l = ID (h o1)"
    | "l = []" "\<exists>o1\<in>set olds. k = ID (h o1)"
    | "\<exists>o1\<in>set olds. k = ID (h o1)" "\<exists>o1\<in>set olds. l = ID (h o1)"
    using keys [of k] keys [of l] ne by blast
  then show ?thesis
  proof cases
    case 5
    then obtain o1 o2 where "o1 \<in> set olds" "k = ID (h o1)" "o2 \<in> set olds" "l = ID (h o2)" by blast
    then show ?thesis
      using M(2) gives_subset [of h news nb o1] gives_subset [of h news nb o2] scale_down_okD(7) [OF ok, of o1 o2] ne by auto
  qed (use from_lost in fastforce)+
qed

lemma available_set:
  assumes "is_order ord"
  shows "set (available ord m) = (\<Union>k. set (mgetd [] m k))"
proof -
  have "mgetd [] m k = []" if "k \<notin> set (mkeys m)" for k
    using that by (auto simp: set_mkeys mgetd_def split: option.splits)
  then show ?thesis using is_orderD(2) [OF assms, of "mkeys m"] unfolding available_def by force
qed

lemma available_spec:
  assumes ok: "scale_down_ok h news olds N" and ord: "is_order ord"
  defines "A \<equiv> \<lambda>nb. available ord (migrate_map h news olds nb N)"
  shows "set (A nb) = ({s. unat s < N} - (\<Union>o1\<in>set olds. set (NSlots (h o1)))) \<union>
      (\<Union>o1\<in>set olds. set (gives h news nb o1))" (is "_ = ?L \<union> ?G")
    and "distinct (A nb)"
proof -
  let ?M = "migrate_map h news olds nb N"
  note M = migrate_map_spec [OF ok, where nb = nb] and lost = lost_of_ok [OF ok]
    and keys = migrate_map_keys [OF ok, where nb = nb]
  show "set (A nb) = ?L \<union> ?G"
    unfolding A_def available_set [OF ord]
  proof
    show "(\<Union>k. set (mgetd [] ?M k)) \<subseteq> ?L \<union> ?G"
    proof (rule UN_least)
      fix k show "set (mgetd [] ?M k) \<subseteq> ?L \<union> ?G"
        using keys [of k] M(1,2) lost(1) by (elim disjE bexE) auto
    qed
    have "set (mgetd [] ?M []) = ?L" using M(1) lost(1) by simp
    moreover have "set (mgetd [] ?M (ID (h o1))) = set (gives h news nb o1)" if "o1 \<in> set olds" for o1
      using M(2) [OF that] by simp
    ultimately show "?L \<union> ?G \<subseteq> (\<Union>k. set (mgetd [] ?M k))" by blast
  qed
  show "distinct (A nb)"
    unfolding A_def available_def
  proof (rule distinct_concat_mapI)
    show "distinct (ord (mkeys ?M))" using is_orderD(4) [OF ord] M(4) by (simp add: distinct_mkeys)
    show "distinct (mgetd [] ?M k)" for k
      using keys [of k] M(1,2) lost(2) scale_down_okD(6) [OF ok] by (auto simp: gives_def)
  qed (rule migrate_map_disjoint [OF ok])
qed

section \<open>The moves\<close>

text \<open>The first current master that has a slot; under \<open>scale_down_ok\<close> the only one.\<close>

definition owner :: "heap \<Rightarrow> ref list \<Rightarrow> Slot \<Rightarrow> ref option" where
  "owner h olds s = find (\<lambda>o1. s \<in> set (NSlots (h o1))) olds"

lemma feedSlot_eq:
  assumes inj: "\<And>r r'. r \<in> set olds \<union> set news \<Longrightarrow> r' \<in> set olds \<union> set news \<Longrightarrow> ID (h r) = ID (h r') \<Longrightarrow> r = r'"
    and t: "t \<in> set news"
  shows "feedSlot h news (ID (h t)) s olds (m, n) =
     (if owner h olds s = Some t then (m, n) else (mappend (owner h olds s, t) s m, n + 1))"
proof -
  have get: "Nodes_GetNodeByID (\<lambda>r. ID (h r)) news (ID (h t)) = Inr t"
    using t inj by (intro Nodes_GetNodeByID_unique) (auto simp: inj_on_def)
  show ?thesis using inj
  proof (induction olds)
    case Nil
    then show ?case by (simp add: get owner_def)
  next
    case (Cons a olds)
    have IH: "feedSlot h news (ID (h t)) s olds (m, n) =
        (if owner h olds s = Some t then (m, n) else (mappend (owner h olds s, t) s m, n + 1))"
      using Cons.prems by (intro Cons.IH) auto
    have "ID (h a) = ID (h t) \<longleftrightarrow> a = t" using Cons.prems [of a t] t by auto
    then show ?case using IH get by (auto simp: owner_def)
  qed
qed

lemma feedSlots_get:
  assumes inj: "\<And>r r'. r \<in> set olds \<union> set news \<Longrightarrow> r' \<in> set olds \<union> set news \<Longrightarrow> ID (h r) = ID (h r') \<Longrightarrow> r = r'"
    and t: "t \<in> set news"
  shows "mgetd [] (fst (fold (\<lambda>s. feedSlot h news (ID (h t)) s olds) ss st)) k =
     mgetd [] (fst st) k @ (if snd k = t \<and> fst k \<noteq> Some t then filter (\<lambda>s. owner h olds s = fst k) ss else [])"
    and "wf_map (fst st) \<Longrightarrow> wf_map (fst (fold (\<lambda>s. feedSlot h news (ID (h t)) s olds) ss st))"
proof -
  have "mgetd [] (fst (fold (\<lambda>s. feedSlot h news (ID (h t)) s olds) ss st)) k =
     mgetd [] (fst st) k @ (if snd k = t \<and> fst k \<noteq> Some t then filter (\<lambda>s. owner h olds s = fst k) ss else []) \<and>
     (wf_map (fst st) \<longrightarrow> wf_map (fst (fold (\<lambda>s. feedSlot h news (ID (h t)) s olds) ss st)))"
  proof (induction ss arbitrary: st)
    case (Cons s ss)
    obtain m n where st: "st = (m, n)" by (cases st)
    have one: "feedSlot h news (ID (h t)) s olds (m, n) =
        (if owner h olds s = Some t then (m, n) else (mappend (owner h olds s, t) s m, n + 1))"
      by (rule feedSlot_eq [OF inj t])
    let ?st = "if owner h olds s = Some t then (m, n) else (mappend (owner h olds s, t) s m, n + 1)"
    show ?case using Cons.IH [of ?st] by (cases k) (auto simp: st one)
  qed simp
  then show "mgetd [] (fst (fold (\<lambda>s. feedSlot h news (ID (h t)) s olds) ss st)) k =
     mgetd [] (fst st) k @ (if snd k = t \<and> fst k \<noteq> Some t then filter (\<lambda>s. owner h olds s = fst k) ss else [])"
    and "wf_map (fst st) \<Longrightarrow> wf_map (fst (fold (\<lambda>s. feedSlot h news (ID (h t)) s olds) ss st))" by blast+
qed

definition feedIds ::
    "heap \<Rightarrow> ref list \<Rightarrow> ref list \<Rightarrow> (string, Slot list) gomap \<Rightarrow> string list \<Rightarrow> mapSlotByMigInfo \<times> int \<Rightarrow> mapSlotByMigInfo \<times> int" where
  "feedIds h news olds add ids st = fold (\<lambda>i st. fold (\<lambda>s. feedSlot h news i s olds) (mgetd [] add i) st) ids st"

lemma feedIds_get:
  assumes inj: "\<And>r r'. r \<in> set olds \<union> set news \<Longrightarrow> r' \<in> set olds \<union> set news \<Longrightarrow> ID (h r) = ID (h r') \<Longrightarrow> r = r'"
    and "distinct ids" "set ids \<subseteq> (\<lambda>r. ID (h r)) ` set news"
  shows "mgetd [] (fst (feedIds h news olds add ids st)) (f, t) =
     mgetd [] (fst st) (f, t) @
     (if t \<in> set news \<and> ID (h t) \<in> set ids \<and> f \<noteq> Some t
      then filter (\<lambda>s. owner h olds s = f) (mgetd [] add (ID (h t))) else [])"
  using assms(2,3)
proof (induction ids arbitrary: st)
  case (Cons i ids)
  obtain u where u: "u \<in> set news" "i = ID (h u)" using Cons.prems by auto
  let ?st = "fold (\<lambda>s. feedSlot h news (ID (h u)) s olds) (mgetd [] add (ID (h u))) st"
  have "mgetd [] (fst (feedIds h news olds add ids ?st)) (f, t) =
     mgetd [] (fst ?st) (f, t) @
     (if t \<in> set news \<and> ID (h t) \<in> set ids \<and> f \<noteq> Some t
      then filter (\<lambda>s. owner h olds s = f) (mgetd [] add (ID (h t))) else [])"
    using Cons.prems by (intro Cons.IH) auto
  moreover have "mgetd [] (fst ?st) (f, t) = mgetd [] (fst st) (f, t) @
      (if t = u \<and> f \<noteq> Some u then filter (\<lambda>s. owner h olds s = f) (mgetd [] add (ID (h u))) else [])"
    by (rule feedSlots_get(1) [where h = h and olds = olds and news = news and k = "(f, t)" and t = u,
        OF inj u(1), unfolded fst_conv snd_conv])
  moreover have "t \<in> set news \<Longrightarrow> ID (h t) = ID (h u) \<longleftrightarrow> t = u" using inj u(1) by blast
  ultimately show ?case using Cons.prems(1) u by (auto simp: feedIds_def)
qed (simp add: feedIds_def)

lemma feedIds_keys:
  assumes inj: "\<And>r r'. r \<in> set olds \<union> set news \<Longrightarrow> r' \<in> set olds \<union> set news \<Longrightarrow> ID (h r) = ID (h r') \<Longrightarrow> r = r'"
    and own: "\<And>s r. owner h olds s = Some r \<Longrightarrow> r \<in> set olds"
  defines "K \<equiv> {(f, t). t \<in> set news \<and> f \<noteq> Some t \<and> (\<forall>r. f = Some r \<longrightarrow> r \<in> set olds)}"
  shows "set ids \<subseteq> (\<lambda>r. ID (h r)) ` set news \<Longrightarrow> set (mkeys (fst st)) \<subseteq> K \<Longrightarrow>
    set (mkeys (fst (feedIds h news olds add ids st))) \<subseteq> K"
proof (induction ids arbitrary: st)
  case (Cons i ids)
  obtain u where u: "u \<in> set news" "i = ID (h u)" using Cons.prems(1) by auto
  have one: "set (mkeys (fst (feedSlot h news (ID (h u)) s olds st))) \<subseteq> K" if "set (mkeys (fst st)) \<subseteq> K" for s st
  proof -
    obtain m n where st: "st = (m, n)" by (cases st)
    have "feedSlot h news (ID (h u)) s olds (m, n) =
       (if owner h olds s = Some u then (m, n) else (mappend (owner h olds s, u) s m, n + 1))"
      by (rule feedSlot_eq [OF inj u(1)])
    then show ?thesis using that u(1) own by (auto simp: st K_def mappend_def)
  qed
  have "set (mkeys (fst (fold (\<lambda>s. feedSlot h news (ID (h u)) s olds) ss st))) \<subseteq> K"
    if "set (mkeys (fst st)) \<subseteq> K" for ss st
    using that by (induction ss arbitrary: st) (simp, simp add: one)
  then show ?case using Cons u by (simp add: feedIds_def)
qed (simp add: feedIds_def)

lemma feedIds_wf:
  assumes inj: "\<And>r r'. r \<in> set olds \<union> set news \<Longrightarrow> r' \<in> set olds \<union> set news \<Longrightarrow> ID (h r) = ID (h r') \<Longrightarrow> r = r'"
  shows "set ids \<subseteq> (\<lambda>r. ID (h r)) ` set news \<Longrightarrow> wf_map (fst st) \<Longrightarrow> wf_map (fst (feedIds h news olds add ids st))"
proof (induction ids arbitrary: st)
  case (Cons i ids)
  obtain u where u: "u \<in> set news" "i = ID (h u)" using Cons.prems(1) by auto
  then show ?case using Cons feedSlots_get(2) [OF inj u(1)] by (simp add: feedIds_def)
qed (simp add: feedIds_def)

section \<open>Ownership under the moves\<close>

text \<open>
  What removing and adding slots must satisfy for a transfer to keep slots single-owned.
  The state is the slice of slots of each node.
\<close>

locale slot_transfer =
  fixes rem :: "'s list \<Rightarrow> 's list \<Rightarrow> 's list" and add :: "'s list \<Rightarrow> 's list \<Rightarrow> 's list"
  assumes set_rem: "distinct xs \<Longrightarrow> set (rem xs ys) = set xs - set ys"
    and distinct_rem: "distinct xs \<Longrightarrow> distinct (rem xs ys)"
    and set_add: "set (add xs ys) = set xs \<union> set ys"
    and distinct_add: "distinct xs \<Longrightarrow> distinct (add xs ys)"
begin

lemma transfer_member:
  assumes "from \<noteq> to" "distinct (\<sigma> from)"
  shows "x \<in> set (((\<sigma>(from := rem (\<sigma> from) ys))(to := add (\<sigma> to) ys)) r) \<longleftrightarrow>
     (if x \<in> set ys then r = to \<or> (x \<in> set (\<sigma> r) \<and> r \<noteq> from) else x \<in> set (\<sigma> r))"
  using assms by (auto simp: set_rem set_add)

lemma transfer_distinct:
  assumes "from \<noteq> to" "distinct (\<sigma> r)"
  shows "distinct (((\<sigma>(from := rem (\<sigma> from) ys))(to := add (\<sigma> to) ys)) r)"
  using assms by (auto simp: distinct_rem distinct_add)

end

interpretation slices: slot_transfer RemoveSlots AddSlots
  by unfold_locales (auto simp: RemoveSlots_filter distinct_AddSlots)

definition move_slots :: "migrationInfo \<Rightarrow> Slot list \<Rightarrow> (ref \<Rightarrow> Slot list) \<Rightarrow> ref \<Rightarrow> Slot list" where
  "move_slots mi ys \<sigma> =
     (case fst mi of
        None \<Rightarrow> \<sigma>(snd mi := AddSlots (\<sigma> (snd mi)) ys)
      | Some from \<Rightarrow> (\<sigma>(from := RemoveSlots (\<sigma> from) ys))(snd mi := AddSlots (\<sigma> (snd mi)) ys))"

lemma move_slots_member:
  assumes "fst mi \<noteq> Some (snd mi)" "\<And>f. fst mi = Some f \<Longrightarrow> distinct (\<sigma> f)"
  shows "x \<in> set (move_slots mi ys \<sigma> r) \<longleftrightarrow>
     (if x \<in> set ys then r = snd mi \<or> (x \<in> set (\<sigma> r) \<and> fst mi \<noteq> Some r) else x \<in> set (\<sigma> r))"
proof (cases "fst mi")
  case (Some src)
  then show ?thesis using slices.transfer_member [of src "snd mi" \<sigma> x ys r] assms
    by (auto simp: move_slots_def)
qed (auto simp: move_slots_def)

lemma move_slots_distinct:
  assumes "fst mi \<noteq> Some (snd mi)" "distinct (\<sigma> r)"
  shows "distinct (move_slots mi ys \<sigma> r)"
proof (cases "fst mi")
  case (Some src)
  then show ?thesis using slices.transfer_distinct [of src "snd mi" \<sigma> r ys] assms
    by (auto simp: move_slots_def)
next
  case None
  then have "move_slots mi ys \<sigma> r = (if r = snd mi then AddSlots (\<sigma> r) ys else \<sigma> r)"
    by (simp add: move_slots_def)
  moreover have "distinct (AddSlots (\<sigma> r) ys)" using assms(2) slices.distinct_add by blast
  ultimately show ?thesis using assms(2) by (cases "r = snd mi") simp_all
qed

definition moves_ok :: "ref set \<Rightarrow> migrationInfo list \<Rightarrow> (migrationInfo \<Rightarrow> Slot list) \<Rightarrow> bool" where
  "moves_ok R ks E \<longleftrightarrow> distinct ks \<and>
     (\<forall>k\<in>set ks. fst k \<noteq> Some (snd k) \<and> snd k \<in> R \<and> (\<forall>f. fst k = Some f \<longrightarrow> f \<in> R)) \<and>
     (\<forall>k\<in>set ks. \<forall>l\<in>set ks. \<forall>x. x \<in> set (E k) \<longrightarrow> x \<in> set (E l) \<longrightarrow> k = l)"

lemma fold_move_slots_distinct:
  "moves_ok R ks E \<Longrightarrow> \<forall>r\<in>R. distinct (\<sigma> r) \<Longrightarrow> \<forall>r\<in>R. distinct (fold (\<lambda>k. move_slots k (E k)) ks \<sigma> r)"
proof (induction ks arbitrary: \<sigma>)
  case (Cons k ks)
  then have "moves_ok R ks E" "\<forall>r\<in>R. distinct (move_slots k (E k) \<sigma> r)"
    by (auto simp: moves_ok_def intro!: move_slots_distinct)
  then show ?case using Cons.IH by simp
qed simp

lemma fold_move_slots:
  assumes "moves_ok R ks E" "\<forall>r\<in>R. distinct (\<sigma> r)"
  shows "\<forall>k\<in>set ks. x \<notin> set (E k) \<Longrightarrow> x \<in> set (fold (\<lambda>k. move_slots k (E k)) ks \<sigma> r) \<longleftrightarrow> x \<in> set (\<sigma> r)"
    and "k \<in> set ks \<Longrightarrow> x \<in> set (E k) \<Longrightarrow> x \<in> set (fold (\<lambda>k. move_slots k (E k)) ks \<sigma> r) \<longleftrightarrow>
      r = snd k \<or> (x \<in> set (\<sigma> r) \<and> fst k \<noteq> Some r)"
proof -
  have "((\<forall>k\<in>set ks. x \<notin> set (E k)) \<longrightarrow> x \<in> set (fold (\<lambda>k. move_slots k (E k)) ks \<sigma> r) \<longleftrightarrow> x \<in> set (\<sigma> r)) \<and>
    (\<forall>k\<in>set ks. x \<in> set (E k) \<longrightarrow> x \<in> set (fold (\<lambda>k. move_slots k (E k)) ks \<sigma> r) \<longleftrightarrow>
      r = snd k \<or> (x \<in> set (\<sigma> r) \<and> fst k \<noteq> Some r))"
    using assms
  proof (induction ks arbitrary: \<sigma>)
    case (Cons k ks)
    let ?\<tau> = "move_slots k (E k) \<sigma>"
    have k: "fst k \<noteq> Some (snd k)" "fst k = Some f \<Longrightarrow> distinct (\<sigma> f)" for f
      using Cons.prems by (auto simp: moves_ok_def)
    have one: "x \<in> set (?\<tau> r) \<longleftrightarrow>
      (if x \<in> set (E k) then r = snd k \<or> (x \<in> set (\<sigma> r) \<and> fst k \<noteq> Some r) else x \<in> set (\<sigma> r))"
      by (rule move_slots_member) (use k in auto)
    have IH: "((\<forall>k\<in>set ks. x \<notin> set (E k)) \<longrightarrow> x \<in> set (fold (\<lambda>k. move_slots k (E k)) ks ?\<tau> r) \<longleftrightarrow> x \<in> set (?\<tau> r)) \<and>
      (\<forall>k\<in>set ks. x \<in> set (E k) \<longrightarrow> x \<in> set (fold (\<lambda>k. move_slots k (E k)) ks ?\<tau> r) \<longleftrightarrow>
        r = snd k \<or> (x \<in> set (?\<tau> r) \<and> fst k \<noteq> Some r))"
      using Cons.prems by (intro Cons.IH) (auto simp: moves_ok_def intro!: move_slots_distinct)
    have excl: "x \<notin> set (E k)" if "l \<in> set ks" "x \<in> set (E l)" for l
      using Cons.prems(1) that by (auto simp: moves_ok_def)
    show ?case
    proof (cases "x \<in> set (E k)")
      case True
      then have "\<forall>l\<in>set ks. x \<notin> set (E l)" using excl by blast
      then show ?thesis using IH one True by simp
    next
      case False
      then show ?thesis using IH one by simp
    qed
  qed simp
  then show "\<forall>k\<in>set ks. x \<notin> set (E k) \<Longrightarrow> x \<in> set (fold (\<lambda>k. move_slots k (E k)) ks \<sigma> r) \<longleftrightarrow> x \<in> set (\<sigma> r)"
    and "k \<in> set ks \<Longrightarrow> x \<in> set (E k) \<Longrightarrow> x \<in> set (fold (\<lambda>k. move_slots k (E k)) ks \<sigma> r) \<longleftrightarrow>
      r = snd k \<or> (x \<in> set (\<sigma> r) \<and> fst k \<noteq> Some r)" by blast+
qed

text \<open>When the calls succeed, the slices of slots change by the moves of the plan.\<close>

definition slots_of :: "heap \<Rightarrow> ref \<Rightarrow> Slot list" where
  "slots_of h r = NSlots (h r)"

lemma slots_of_upd: "slots_of (h(r := (h r)\<lparr>NSlots := xs\<rparr>)) = (slots_of h)(r := xs)"
  by (auto simp: slots_of_def)

lemma dispatchMove_success:
  assumes "dispatchMove env alls mi sl h s = Ret ((None, h'), s')" "fst mi \<noteq> Some (snd mi)"
  shows "slots_of h' = move_slots mi sl (slots_of h)"
proof (cases "fst mi")
  case None
  then have "h' = h(snd mi := (h (snd mi))\<lparr>NSlots := AddSlots (NSlots (h (snd mi))) sl\<rparr>)"
    using assms(1) by (auto simp: dispatchMove_def Let_def gbind_Ret_iff split: option.splits)
  then show ?thesis using None by (simp add: slots_of_upd move_slots_def) (simp add: slots_of_def)
next
  case (Some src)
  let ?h = "h(src := (h src)\<lparr>NSlots := RemoveSlots (NSlots (h src)) sl\<rparr>)"
  have "h' = ?h(snd mi := (?h (snd mi))\<lparr>NSlots := AddSlots (NSlots (?h (snd mi))) sl\<rparr>)"
    using assms(1) Some
    by (auto simp: dispatchMove_def moveSlots_def Let_def gbind_Ret_iff split: option.splits)
  then have "slots_of h' = (slots_of ?h)(snd mi := AddSlots (NSlots (?h (snd mi))) sl)"
    by (simp only: slots_of_upd)
  moreover have "NSlots (?h (snd mi)) = slots_of h (snd mi)" using assms(2) Some by (simp add: slots_of_def)
  ultimately show ?thesis using Some by (simp add: slots_of_upd move_slots_def) (simp add: slots_of_def)
qed

lemma dispatchMoves_success:
  assumes "dispatchMoves env alls m ks h s = Ret ((None, h'), s')" "\<forall>k\<in>set ks. fst k \<noteq> Some (snd k)"
  shows "slots_of h' = fold (\<lambda>k. move_slots k (mgetd [] m k)) ks (slots_of h)"
  using assms
proof (induction ks arbitrary: h s)
  case (Cons k ks)
  from Cons.prems(1) obtain h1 s1 where
    1: "dispatchMove env alls k (mgetd [] m k) h s = Ret ((None, h1), s1)" "dispatchMoves env alls m ks h1 s1 = Ret ((None, h'), s')"
    by (auto simp: gbind_Ret_iff split: option.splits)
  then show ?case using Cons.IH [OF 1(2)] Cons.prems(2) dispatchMove_success [OF 1(1)] by simp
qed simp

lemma sum_mset_distinct:
  fixes n :: nat
  assumes "(\<Sum>i<n. mset (f i)) = mset A" "distinct A"
  shows "i < n \<Longrightarrow> distinct (f i)" and "i < n \<Longrightarrow> j < n \<Longrightarrow> i \<noteq> j \<Longrightarrow> set (f i) \<inter> set (f j) = {}"
    and "(\<Union>i<n. set (f i)) = set A"
proof -
  have "mset (concat (map f [0..<n])) = (\<Sum>i<n. mset (f i))"
    by (induction n) (simp_all add: add.commute)
  then have m: "mset (concat (map f [0..<n])) = mset A" using assms(1) by simp
  then have d: "distinct (concat (map f [0..<n]))" using assms(2) by (metis mset_eq_imp_distinct_iff)
  show "distinct (f i)" if "i < n" using distinct_concat_mapD(1) [OF d] that by simp
  show "set (f i) \<inter> set (f j) = {}" if "i < n" "j < n" "i \<noteq> j" using distinct_concat_mapD(2) [OF d] that by simp
  show "(\<Union>i<n. set (f i)) = set A" using mset_eq_setD [OF m] by (simp add: atLeast0LessThan)
qed

text \<open>The plan of a scale-down: what each new master receives, and the resulting moves.\<close>

definition plan :: "ord \<Rightarrow> heap \<Rightarrow> ref list \<Rightarrow> ref list \<Rightarrow> nat \<Rightarrow> ref \<Rightarrow> Slot list" where
  "plan ord h news olds N t = mgetd [] (buildSlotsByNode ord h news olds [] N) (ID (h t))"

lemma buildSlotsByNode_alls: "buildSlotsByNode ord h news olds alls N = buildSlotsByNode ord h news olds [] N"
  by (simp add: buildSlotsByNode_def)

lemma plan_spec:
  assumes ok: "scale_down_ok h news olds N" and ord: "is_order ord"
  defines "nb \<equiv> slotsPerMaster N (length news)"
  defines "A \<equiv> available ord (migrate_map h news olds nb N)"
  shows "t \<in> set news \<Longrightarrow> distinct (plan ord h news olds N t)"
    and "t \<in> set news \<Longrightarrow> u \<in> set news \<Longrightarrow> t \<noteq> u \<Longrightarrow> set (plan ord h news olds N t) \<inter> set (plan ord h news olds N u) = {}"
    and "(\<Union>t\<in>set news. set (plan ord h news olds N t)) = set A"
proof -
  note D = scale_down_okD [OF ok]
  let ?add = "buildSlotByNodeFromAvailableSlots ord h news nb (migrate_map h news olds nb N)"
  have ids: "distinct (map (\<lambda>n. ID (h n)) news)" using D(2,4) by (auto simp: distinct_map inj_on_def)
  have pl: "plan ord h news olds N (news ! i) = received h news ?add i" for i
    using D(1) by (simp add: plan_def received_def buildSlotsByNode_eq nb_def)
  have sum: "(\<Sum>i<length news. mset (received h news ?add i)) = mset A"
    using build_conserves(1) [OF ids D(1)] by (simp add: A_def)
  note R = sum_mset_distinct [OF sum available_spec(2) [OF ok ord, of nb, folded A_def]]
  show "distinct (plan ord h news olds N t)" if "t \<in> set news"
    using that R(1) by (auto simp: in_set_conv_nth pl)
  show "set (plan ord h news olds N t) \<inter> set (plan ord h news olds N u) = {}"
    if tu: "t \<in> set news" "u \<in> set news" "t \<noteq> u"
  proof -
    obtain i j where ij: "i < length news" "t = news ! i" "j < length news" "u = news ! j"
      using tu by (auto simp: in_set_conv_nth)
    then have "i \<noteq> j" using tu(3) by blast
    then show ?thesis unfolding ij pl by (rule R(2) [OF ij(1,3)])
  qed
  have "(\<Union>t\<in>set news. set (plan ord h news olds N t)) = (\<Union>i<length news. set (received h news ?add i))"
  proof -
    have "set news = (!) news ` {..<length news}" by (auto simp: set_conv_nth)
    then have "(\<Union>t\<in>set news. set (plan ord h news olds N t)) =
        (\<Union>i<length news. set (plan ord h news olds N (news ! i)))" by (metis image_image)
    then show ?thesis by (simp only: pl)
  qed
  then show "(\<Union>t\<in>set news. set (plan ord h news olds N t)) = set A" using R(3) by simp
qed

lemma feedMigInfo_spec:
  assumes ok: "scale_down_ok h news olds N" and ord: "is_order ord1" "is_order ord2"
    and m0: "m = fst (feedMigInfo ord1 ord2 h news olds alls N)"
  shows "mgetd [] m (f, t) =
      (if t \<in> set news \<and> f \<noteq> Some t then filter (\<lambda>s. owner h olds s = f) (plan ord1 h news olds N t) else [])"
    and "wf_map m"
proof -
  note D = scale_down_okD [OF ok]
  let ?add = "buildSlotsByNode ord1 h news olds [] N"
  have ids: "distinct (map (\<lambda>n. ID (h n)) news)" using D(2,4) by (auto simp: distinct_map inj_on_def)
  have keys: "set (mkeys ?add) \<subseteq> (\<lambda>n. ID (h n)) ` set news" and wf: "wf_map ?add"
    using build_conserves(2,3) [OF ids D(1)] D(1) by (simp_all add: buildSlotsByNode_eq)
  have sub: "set (ord2 (mkeys ?add)) \<subseteq> (\<lambda>n. ID (h n)) ` set news"
    and dis: "distinct (ord2 (mkeys ?add))"
    using keys wf is_orderD(2,4) [OF ord(2)] by (auto simp: distinct_mkeys)
  have m: "m = fst (feedIds h news olds ?add (ord2 (mkeys ?add)) ([], 0))"
    by (simp add: m0 feedMigInfo_def feedIds_def Let_def buildSlotsByNode_alls [of _ _ _ _ alls])
  have inj: "r \<in> set olds \<union> set news \<Longrightarrow> r' \<in> set olds \<union> set news \<Longrightarrow> ID (h r) = ID (h r') \<Longrightarrow> r = r'" for r r'
    by (rule D(4))
  have "mgetd [] ?add (ID (h t)) = []" if "ID (h t) \<notin> set (ord2 (mkeys ?add))"
    using that is_orderD(2) [OF ord(2)] by (auto simp: set_mkeys mgetd_def split: option.splits)
  moreover have "mgetd [] m (f, t) =
      (if t \<in> set news \<and> ID (h t) \<in> set (ord2 (mkeys ?add)) \<and> f \<noteq> Some t
       then filter (\<lambda>s. owner h olds s = f) (mgetd [] ?add (ID (h t))) else [])"
    using feedIds_get [of olds news h "ord2 (mkeys ?add)" ?add "([], 0)" f t, OF inj dis sub]
    unfolding m by (simp only: fst_conv mgetd_Nil append_Nil)
  ultimately show "mgetd [] m (f, t) =
      (if t \<in> set news \<and> f \<noteq> Some t then filter (\<lambda>s. owner h olds s = f) (plan ord1 h news olds N t) else [])"
    by (cases "ID (h t) \<in> set (ord2 (mkeys ?add))") (simp_all add: plan_def)
  show "wf_map m" unfolding m
    by (rule feedIds_wf [where h = h and news = news and olds = olds, OF inj sub]) simp_all
qed

text \<open>
  The slots after the moves: each slot below \<open>N\<close> is with exactly one of the nodes concerned,
  a new master; a node keeps the first slots it had and gets what the plan gives it.
\<close>

lemma owner_iff:
  assumes "scale_down_ok h news olds N"
  shows "owner h olds s = Some r \<longleftrightarrow> r \<in> set olds \<and> s \<in> set (NSlots (h r))"
    and "owner h olds s = None \<longleftrightarrow> (\<forall>r\<in>set olds. s \<notin> set (NSlots (h r)))"
proof -
  note D = scale_down_okD [OF assms]
  show "owner h olds s = None \<longleftrightarrow> (\<forall>r\<in>set olds. s \<notin> set (NSlots (h r)))"
    by (auto simp: owner_def find_None_iff)
  have "owner h olds s = Some r \<Longrightarrow> r \<in> set olds \<and> s \<in> set (NSlots (h r))" for r
    by (auto simp: owner_def find_Some_iff)
  moreover have "owner h olds s = Some r" if "r \<in> set olds" "s \<in> set (NSlots (h r))" for r
  proof (cases "owner h olds s")
    case None
    then show ?thesis using that by (auto simp: owner_def find_None_iff)
  next
    case (Some r')
    then have "r' \<in> set olds \<and> s \<in> set (NSlots (h r'))" by (auto simp: owner_def find_Some_iff)
    then have "r' = r" using D(7) [of r r'] that by blast
    then show ?thesis using Some by simp
  qed
  ultimately show "owner h olds s = Some r \<longleftrightarrow> r \<in> set olds \<and> s \<in> set (NSlots (h r))" by blast
qed

lemma plan_available:
  assumes ok: "scale_down_ok h news olds N" and ord: "is_order ord"
  defines "nb \<equiv> slotsPerMaster N (length news)"
  shows "(\<exists>t\<in>set news. s \<in> set (plan ord h news olds N t)) \<longleftrightarrow>
     unat s < N \<and> (\<forall>o1\<in>set olds. s \<in> set (NSlots (h o1)) \<longrightarrow> s \<in> set (gives h news nb o1))"
proof -
  note D = scale_down_okD [OF ok]
  have "(\<exists>t\<in>set news. s \<in> set (plan ord h news olds N t)) \<longleftrightarrow>
      s \<in> set (available ord (migrate_map h news olds nb N))"
    using plan_spec(3) [OF ok ord] unfolding nb_def by blast
  also have "\<dots> \<longleftrightarrow> unat s < N \<and> (\<forall>o1\<in>set olds. s \<in> set (NSlots (h o1)) \<longrightarrow> s \<in> set (gives h news nb o1))"
  proof -
    have sub: "set (gives h news nb o1) \<subseteq> set (NSlots (h o1))" for o1
      by (auto simp: gives_def dest: in_set_dropD)
    show ?thesis unfolding available_spec(1) [OF ok ord]
      using sub D(7,8) by (auto, blast+)
  qed
  finally show ?thesis .
qed

end
