(* ===== verification/Scale_Down.thy ===== *)
theory Scale_Down
  imports Migration_Facts
begin

text \<open>
  What \<open>DispatchSlotToNewMasters\<close> does to the ownership of slots as a whole: when it
  returns without error the new masters share all slots, each slot with one of them, and the
  masters that leave have none. No new master is more than one slot above the number
  \<open>slotsPerMaster\<close> computes.
\<close>

section \<open>The moves of a scale-down\<close>

definition carried :: "heap \<Rightarrow> ref list \<Rightarrow> ref list \<Rightarrow> mapSlotByMigInfo \<Rightarrow> migrationInfo list \<Rightarrow> ref \<Rightarrow> Slot list" where
  "carried h news olds m ks = fold (\<lambda>k. move_slots k (mgetd [] m k)) ks (slots_of h)"

lemma feedMigInfo_keys:
  assumes ok: "scale_down_ok h news olds N" and ord: "is_order ord1" "is_order ord2"
    and m: "m = fst (feedMigInfo ord1 ord2 h news olds alls N)" and k: "k \<in> set (mkeys m)"
  shows "snd k \<in> set news" "fst k \<noteq> Some (snd k)" "fst k = Some r \<Longrightarrow> r \<in> set olds"
proof -
  note D = scale_down_okD [OF ok]
  let ?add = "buildSlotsByNode ord1 h news olds [] N"
  have ids: "distinct (map (\<lambda>n. ID (h n)) news)" using D(2,4) by (auto simp: distinct_map inj_on_def)
  have "set (mkeys ?add) \<subseteq> (\<lambda>n. ID (h n)) ` set news"
    using build_conserves(2) [OF ids D(1)] D(1) by (simp add: buildSlotsByNode_eq)
  then have sub: "set (ord2 (mkeys ?add)) \<subseteq> (\<lambda>n. ID (h n)) ` set news"
    using is_orderD(2) [OF ord(2)] by simp
  have me: "m = fst (feedIds h news olds ?add (ord2 (mkeys ?add)) ([], 0))"
    by (simp add: m feedMigInfo_def feedIds_def Let_def buildSlotsByNode_alls [of _ _ _ _ alls])
  have inj: "r \<in> set olds \<union> set news \<Longrightarrow> r' \<in> set olds \<union> set news \<Longrightarrow> ID (h r) = ID (h r') \<Longrightarrow> r = r'" for r r'
    by (rule D(4))
  have own: "owner h olds s = Some r \<Longrightarrow> r \<in> set olds" for s r using owner_iff(1) [OF ok] by blast
  have "set (mkeys m) \<subseteq> {(f, t). t \<in> set news \<and> f \<noteq> Some t \<and> (\<forall>r. f = Some r \<longrightarrow> r \<in> set olds)}"
    unfolding me
    by (rule feedIds_keys [where h = h and news = news and olds = olds, OF inj own sub]) (simp_all add: mkeys_def)
  with k show "snd k \<in> set news" "fst k \<noteq> Some (snd k)" "fst k = Some r \<Longrightarrow> r \<in> set olds"
    by (cases k; auto)+
qed

lemma feedMigInfo_moves_ok:
  assumes ok: "scale_down_ok h news olds N" and ord: "is_order ord1" "is_order ord2"
    and m: "m = fst (feedMigInfo ord1 ord2 h news olds alls N)" and ks: "mset ks = mset (mkeys m)"
  shows "moves_ok (set olds \<union> set news) ks (mgetd [] m)"
proof -
  note S = feedMigInfo_spec [OF ok ord m] and K = feedMigInfo_keys [OF ok ord m]
  have sk: "set ks = set (mkeys m)" using ks by (rule mset_eq_setD)
  have "distinct ks" using S(2) ks by (metis distinct_mkeys mset_eq_imp_distinct_iff)
  moreover have "k = l" if "x \<in> set (mgetd [] m k)" "x \<in> set (mgetd [] m l)" for k l x
  proof -
    obtain f t g u where kl: "k = (f, t)" "l = (g, u)" by (metis surj_pair)
    with that have "t \<in> set news" "u \<in> set news" "owner h olds x = f" "owner h olds x = g"
      "x \<in> set (plan ord1 h news olds N t)" "x \<in> set (plan ord1 h news olds N u)"
      by (auto simp: S(1) split: if_splits)
    moreover from this have "t = u" using plan_spec(2) [OF ok ord(1), of t u] by blast
    ultimately show ?thesis by (simp add: kl)
  qed
  ultimately show ?thesis using K sk unfolding moves_ok_def by blast
qed

lemma carried_member:
  assumes ok: "scale_down_ok h news olds N" and ord: "is_order ord1" "is_order ord2"
    and m: "m = fst (feedMigInfo ord1 ord2 h news olds alls N)" and ks: "mset ks = mset (mkeys m)"
    and r: "r \<in> set olds \<union> set news"
  shows "s \<in> set (carried h news olds m ks r) \<longleftrightarrow>
     (r \<in> set news \<and> s \<in> set (plan ord1 h news olds N r)) \<or>
     (s \<in> set (NSlots (h r)) \<and> (\<forall>t\<in>set news. s \<notin> set (plan ord1 h news olds N t)))"
proof -
  note D = scale_down_okD [OF ok] and S = feedMigInfo_spec(1) [OF ok ord m]
  note mo = feedMigInfo_moves_ok [OF ok ord m ks]
  have sk: "set ks = set (mkeys m)" using ks by (rule mset_eq_setD)
  have dis: "\<forall>r\<in>set olds \<union> set news. distinct (slots_of h r)"
    using D(6,9) by (metis Un_iff distinct.simps(1) slots_of_def)
  note F = fold_move_slots [OF mo dis, where x = s, folded carried_def [of h news olds]]
  have key: "k \<in> set ks" if "s \<in> set (mgetd [] m k)" for k
    using that unfolding sk by (cases "mget m k") (simp_all add: mgetd_def set_mkeys)
  have own: "s \<in> set (NSlots (h r)) \<longleftrightarrow> owner h olds s = Some r"
    using r D(9) owner_iff(1) [OF ok, of s r] by (metis UnE empty_iff empty_set)
  show ?thesis
  proof (cases "\<exists>t\<in>set news. s \<in> set (plan ord1 h news olds N t)")
    case True
    then obtain t where t: "t \<in> set news" "s \<in> set (plan ord1 h news olds N t)" by blast
    have uni: "u = t" if "u \<in> set news" "s \<in> set (plan ord1 h news olds N u)" for u
      using plan_spec(2) [OF ok ord(1) t(1) that(1)] t(2) that(2) by blast
    have "s \<in> set (carried h news olds m ks r) \<longleftrightarrow> r = t"
    proof (cases "owner h olds s = Some t")
      case True
      then have "s \<notin> set (mgetd [] m k)" for k
        using uni by (cases k) (auto simp: S)
      then have "s \<in> set (carried h news olds m ks r) \<longleftrightarrow> s \<in> set (NSlots (h r))"
        using F(1) by (simp add: slots_of_def)
      then show ?thesis using own True by auto
    next
      case False
      then have e: "s \<in> set (mgetd [] m (owner h olds s, t))" using t by (simp add: S)
      have "s \<in> set (carried h news olds m ks r) \<longleftrightarrow>
          r = t \<or> (s \<in> set (NSlots (h r)) \<and> owner h olds s \<noteq> Some r)"
        using F(2) [OF key [OF e] e] by (simp add: slots_of_def)
      then show ?thesis using own by auto
    qed
    then show ?thesis using t uni by blast
  next
    case False
    then have "s \<notin> set (mgetd [] m k)" for k by (cases k) (auto simp: S)
    then have "s \<in> set (carried h news olds m ks r) \<longleftrightarrow> s \<in> set (NSlots (h r))"
      using F(1) by (simp add: slots_of_def)
    then show ?thesis using False by blast
  qed
qed

lemma carried_distinct:
  assumes ok: "scale_down_ok h news olds N" and ord: "is_order ord1" "is_order ord2"
    and m: "m = fst (feedMigInfo ord1 ord2 h news olds alls N)" and ks: "mset ks = mset (mkeys m)"
    and r: "r \<in> set olds \<union> set news"
  shows "distinct (carried h news olds m ks r)"
proof -
  note D = scale_down_okD [OF ok]
  have "\<forall>r\<in>set olds \<union> set news. distinct (slots_of h r)"
    using D(6,9) by (metis Un_iff distinct.simps(1) slots_of_def)
  with fold_move_slots_distinct [OF feedMigInfo_moves_ok [OF ok ord m ks]] r show ?thesis
    by (simp add: carried_def)
qed

section \<open>Who has a slot afterwards\<close>

lemma not_planned:
  assumes ok: "scale_down_ok h news olds N" and ord: "is_order ord"
    and r: "r \<in> set olds \<union> set news" "s \<in> set (NSlots (h r))"
  shows "(\<forall>t\<in>set news. s \<notin> set (plan ord h news olds N t)) \<longleftrightarrow>
    r \<in> set news \<and> s \<in> set (take (slotsPerMaster N (length news)) (NSlots (h r)))"
proof -
  note D = scale_down_okD [OF ok]
  let ?nb = "slotsPerMaster N (length news)"
  have ro: "r \<in> set olds" using r D(9) by (metis UnE empty_iff empty_set)
  have u: "o1 = r" if "o1 \<in> set olds" "s \<in> set (NSlots (h o1))" for o1 using D(7) [OF that(1) ro] that(2) r(2) by blast
  have split: "s \<in> set (drop ?nb (NSlots (h r))) \<longleftrightarrow> s \<notin> set (take ?nb (NSlots (h r)))"
  proof -
    have "distinct (take ?nb (NSlots (h r)) @ drop ?nb (NSlots (h r)))" using D(6) [OF ro] by simp
    moreover have "s \<in> set (take ?nb (NSlots (h r)) @ drop ?nb (NSlots (h r)))" using r(2) by simp
    ultimately show ?thesis unfolding distinct_append set_append by blast
  qed
  have "(\<exists>t\<in>set news. s \<in> set (plan ord h news olds N t)) \<longleftrightarrow> s \<in> set (gives h news ?nb r)"
    unfolding plan_available [OF ok ord] using D(8) [OF ro r(2)] u ro r(2) by blast
  moreover have "s \<in> set (gives h news ?nb r) \<longleftrightarrow>
      \<not> (r \<in> set news \<and> s \<in> set (take ?nb (NSlots (h r))))"
    using split r(2) by (cases "r \<in> set news") (simp_all add: gives_def)
  ultimately show ?thesis by blast
qed

lemma carried_iff:
  assumes ok: "scale_down_ok h news olds N" and ord: "is_order ord1" "is_order ord2"
    and m: "m = fst (feedMigInfo ord1 ord2 h news olds alls N)" and ks: "mset ks = mset (mkeys m)"
    and r: "r \<in> set olds \<union> set news"
  shows "s \<in> set (carried h news olds m ks r) \<longleftrightarrow> r \<in> set news \<and>
     (s \<in> set (plan ord1 h news olds N r) \<or> s \<in> set (take (slotsPerMaster N (length news)) (NSlots (h r))))"
  using carried_member [OF ok ord m ks r, of s] not_planned [OF ok ord(1) r, of s]
  by (auto dest: in_set_takeD)

lemma carried_partition:
  assumes ok: "scale_down_ok h news olds N" and ord: "is_order ord1" "is_order ord2"
    and m: "m = fst (feedMigInfo ord1 ord2 h news olds alls N)" and ks: "mset ks = mset (mkeys m)"
  shows "unat s < N \<Longrightarrow> \<exists>!r. r \<in> set news \<and> s \<in> set (carried h news olds m ks r)"
    and "r \<in> set olds \<Longrightarrow> r \<notin> set news \<Longrightarrow> carried h news olds m ks r = []"
    and "r \<in> set news \<Longrightarrow> s \<in> set (carried h news olds m ks r) \<Longrightarrow> unat s < N"
proof -
  note D = scale_down_okD [OF ok] and M = carried_member [OF ok ord m ks]
  show "carried h news olds m ks r = []" if "r \<in> set olds" "r \<notin> set news"
  proof -
    have "s \<notin> set (carried h news olds m ks r)" for s using carried_iff [OF ok ord m ks, of r s] that by blast
    then show ?thesis by (metis list.set_intros(1) neq_Nil_conv)
  qed
  show "unat s < N" if r: "r \<in> set news" and c: "s \<in> set (carried h news olds m ks r)"
  proof -
    consider "s \<in> set (plan ord1 h news olds N r)" | "s \<in> set (NSlots (h r))" using r c M [of r s] by blast
    then show ?thesis
    proof cases
      case 1
      then show ?thesis using plan_available [OF ok ord(1), of s] r by blast
    next
      case 2
      then have "r \<in> set olds" using D(9) [OF r] by fastforce
      then show ?thesis using D(8) 2 by blast
    qed
  qed
  show "\<exists>!r. r \<in> set news \<and> s \<in> set (carried h news olds m ks r)" if s: "unat s < N"
  proof (cases "\<exists>t\<in>set news. s \<in> set (plan ord1 h news olds N t)")
    case True
    then obtain t where t: "t \<in> set news" "s \<in> set (plan ord1 h news olds N t)" by blast
    then have "u = t" if "u \<in> set news" "s \<in> set (carried h news olds m ks u)" for u
      using that M [of u s] plan_spec(2) [OF ok ord(1), of t u] by blast
    moreover have "s \<in> set (carried h news olds m ks t)" using M [of t s] t by blast
    ultimately show ?thesis using t(1) by blast
  next
    case False
    then obtain o1 where o1: "o1 \<in> set olds" "s \<in> set (NSlots (h o1))"
      using plan_available [OF ok ord(1), of s] s by blast
    have "o1 \<in> set news" using not_planned [OF ok ord(1), of o1 s] o1 False by blast
    moreover have "s \<in> set (carried h news olds m ks o1)" using M [of o1 s] o1 False by blast
    moreover have "u = o1" if "u \<in> set news" "s \<in> set (carried h news olds m ks u)" for u
    proof -
      have "s \<in> set (NSlots (h u))" using that M [of u s] False by blast
      then have "u \<in> set olds" using that(1) D(9) by (metis empty_iff empty_set)
      then show ?thesis using D(7) [of u o1] o1 \<open>s \<in> set (NSlots (h u))\<close> by blast
    qed
    ultimately show ?thesis by blast
  qed
qed

section \<open>How many slots a new master has afterwards\<close>

lemma slotsPerMaster_eq:
  assumes "N < 2 ^ 26" "0 < n" "n < 2 ^ 26"
  shows "slotsPerMaster N n = (if n dvd N then N div n else Suc (N div n))"
proof -
  have i: "0 \<le> int N" "int N < 2 ^ 26" "0 < int n" "int n < 2 ^ 26" using assms by simp_all
  let ?c = "\<lceil>fl (of_int (int N) / of_int (int n))\<rceil>"
  have c: "?c = (if n dvd N then int (N div n) else int (N div n) + 1)"
    using fl_quot(2) [OF i] by (simp add: zdiv_int)
  have "N div n \<le> N" by simp
  then have "N div n < 2 ^ 26" using assms(1) by linarith
  then have "0 \<le> ?c \<and> ?c < 2 ^ 27" unfolding c by (cases "n dvd N") simp_all
  then have "0 \<le> ?c" "?c < 2 ^ 27" by blast+
  then have "\<bar>of_int ?c :: rat\<bar> < of_int (2 ^ 27)" by (simp only: of_int_less_iff abs_of_nonneg of_int_0_le_iff)
  then have "f_to_int (Fin (of_int ?c)) = trunc (of_int ?c)" by (intro f_to_int_Fin) simp
  then have "f_to_int (f_ceil (f_div (f_of_int (int N)) (f_of_int (int n)))) = ?c"
    using f_div_small [OF i] by (simp add: trunc_def)
  then have "slotsPerMaster N n = nat (if n dvd N then int (N div n) else int (N div n) + 1)"
    unfolding slotsPerMaster_def c by (rule arg_cong)
  then show ?thesis by (cases "n dvd N") (simp_all add: nat_add_distrib)
qed

lemma slotsPerMaster_enough:
  assumes "N < 2 ^ 26" "0 < n" "n < 2 ^ 26"
  shows "N \<le> n * slotsPerMaster N n"
proof (cases "n dvd N")
  case False
  have "N = n * (N div n) + N mod n" "N mod n < n" using assms(2) by simp_all
  then have "N \<le> n * Suc (N div n)" by (metis add_le_mono le_refl less_imp_le mult_Suc_right add.commute)
  then show ?thesis using False by (simp only: slotsPerMaster_eq [OF assms] if_False)
qed (simp add: slotsPerMaster_eq [OF assms])

lemma card_slots_below: "card {s :: Slot. unat s < N} \<le> N"
proof -
  have "card {s :: Slot. unat s < N} = card (unat ` {s :: Slot. unat s < N})"
    by (rule card_image [symmetric]) (simp add: inj_on_def unsigned_word_eqI)
  also have "\<dots> \<le> card {..<N}" by (rule card_mono) auto
  finally show ?thesis by simp
qed

lemma distinct_below_length:
  "distinct (xs :: Slot list) \<Longrightarrow> (\<And>s. s \<in> set xs \<Longrightarrow> unat s < N) \<Longrightarrow> length xs \<le> N"
  using card_mono [of "{s :: Slot. unat s < N}" "set xs"] card_slots_below [of N]
  by (simp add: distinct_card subset_eq)

lemma plan_fits:
  assumes ok: "scale_down_ok h news olds N" and ord: "is_order ord"
  defines "nb \<equiv> slotsPerMaster N (length news)"
  shows "(\<Sum>i<length news. keeps_count h news nb i) + length (available ord (migrate_map h news olds nb N)) \<le> N"
proof -
  note D = scale_down_okD [OF ok]
  let ?A = "available ord (migrate_map h news olds nb N)" let ?k = "\<lambda>r. take nb (NSlots (h r))"
  have old: "r \<in> set olds" if "r \<in> set news" "x \<in> set (NSlots (h r))" for r x
    using D(9) [OF that(1)] that(2) by fastforce
  have "distinct (concat (map ?k news))"
  proof (rule distinct_concat_mapI [OF D(2)])
    show "distinct (?k r)" if "r \<in> set news" for r using D(6) [of r] D(9) [OF that] by (cases "r \<in> set olds") simp_all
    show "set (?k r) \<inter> set (?k r') = {}" if "r \<in> set news" "r' \<in> set news" "r \<noteq> r'" for r r'
      using D(7) [of r r'] old [OF that(1)] old [OF that(2)] that(3) by (blast dest: in_set_takeD)
  qed
  moreover have "x \<notin> set ?A" if "x \<in> set (concat (map ?k news))" for x
  proof -
    from that obtain r where r: "r \<in> set news" "x \<in> set (?k r)" by auto
    then have "\<forall>t\<in>set news. x \<notin> set (plan ord h news olds N t)"
      using not_planned [OF ok ord, of r x] unfolding nb_def by (blast dest: in_set_takeD)
    then show ?thesis using plan_spec(3) [OF ok ord] unfolding nb_def by blast
  qed
  moreover have "distinct ?A" by (rule available_spec(2) [OF ok ord])
  ultimately have d: "distinct (concat (map ?k news) @ ?A)" unfolding distinct_append by blast
  have "unat x < N" if "x \<in> set (concat (map ?k news) @ ?A)" for x
  proof -
    from that consider r where "r \<in> set news" "x \<in> set (NSlots (h r))" | "x \<in> set ?A"
      by (auto dest: in_set_takeD)
    then show ?thesis
    proof cases
      case 1
      then show ?thesis using D(8) old by blast
    next
      case 2
      then show ?thesis using plan_spec(3) [OF ok ord] plan_available [OF ok ord, of x] unfolding nb_def by blast
    qed
  qed
  with d have "length (concat (map ?k news) @ ?A) \<le> N" by (rule distinct_below_length)
  moreover have "length (concat (map ?k news)) = (\<Sum>i<length news. keeps_count h news nb i)"
    by (simp add: length_concat comp_def keeps_count_def sum_list_sum_nth atLeast0LessThan)
  ultimately show ?thesis by simp
qed

lemma carried_bound:
  assumes ok: "scale_down_ok h news olds N" and ord: "is_order ord1" "is_order ord2"
    and m: "m = fst (feedMigInfo ord1 ord2 h news olds alls N)" and ks: "mset ks = mset (mkeys m)"
    and small: "N < 2 ^ 26" "length news < 2 ^ 26" and r: "r \<in> set news"
  shows "length (carried h news olds m ks r) \<le> Suc (slotsPerMaster N (length news))"
proof -
  note D = scale_down_okD [OF ok]
  let ?nb = "slotsPerMaster N (length news)" let ?P = "plan ord1 h news olds N r" let ?T = "take ?nb (NSlots (h r))"
  obtain i where i: "i < length news" "r = news ! i" using r by (auto simp: in_set_conv_nth)
  have ids: "distinct (map (\<lambda>n. ID (h n)) news)" using D(2,4) by (auto simp: distinct_map inj_on_def)
  have "N \<le> length news * ?nb" using slotsPerMaster_enough [OF small(1) _ small(2)] D(1) by simp
  then have "keeps_count h news ?nb i +
      length (received h news (buildSlotByNodeFromAvailableSlots ord1 h news ?nb (migrate_map h news olds ?nb N)) i) \<le> Suc ?nb"
    using plan_fits [OF ok ord(1)] by (intro build_conserves(4) [OF ids D(1) _ i(1)]) linarith
  moreover have "received h news (buildSlotByNodeFromAvailableSlots ord1 h news ?nb (migrate_map h news olds ?nb N)) i = ?P"
    using D(1) by (simp add: plan_def received_def buildSlotsByNode_eq i(2))
  moreover have "keeps_count h news ?nb i = length ?T" by (simp add: keeps_count_def i(2))
  ultimately have "length ?T + length ?P \<le> Suc ?nb" by simp
  moreover have "set (carried h news olds m ks r) \<subseteq> set (?T @ ?P)"
    using carried_iff [OF ok ord m ks] r by auto
  then have "length (carried h news olds m ks r) \<le> length (?T @ ?P)"
    using carried_distinct [OF ok ord m ks, of r] r
    by (metis UnI2 card_length card_mono distinct_card finite_set le_trans)
  ultimately show ?thesis by simp
qed

section \<open>DispatchSlotToNewMasters\<close>

lemma DispatchSlotToNewMasters_carried:
  assumes "DispatchSlotToNewMasters env news olds alls c h s = Ret ((None, c', h'), s')"
    and "scale_down_ok h news olds 16384"
    and "is_order (rangeOrd env (trace s) ''buildSlotByNodeFromAvailableSlots'')"
    and "is_order (rangeOrd env (trace s) ''feedMigInfo'')" and "is_order (rangeMoves env (trace s))"
  obtains m ks where
    "m = fst (feedMigInfo (rangeOrd env (trace s) ''buildSlotByNodeFromAvailableSlots'')
       (rangeOrd env (trace s) ''feedMigInfo'') h news olds alls 16384)"
    "mset ks = mset (mkeys m)" "slots_of h' = carried h news olds m ks"
proof -
  let ?f = "feedMigInfo (rangeOrd env (trace s) ''buildSlotByNodeFromAvailableSlots'')
       (rangeOrd env (trace s) ''feedMigInfo'') h news olds alls 16384"
  let ?m = "fst ?f" let ?ks = "rangeMoves env (trace s) (mkeys ?m)"
  have N: "unat (GetHashMaxSlot + 1) = 16384" by (simp add: GetHashMaxSlot_def DefaultHashMaxSlots_def)
  have ks: "mset ?ks = mset (mkeys ?m)" by (rule is_orderD(1) [OF assms(5)])
  have "dispatchMoves env alls ?m ?ks h s = Ret ((None, h'), s')"
    using assms(1) by (auto simp: DispatchSlotToNewMasters_def N case_prod_unfold Let_def gbind_Ret_iff)
  moreover have "\<forall>k\<in>set ?ks. fst k \<noteq> Some (snd k)"
    using feedMigInfo_keys(2) [OF assms(2-4) refl] mset_eq_setD [OF ks] by blast
  ultimately have "slots_of h' = carried h news olds ?m ?ks"
    unfolding carried_def by (rule dispatchMoves_success)
  with ks show thesis by (intro that [OF refl])
qed

end
