(* ===== verification/Config.thy ===== *)
theory Config
  imports Go_Strings "HOL-Library.Word"
begin

text \<open>
  The process configuration: \<open>src/pkg/config/redis.go\<close> and the flag sets of the two controllers.
  A flag is declared with its name and default (\<open>flag_decl\<close>); the parsed command line is an
  association from flag names to values of the declared kind, and a variable bound to a flag
  holds the value of the command line or the default.
\<close>

section \<open>Flags\<close>

datatype flag_value = FInt int | FUint32 "32 word" | FStr string | FStrs "string list"

type_synonym flag_decl = "string \<times> flag_value"

type_synonym command_line = "(string \<times> flag_value) list"

definition flagVar :: "flag_decl list \<Rightarrow> command_line \<Rightarrow> string \<Rightarrow> flag_value option" where
  "flagVar decls args name =
     (case map_of decls name of
        None \<Rightarrow> None
      | Some dflt \<Rightarrow> Some (case map_of args name of None \<Rightarrow> dflt | Some v \<Rightarrow> v))"

fun asInt :: "flag_value option \<Rightarrow> int" where
  "asInt (Some (FInt i)) = i"
| "asInt _ = 0"

fun asUint32 :: "flag_value option \<Rightarrow> 32 word" where
  "asUint32 (Some (FUint32 w)) = w"
| "asUint32 _ = 0"

fun asStr :: "flag_value option \<Rightarrow> string" where
  "asStr (Some (FStr s)) = s"
| "asStr _ = []"

fun asStrs :: "flag_value option \<Rightarrow> string list" where
  "asStrs (Some (FStrs ss)) = ss"
| "asStrs _ = []"

text \<open>
  \<open>pflag\<close> accepts a command line when every flag on it is declared and its value has the kind of
  the declaration; otherwise the process ends before it starts.
\<close>

fun same_kind :: "flag_value \<Rightarrow> flag_value \<Rightarrow> bool" where
  "same_kind (FInt _) (FInt _) = True"
| "same_kind (FUint32 _) (FUint32 _) = True"
| "same_kind (FStr _) (FStr _) = True"
| "same_kind (FStrs _) (FStrs _) = True"
| "same_kind _ _ = False"

definition accepted :: "flag_decl list \<Rightarrow> command_line \<Rightarrow> bool" where
  "accepted decls args \<longleftrightarrow> list_all (\<lambda>(n, v).
     case map_of decls n of None \<Rightarrow> False | Some d \<Rightarrow> same_kind d v) args"

section \<open>config/redis.go\<close>

definition DefaultRedisTimeout :: int where "DefaultRedisTimeout = 2000"
definition DefaultClusterNodeTimeout :: int where "DefaultClusterNodeTimeout = 2000"
definition RedisRenameCommandsDefaultPath :: string where
  "RedisRenameCommandsDefaultPath = ''/etc/secret-volume''"
definition RedisRenameCommandsDefaultFile :: string where "RedisRenameCommandsDefaultFile = []"
definition RedisConfigFileDefault :: string where
  "RedisConfigFileDefault = ''/redis-conf/redis.conf''"
definition RedisServerBinDefault :: string where "RedisServerBinDefault = ''redis-server''"
definition RedisServerPortDefault :: string where "RedisServerPortDefault = ''6379''"
definition RedisMaxMemoryDefault :: "32 word" where "RedisMaxMemoryDefault = 0"
definition RedisMaxMemoryPolicyDefault :: string where
  "RedisMaxMemoryPolicyDefault = ''noeviction''"

record RedisConfig =
  DialTimeout :: int
  ClusterNodeTimeout :: int
  ConfigFileName :: string
  RenameCommandsPath :: string
  RcRenameCommandsFile :: string
  HTTPServerAddr :: string
  ServerBin :: string
  ServerPort :: string
  ServerIP :: string
  RcMaxMemory :: "32 word"
  MaxMemoryPolicy :: string
  ConfigFiles :: "string list"

text \<open>\<open>AddFlags\<close>: the flags it declares, and what parsing then leaves in the variables they are
  bound to. \<open>HTTPServerAddr\<close> has no flag.\<close>

definition AddFlags :: "flag_decl list" where
  "AddFlags = [
     (''rdt'', FInt DefaultRedisTimeout),
     (''cluster-node-timeout'', FInt DefaultClusterNodeTimeout),
     (''c'', FStr RedisConfigFileDefault),
     (''rename-command-path'', FStr RedisRenameCommandsDefaultPath),
     (''rename-command-file'', FStr RedisRenameCommandsDefaultFile),
     (''max-memory'', FUint32 RedisMaxMemoryDefault),
     (''max-memory-policy'', FStr RedisMaxMemoryPolicyDefault),
     (''bin'', FStr RedisServerBinDefault),
     (''port'', FStr RedisServerPortDefault),
     (''ip'', FStr []),
     (''config-file'', FStrs [])]"

definition RedisConf :: "command_line \<Rightarrow> RedisConfig" where
  "RedisConf args =
     (let var = flagVar AddFlags args in
      \<lparr>DialTimeout = asInt (var ''rdt''),
       ClusterNodeTimeout = asInt (var ''cluster-node-timeout''),
       ConfigFileName = asStr (var ''c''),
       RenameCommandsPath = asStr (var ''rename-command-path''),
       RcRenameCommandsFile = asStr (var ''rename-command-file''),
       HTTPServerAddr = [],
       ServerBin = asStr (var ''bin''),
       ServerPort = asStr (var ''port''),
       ServerIP = asStr (var ''ip''),
       RcMaxMemory = asUint32 (var ''max-memory''),
       MaxMemoryPolicy = asStr (var ''max-memory-policy''),
       ConfigFiles = asStrs (var ''config-file'')\<rparr>)"

text \<open>\<open>path.Clean\<close> and \<open>path.Join\<close> of the standard library.\<close>

fun cleanStep :: "bool \<Rightarrow> string list \<Rightarrow> string \<Rightarrow> string list" where
  "cleanStep rooted acc c =
     (if c = [] \<or> c = ''.'' then acc
      else if c = ''..'' then
        (if acc \<noteq> [] \<and> last acc \<noteq> ''..'' then butlast acc else if rooted then acc else acc @ [c])
      else acc @ [c])"

definition pathClean :: "string \<Rightarrow> string" where
  "pathClean p =
     (let rooted = (p \<noteq> [] \<and> hd p = CHR ''/'');
          out = Join ''/'' (foldl (cleanStep rooted) [] (Split (CHR ''/'') p))
      in if rooted then CHR ''/'' # out else if out = [] then ''.'' else out)"

definition pathJoin :: "string list \<Rightarrow> string" where
  "pathJoin elems = (let es = filter (\<lambda>e. e \<noteq> []) elems in if es = [] then [] else pathClean (Join ''/'' es))"

definition GetRenameCommandsFile :: "RedisConfig \<Rightarrow> string" where
  "GetRenameCommandsFile r =
     (if RcRenameCommandsFile r = [] then [] else pathJoin [RenameCommandsPath r, RcRenameCommandsFile r])"

end
