(* ===== verification/Kube.thy ===== *)
theory Kube
  imports Admin Config
begin

text \<open>
  The Kubernetes side: \<open>src/pkg/k8sutil\<close>. The API server is
  outside the program. A request is recorded in the trace (\<open>kube_req\<close>), and a record \<open>kube\<close>
  says how the server answers, as a function of the trace; the clock is there too, and the
  number of ticks a wait of some length sees before its timeout. The
  objects have the fields the operator reads or writes. A successful update leaves the object of
  the caller as it was sent: the server is taken to store and answer what it was given.
\<close>

section \<open>Objects\<close>

record ContainerPort =
  CpName :: string
  CpContainerPort :: int
  CpProtocol :: string

record VolumeMount =
  VmName :: string
  VmMountPath :: string
  VmSubPath :: string
  VmReadOnly :: bool

record Container =
  CoName :: string
  CoImage :: string
  CoImagePullPolicy :: string
  CoCommand :: "string list"
  CoArgs :: "string list"
  CoPorts :: "ContainerPort list"
  CoEnv :: "EnvVar list"
  CoResources :: ResourceRequirements
  CoVolumeMounts :: "VolumeMount list"
  CoLivenessProbe :: "Probe option"
  CoReadinessProbe :: "Probe option"
  CoLifecycle :: "Lifecycle option"
  CoSecurityContext :: "k8s_obj option"

record Pod =
  PoName :: string
  PoNamespace :: string
  DeletionTimestamp :: "int option"
  OwnerReferences :: "OwnerReference list"
  PoNodeName :: string
  PoContainers :: "Container list"
  PodIP :: string
  PoPhase :: string

definition PodRunning :: string where "PodRunning = ''Running''"

text \<open>
  The affinity of a user, or the anti-affinity the operator builds: preferred terms with their
  weights and required terms, each a topology key and the labels it selects.
\<close>

datatype pod_affinity =
    AffinityObj k8s_obj
  | AntiAffinity "(int \<times> string \<times> (string, string) gomap) list" "(string \<times> (string, string) gomap) list"

datatype volume_source = VolConfigMap string int | VolEmptyDir | VolSecret string | VolClaim string | VolObj k8s_obj

record Volume =
  VoName :: string
  VoSource :: volume_source

record PodTemplate =
  TmLabels :: "(string, string) gomap"
  TmAnnotations :: "(string, string) gomap option"
  TmImagePullSecrets :: "string list"
  TmAffinity :: pod_affinity
  TmTolerations :: "k8s_obj list"
  TmSecurityContext :: "k8s_obj option"
  TmNodeSelector :: "(string, string) gomap"
  TmContainers :: "Container list"
  TmInitContainers :: "Container list"
  TmVolumes :: "Volume list"

record VolumeClaim =
  PvName :: string
  PvLabels :: "(string, string) gomap"
  PvOwnerReferences :: "OwnerReference list"
  PvAccessModes :: "string list"
  PvVolumeMode :: string
  PvSize :: Quantity
  PvStorageClass :: string

record StatefulSet =
  StsName :: string
  StsNamespace :: string
  StsLabels :: "(string, string) gomap"
  StsOwnerReferences :: "OwnerReference list"
  StsServiceName :: string
  StsReplicas :: "int option"
  StsUpdateStrategy :: string
  StsSelector :: "(string, string) gomap"
  StsTemplate :: PodTemplate
  StsClaims :: "VolumeClaim list"
  ReadyReplicas :: int
  CurrentReplicas :: int

record Service =
  SvName :: string
  SvNamespace :: string
  SvLabels :: "(string, string) gomap"
  SvOwnerReferences :: "OwnerReference list"
  SvPorts :: "(string \<times> int) list"
  SvSelector :: "(string, string) gomap"
  SvClusterIP :: string

record PodDisruptionBudget =
  PdName :: string
  PdNamespace :: string
  PdLabels :: "(string, string) gomap"
  PdOwnerReferences :: "OwnerReference list"
  PdMaxUnavailable :: int
  PdSelector :: "(string, string) gomap"

record ConfigMap =
  CmName :: string
  CmNamespace :: string
  CmLabels :: "(string, string) gomap"
  CmOwnerReferences :: "OwnerReference list"
  CmData :: "(string, string) gomap"

record Secret =
  SeName :: string
  SeNamespace :: string
  SeOwnerReferences :: "OwnerReference list"
  SeData :: "(string, string) gomap"

text \<open>
  A batch job: what the backup controller writes, the conditions (type and status) and counts of
  its status, and the limit of its retries.
\<close>

record Job =
  JbName :: string
  JbNamespace :: string
  JbLabels :: "(string, string) gomap"
  JbAnnotations :: "(string, string) gomap"
  JbOwnerReferences :: "OwnerReference list"
  JbActiveDeadlineSeconds :: "int option"
  JbContainers :: "Container list"
  JbVolumes :: "Volume list"
  JbRestartPolicy :: string
  JbNodeSelector :: "(string, string) gomap"
  JbAffinity :: "k8s_obj option"
  JbSchedulerName :: string
  JbTolerations :: "k8s_obj list"
  JbPriorityClassName :: string
  JbPriority :: "int option"
  JbSecurityContext :: "k8s_obj option"
  JbImagePullSecrets :: "string list"
  JbBackoffLimit :: "int option"
  JbConditions :: "(string \<times> string) list"
  JbSucceeded :: int
  JbFailed :: int

section \<open>Requests and answers\<close>

datatype kube_obj =
  ObjPod Pod | ObjSts StatefulSet | ObjSvc Service | ObjPdb PodDisruptionBudget | ObjCm ConfigMap | ObjSecret Secret | ObjJob Job | ObjClaim string VolumeClaim

text \<open>The request behind a command in a pod: the pod, the \<open>container\<close> parameter and the
  \<open>PodExecOptions\<close> sent with it.\<close>

record PodExec =
  PxNamespace :: string
  PxPod :: string
  PxContainerParam :: string
  PxContainer :: string
  PxCommand :: "string list"
  PxStdin :: bool
  PxStdout :: bool
  PxStderr :: bool
  PxTTY :: bool

text \<open>
  \<open>KExec\<close> is a command run in a container of a pod through the API server, \<open>KEvent\<close> an event
  recorded for an object: its kind and name, the type, the reason and the message.
\<close>

datatype kube_req =
    KGet string string string
  | KList string string "(string, string) gomap"
  | KDelete string string string
  | KUpdateStatus DistributedRedisCluster
  | KUpdate DistributedRedisCluster
  | KCreateObj kube_obj
  | KUpdateObj kube_obj
  | KUpdateBackupStatus RedisClusterBackup
  | KUpdateBackup RedisClusterBackup
  | KExec PodExec
  | KEvent string string string string string

record kube =
  getPod :: "kube_req event list \<Rightarrow> string \<Rightarrow> string \<Rightarrow> go_error + Pod"
  getSts :: "kube_req event list \<Rightarrow> string \<Rightarrow> string \<Rightarrow> go_error + StatefulSet"
  getOther :: "kube_req event list \<Rightarrow> string \<Rightarrow> string \<Rightarrow> string \<Rightarrow> go_error + (string \<times> string)"
  getConfigMap :: "kube_req event list \<Rightarrow> string \<Rightarrow> string \<Rightarrow> go_error + ConfigMap"
  getSecret :: "kube_req event list \<Rightarrow> string \<Rightarrow> string \<Rightarrow> go_error + Secret"
  getDrc :: "kube_req event list \<Rightarrow> string \<Rightarrow> string \<Rightarrow> go_error + DistributedRedisCluster"
  listPods :: "kube_req event list \<Rightarrow> string \<Rightarrow> (string, string) gomap \<Rightarrow> go_error + Pod list"
  listSts :: "kube_req event list \<Rightarrow> string \<Rightarrow> (string, string) gomap \<Rightarrow> go_error + StatefulSet list"
  getBackup :: "kube_req event list \<Rightarrow> string \<Rightarrow> string \<Rightarrow> go_error + RedisClusterBackup"
  listPvcs :: "kube_req event list \<Rightarrow> string \<Rightarrow> (string, string) gomap \<Rightarrow> go_error + (string \<times> string) list"
  getJob :: "kube_req event list \<Rightarrow> string \<Rightarrow> string \<Rightarrow> go_error + Job"
  listJobs :: "kube_req event list \<Rightarrow> string \<Rightarrow> (string, string) gomap \<Rightarrow> go_error + Job list"
  listBackups :: "kube_req event list \<Rightarrow> string \<Rightarrow> (string, string) gomap \<Rightarrow> go_error + RedisClusterBackup list"
  apiError :: "kube_req event list \<Rightarrow> kube_req \<Rightarrow> go_error option"
  timeNow :: "kube_req event list \<Rightarrow> int"
  waitTicks :: "kube_req event list \<Rightarrow> string \<Rightarrow> int \<Rightarrow> nat"
  execDial :: "kube_req event list \<Rightarrow> PodExec \<Rightarrow> go_error option"
  execOutput :: "kube_req event list \<Rightarrow> PodExec \<Rightarrow> string \<times> string"

type_synonym kenv = "kube_req env"
type_synonym knet = "kube_req net"

definition request :: "kube \<Rightarrow> kube_req \<Rightarrow> knet \<Rightarrow> go_error option \<times> knet" where
  "request kb q s = (apiError kb (trace s) q, emit (EKube q) s)"

section \<open>k8sutil\<close>

definition GetPod :: "kube \<Rightarrow> string \<Rightarrow> string \<Rightarrow> knet \<Rightarrow> (go_error + Pod) \<times> knet" where
  "GetPod kb namespace name s = (getPod kb (trace s) namespace name, emit (EKube (KGet ''Pod'' namespace name)) s)"

definition CreatePod :: "kube \<Rightarrow> Pod \<Rightarrow> knet \<Rightarrow> go_error option \<times> knet" where
  "CreatePod kb obj s = request kb (KCreateObj (ObjPod obj)) s"

definition UpdatePod :: "kube \<Rightarrow> Pod \<Rightarrow> knet \<Rightarrow> go_error option \<times> knet" where
  "UpdatePod kb obj s = request kb (KUpdateObj (ObjPod obj)) s"

definition DeletePod :: "kube \<Rightarrow> Pod \<Rightarrow> knet \<Rightarrow> go_error option \<times> knet" where
  "DeletePod kb obj s = request kb (KDelete ''Pod'' (PoNamespace obj) (PoName obj)) s"

definition DeletePodByName :: "kube \<Rightarrow> string \<Rightarrow> string \<Rightarrow> knet \<Rightarrow> go_error option \<times> knet" where
  "DeletePodByName kb namespace name s =
     (case GetPod kb namespace name s of
        (Inl e, s) \<Rightarrow> (Some e, s)
      | (Inr pod, s) \<Rightarrow> DeletePod kb pod s)"

definition GetStatefulSet :: "kube \<Rightarrow> string \<Rightarrow> string \<Rightarrow> knet \<Rightarrow> (go_error + StatefulSet) \<times> knet" where
  "GetStatefulSet kb namespace name s =
     (getSts kb (trace s) namespace name, emit (EKube (KGet ''StatefulSet'' namespace name)) s)"

definition DeleteStatefulSet :: "kube \<Rightarrow> StatefulSet \<Rightarrow> knet \<Rightarrow> go_error option \<times> knet" where
  "DeleteStatefulSet kb obj s = request kb (KDelete ''StatefulSet'' (StsNamespace obj) (StsName obj)) s"

definition DeleteStatefulSetByName :: "kube \<Rightarrow> string \<Rightarrow> string \<Rightarrow> knet \<Rightarrow> go_error option \<times> knet" where
  "DeleteStatefulSetByName kb namespace name s =
     (case GetStatefulSet kb namespace name s of
        (Inl e, s) \<Rightarrow> (Some e, s)
      | (Inr sts, s) \<Rightarrow> DeleteStatefulSet kb sts s)"

definition GetStatefulSetPodsByLabels ::
    "kube \<Rightarrow> string \<Rightarrow> (string, string) gomap \<Rightarrow> knet \<Rightarrow> (go_error + Pod list) \<times> knet" where
  "GetStatefulSetPodsByLabels kb namespace labels s =
     (listPods kb (trace s) namespace labels, emit (EKube (KList ''Pod'' namespace labels)) s)"

definition ListStatefulSetByLabels ::
    "kube \<Rightarrow> string \<Rightarrow> (string, string) gomap \<Rightarrow> knet \<Rightarrow> (go_error + StatefulSet list) \<times> knet" where
  "ListStatefulSetByLabels kb namespace labels s =
     (listSts kb (trace s) namespace labels, emit (EKube (KList ''StatefulSet'' namespace labels)) s)"

definition CreateStatefulSet :: "kube \<Rightarrow> StatefulSet \<Rightarrow> knet \<Rightarrow> go_error option \<times> knet" where
  "CreateStatefulSet kb ss s = request kb (KCreateObj (ObjSts ss)) s"

definition UpdateStatefulSet :: "kube \<Rightarrow> StatefulSet \<Rightarrow> knet \<Rightarrow> go_error option \<times> knet" where
  "UpdateStatefulSet kb ss s = request kb (KUpdateObj (ObjSts ss)) s"

definition CreateService :: "kube \<Rightarrow> Service \<Rightarrow> knet \<Rightarrow> go_error option \<times> knet" where
  "CreateService kb svc s = request kb (KCreateObj (ObjSvc svc)) s"

definition CreatePodDisruptionBudget :: "kube \<Rightarrow> PodDisruptionBudget \<Rightarrow> knet \<Rightarrow> go_error option \<times> knet" where
  "CreatePodDisruptionBudget kb pdb s = request kb (KCreateObj (ObjPdb pdb)) s"

definition CreateConfigMap :: "kube \<Rightarrow> ConfigMap \<Rightarrow> knet \<Rightarrow> go_error option \<times> knet" where
  "CreateConfigMap kb cm s = request kb (KCreateObj (ObjCm cm)) s"

definition UpdateConfigMap :: "kube \<Rightarrow> ConfigMap \<Rightarrow> knet \<Rightarrow> go_error option \<times> knet" where
  "UpdateConfigMap kb cm s = request kb (KUpdateObj (ObjCm cm)) s"

definition GetConfigMap :: "kube \<Rightarrow> string \<Rightarrow> string \<Rightarrow> knet \<Rightarrow> (go_error + ConfigMap) \<times> knet" where
  "GetConfigMap kb namespace name s =
     (getConfigMap kb (trace s) namespace name, emit (EKube (KGet ''ConfigMap'' namespace name)) s)"

definition GetService :: "kube \<Rightarrow> string \<Rightarrow> string \<Rightarrow> knet \<Rightarrow> (go_error + (string \<times> string)) \<times> knet" where
  "GetService kb namespace name s =
     (getOther kb (trace s) ''Service'' namespace name, emit (EKube (KGet ''Service'' namespace name)) s)"

definition GetPodDisruptionBudget :: "kube \<Rightarrow> string \<Rightarrow> string \<Rightarrow> knet \<Rightarrow> (go_error + (string \<times> string)) \<times> knet" where
  "GetPodDisruptionBudget kb namespace name s =
     (getOther kb (trace s) ''PodDisruptionBudget'' namespace name, emit (EKube (KGet ''PodDisruptionBudget'' namespace name)) s)"

definition UpdateService :: "kube \<Rightarrow> Service \<Rightarrow> knet \<Rightarrow> go_error option \<times> knet" where
  "UpdateService kb obj s = request kb (KUpdateObj (ObjSvc obj)) s"

definition DeleteService :: "kube \<Rightarrow> Service \<Rightarrow> knet \<Rightarrow> go_error option \<times> knet" where
  "DeleteService kb obj s = request kb (KDelete ''Service'' (SvNamespace obj) (SvName obj)) s"

definition UpdatePodDisruptionBudget :: "kube \<Rightarrow> PodDisruptionBudget \<Rightarrow> knet \<Rightarrow> go_error option \<times> knet" where
  "UpdatePodDisruptionBudget kb obj s = request kb (KUpdateObj (ObjPdb obj)) s"

definition DeletePodDisruptionBudget :: "kube \<Rightarrow> PodDisruptionBudget \<Rightarrow> knet \<Rightarrow> go_error option \<times> knet" where
  "DeletePodDisruptionBudget kb obj s = request kb (KDelete ''PodDisruptionBudget'' (PdNamespace obj) (PdName obj)) s"

definition DeleteConfigMap :: "kube \<Rightarrow> ConfigMap \<Rightarrow> knet \<Rightarrow> go_error option \<times> knet" where
  "DeleteConfigMap kb obj s = request kb (KDelete ''ConfigMap'' (CmNamespace obj) (CmName obj)) s"

definition DeletePvc :: "kube \<Rightarrow> string \<times> string \<Rightarrow> knet \<Rightarrow> go_error option \<times> knet" where
  "DeletePvc kb pvc s = request kb (KDelete ''PersistentVolumeClaim'' (fst pvc) (snd pvc)) s"

definition GetPvc :: "kube \<Rightarrow> string \<Rightarrow> string \<Rightarrow> knet \<Rightarrow> (go_error + (string \<times> string)) \<times> knet" where
  "GetPvc kb namespace name s =
     (getOther kb (trace s) ''PersistentVolumeClaim'' namespace name, emit (EKube (KGet ''PersistentVolumeClaim'' namespace name)) s)"

text \<open>The labels of the selector are copied, so the order of copying does not matter.\<close>

definition GetStatefulSetPods :: "kube \<Rightarrow> string \<Rightarrow> string \<Rightarrow> knet \<Rightarrow> (go_error + Pod list) \<times> knet" where
  "GetStatefulSetPods kb namespace name s =
     (case GetStatefulSet kb namespace name s of
        (Inl e, s) \<Rightarrow> (Inl e, s)
      | (Inr sts, s) \<Rightarrow>
          (listPods kb (trace s) namespace (StsSelector sts), emit (EKube (KList ''Pod'' namespace (StsSelector sts))) s))"

text \<open>Reading a secret or the cluster resource through the client.\<close>

definition clientGetSecret :: "kube \<Rightarrow> string \<Rightarrow> string \<Rightarrow> knet \<Rightarrow> (go_error + Secret) \<times> knet" where
  "clientGetSecret kb namespace name s =
     (getSecret kb (trace s) namespace name, emit (EKube (KGet ''Secret'' namespace name)) s)"

definition GetDistributedRedisCluster ::
    "kube \<Rightarrow> string \<Rightarrow> string \<Rightarrow> knet \<Rightarrow> (go_error + DistributedRedisCluster) \<times> knet" where
  "GetDistributedRedisCluster kb namespace name s =
     (getDrc kb (trace s) namespace name, emit (EKube (KGet ''DistributedRedisCluster'' namespace name)) s)"

definition CreateSecret :: "kube \<Rightarrow> Secret \<Rightarrow> knet \<Rightarrow> go_error option \<times> knet" where
  "CreateSecret kb secret s =
     (case clientGetSecret kb (SeNamespace secret) (SeName secret) s of
        (Inr _, s) \<Rightarrow> (None, s)
      | (Inl e, s) \<Rightarrow> if IsNotFound e then request kb (KCreateObj (ObjSecret secret)) s else (Some e, s))"

text \<open>
  A get followed by a delete of what was found, for services and disruption budgets, of which
  the operator uses no more than the namespace and the name.
\<close>

definition deleteFound :: "kube \<Rightarrow> string \<Rightarrow> string \<Rightarrow> string \<Rightarrow> knet \<Rightarrow> go_error option \<times> knet" where
  "deleteFound kb kind namespace name s =
     (let r = getOther kb (trace s) kind namespace name; s = emit (EKube (KGet kind namespace name)) s in
      case r of Inl e \<Rightarrow> (Some e, s) | Inr (ns, n) \<Rightarrow> request kb (KDelete kind ns n) s)"

definition DeleteServiceByName :: "kube \<Rightarrow> string \<Rightarrow> string \<Rightarrow> knet \<Rightarrow> go_error option \<times> knet" where
  "DeleteServiceByName kb namespace name s = deleteFound kb ''Service'' namespace name s"

definition DeletePodDisruptionBudgetByName :: "kube \<Rightarrow> string \<Rightarrow> string \<Rightarrow> knet \<Rightarrow> go_error option \<times> knet" where
  "DeletePodDisruptionBudgetByName kb namespace name s = deleteFound kb ''PodDisruptionBudget'' namespace name s"

fun deletePvcLoop :: "kube \<Rightarrow> (string \<times> string) list \<Rightarrow> knet \<Rightarrow> go_error option \<times> knet" where
  "deletePvcLoop kb [] s = (None, s)"
| "deletePvcLoop kb ((ns, n) # pvcs) s =
     (case request kb (KDelete ''PersistentVolumeClaim'' ns n) s of
        (Some e, s) \<Rightarrow> (Some e, s)
      | (None, s) \<Rightarrow> deletePvcLoop kb pvcs s)"

definition DeletePvcByLabels :: "kube \<Rightarrow> string \<Rightarrow> (string, string) gomap \<Rightarrow> knet \<Rightarrow> go_error option \<times> knet" where
  "DeletePvcByLabels kb namespace labels s =
     (let r = listPvcs kb (trace s) namespace labels;
          s = emit (EKube (KList ''PersistentVolumeClaim'' namespace labels)) s in
      case r of Inl e \<Rightarrow> (Some e, s) | Inr pvcs \<Rightarrow> deletePvcLoop kb pvcs s)"

definition UpdateCRStatus :: "kube \<Rightarrow> DistributedRedisCluster \<Rightarrow> knet \<Rightarrow> go_error option \<times> knet" where
  "UpdateCRStatus kb drc s = request kb (KUpdateStatus drc) s"

definition UpdateCR :: "kube \<Rightarrow> DistributedRedisCluster \<Rightarrow> knet \<Rightarrow> go_error option \<times> knet" where
  "UpdateCR kb drc s = request kb (KUpdate drc) s"

definition GetRedisClusterBackup :: "kube \<Rightarrow> string \<Rightarrow> string \<Rightarrow> knet \<Rightarrow> (go_error + RedisClusterBackup) \<times> knet" where
  "GetRedisClusterBackup kb namespace name s =
     (getBackup kb (trace s) namespace name, emit (EKube (KGet ''RedisClusterBackup'' namespace name)) s)"

section \<open>k8sutil/batchjob.go\<close>

definition CreateJob :: "kube \<Rightarrow> Job \<Rightarrow> knet \<Rightarrow> go_error option \<times> knet" where
  "CreateJob kb job s = request kb (KCreateObj (ObjJob job)) s"

definition UpdateJob :: "kube \<Rightarrow> Job \<Rightarrow> knet \<Rightarrow> go_error option \<times> knet" where
  "UpdateJob kb job s = request kb (KUpdateObj (ObjJob job)) s"

definition DeleteJob :: "kube \<Rightarrow> Job \<Rightarrow> knet \<Rightarrow> go_error option \<times> knet" where
  "DeleteJob kb job s = request kb (KDelete ''Job'' (JbNamespace job) (JbName job)) s"

definition GetJob :: "kube \<Rightarrow> string \<Rightarrow> string \<Rightarrow> knet \<Rightarrow> (go_error + Job) \<times> knet" where
  "GetJob kb namespace name s = (getJob kb (trace s) namespace name, emit (EKube (KGet ''Job'' namespace name)) s)"

definition ListJobByLabels :: "kube \<Rightarrow> string \<Rightarrow> (string, string) gomap \<Rightarrow> knet \<Rightarrow> (go_error + Job list) \<times> knet" where
  "ListJobByLabels kb namespace labs s =
     (listJobs kb (trace s) namespace labs, emit (EKube (KList ''Job'' namespace labs)) s)"

section \<open>Aggregated errors\<close>

text \<open>\<open>errors.NewAggregate\<close>: no error for an empty list.\<close>

definition NewAggregate :: "go_error list \<Rightarrow> go_error option" where
  "NewAggregate errs = (if errs = [] then None else Some (Aggregate errs))"

lemmas [simp] = DeletePod_def DeleteStatefulSet_def

end
