(* ===== verification/Heal.thy ===== *)
theory Heal
  imports Kube
begin

text \<open>
  \<open>src/pkg/controller/heal\<close> and \<open>src/pkg/controller/manager/healer.go\<close>: forgetting nodes that
  are gone, removing nodes the others do not trust, deleting pods stuck in termination, and
  merging a split cluster. The functions that only read are pure; the order of every loop over
  a map comes from the environment.
\<close>

record CheckAndHeal =
  Pods :: "Pod list"
  DryRun :: bool

section \<open>clustersplit.go\<close>

type_synonym cluster_addrs = "string list"

definition findInCluster :: "string \<Rightarrow> cluster_addrs list \<Rightarrow> bool" where
  "findInCluster addr clusters \<longleftrightarrow> list_ex (\<lambda>c. list_ex (\<lambda>nodeAddr. addr = nodeAddr) c) clusters"

definition viewAddrs :: "NodeInfos \<Rightarrow> cluster_addrs" where
  "viewAddrs ni = map IPPort (filter (\<lambda>node. length (FailStatus node) = 0) (Friends ni @ [NINode ni]))"

definition clusterStep :: "NodeInfos \<Rightarrow> cluster_addrs list \<Rightarrow> cluster_addrs list" where
  "clusterStep ni clusters =
     (let c = viewAddrs ni in
      if list_ex (\<lambda>node. findInCluster node clusters) c then clusters else clusters @ [c])"

definition buildClustersLists :: "ord \<Rightarrow> ClusterInfos \<Rightarrow> cluster_addrs list" where
  "buildClustersLists ord infos =
     fold clusterStep (List.map_filter (mget (Infos infos)) (ord (mkeys (Infos infos)))) []"

text \<open>The index and size of the largest cluster so far, \<open>None\<close> for the index \<open>-1\<close>.\<close>

fun mainLoop :: "nat \<Rightarrow> cluster_addrs list \<Rightarrow> nat option \<Rightarrow> nat \<Rightarrow> nat option" where
  "mainLoop i [] maincluster maxSize = maincluster"
| "mainLoop i (c # cs) maincluster maxSize =
     (if length c > maxSize then mainLoop (i + 1) cs (Some i) (length c)
      else mainLoop (i + 1) cs maincluster maxSize)"

definition splitMainCluster :: "cluster_addrs list \<Rightarrow> cluster_addrs \<times> cluster_addrs list" where
  "splitMainCluster clusters =
     (if length clusters = 0 then ([], [])
      else case mainLoop 0 clusters None 0 of
        Some i \<Rightarrow> (clusters ! i, take i clusters @ drop (i + 1) clusters)
      | None \<Rightarrow> (clusters ! 0, []))"

text \<open>Each other cluster gets an admin of its own: the trace is shared, the connections are not.\<close>

fun resetLoop ::
    "kenv \<Rightarrow> cluster_addrs \<Rightarrow> AdminConnections \<Rightarrow> go_error list \<Rightarrow> knet \<Rightarrow>
     (AdminConnections \<times> go_error list \<times> knet) go" where
  "resetLoop env [] bad errs s = Ret (bad, errs, s)"
| "resetLoop env (nodeAddr # addrs) bad errs s =
     gbind (FlushAndReset env nodeAddr ResetHard (s\<lparr>cnx := bad\<rparr>)) (\<lambda>(e, t).
       let errs = (case e of Some e \<Rightarrow> errs @ [e] | None \<Rightarrow> errs); bad = cnx t; s = t\<lparr>cnx := cnx s\<rparr>
       in gbind (AttachNodeToCluster env nodeAddr s) (\<lambda>(e, s).
            resetLoop env addrs bad (case e of Some e \<Rightarrow> errs @ [e] | None \<Rightarrow> errs) s))"

fun reassignLoop :: "kenv \<Rightarrow> RedisConfig \<Rightarrow> cluster_addrs list \<Rightarrow> go_error list \<Rightarrow> knet \<Rightarrow> (go_error list \<times> knet) go" where
  "reassignLoop env config [] errs s = Ret (errs, s)"
| "reassignLoop env config (cluster # clusters) errs s =
     gbind (NewAdmin env cluster
         (Some \<lparr>ConnectionTimeout = DialTimeout config * 1000000, ClientName = [],
                RenameCommandsFile = GetRenameCommandsFile config, Password = []\<rparr>) (trace s)) (\<lambda>t.
       gbind (resetLoop env cluster (cnx t) errs (s\<lparr>trace := trace t\<rparr>)) (\<lambda>(bad, errs, s).
         let t = Reset env (s\<lparr>cnx := bad\<rparr>)
         in reassignLoop env config clusters errs (s\<lparr>trace := trace t\<rparr>)))"

definition reassignClusters ::
    "kenv \<Rightarrow> RedisConfig \<Rightarrow> cluster_addrs list \<Rightarrow> knet \<Rightarrow> (go_error option \<times> knet) go" where
  "reassignClusters env config clusters s =
     (case splitMainCluster clusters of (mainCluster, badClusters) \<Rightarrow>
        if length mainCluster = 0
        then Ret (Some (ErrText ''impossible to fix cluster split, cannot elect main cluster''), s)
        else gbind (ReplaceAll env mainCluster s) (\<lambda>s.
          gbind (reassignLoop env config badClusters [] s) (\<lambda>(errs, s). Ret (NewAggregate errs, s))))"

definition FixClusterSplit ::
    "kenv \<Rightarrow> CheckAndHeal \<Rightarrow> ClusterInfos \<Rightarrow> RedisConfig \<Rightarrow> knet \<Rightarrow> ((bool \<times> go_error option) \<times> knet) go" where
  "FixClusterSplit env c infos config s =
     (let clusters = buildClustersLists (rangeOrd env (trace s) ''buildClustersLists'') infos in
      if length clusters > 1 then
        (if DryRun c then Ret ((True, None), s)
         else gbind (reassignClusters env config clusters s) (\<lambda>(e, s). Ret ((True, e), s)))
      else Ret ((False, None), s))"

section \<open>failednodes.go\<close>

definition ghostStep :: "DistributedRedisCluster \<Rightarrow> Node \<Rightarrow> (string, bool) gomap \<Rightarrow> (string, bool) gomap" where
  "ghostStep cluster node ghosts =
     (let ghosts = (if HasStatus node NodeStatusNoAddr then mput (ID node) True ghosts else ghosts) in
      if HasStatus node NodeStatusFail \<or> HasStatus node NodeStatusPFail then
        (if \<not> list_ex (\<lambda>pod. RnID pod = ID node) (DNodes (Status cluster))
         then mput (ID node) True ghosts else ghosts)
      else ghosts)"

definition listGhostNodes :: "ord \<Rightarrow> DistributedRedisCluster \<Rightarrow> ClusterInfos \<Rightarrow> (string, bool) gomap" where
  "listGhostNodes ord cluster infos =
     fold (\<lambda>ni. fold (ghostStep cluster) (Friends ni))
       (List.map_filter (mget (Infos infos)) (ord (mkeys (Infos infos)))) []"

fun forgetAll :: "kenv \<Rightarrow> CheckAndHeal \<Rightarrow> string list \<Rightarrow> bool \<Rightarrow> go_error list \<Rightarrow> knet \<Rightarrow> ((bool \<times> go_error list) \<times> knet) go" where
  "forgetAll env c [] doneAnAction errs s = Ret ((doneAnAction, errs), s)"
| "forgetAll env c (i # ids) doneAnAction errs s =
     (if \<not> DryRun c
      then gbind (ForgetNode env i s) (\<lambda>(e, s).
             forgetAll env c ids True (case e of Some e \<Rightarrow> errs @ [e] | None \<Rightarrow> errs) s)
      else forgetAll env c ids True errs s)"

definition FixFailedNodes ::
    "kenv \<Rightarrow> CheckAndHeal \<Rightarrow> DistributedRedisCluster \<Rightarrow> ClusterInfos \<Rightarrow> knet \<Rightarrow> ((bool \<times> go_error option) \<times> knet) go" where
  "FixFailedNodes env c cluster infos s =
     (let forgetSet = listGhostNodes (rangeOrd env (trace s) ''listGhostNodes'') cluster infos in
      gbind (forgetAll env c (rangeOrd env (trace s) ''FixFailedNodes'' (mkeys forgetSet)) False [] s)
        (\<lambda>((doneAnAction, errs), s). Ret ((doneAnAction, NewAggregate errs), s)))"

section \<open>untrustenodes.go\<close>

definition untrustedStep :: "Node \<Rightarrow> (string, Node) gomap \<Rightarrow> (string, Node) gomap" where
  "untrustedStep node untrusted =
     (if HasStatus node NodeStatusHandshake
      then (case mget untrusted (ID node) of None \<Rightarrow> mput (ID node) node untrusted | Some _ \<Rightarrow> untrusted)
      else untrusted)"

definition listUntrustedNodes :: "ord \<Rightarrow> ClusterInfos \<Rightarrow> (string, Node) gomap" where
  "listUntrustedNodes ord infos =
     fold (\<lambda>ni. fold untrustedStep (Friends ni))
       (List.map_filter (mget (Infos infos)) (ord (mkeys (Infos infos)))) []"

fun podNameLoop :: "Node \<Rightarrow> Pod list \<Rightarrow> bool \<Rightarrow> bool \<times> bool" where
  "podNameLoop node [] exist = (exist, False)"
| "podNameLoop node (currentPod # pods) exist =
     (if PoName currentPod = PodName node
      then (if PodIP currentPod = IP node then (True, True) else podNameLoop node pods True)
      else podNameLoop node pods exist)"

definition checkIfPodNameExistAndIsReused :: "Node \<Rightarrow> Pod list \<Rightarrow> bool \<times> bool" where
  "checkIfPodNameExistAndIsReused node podlist =
     (if PodName node = [] then (False, False) else podNameLoop node podlist False)"

definition deleteStalePod ::
    "kube \<Rightarrow> CheckAndHeal \<Rightarrow> DistributedRedisCluster \<Rightarrow> Node \<Rightarrow> go_error list \<Rightarrow> knet \<Rightarrow> go_error list \<times> knet" where
  "deleteStalePod kb c cluster uNode errs s =
     (case checkIfPodNameExistAndIsReused uNode (Pods c) of (exist, reused) \<Rightarrow>
        if exist \<and> \<not> reused then
          (case DeletePodByName kb (DrcNamespace cluster) (PodName uNode) s of
             (Some e, s) \<Rightarrow> (errs @ [e], s)
           | (None, s) \<Rightarrow> (errs, s))
        else (errs, s))"

text \<open>One untrusted node. \<open>GetNodesByFunc\<close> fails only with \<open>NodeNotFounded\<close>, which is passed over.\<close>

definition untrustedNode ::
    "kenv \<Rightarrow> kube \<Rightarrow> CheckAndHeal \<Rightarrow> DistributedRedisCluster \<Rightarrow> ClusterInfos \<Rightarrow> string \<Rightarrow> Node \<Rightarrow>
     bool \<Rightarrow> go_error list \<Rightarrow> knet \<Rightarrow> ((bool \<times> go_error list) \<times> knet) go" where
  "untrustedNode env kb c cluster infos i uNode doneAnAction errs s =
     (case GetNodesByFunc (\<lambda>n. IP n = IP uNode \<and> ID n \<noteq> ID uNode)
             (GetNodes (rangeOrd env (trace s) ''GetNodes'') infos) of
        (node2, err) \<Rightarrow>
          if err \<noteq> None \<and> \<not> IsNodeNotFoundedError (the err) then Ret ((doneAnAction, errs @ [the err]), s)
          else if length node2 > 0 then Ret ((doneAnAction, errs), s)
          else case deleteStalePod kb c cluster uNode errs s of (errs, s) \<Rightarrow>
            if \<not> DryRun c
            then gbind (ForgetNode env i s) (\<lambda>(e, s).
                   Ret ((True, case e of Some e \<Rightarrow> errs @ [e] | None \<Rightarrow> errs), s))
            else Ret ((True, errs), s))"

fun untrustedLoop ::
    "kenv \<Rightarrow> kube \<Rightarrow> CheckAndHeal \<Rightarrow> DistributedRedisCluster \<Rightarrow> ClusterInfos \<Rightarrow> (string, Node) gomap \<Rightarrow>
     string list \<Rightarrow> bool \<Rightarrow> go_error list \<Rightarrow> knet \<Rightarrow> ((bool \<times> go_error list) \<times> knet) go" where
  "untrustedLoop env kb c cluster infos m [] doneAnAction errs s = Ret ((doneAnAction, errs), s)"
| "untrustedLoop env kb c cluster infos m (i # ids) doneAnAction errs s =
     (case mget m i of
        None \<Rightarrow> untrustedLoop env kb c cluster infos m ids doneAnAction errs s
      | Some uNode \<Rightarrow>
          gbind (untrustedNode env kb c cluster infos i uNode doneAnAction errs s) (\<lambda>((d, errs), s).
            untrustedLoop env kb c cluster infos m ids d errs s))"

definition FixUntrustedNodes ::
    "kenv \<Rightarrow> kube \<Rightarrow> CheckAndHeal \<Rightarrow> DistributedRedisCluster \<Rightarrow> ClusterInfos \<Rightarrow> knet \<Rightarrow>
     ((bool \<times> go_error option) \<times> knet) go" where
  "FixUntrustedNodes env kb c cluster infos s =
     (let untrusted = listUntrustedNodes (rangeOrd env (trace s) ''listUntrustedNodes'') infos in
      gbind (untrustedLoop env kb c cluster infos untrusted
               (rangeOrd env (trace s) ''FixUntrustedNodes'' (mkeys untrusted)) False [] s)
        (\<lambda>((doneAnAction, errs), s). Ret ((doneAnAction, NewAggregate errs), s)))"

section \<open>terminatingpod.go\<close>

definition terminatingStep ::
    "kube \<Rightarrow> CheckAndHeal \<Rightarrow> DistributedRedisCluster \<Rightarrow> int \<Rightarrow> int \<Rightarrow> Pod \<Rightarrow>
     (bool \<times> go_error list) \<times> knet \<Rightarrow> (bool \<times> go_error list) \<times> knet" where
  "terminatingStep kb c cluster maxDuration now pod st =
     (case st of ((actionDone, errs), s) \<Rightarrow>
        case DeletionTimestamp pod of
          None \<Rightarrow> st
        | Some t \<Rightarrow>
            if t + maxDuration < now then
              (if \<not> DryRun c then
                 (case DeletePodByName kb (DrcNamespace cluster) (PoName pod) s of
                    (Some e, s) \<Rightarrow> ((True, errs @ [e]), s)
                  | (None, s) \<Rightarrow> ((True, errs), s))
               else ((True, errs), s))
            else st)"

definition FixTerminatingPods ::
    "kube \<Rightarrow> CheckAndHeal \<Rightarrow> DistributedRedisCluster \<Rightarrow> int \<Rightarrow> knet \<Rightarrow> (bool \<times> go_error option) \<times> knet" where
  "FixTerminatingPods kb c cluster maxDuration s =
     (if maxDuration = 0 then ((False, None), s)
      else case fold (terminatingStep kb c cluster maxDuration (timeNow kb (trace s))) (Pods c) ((False, []), s) of
        ((actionDone, errs), s) \<Rightarrow> ((actionDone, NewAggregate errs), s))"

section \<open>manager/healer.go\<close>

definition Heal ::
    "kenv \<Rightarrow> kube \<Rightarrow> CheckAndHeal \<Rightarrow> DistributedRedisCluster \<Rightarrow> ClusterInfos \<Rightarrow> knet \<Rightarrow>
     ((bool \<times> go_error option) \<times> knet) go" where
  "Heal env kb c cluster infos s =
     gbind (FixFailedNodes env c cluster infos s) (\<lambda>((actionDone, err), s).
       if err \<noteq> None then Ret ((actionDone, err), s)
       else if actionDone then Ret ((actionDone, None), s)
       else gbind (FixUntrustedNodes env kb c cluster infos s) (\<lambda>((actionDone, err), s).
         if err \<noteq> None then Ret ((actionDone, err), s)
         else if actionDone then Ret ((actionDone, None), s)
         else Ret ((False, None), s)))"

end
