(* ===== verification/Status.thy ===== *)
theory Status
  imports Kube Placement
begin

text \<open>
  The reported status of a cluster and the checks on it: \<open>status.go\<close> and \<open>helper.go\<close> of
  \<open>src/pkg/controller/distributedrediscluster\<close>, and \<open>src/pkg/controller/manager/checker.go\<close>.
\<close>

section \<open>status.go: setting a status\<close>

fun ClusterStatus_text :: "ClusterStatus \<Rightarrow> string" where
  "ClusterStatus_text ClusterStatusEmpty = []"
| "ClusterStatus_text ClusterStatusOK = ''Healthy''"
| "ClusterStatus_text ClusterStatusKO = ''Failed''"
| "ClusterStatus_text ClusterStatusCreating = ''Creating''"
| "ClusterStatus_text ClusterStatusScaling = ''Scaling''"
| "ClusterStatus_text ClusterStatusCalculatingRebalancing = ''Calculating Rebalancing''"
| "ClusterStatus_text ClusterStatusRebalancing = ''Rebalancing''"
| "ClusterStatus_text ClusterStatusRollingUpdate = ''RollingUpdate''"
| "ClusterStatus_text ClusterStatusResetPassword = ''ResetPassword''"

fun RestorePhase_text :: "RestorePhase \<Rightarrow> string" where
  "RestorePhase_text RestorePhaseEmpty = []"
| "RestorePhase_text RestorePhaseRunning = ''Running''"
| "RestorePhase_text RestorePhaseRestart = ''Restart''"
| "RestorePhase_text RestorePhaseSucceeded = ''Succeeded''"

definition SetClusterFailed :: "string \<Rightarrow> DistributedRedisClusterStatus \<Rightarrow> DistributedRedisClusterStatus" where
  "SetClusterFailed reason status = status\<lparr>DStatus := ClusterStatusKO, DReason := reason\<rparr>"

definition SetClusterOK :: "string \<Rightarrow> DistributedRedisClusterStatus \<Rightarrow> DistributedRedisClusterStatus" where
  "SetClusterOK reason status = status\<lparr>DStatus := ClusterStatusOK, DReason := reason\<rparr>"

definition SetClusterRebalancing :: "string \<Rightarrow> DistributedRedisClusterStatus \<Rightarrow> DistributedRedisClusterStatus" where
  "SetClusterRebalancing reason status = status\<lparr>DStatus := ClusterStatusRebalancing, DReason := reason\<rparr>"

definition SetClusterScaling :: "string \<Rightarrow> DistributedRedisClusterStatus \<Rightarrow> DistributedRedisClusterStatus" where
  "SetClusterScaling reason status = status\<lparr>DStatus := ClusterStatusScaling, DReason := reason\<rparr>"

definition SetClusterUpdating :: "string \<Rightarrow> DistributedRedisClusterStatus \<Rightarrow> DistributedRedisClusterStatus" where
  "SetClusterUpdating reason status = status\<lparr>DStatus := ClusterStatusRollingUpdate, DReason := reason\<rparr>"

definition SetClusterResetPassword :: "string \<Rightarrow> DistributedRedisClusterStatus \<Rightarrow> DistributedRedisClusterStatus" where
  "SetClusterResetPassword reason status = status\<lparr>DStatus := ClusterStatusResetPassword, DReason := reason\<rparr>"

section \<open>status.go: building a status\<close>

definition podNode :: "Pod \<Rightarrow> RedisClusterNode" where
  "podNode pod =
     \<lparr>RnID = [], RnRole = RoleEmpty, RnIP = PodIP pod, RnPort = [], RnSlots = [], RnMasterRef = [],
      RnPodName = PoName pod, RnNodeName = PoNodeName pod,
      RnStatefulSet =
        (case OwnerReferences pod of
           [] \<Rightarrow> []
         | o1 # _ \<Rightarrow> if OwKind o1 = ''StatefulSet'' then OwName o1 else [])\<rparr>"

definition redisNodeStatus :: "Node \<Rightarrow> RedisClusterNode \<Rightarrow> RedisClusterNode" where
  "redisNodeStatus n newNode =
     newNode\<lparr>RnID := ID n, RnRole := GetRole n, RnPort := Port n,
       RnMasterRef := (if IsSlave n \<and> MasterReferent n \<noteq> [] then MasterReferent n else RnMasterRef newNode),
       RnSlots := (if length (NSlots n) > 0 then map SlotRange_String (fst (SlotRangesFromSlots (NSlots n))) else [])\<rparr>"

definition countMaster :: "Node \<Rightarrow> (string, int) gomap \<Rightarrow> (string, int) gomap" where
  "countMaster n nbSlaveByMaster =
     (let m = (if IsMasterWithSlot n \<and> mget nbSlaveByMaster (ID n) = None
               then mput (ID n) 0 nbSlaveByMaster else nbSlaveByMaster)
      in if IsSlave n \<and> MasterReferent n \<noteq> []
         then mput (MasterReferent n) (mgetd 0 m (MasterReferent n) + 1) m else m)"

type_synonym build_state = "RedisClusterNode list \<times> int \<times> (string, int) gomap"

definition podStep :: "(nat \<Rightarrow> ord) \<Rightarrow> ClusterInfos \<Rightarrow> nat \<times> Pod \<Rightarrow> build_state \<Rightarrow> build_state" where
  "podStep ords infos ipod st =
     (case (ipod, st) of ((i, pod), (ns, nbMaster, nb)) \<Rightarrow>
        case GetNodesByFunc (\<lambda>node. IP node = PodIP pod) (GetNodes (ords i) infos) of
          (redisNodes, Some e) \<Rightarrow> st
        | (redisNodes, None) \<Rightarrow>
            if length redisNodes = 1 then
              (let n = redisNodes ! 0 in
               (ns @ [redisNodeStatus n (podNode pod)], if IsMasterWithSlot n then nbMaster + 1 else nbMaster,
                countMaster n nb))
            else (ns @ [podNode pod], nbMaster, nb))"

text \<open>
  \<open>SlotRangesFromSlots\<close> sorts the slots of the node found for a pod in place, and the node is that
  of the infos: \<open>printedForPods\<close> are the infos as \<open>buildClusterStatus\<close> leaves them.
\<close>

definition podPrints :: "Pod \<Rightarrow> ClusterInfos \<Rightarrow> ClusterInfos" where
  "podPrints pod infos =
     (case filter (\<lambda>k. IP (ownNode infos k) = PodIP pod) (mkeys (Infos infos)) of
        [k] \<Rightarrow> if length (NSlots (ownNode infos k)) > 0 then printOwn k infos else infos
      | _ \<Rightarrow> infos)"

definition printedForPods :: "Pod list \<Rightarrow> ClusterInfos \<Rightarrow> ClusterInfos" where
  "printedForPods pods infos = fold podPrints pods infos"

definition MaxInt32 :: int where "MaxInt32 = 2147483647"

definition replicationStep :: "int \<Rightarrow> int \<times> int \<Rightarrow> int \<times> int" where
  "replicationStep counter mm =
     (case mm of (lo, hi) \<Rightarrow> (if counter < lo then counter else lo, if counter > hi then counter else hi))"

text \<open>\<open>ords\<close> orders the nodes for each pod, \<open>ord2\<close> the counters at the end.\<close>

definition buildClusterStatus ::
    "(nat \<Rightarrow> ord) \<Rightarrow> ord \<Rightarrow> ClusterInfos \<Rightarrow> Pod list \<Rightarrow> DistributedRedisCluster \<Rightarrow> DistributedRedisClusterStatus" where
  "buildClusterStatus ords ord2 infos pods drc =
     (let old = Status drc;
          (ns, nbMaster, nb) = fold (podStep ords infos) (zip [0..<length pods] pods) ([], 0, []);
          (lo, hi) = fold (\<lambda>k. replicationStep (mgetd 0 nb k)) (ord2 (mkeys nb)) (MaxInt32, 0);
          lo = (if nb = [] then 0 else lo)
      in \<lparr>DStatus = DStatus old, DReason = DReason old, NumberOfMaster = nbMaster, MinReplicationFactor = lo,
          MaxReplicationFactor = hi, DNodesPlacement = PlacementEmpty, DNodes = ns, DRestore = DRestore old\<rparr>)"

section \<open>status.go: comparing\<close>

definition compareNodes :: "RedisClusterNode \<Rightarrow> RedisClusterNode \<Rightarrow> bool" where
  "compareNodes a b \<longleftrightarrow>
     CompareStringValue (RnIP a) (RnIP b) \<or> CompareStringValue (RnMasterRef a) (RnMasterRef b) \<or>
     CompareStringValue (RnPodName a) (RnPodName b) \<or> CompareStringValue (RnPort a) (RnPort b) \<or>
     CompareStringValue (RedisRole_text (RnRole a)) (RedisRole_text (RnRole b)) \<or>
     length (RnSlots a) \<noteq> length (RnSlots b) \<or> (length (RnSlots a) \<noteq> 0 \<and> RnSlots a \<noteq> RnSlots b)"

fun compareNodeLoop :: "RedisClusterNode list \<Rightarrow> RedisClusterNode list \<Rightarrow> bool" where
  "compareNodeLoop [] new = False"
| "compareNodeLoop (a # old) new =
     (let same = filter (\<lambda>b. RnID a = RnID b) new in
      if list_ex (compareNodes a) same then True
      else if same = [] then True else compareNodeLoop old new)"

definition compareStatus :: "DistributedRedisClusterStatus \<Rightarrow> DistributedRedisClusterStatus \<Rightarrow> bool" where
  "compareStatus old new =
     (if CompareStringValue (ClusterStatus_text (DStatus old)) (ClusterStatus_text (DStatus new)) then True
      else if CompareStringValue (DReason old) (DReason new) then True
      else if CompareInt32 (NumberOfMaster old) (NumberOfMaster new) then True
      else if CompareInt32 (int (length (DNodes old))) (int (length (DNodes new))) then True
      else if CompareStringValue (RestorePhase_text (RePhase (DRestore old))) (RestorePhase_text (RePhase (DRestore new))) then True
      else compareNodeLoop (DNodes old) (DNodes new))"

text \<open>The custom resource as the call leaves it; an error of the update is dropped.\<close>

definition updateClusterIfNeed ::
    "kube \<Rightarrow> DistributedRedisCluster \<Rightarrow> DistributedRedisClusterStatus \<Rightarrow> knet \<Rightarrow> DistributedRedisCluster \<times> knet" where
  "updateClusterIfNeed kb drc newStatus s =
     (if compareStatus (Status drc) newStatus
      then let drc = drc\<lparr>Status := newStatus\<rparr> in (drc, snd (UpdateCRStatus kb drc s))
      else (drc, s))"

section \<open>helper.go\<close>

definition getLabels :: "DistributedRedisCluster \<Rightarrow> (string, string) gomap" where
  "getLabels drc =
     MergeLabels (\<lambda>ks. ks) [[(''managed-by'', ''redis-cluster-operator'')], [(''redis.kun/name'', DrcName drc)]]"

definition podPort :: "Pod \<Rightarrow> string" where
  "podPort pod =
     fold (\<lambda>co port.
         if CoName co = ''redis''
         then fold (\<lambda>p port. if CpName p = ''client'' then fmt_int (CpContainerPort p) else port) (CoPorts co) port
         else port)
       (PoContainers pod) DefaultRedisPort"

definition newRedisAdmin :: "kenv \<Rightarrow> Pod list \<Rightarrow> string \<Rightarrow> RedisConfig \<Rightarrow> knet \<Rightarrow> knet go" where
  "newRedisAdmin env pods pw cfg s =
     NewAdmin env (map (\<lambda>pod. JoinHostPort (PodIP pod) (podPort pod)) pods)
       (Some \<lparr>ConnectionTimeout = DialTimeout cfg * 1000000, ClientName = [],
              RenameCommandsFile = GetRenameCommandsFile cfg, Password = pw\<rparr>) (trace s)"

text \<open>
  The nodes get references, their position in the list. A node of the status whose ID is
  known gives its pod, machine and stateful set to the node the map has for that ID.
\<close>

definition podNames :: "ref Cluster \<Rightarrow> RedisClusterNode \<Rightarrow> heap \<Rightarrow> heap" where
  "podNames rCluster node h =
     (case mget (ClNodes rCluster) (RnID node) of
        None \<Rightarrow> h
      | Some r \<Rightarrow> h(r := (h r)\<lparr>PodName := RnPodName node, NodeName := RnNodeName node,
                                StatefulSet := RnStatefulSet node\<rparr>))"

definition newRedisCluster ::
    "ord \<Rightarrow> ClusterInfos \<Rightarrow> DistributedRedisCluster \<Rightarrow> ref Cluster \<times> ref list \<times> heap" where
  "newRedisCluster ord infos drc =
     (let ns = GetNodes ord infos;
          h = (\<lambda>r. if r < length ns then ns ! r else NewDefaultNode);
          rCluster = fold (\<lambda>r c. c\<lparr>ClNodes := mput (ID (h r)) r (ClNodes c)\<rparr>) [0..<length ns]
            (NewCluster (DrcName drc) (DrcNamespace drc))
      in (rCluster, [0..<length ns], fold (podNames rCluster) (DNodes (Status drc)) h))"

definition clusterPods :: "Pod list \<Rightarrow> Pod list" where
  "clusterPods pods = filter (\<lambda>pod. PoPhase pod = PodRunning) pods"

definition needClusterOperation :: "DistributedRedisCluster \<Rightarrow> bool" where
  "needClusterOperation c =
     (if CompareIntValue (Some (NumberOfMaster (Status c))) (Some (MasterSize (Spec c))) then True
      else if CompareIntValue (Some (MinReplicationFactor (Status c))) (Some (ClusterReplicas (Spec c))) then True
      else if CompareIntValue (Some (MaxReplicationFactor (Status c))) (Some (ClusterReplicas (Spec c))) then True
      else False)"

text \<open>\<open>waiting\<close>: one call of the handler per tick until it succeeds or the timeout comes first. The
  ticks are a second apart, whatever the handle says.\<close>

fun waitLoop :: "nat \<Rightarrow> string \<Rightarrow> (knet \<Rightarrow> go_error option \<times> knet) \<Rightarrow> knet \<Rightarrow> go_error option \<times> knet" where
  "waitLoop 0 name handler s = (Some (ErrText (name @ '' timed out'')), s)"
| "waitLoop (Suc ticks) name handler s =
     (case handler (emit (ESleep 1000000000) s) of
        (None, s) \<Rightarrow> (None, s)
      | (Some e, s) \<Rightarrow> waitLoop ticks name handler s)"

record IWaitHandle =
  WhName :: string
  WhTick :: int
  WhTimeout :: int
  WhHandler :: "knet \<Rightarrow> go_error option \<times> knet"

definition waiting :: "kube \<Rightarrow> IWaitHandle \<Rightarrow> knet \<Rightarrow> go_error option \<times> knet" where
  "waiting kb h s = waitLoop (waitTicks kb (trace s) (WhName h) (WhTimeout h)) (WhName h) (WhHandler h) s"

definition waitPodTerminating_Handler ::
    "kube \<Rightarrow> DistributedRedisCluster \<Rightarrow> string \<Rightarrow> knet \<Rightarrow> go_error option \<times> knet" where
  "waitPodTerminating_Handler kb drc sts s =
     (case GetStatefulSetPodsByLabels kb (DrcNamespace drc) (mput ''statefulSet'' sts (getLabels drc)) s of
        (Inl e, s) \<Rightarrow> (Some e, s)
      | (Inr pods, s) \<Rightarrow>
          (case find (\<lambda>pod. PoPhase pod = PodRunning) pods of
             Some pod \<Rightarrow> (Some (ErrText (''['' @ PoName pod @ ''] pod still runing'')), s)
           | None \<Rightarrow> (None, s)))"

definition waitPodTerminating :: "string \<Rightarrow> string \<Rightarrow> int \<Rightarrow> int \<Rightarrow> kube \<Rightarrow> DistributedRedisCluster \<Rightarrow> IWaitHandle" where
  "waitPodTerminating name sts timeout tick kb drc =
     \<lparr>WhName = name, WhTick = tick, WhTimeout = timeout, WhHandler = waitPodTerminating_Handler kb drc sts\<rparr>"

definition waitStatefulSetUpdating_Handler ::
    "kube \<Rightarrow> DistributedRedisCluster \<Rightarrow> knet \<Rightarrow> go_error option \<times> knet" where
  "waitStatefulSetUpdating_Handler kb drc s =
     (case ListStatefulSetByLabels kb (DrcNamespace drc) (getLabels drc) s of
        (Inl e, s) \<Rightarrow> (Some e, s)
      | (Inr stss, s) \<Rightarrow>
          if list_ex (\<lambda>sts. ReadyReplicas sts \<noteq> ClusterReplicas (Spec drc) + 1) stss then (None, s)
          else (Some (ErrText ''statefulSet still not updated''), s))"

definition waitStatefulSetUpdating :: "string \<Rightarrow> int \<Rightarrow> int \<Rightarrow> kube \<Rightarrow> DistributedRedisCluster \<Rightarrow> IWaitHandle" where
  "waitStatefulSetUpdating name timeout tick kb drc =
     \<lparr>WhName = name, WhTick = tick, WhTimeout = timeout, WhHandler = waitStatefulSetUpdating_Handler kb drc\<rparr>"

section \<open>manager/checker.go\<close>

definition checkRedisNodeNum :: "int \<Rightarrow> StatefulSet \<Rightarrow> go_error option go" where
  "checkRedisNodeNum expectNodeNum ss =
     (case StsReplicas ss of
        None \<Rightarrow> Panic ''nil pointer dereference''
      | Some replicas \<Rightarrow> Ret
          (if expectNodeNum \<noteq> replicas then Some (ErrText ''number of redis pods is different from specification'')
           else if expectNodeNum \<noteq> ReadyReplicas ss then Some (ErrText ''redis pods are not all ready'')
           else if expectNodeNum \<noteq> CurrentReplicas ss then Some (ErrText ''redis pods need to be updated'')
           else None))"

fun checkLoop :: "kube \<Rightarrow> DistributedRedisCluster \<Rightarrow> nat list \<Rightarrow> knet \<Rightarrow> (go_error option \<times> knet) go" where
  "checkLoop kb drc [] s = Ret (None, s)"
| "checkLoop kb drc (i # is) s =
     (case GetStatefulSet kb (DrcNamespace drc) (ClusterStatefulSetName (DrcName drc) i) s of
        (Inl e, s) \<Rightarrow> Ret (Some e, s)
      | (Inr ss, s) \<Rightarrow>
          gbind (checkRedisNodeNum (ClusterReplicas (Spec drc) + 1) ss) (\<lambda>err.
            case err of Some e \<Rightarrow> Ret (Some e, s) | None \<Rightarrow> checkLoop kb drc is s))"

definition CheckRedisNodeNum :: "kube \<Rightarrow> DistributedRedisCluster \<Rightarrow> knet \<Rightarrow> (go_error option \<times> knet) go" where
  "CheckRedisNodeNum kb drc s = checkLoop kb drc [0..<nat (MasterSize (Spec drc))] s"

definition CheckRedisMasterNum :: "DistributedRedisCluster \<Rightarrow> go_error option" where
  "CheckRedisMasterNum drc =
     (if MasterSize (Spec drc) \<noteq> NumberOfMaster (Status drc)
      then Some (ErrText ''number of redis master different from specification'') else None)"

end
