(* ===== verification/Sync.thy ===== *)
theory Sync
  imports Heal Status Rebalance
begin

text \<open>
  \<open>src/pkg/controller/distributedrediscluster/sync_handler.go\<close>: defaults and the restore
  phase, waiting for pods and for the nodes to join, and \<open>syncCluster\<close>, which creates the
  cluster, adds masters or slaves, or takes masters away. \<open>fuel\<close> bounds the pairing loop of
  \<open>RebalancedCluster\<close>; \<open>fmtTime\<close> and \<open>fmtNodes\<close> are the formatting of times and of a slice
  of nodes, which occur in error texts only.
\<close>

section \<open>Defaults and restore\<close>

definition initRestore ::
    "kube \<Rightarrow> DistributedRedisCluster \<Rightarrow> knet \<Rightarrow> ((bool \<times> go_error option \<times> DistributedRedisCluster) \<times> knet) go" where
  "initRestore kb drc s =
     gbind
       (case ReBackup (DRestore (Status drc)) of
          Some b \<Rightarrow> Ret (Inr (b, drc), s)
        | None \<Rightarrow>
            (case Init (Spec drc) of
               None \<Rightarrow> Panic ''nil pointer dereference''
             | Some ini \<Rightarrow>
                 (case BackupSource ini of
                    None \<Rightarrow> Panic ''nil pointer dereference''
                  | Some src \<Rightarrow>
                      (case GetRedisClusterBackup kb (BsNamespace src) (BsName src) s of
                         (Inl e, s) \<Rightarrow> Ret (Inl (e, drc), s)
                       | (Inr backup, s) \<Rightarrow>
                           if BuPhase (BuStatus backup) \<noteq> BackupPhaseSucceeded
                           then Ret (Inl (ErrText ''backup is still running'', drc), s)
                           else
                             let drc = drc\<lparr>Status := (Status drc)\<lparr>DRestore := \<lparr>RePhase = RestorePhaseRunning, ReBackup = Some backup\<rparr>\<rparr>\<rparr>
                             in (case UpdateCRStatus kb drc s of
                                   (Some e, s) \<Rightarrow> Ret (Inl (e, drc), s)
                                 | (None, s) \<Rightarrow> Ret (Inr (backup, drc), s))))))
       (\<lambda>(r, s).
          case r of
            Inl (e, drc) \<Rightarrow> Ret ((False, Some e, drc), s)
          | Inr (backup, drc) \<Rightarrow>
              let u1 = (Image (Spec drc) = []);
                  drc = (if u1 then drc\<lparr>Spec := (Spec drc)\<lparr>Image := ClusterImage (BuStatus backup)\<rparr>\<rparr> else drc);
                  u2 = (MasterSize (Spec drc) \<noteq> BuMasterSize (BuStatus backup));
                  drc = (if u2 then drc\<lparr>Spec := (Spec drc)\<lparr>MasterSize := BuMasterSize (BuStatus backup)\<rparr>\<rparr> else drc)
              in Ret ((u1 \<or> u2, None, drc), s))"

definition validateAndSetDefault ::
    "(ResourceRequirements \<Rightarrow> nat) \<Rightarrow> kube \<Rightarrow> DistributedRedisCluster \<Rightarrow> knet \<Rightarrow>
     ((go_error option \<times> DistributedRedisCluster) \<times> knet) go" where
  "validateAndSetDefault sizeOf kb drc s =
     gbind (if IsRestoreFromBackup drc \<and> ShouldInitRestorePhase drc then initRestore kb drc s
            else Ret ((False, None, drc), s))
       (\<lambda>((update, err, drc), s).
          case err of
            Some e \<Rightarrow> Ret ((Some e, drc), s)
          | None \<Rightarrow>
              let drc = (if IsRestoreFromBackup drc \<and> (IsRestoreRunning drc \<or> IsRestoreRestarting drc)
                         then drc\<lparr>Spec := (Spec drc)\<lparr>ClusterReplicas := 0\<rparr>\<rparr> else drc);
                  (drc, updateDefault) = DefaultSpec sizeOf drc
              in if update \<or> updateDefault
                 then (case UpdateCR kb drc s of (e, s) \<Rightarrow> Ret ((e, drc), s))
                 else Ret ((None, drc), s))"

definition dbLoadedFromDiskWhenRestore :: "DistributedRedisCluster \<Rightarrow> DistributedRedisCluster" where
  "dbLoadedFromDiskWhenRestore drc =
     (if IsRestoreFromBackup drc \<and> \<not> IsRestored drc
      then (case Config (Spec drc) of
              None \<Rightarrow> drc
            | Some cfg \<Rightarrow> drc\<lparr>Spec := (Spec drc)\<lparr>Config := Some (mput ''appendonly'' ''no'' cfg)\<rparr>\<rparr>)
      else drc)"

section \<open>Waiting\<close>

definition waitPodReady ::
    "kube \<Rightarrow> CheckAndHeal \<Rightarrow> DistributedRedisCluster \<Rightarrow> knet \<Rightarrow> (go_error option \<times> knet) go" where
  "waitPodReady kb healer drc s =
     (case FixTerminatingPods kb healer drc 300000000000 s of
        ((_, Some e), s) \<Rightarrow> Ret (Some (ErrorType_Wrap Kubernetes e ''FixTerminatingPods''), s)
      | ((_, None), s) \<Rightarrow>
          gbind (CheckRedisNodeNum kb drc s) (\<lambda>(e, s).
            case e of
              Some e \<Rightarrow> Ret (Some (ErrorType_Wrap Requeue e ''CheckRedisNodeNum''), s)
            | None \<Rightarrow> Ret (None, s)))"

definition waitForClusterJoin :: "kenv \<Rightarrow> ClusterInfos \<Rightarrow> knet \<Rightarrow> (go_error option \<times> knet) go" where
  "waitForClusterJoin env clusterInfos s =
     gbind (GetClusterInfos env s) (\<lambda>((_, err), s).
       if err = None then Ret (None, s)
       else
         case List.map_filter (mget (Infos clusterInfos))
                (rangeOrd env (trace s) ''waitForClusterJoin'' (mkeys (Infos clusterInfos))) of
           [] \<Rightarrow> Panic ''nil pointer dereference''
         | nodeInfo # _ \<Rightarrow>
             gbind (AttachNodeToCluster env (IPPort (NINode nodeInfo)) s) (\<lambda>(e, s).
               case e of
                 Some e \<Rightarrow> Ret (Some (ErrorType_Wrap Redis e ''AttachNodeToCluster''), s)
               | None \<Rightarrow>
                   gbind (GetClusterInfos env (emit (ESleep 1000000000) s)) (\<lambda>((_, err), s).
                     case err of
                       Some e \<Rightarrow> Ret (Some (ErrorType_Wrap Requeue e ''wait for cluster join''), s)
                     | None \<Rightarrow> Ret (None, s))))"

section \<open>Scaling down\<close>

definition removeConns :: "heap \<Rightarrow> ref list \<Rightarrow> knet \<Rightarrow> knet" where
  "removeConns h ns s = fold (\<lambda>node. Remove (IPPort (h node))) ns s"

fun forgetNodes :: "(int \<Rightarrow> string) \<Rightarrow> kenv \<Rightarrow> heap \<Rightarrow> ref list \<Rightarrow> knet \<Rightarrow> (go_error option \<times> knet) go" where
  "forgetNodes fmtTime env h [] s = Ret (None, s)"
| "forgetNodes fmtTime env h (node # ns) s =
     (if length (NSlots (h node)) > 0
      then Ret (Some (ErrorType_New Redis (''node '' @ Node_String fmtTime (h node) @
                  '' is not empty! Reshard data away and try again'')), s)
      else gbind (ForgetNode env (ID (h node)) s) (\<lambda>(e, s).
        case e of Some e \<Rightarrow> Ret (Some (ErrorType_Wrap Redis e ''ForgetNode''), s) | None \<Rightarrow> forgetNodes fmtTime env h ns s))"

text \<open>The resources of one stateful set; errors of the deletions are only logged.\<close>

definition deleteSts :: "kube \<Rightarrow> DistributedRedisCluster \<Rightarrow> nat \<Rightarrow> string \<Rightarrow> StatefulSet \<Rightarrow> knet \<Rightarrow> knet" where
  "deleteSts kb drc i stsName sts s =
     (let ns = DrcNamespace drc;
          s = snd (DeleteStatefulSetByName kb ns stsName s);
          s = snd (DeleteServiceByName kb ns (ClusterHeadlessSvcName (DrcName drc) i) s);
          s = snd (DeletePodDisruptionBudgetByName kb ns stsName s);
          s = snd (DeletePvcByLabels kb ns (StsLabels sts) s)
      in snd (waiting kb (waitPodTerminating ''waitPodTerminating'' stsName
                 (30000000000 * (ClusterReplicas (Spec drc) + 2)) 5000000000 kb drc) s))"

fun scaleDownLoop ::
    "(int \<Rightarrow> string) \<Rightarrow> kenv \<Rightarrow> kube \<Rightarrow> DistributedRedisCluster \<Rightarrow> heap \<Rightarrow> (string, ref list) gomap \<Rightarrow> nat list \<Rightarrow>
     knet \<Rightarrow> (go_error option \<times> knet) go" where
  "scaleDownLoop fmtTime env kb drc h stsNodes [] s = Ret (None, s)"
| "scaleDownLoop fmtTime env kb drc h stsNodes (i # is) s =
     (let stsName = ClusterStatefulSetName (DrcName drc) i in
      case GetStatefulSet kb (DrcNamespace drc) stsName s of
        (Inl e, s) \<Rightarrow> Ret (Some (ErrorType_Wrap Kubernetes e ''GetStatefulSet''), s)
      | (Inr sts, s) \<Rightarrow>
          gbind (forgetNodes fmtTime env h (mgetd [] stsNodes stsName) s) (\<lambda>(e, s).
            case e of
              Some e \<Rightarrow> Ret (Some e, s)
            | None \<Rightarrow> scaleDownLoop fmtTime env kb drc h stsNodes is (deleteSts kb drc i stsName sts s)))"

text \<open>
  The indices from the highest stateful set down to the first that stays (\<open>DefaultSpec\<close> has made
  the expected number positive).
\<close>

definition leaving :: "int \<Rightarrow> int \<Rightarrow> nat list" where
  "leaving expectMasterNum currentMasterNum = rev [nat expectMasterNum..<nat currentMasterNum]"

definition scalingDown ::
    "(int \<Rightarrow> string) \<Rightarrow> kenv \<Rightarrow> kube \<Rightarrow> DistributedRedisCluster \<Rightarrow> int \<Rightarrow> heap \<Rightarrow> (string, ref list) gomap \<Rightarrow> knet \<Rightarrow>
     ((go_error option \<times> DistributedRedisCluster) \<times> knet) go" where
  "scalingDown fmtTime env kb drc currentMasterNum h stsNodes s =
     (let drc = drc\<lparr>Status := SetClusterRebalancing
            (''scale down, currentMasterSize: '' @ fmt_int currentMasterNum @ '', expectMasterSize '' @
             fmt_int (MasterSize (Spec drc))) (Status drc)\<rparr>;
          s = snd (UpdateCRStatus kb drc s);
          is = leaving (MasterSize (Spec drc)) currentMasterNum;
          s = fold (\<lambda>i. removeConns h (mgetd [] stsNodes (ClusterStatefulSetName (DrcName drc) i))) is s
      in gbind (scaleDownLoop fmtTime env kb drc h stsNodes is s) (\<lambda>(e, s). Ret ((e, drc), s)))"

section \<open>syncCluster\<close>

definition wrapCluster :: "string \<Rightarrow> go_error option \<Rightarrow> go_error option" where
  "wrapCluster msg e = map_option (\<lambda>e. ErrorType_Wrap ClusterErr e msg) e"

definition placeAndAttach ::
    "kenv \<Rightarrow> Ctx \<Rightarrow> heap \<Rightarrow> knet \<Rightarrow> ((go_error option \<times> Ctx \<times> heap) \<times> knet) go" where
  "placeAndAttach env c h s =
     gbind (Ctx_PlaceSlaves (rangeOrd env (trace s) ''PlaceSlaves'') h c) (\<lambda>(e, c).
       case e of
         Some e \<Rightarrow> Ret ((Some (ErrorType_Wrap ClusterErr e ''PlaceSlaves''), c, h), s)
       | None \<Rightarrow>
           gbind (AttachingSlavesToMaster env c h s) (\<lambda>((h, e), s).
             Ret ((wrapCluster ''AttachingSlavesToMaster'' e, c, h), s)))"

definition syncCluster ::
    "nat \<Rightarrow> (int \<Rightarrow> string) \<Rightarrow> (Node list \<Rightarrow> string) \<Rightarrow> kenv \<Rightarrow> kube \<Rightarrow> DistributedRedisCluster \<Rightarrow> ClusterInfos \<Rightarrow> knet \<Rightarrow>
     ((go_error option \<times> DistributedRedisCluster \<times> heap) \<times> knet) go" where
  "syncCluster fuel fmtTime fmtNodes env kb drc clusterInfos s =
     (let (rCluster, ns, h) = newRedisCluster (rangeOrd env (trace s) ''newRedisCluster'') clusterInfos drc;
          c = NewCtx h rCluster ns (MasterSize (Spec drc)) (DrcName drc)
      in gbind (Ctx_DispatchMasters (\<lambda>i. rangeOrd env (trace s) (''PlaceMasters'' @ fmt_nat i)) h c) (\<lambda>(e, c).
         case e of
           Some e \<Rightarrow> Ret ((Some (ErrorType_Wrap ClusterErr e (''DispatchMasters with nodes '' @ fmtNodes (map h ns))), drc, h), s)
         | None \<Rightarrow>
             let curMasters = GetCurrentMasters c;
                 newMasters = GetNewMasters (rangeOrd env (trace s) ''GetNewMasters'') c
             in if length curMasters = 0 then
                  gbind (placeAndAttach env c h s) (\<lambda>((e, c, h), s).
                    if e \<noteq> None then Ret ((e, drc, h), s)
                    else gbind (AllocSlots env newMasters h s) (\<lambda>((e, h), s). Ret ((wrapCluster ''AllocSlots'' e, drc, h), s)))
                else if length newMasters > length curMasters then
                  gbind (placeAndAttach env c h s) (\<lambda>((e, c, h), s).
                    if e \<noteq> None then Ret ((e, drc, h), s)
                    else gbind (RebalancedCluster fuel env newMasters h s)
                           (\<lambda>((e, _, h), s). Ret ((wrapCluster ''RebalancedCluster'' e, drc, h), s)))
                else if MinReplicationFactor (Status drc) < ClusterReplicas (Spec drc) then
                  gbind (placeAndAttach env c h s) (\<lambda>((e, c, h), s). Ret ((e, drc, h), s))
                else if int (length curMasters) > MasterSize (Spec drc) then
                  gbind (DispatchSlotToNewMasters env newMasters curMasters (newMasters @ curMasters) c h s)
                    (\<lambda>((e, c, h), s).
                      if e \<noteq> None then Ret ((e, drc, h), s)
                      else gbind (scalingDown fmtTime env kb drc (int (length curMasters)) h (GetStatefulsetNodes c) s)
                             (\<lambda>((e, drc), s). Ret ((e, drc, h), s)))
                else Ret ((None, drc, h), s)))"

end
