(* ===== verification/Serving.thy ===== *)
theory Serving
  imports Rebalance_Facts Scale_Down Sync
begin

text \<open>
  A Redis that accepts every command, answers each pipelined command once and holds no keys.
  Against it every call of the admin returns without error; the lemmas carry this through the
  loops of the rebalancing code, so that the results of the other theories are reached and not
  only implied. \<open>ok_env\<close> is one such environment.
\<close>

section \<open>The environment\<close>

text \<open>Pipelined commands of a connection that have not been answered.\<close>

fun pendingStep :: "nat \<Rightarrow> 'k event \<Rightarrow> nat \<Rightarrow> nat" where
  "pendingStep n (EPipeAppend m cmd args) k = (if m = n then k + 1 else k)"
| "pendingStep n (EPipeResp m) k = (if m = n then k - 1 else k)"
| "pendingStep n (EPipeClear m) k = (if m = n then 0 else k)"
| "pendingStep n _ k = k"

definition pending :: "'k event list \<Rightarrow> nat \<Rightarrow> nat" where
  "pending tr n = fold (pendingStep n) tr 0"

definition accepts :: "'k env \<Rightarrow> bool" where
  "accepts env \<longleftrightarrow>
     (\<forall>tr a. dial env tr a = None) \<and>
     (\<forall>tr n cmd args. \<exists>r. reply env tr n cmd args = Some r \<and> Err r = None \<and> RList r = Inr []) \<and>
     (\<forall>tr n. \<exists>r. pipeReply env tr n = Some r \<and>
        Err r = (if pending tr n > 0 then None else Some ErrPipelineEmpty))"

definition ok_resp :: Resp where
  "ok_resp = \<lparr>Err = None, Str = Inr ''OK'', RList = Inr [], RMap = Inr []\<rparr>"

definition ok_env :: "'k env" where
  "ok_env =
     \<lparr>dial = (\<lambda>tr a. None), reply = (\<lambda>tr n cmd args. Some ok_resp),
      pipeReply = (\<lambda>tr n. Some (if pending tr n > 0 then ok_resp else ok_resp\<lparr>Err := Some ErrPipelineEmpty\<rparr>)),
      rangeOrd = (\<lambda>tr site ks. ks), rangeMoves = (\<lambda>tr ks. ks), randIntn = (\<lambda>tr n. 0),
      sortRefs = insertSort, growSlice = (\<lambda>c n. n), osFiles = (\<lambda>f. None)\<rparr>"

lemma ok_env_accepts: "accepts ok_env"
  by (auto simp: accepts_def ok_env_def ok_resp_def)

section \<open>Calls that return\<close>

lemma NewClient_accepts:
  assumes "accepts env"
  shows "\<exists>c s'. NewClient env addr pw mapping s = Ret (Inr c, s')"
proof -
  have d: "dial env (trace s) addr = None" using assms by (simp add: accepts_def)
  obtain r where "reply env (trace (emit (EDial addr) s)) (length (trace s)) ''AUTH'' [pw] = Some r" "Err r = None"
    using assms unfolding accepts_def by blast
  then show ?thesis by (simp add: NewClient_def Let_def d)
qed

lemma connect_accepts:
  assumes "accepts env"
  shows "\<exists>c s'. connect env addr s = Ret ((Some c, None), s')"
proof -
  obtain c s1 where 1: "NewClient env addr (password (cnx s)) (commandsMapping (cnx s)) s = Ret (Inr c, s1)"
    using NewClient_accepts [OF assms] by blast
  obtain r where "reply env (trace s1) (Conn c) (getCommand c ''CLIENT'') [''SETNAME'', clientName (cnx s1)] = Some r" "Err r = None"
    using assms unfolding accepts_def by blast
  then show ?thesis by (simp add: connect_def connectLoop.simps 1 Cmd_def Let_def)
qed

lemma getClient_accepts:
  assumes "accepts env"
  shows "\<exists>c s'. getClient env addr s = Ret (Inr c, s')"
proof (cases "mget (clients (cnx s)) addr")
  case None
  obtain c s' where "connect env addr s = Ret ((Some c, None), s')" using connect_accepts [OF assms] by blast
  then show ?thesis by (simp add: getClient_def Get_def None)
qed (simp add: getClient_def Get_def)

lemma call_accepts:
  assumes "accepts env"
  shows "\<exists>r s'. call env c cmd args addr msg s = Ret (Inr r, s') \<and> RList r = Inr []"
proof -
  obtain r where "reply env (trace s) (Conn c) (getCommand c cmd) args = Some r" "Err r = None" "RList r = Inr []"
    using assms unfolding accepts_def by blast
  then show ?thesis by (simp add: call_def Cmd_def ValidateResp_def)
qed

lemma validatePipe_accepts:
  assumes "accepts env"
  shows "\<exists>s'. validatePipeLoop env c addr ok s = Some (Ret (ok, s'))"
proof (induction "pending (trace s) (Conn c)" arbitrary: s)
  case 0
  then obtain r where "pipeReply env (trace s) (Conn c) = Some r" "Err r = Some ErrPipelineEmpty"
    using assms unfolding accepts_def by (metis less_numeral_extra(3))
  then show ?case by (simp add: validatePipeLoop.simps PipeResp_def)
next
  case (Suc k)
  then obtain r where r: "pipeReply env (trace s) (Conn c) = Some r" "Err r = None"
    using assms unfolding accepts_def by (metis zero_less_Suc)
  have "k = pending (trace (emit (EPipeResp (Conn c)) s)) (Conn c)"
    using Suc(2) by (simp add: pending_def emit_def)
  then show ?case using Suc(1) r by (simp add: validatePipeLoop.simps [of _ _ _ _ s] PipeResp_def)
qed

lemma ValidatePipeResp_accepts: "accepts env \<Longrightarrow> \<exists>s'. ValidatePipeResp env c addr s = Ret (True, s')"
  using validatePipe_accepts [of env c addr True s] by (auto simp: ValidatePipeResp_def)

lemma SetSlots_accepts:
  assumes "accepts env"
  shows "\<exists>s'. SetSlots env addr action slots nodeID s = Ret (None, s')"
proof -
  obtain c s1 where 1: "getClient env addr s = Ret (Inr c, s1)" using getClient_accepts [OF assms] by blast
  obtain s2 where "ValidatePipeResp env c addr
      (fold (\<lambda>slot. PipeAppend c ''CLUSTER'' (setSlotArgs action nodeID slot)) slots s1) = Ret (True, s2)"
    using ValidatePipeResp_accepts [OF assms] by blast
  then show ?thesis by (simp add: SetSlots_def 1 Let_def)
qed

lemma SetSlot_accepts:
  assumes "accepts env"
  shows "\<exists>s'. SetSlot env addr action slot nodeID s = Ret (None, s')"
proof -
  obtain c s1 where 1: "getClient env addr s = Ret (Inr c, s1)" using getClient_accepts [OF assms] by blast
  obtain s2 where "ValidatePipeResp env c addr (PipeAppend c ''CLUSTER'' (setSlotArgs action nodeID slot) s1) = Ret (True, s2)"
    using ValidatePipeResp_accepts [OF assms] by blast
  then show ?thesis by (simp add: SetSlot_def 1 Let_def)
qed

lemma AddSlots_accepts:
  assumes "accepts env"
  shows "\<exists>s'. Admin_AddSlots env addr slots s = Ret (None, s')"
proof -
  obtain c s1 where 1: "getClient env addr s = Ret (Inr c, s1)" using getClient_accepts [OF assms] by blast
  obtain r s2 where "call env c ''CLUSTER'' (''ADDSLOTS'' # map Slot_String slots) addr ''unable to run CLUSTER ADDSLOTS'' s1 =
      Ret (Inr r, s2)"
    using call_accepts [OF assms] by blast
  then show ?thesis by (simp add: Admin_AddSlots_def 1)
qed

lemma migrateSlotLoop_accepts:
  assumes "accepts env"
  shows "\<exists>s'. migrateSlotLoop env c addr dest b t rep slot k s = Some (Ret ((k, None), s'))"
proof -
  obtain r s1 where "call env c ''CLUSTER'' [''GETKEYSINSLOT'', Slot_String slot, b] addr
      ''Unable to run command GETKEYSINSLOT'' s = Ret (Inr r, s1)" "RList r = Inr []"
    using call_accepts [OF assms] by blast
  then show ?thesis by (simp add: migrateSlotLoop.simps)
qed

lemma migrateSlots_accepts:
  assumes "accepts env"
  shows "\<exists>s'. migrateSlots env c addr dest b t rep slots k s = Ret ((k, None), s')"
proof (induction slots arbitrary: s)
  case (Cons slot slots)
  obtain s1 where "migrateSlotLoop env c addr dest b t rep slot k s = Some (Ret ((k, None), s1))"
    using migrateSlotLoop_accepts [OF assms] by blast
  then show ?case using Cons.IH by simp
qed simp

lemma MigrateKeys_accepts:
  assumes "accepts env"
  shows "\<exists>k s'. MigrateKeys env addr dest slots b t rep s = Ret ((k, None), s')"
proof -
  obtain c s1 where 1: "getClient env addr s = Ret (Inr c, s1)" using getClient_accepts [OF assms] by blast
  then show ?thesis
    using migrateSlots_accepts [OF assms, of c addr dest "fmt_int b" "fmt_int t" rep slots 0 s1]
    by (cases "slots = []") (auto simp: MigrateKeys_def)
qed

lemma MigrateKeysInSlot_accepts:
  assumes "accepts env"
  shows "\<exists>k s'. MigrateKeysInSlot env addr dest slot b t rep s = Ret ((k, None), s')"
proof -
  obtain c s1 where 1: "getClient env addr s = Ret (Inr c, s1)" using getClient_accepts [OF assms] by blast
  then show ?thesis
    using migrateSlotLoop_accepts [OF assms, of c addr dest "fmt_int b" "fmt_int t" rep slot 0 s1]
    by (auto simp: MigrateKeysInSlot_def)
qed

section \<open>Scaling down\<close>

lemma tellOthers_accepts:
  assumes "accepts env"
  shows "\<exists>s'. tellOthers env h src dst slots ms s = Ret s'"
proof (induction ms arbitrary: s)
  case (Cons m ms)
  obtain s1 where "SetSlots env (IPPort (h m)) ''NODE'' slots (ID (h dst)) s = Ret (None, s1)"
    using SetSlots_accepts [OF assms] by blast
  then show ?case using Cons.IH by simp
qed simp

lemma moveSlots_accepts:
  assumes "accepts env"
  shows "\<exists>h' s'. moveSlots env alls src dst slots h s = Ret ((None, h'), s')"
proof -
  note S = SetSlots_accepts [OF assms]
  obtain s1 where 1: "SetSlots env (IPPort (h dst)) ''IMPORTING'' slots (ID (h src)) s = Ret (None, s1)" using S by blast
  obtain s2 where 2: "SetSlots env (IPPort (h src)) ''MIGRATING'' slots (ID (h dst)) s1 = Ret (None, s2)" using S by blast
  obtain k s3 where 3: "MigrateKeys env (IPPort (h src)) (h dst) slots 10 30000 True s2 = Ret ((k, None), s3)"
    using MigrateKeys_accepts [OF assms] by blast
  obtain s4 where 4: "SetSlots env (IPPort (h dst)) ''NODE'' slots (ID (h dst)) s3 = Ret (None, s4)" using S by blast
  obtain s5 where 5: "SetSlots env (IPPort (h src)) ''NODE'' slots (ID (h dst)) s4 = Ret (None, s5)" using S by blast
  show ?thesis
    using tellOthers_accepts [OF assms, of "h(src := (h src)\<lparr>NSlots := RemoveSlots (NSlots (h src)) slots\<rparr>)" src dst slots alls s5]
    by (auto simp: moveSlots_def 1 2 3 4 5 Let_def)
qed

lemma dispatchMoves_accepts:
  assumes "accepts env"
  shows "\<exists>h' s'. dispatchMoves env alls m ks h s = Ret ((None, h'), s')"
proof (induction ks arbitrary: h s)
  case (Cons k ks)
  have "\<exists>h1 s1. dispatchMove env alls k (mgetd [] m k) h s = Ret ((None, h1), s1)"
  proof (cases "fst k")
    case None
    then show ?thesis using AddSlots_accepts [OF assms, of "IPPort (h (snd k))" "mgetd [] m k" s]
      by (auto simp: dispatchMove_def Let_def)
  next
    case (Some src)
    then show ?thesis using moveSlots_accepts [OF assms, of alls src "snd k" "mgetd [] m k" h s]
      by (auto simp: dispatchMove_def Let_def)
  qed
  then show ?case using Cons.IH by fastforce
qed simp

lemma DispatchSlotToNewMasters_accepts:
  assumes "accepts env"
  shows "\<exists>c' h' s'. DispatchSlotToNewMasters env news olds alls c h s = Ret ((None, c', h'), s')"
  unfolding DispatchSlotToNewMasters_def Let_def case_prod_unfold
  using dispatchMoves_accepts [OF assms] by (smt (verit) fst_conv gbind.simps(1) snd_conv)

section \<open>Rebalancing\<close>

lemma moveSlot_accepts:
  assumes "accepts env"
  shows "\<exists>h' s'. moveSlot env e dst h s = Ret ((None, h'), s')"
proof -
  obtain src slot where e: "e = (src, slot)" by (cases e)
  note S = SetSlot_accepts [OF assms]
  obtain s1 where 1: "SetSlot env (IPPort (h dst)) ''IMPORTING'' slot (ID (h dst)) s = Ret (None, s1)" using S by blast
  obtain s2 where 2: "SetSlot env (IPPort (h src)) ''MIGRATING'' slot (ID (h src)) s1 = Ret (None, s2)" using S by blast
  obtain k s3 where 3: "MigrateKeysInSlot env (IPPort (h src)) (h dst) slot 10 30000 True s2 = Ret ((k, None), s3)"
    using MigrateKeysInSlot_accepts [OF assms] by blast
  obtain s4 where 4: "SetSlot env (IPPort (h dst)) ''NODE'' slot (ID (h dst)) s3 = Ret (None, s4)" using S by blast
  obtain s5 where 5: "SetSlot env (IPPort (h src)) ''NODE'' slot (ID (h dst)) s4 = Ret (None, s5)" using S by blast
  show ?thesis by (simp add: moveSlot_def e 1 2 3 4 5)
qed

lemma moveTable_accepts:
  assumes "accepts env"
  shows "\<exists>h' s'. moveTable env table dst h s = Ret ((None, h'), s')"
proof (induction table arbitrary: h s)
  case (Cons e table)
  obtain h1 s1 where "moveSlot env e dst h s = Ret ((None, h1), s1)" using moveSlot_accepts [OF assms] by blast
  then show ?case using Cons.IH by simp
qed simp

lemma movePair_accepts:
  assumes "accepts env" and srt: "is_sorter (sortRefs env)"
    and k: "0 \<le> k" "k \<le> int (length (NSlots (h src)))" "length (NSlots (h src)) \<le> 16384"
  shows "\<exists>h' s'. movePair env dst src (Fin (of_int k)) h s = Ret ((None, h'), s')"
proof (cases "k = 0")
  case False
  then have "0 < k" using k(1) by simp
  moreover have "f_to_int (Fin (of_int k)) = k" by (rule f_to_int_small) (use k in simp)
  ultimately show ?thesis
    using computeReshardTable_single [where k = k and h = h and src = src, OF srt _ k(2,3)] moveTable_accepts [OF assms(1)]
    by (simp add: movePair_def del: f_to_int.simps)
qed (simp add: movePair_def)

lemma pairLoop_accepts:
  assumes D: "donors_ok sn h0" and srt: "is_sorter (sortRefs env)" and acc: "accepts env"
  shows "loop_ok sn h0 h i j \<Longrightarrow> j - i \<le> f \<Longrightarrow>
    \<exists>h' s'. pairLoop f env sn (int i) (int j) h s = Ret ((None, h'), s')"
proof (induction f arbitrary: h i j s)
  case (Suc f)
  show ?case
  proof (cases "i < j")
    case True
    let ?dst = "sn ! i" let ?src = "sn ! j" let ?m = "min \<bar>balance (h ?dst)\<bar> \<bar>balance (h ?src)\<bar>"
    obtain h3 i' j' where U: "loop_ok sn h0 h3 i' j'" "j' - i' < j - i \<or> \<not> i' < j'"
      "pairLoop (Suc f) env sn (int i) (int j) h s =
        gbind (movePair env ?dst ?src (pairSlots (balance (h ?dst)) (balance (h ?src))) h s)
          (\<lambda>((err, h), s). case err of Some err \<Rightarrow> Ret ((Some err, h), s)
            | None \<Rightarrow> pairLoop f env sn (int i') (int j') h3 s)"
      using pairLoop_unfold [OF D Suc.prems(1) True srt] by blast
    have b: "0 \<le> ?m" "?m \<le> int (length (NSlots (h ?src)))" "length (NSlots (h ?src)) \<le> 16384"
      using pair_amount [OF D Suc.prems(1) True] by blast+
    obtain h1 s1 where "movePair env ?dst ?src (Fin (of_int ?m)) h s = Ret ((None, h1), s1)"
      using movePair_accepts [where k = "?m" and h = h and src = "?src" and dst = "?dst" and s = s, OF acc srt b] by blast
    then show ?thesis
      using Suc.IH [OF U(1), of s1] U(2) Suc.prems(2) by (auto simp: U(3) pair_move(1) [OF D Suc.prems(1) True srt])
  qed (simp add: pairLoop_end)
qed (simp add: pairLoop_end)

lemma RebalancedCluster_accepts:
  assumes A: "all_assigned h ns" and srt: "is_sorter (sortRefs env)" and acc: "accepts env"
    and ends: "length ns dvd 16384 \<or> (\<exists>r\<in>set ns. length (NSlots (h r)) < share ns)" and f: "length ns \<le> fuel"
  shows "\<exists>sn h' s'. RebalancedCluster fuel env ns h s = Ret ((None, sn, h'), s')"
proof -
  obtain h0 sn' where 0: "donors_ok sn' h0" "loop_ok sn' h0 h0 0 (length ns - 1)"
    "RebalancedCluster fuel env ns h s =
       gbind (pairLoop fuel env sn' (int 0) (int (length ns - 1)) h0 s) (\<lambda>((e, h), s). Ret ((e, sn', h), s))"
    using RebalancedCluster_start [OF A srt ends] by blast
  obtain h' s' where "pairLoop fuel env sn' (int 0) (int (length ns - 1)) h0 s = Ret ((None, h'), s')"
    using pairLoop_accepts [OF 0(1) srt acc 0(2)] f by fastforce
  then show ?thesis by (simp add: 0(3))
qed

section \<open>Allocation\<close>

lemma allocLoop_accepts:
  assumes n: "0 < n" "n \<le> 16384" and acc: "accepts env"
  shows "i + length ns = n \<Longrightarrow> cursor_ok n i c \<Longrightarrow> first_ok n i a \<Longrightarrow>
    \<exists>h' s'. allocLoop env 16384 (Fin (fl (quota n))) n ns i a (Fin c) h s = Ret ((None, h'), s')"
proof (induction ns arbitrary: i a c h s)
  case (Cons r ns)
  let ?l = "lastSlot 16384 (Fin (fl (quota n))) n i a (Fin c)"
  have i: "i < n" using Cons.prems(1) by simp
  note L = lastSlot_ok [OF n i Cons.prems(2,3)]
  have "(word_of_int ?l :: Slot) \<noteq> - 1"
    using L(1,2) Cons.prems(3) by (intro not_max_slot_int) (simp_all add: first_ok_def)
  then have b: "BuildSlotSlice (word_of_int a) (word_of_int ?l) = Ret (slots_between (word_of_int a) (word_of_int ?l))"
    by (simp add: BuildSlotSlice_eq)
  let ?h = "h(r := (h r)\<lparr>NSlots := slots_between (word_of_int a) (word_of_int ?l)\<rparr>)"
  obtain s1 where s1: "Admin_AddSlots env (IPPort (?h r)) (slots_between (word_of_int a) (word_of_int ?l)) s = Ret (None, s1)"
    using AddSlots_accepts [OF acc] by blast
  obtain d where d: "f_add (Fin c) (Fin (fl (quota n))) = Fin d" "cursor_ok n (Suc i) d"
    using cursor_step [OF n i Cons.prems(2)] by blast
  obtain h' s' where "allocLoop env 16384 (Fin (fl (quota n))) n ns (Suc i) (?l + 1) (Fin d) ?h s1 = Ret ((None, h'), s')"
    using Cons.IH [OF _ d(2) L(3), of ?h s1] Cons.prems(1) by fastforce
  then show ?case using s1 by (simp add: b d(1) Let_def del: f_add.simps)
qed simp

lemma AllocSlots_accepts:
  assumes "accepts env" "news \<noteq> []" "length news \<le> 16384"
  shows "\<exists>h' s'. AllocSlots env news h s = Ret ((None, h'), s')"
proof -
  have n: "0 < length news" "length news \<le> 16384" using assms by simp_all
  have N: "uint (GetHashMaxSlot + 1) = 16384" by (simp add: GetHashMaxSlot_def DefaultHashMaxSlots_def)
  show ?thesis
    using allocLoop_accepts [OF n assms(1), of 0 news 0 0 h s] slotsPerNode_eq(1) [OF n]
    by (simp add: AllocSlots_def N Let_def cursor_ok_def first_ok_def)
qed

end
