(* ===== verification/Heal_Facts.thy ===== *)
theory Heal_Facts
  imports Heal
begin

text \<open>
  What healing decides and when it acts: which nodes are ghosts, which views count as
  separate clusters, which cluster survives a split, and that a dry run sends nothing to
  Redis.
\<close>

section \<open>Views of a cluster\<close>

definition views :: "ClusterInfos \<Rightarrow> NodeInfos set" where
  "views infos = {ni. \<exists>addr. mget (Infos infos) addr = Some ni}"

lemma set_ranged:
  assumes "is_order ord"
  shows "set (List.map_filter (mget m) (ord (mkeys m))) = {v. \<exists>k. mget m k = Some v}"
  using is_orderD(2) [OF assms] by (auto simp: set_map_filter_iff set_mkeys)

lemma set_views: "is_order ord \<Longrightarrow> set (List.map_filter (mget (Infos c)) (ord (mkeys (Infos c)))) = views c"
  by (simp add: set_ranged views_def)

section \<open>Ghost nodes\<close>

definition is_ghost :: "DistributedRedisCluster \<Rightarrow> Node \<Rightarrow> bool" where
  "is_ghost cluster node \<longleftrightarrow>
     NodeStatusNoAddr \<in> set (FailStatus node) \<or>
     ((NodeStatusFail \<in> set (FailStatus node) \<or> NodeStatusPFail \<in> set (FailStatus node)) \<and>
      (\<forall>pod\<in>set (DNodes (Status cluster)). RnID pod \<noteq> ID node))"

lemma ghostStep_keys:
  "set (mkeys (ghostStep cluster node g)) = set (mkeys g) \<union> (if is_ghost cluster node then {ID node} else {})"
  by (auto simp: ghostStep_def is_ghost_def Let_def list_ex_iff set_mkeys gomap_simps)

lemma ghostFold_keys:
  "set (mkeys (fold (ghostStep cluster) ns g)) = set (mkeys g) \<union> {ID n |n. n \<in> set ns \<and> is_ghost cluster n}"
  by (induction ns arbitrary: g) (auto simp: ghostStep_keys split: if_splits)

lemma ghostViews_keys:
  "set (mkeys (fold (\<lambda>ni. fold (ghostStep cluster) (Friends ni)) nis g)) =
     set (mkeys g) \<union> {ID n |n ni. ni \<in> set nis \<and> n \<in> set (Friends ni) \<and> is_ghost cluster n}"
  by (induction nis arbitrary: g) (auto simp: ghostFold_keys)

lemma listGhostNodes_keys:
  assumes "is_order ord"
  shows "set (mkeys (listGhostNodes ord cluster infos)) =
    {ID n |n ni. ni \<in> views infos \<and> n \<in> set (Friends ni) \<and> is_ghost cluster n}"
  unfolding listGhostNodes_def ghostViews_keys set_views [OF assms] by (simp add: mkeys_def)

section \<open>Separate clusters\<close>

lemma findInCluster_iff [simp]: "findInCluster a cs \<longleftrightarrow> a \<in> \<Union> (set ` set cs)"
  by (auto simp: findInCluster_def list_ex_iff)

definition separate :: "cluster_addrs list \<Rightarrow> bool" where
  "separate cs \<longleftrightarrow> (\<forall>i<length cs. \<forall>j<length cs. i \<noteq> j \<longrightarrow> set (cs ! i) \<inter> set (cs ! j) = {})"

lemma clusterStep_eq:
  "clusterStep ni cs = (if set (viewAddrs ni) \<inter> \<Union> (set ` set cs) = {} then cs @ [viewAddrs ni] else cs)"
  by (auto simp: clusterStep_def Let_def list_ex_iff)

lemma separate_snoc:
  assumes "separate cs" "set c \<inter> \<Union> (set ` set cs) = {}"
  shows "separate (cs @ [c])"
  unfolding separate_def
proof (intro allI impI)
  fix i j assume ij: "i < length (cs @ [c])" "j < length (cs @ [c])" "i \<noteq> j"
  have out: "set (cs ! k) \<inter> set c = {}" if "k < length cs" for k using assms(2) that by (fastforce dest: nth_mem)
  show "set ((cs @ [c]) ! i) \<inter> set ((cs @ [c]) ! j) = {}"
    using ij assms(1) out [of i] out [of j] by (auto simp: nth_append separate_def less_Suc_eq)
qed

lemma clusterFold:
  assumes "separate cs"
  shows "separate (fold clusterStep nis cs)" and "set cs \<subseteq> set (fold clusterStep nis cs)"
    and "set (fold clusterStep nis cs) \<subseteq> set cs \<union> viewAddrs ` set nis"
    and "ni \<in> set nis \<Longrightarrow> viewAddrs ni \<in> set (fold clusterStep nis cs) \<or>
      set (viewAddrs ni) \<inter> \<Union> (set ` set (fold clusterStep nis cs)) \<noteq> {}"
proof -
  have "separate (fold clusterStep nis cs) \<and> set cs \<subseteq> set (fold clusterStep nis cs) \<and>
    set (fold clusterStep nis cs) \<subseteq> set cs \<union> viewAddrs ` set nis \<and>
    (\<forall>ni\<in>set nis. viewAddrs ni \<in> set (fold clusterStep nis cs) \<or>
      set (viewAddrs ni) \<inter> \<Union> (set ` set (fold clusterStep nis cs)) \<noteq> {})"
    using assms
  proof (induction nis arbitrary: cs)
    case (Cons n nis)
    have s: "separate (clusterStep n cs)" using Cons.prems separate_snoc by (simp add: clusterStep_eq)
    have sub: "set cs \<subseteq> set (clusterStep n cs)" "set (clusterStep n cs) \<subseteq> set cs \<union> {viewAddrs n}"
      "viewAddrs n \<in> set (clusterStep n cs) \<or> set (viewAddrs n) \<inter> \<Union> (set ` set (clusterStep n cs)) \<noteq> {}"
      by (auto simp: clusterStep_eq)
    show ?case using Cons.IH [OF s] sub by simp blast
  qed simp
  then show "separate (fold clusterStep nis cs)" and "set cs \<subseteq> set (fold clusterStep nis cs)"
    and "set (fold clusterStep nis cs) \<subseteq> set cs \<union> viewAddrs ` set nis"
    and "ni \<in> set nis \<Longrightarrow> viewAddrs ni \<in> set (fold clusterStep nis cs) \<or>
      set (viewAddrs ni) \<inter> \<Union> (set ` set (fold clusterStep nis cs)) \<noteq> {}" by blast+
qed

lemma buildClustersLists_spec:
  assumes "is_order ord"
  shows "separate (buildClustersLists ord infos)"
    and "set (buildClustersLists ord infos) \<subseteq> viewAddrs ` views infos"
    and "ni \<in> views infos \<Longrightarrow> viewAddrs ni \<in> set (buildClustersLists ord infos) \<or>
      set (viewAddrs ni) \<inter> \<Union> (set ` set (buildClustersLists ord infos)) \<noteq> {}"
proof -
  have s: "separate []" by (simp add: separate_def)
  note F = clusterFold [OF s, where nis = "List.map_filter (mget (Infos infos)) (ord (mkeys (Infos infos)))", folded buildClustersLists_def]
  show "separate (buildClustersLists ord infos)" by (rule F(1))
  show "set (buildClustersLists ord infos) \<subseteq> viewAddrs ` views infos"
    using F(3) by (simp add: set_views [OF assms])
  show "ni \<in> views infos \<Longrightarrow> viewAddrs ni \<in> set (buildClustersLists ord infos) \<or>
      set (viewAddrs ni) \<inter> \<Union> (set ` set (buildClustersLists ord infos)) \<noteq> {}"
    by (rule F(4)) (simp add: set_views [OF assms])
qed

text \<open>Views that pairwise share a live node are one cluster.\<close>

lemma separate_overlap:
  assumes s: "separate cs" and o: "\<And>c d. c \<in> set cs \<Longrightarrow> d \<in> set cs \<Longrightarrow> set c \<inter> set d \<noteq> {}"
  shows "length cs \<le> 1"
proof (rule ccontr)
  assume "\<not> length cs \<le> 1"
  then have "0 < length cs" "1 < length cs" by auto
  then show False using s o [of "cs ! 0" "cs ! 1"] unfolding separate_def by (metis nth_mem zero_neq_one)
qed

section \<open>The surviving cluster\<close>

lemma mainLoop_spec:
  "mainLoop i cs m mx =
     (if \<exists>c\<in>set cs. mx < length c
      then Some (i + (LEAST k. k < length cs \<and> (\<forall>c\<in>set cs. length c \<le> length (cs ! k)))) else m)"
proof (induction cs arbitrary: i m mx)
  case (Cons c cs)
  let ?P = "\<lambda>cs k. k < length cs \<and> (\<forall>c\<in>set cs. length c \<le> length (cs ! k))"
  have shift: "(LEAST k. ?P (c # cs) k) = Suc (LEAST k. ?P cs k)" if "\<exists>d\<in>set cs. length c < length d"
  proof -
    let ?M = "Max (length ` set cs)"
    have fin: "finite (length ` set cs)" "length ` set cs \<noteq> {}" using that by auto
    then have "?M \<in> length ` set cs" by (rule Max_in)
    then obtain d where d: "d \<in> set cs" "length d = ?M" by (metis imageE)
    have "\<forall>e\<in>set cs. length e \<le> length d" using d(2) fin(1) by simp
    with d(1) obtain k where k: "?P cs k" by (metis in_set_conv_nth)
    have "length c < length (cs ! k)" using that k by fastforce
    then have "?P (c # cs) (Suc k)" using k by auto
    moreover have "\<not> ?P (c # cs) 0" using that by (auto simp: not_le)
    ultimately have "(LEAST k. ?P (c # cs) k) = Suc (LEAST k. ?P (c # cs) (Suc k))" by (rule Least_Suc)
    also have "(\<lambda>k. ?P (c # cs) (Suc k)) = ?P cs"
    proof (rule ext)
      fix k show "?P (c # cs) (Suc k) = ?P cs k" using that by fastforce
    qed
    finally show ?thesis .
  qed
  have first: "(LEAST k. ?P (c # cs) k) = 0" if "\<forall>d\<in>set cs. length d \<le> length c"
    using that by (intro Least_equality) auto
  show ?case
  proof (cases "\<exists>d\<in>set cs. max mx (length c) < length d")
    case True
    then have "\<exists>d\<in>set cs. length c < length d" by auto
    then show ?thesis using True shift Cons.IH by auto
  next
    case False
    then show ?thesis using first Cons.IH by (auto simp: not_less)
  qed
qed simp

lemma splitMainCluster_spec:
  assumes "\<exists>c\<in>set clusters. c \<noteq> []"
  defines "k \<equiv> LEAST k. k < length clusters \<and> (\<forall>c\<in>set clusters. length c \<le> length (clusters ! k))"
  shows "splitMainCluster clusters = (clusters ! k, take k clusters @ drop (Suc k) clusters)"
    and "k < length clusters" and "\<forall>c\<in>set clusters. length c \<le> length (clusters ! k)"
proof -
  have ex: "\<exists>c\<in>set clusters. 0 < length c" and ne: "clusters \<noteq> []" using assms(1) by auto
  then show "splitMainCluster clusters = (clusters ! k, take k clusters @ drop (Suc k) clusters)"
    by (simp add: splitMainCluster_def mainLoop_spec k_def)
  let ?M = "Max (length ` set clusters)"
  have "?M \<in> length ` set clusters" using ne by (intro Max_in) simp_all
  then obtain d where d: "d \<in> set clusters" "length d = ?M" by (metis imageE)
  have "\<forall>e\<in>set clusters. length e \<le> length d" unfolding d(2) by simp
  with d(1) have "\<exists>j. j < length clusters \<and> (\<forall>c\<in>set clusters. length c \<le> length (clusters ! j))"
    by (metis in_set_conv_nth)
  then have "k < length clusters \<and> (\<forall>c\<in>set clusters. length c \<le> length (clusters ! k))"
    unfolding k_def by (rule LeastI_ex)
  then show "k < length clusters" and "\<forall>c\<in>set clusters. length c \<le> length (clusters ! k)" by blast+
qed

section \<open>Dry runs\<close>

lemma forgetAll_dry:
  "DryRun c \<Longrightarrow> forgetAll env c ids d errs s = Ret ((d \<or> ids \<noteq> [], errs), s)"
  by (induction ids arbitrary: d) auto

lemma FixFailedNodes_dry:
  assumes "DryRun c" "is_order (rangeOrd env (trace s) ''listGhostNodes'')" "is_order (rangeOrd env (trace s) ''FixFailedNodes'')"
  shows "FixFailedNodes env c cluster infos s =
    Ret ((\<exists>ni\<in>views infos. \<exists>n\<in>set (Friends ni). is_ghost cluster n, None), s)"
proof -
  let ?g = "listGhostNodes (rangeOrd env (trace s) ''listGhostNodes'') cluster infos"
  have "rangeOrd env (trace s) ''FixFailedNodes'' (mkeys ?g) \<noteq> [] \<longleftrightarrow> set (mkeys ?g) \<noteq> {}"
    using is_orderD(2) [OF assms(3), of "mkeys ?g"] by (metis set_empty)
  also have "\<dots> \<longleftrightarrow> (\<exists>ni\<in>views infos. \<exists>n\<in>set (Friends ni). is_ghost cluster n)"
    unfolding listGhostNodes_keys [OF assms(2)] by blast
  finally show ?thesis by (simp add: FixFailedNodes_def forgetAll_dry [OF assms(1)] NewAggregate_def)
qed

section \<open>Untrusted nodes\<close>

text \<open>
  \<open>CLUSTER NODES\<close> has no pod names, so a decoded friend has none, and removing an untrusted
  node never deletes a pod.
\<close>

lemma PodName_steps [simp]:
  "PodName (roleStep v n) = PodName n" "PodName (failStep v n) = PodName n"
  "PodName (decodeAddr addr v n) = PodName n" "PodName (SetReferentMaster v n) = PodName n"
  "PodName (snd (SetLinkStatus v n)) = PodName n" "PodName (NewDefaultNode) = []"
  by (simp_all add: roleStep_def failStep_def decodeAddr_def SetReferentMaster_def SetLinkStatus_def
      NewDefaultNode_def Let_def split: sum.splits)

lemma PodName_folds [simp]:
  "PodName (fold roleStep vs n) = PodName n" "PodName (fold failStep vs n) = PodName n"
  by (induction vs arbitrary: n) auto

lemma slotField_PodName: "slotField sl m = Ret m' \<Longrightarrow> PodName m' = PodName m"
proof -
  assume a: "slotField sl m = Ret m'"
  then obtain r where r: "DecodeSlotRange sl = Ret r" by (auto simp: slotField_def gbind_Ret_iff)
  show ?thesis
  proof (cases r)
    case (Inr q)
    obtain xs i g where q: "q = (xs, i, g)" by (metis surj_pair)
    show ?thesis using a r Inr q by (cases i; cases g) (auto simp: slotField_def)
  qed (use a r in \<open>simp add: slotField_def\<close>)
qed

lemma decodeNode_PodName:
  assumes "decodeNode addr values = Ret n"
  shows "PodName n = []"
proof -
  obtain k where k: "gfold slotField (drop 8 values) k = Ret n" "PodName k = []"
    by (rule that [OF assms [unfolded decodeNode_def Let_def]])
      (simp add: SetFailureStatus_def SetRole_def Let_def split: sum.split)
  have "PodName n = PodName k"
    by (rule gfold_invariant [OF k(1), where I = "\<lambda>x. PodName x = PodName k"]) (auto dest: slotField_PodName)
  then show ?thesis using k(2) by simp
qed

lemma decodeLine_PodName:
  assumes "decodeLine grow addr line ni = Ret ni'" "\<forall>n\<in>set (Friends ni). PodName n = []"
  shows "\<forall>n\<in>set (Friends ni'). PodName n = []"
  using assms
  by (auto simp: decodeLine_def Let_def gbind_Ret_iff appendFriend_def decodeNode_PodName split: if_splits)

lemma DecodeNodeInfos_PodName:
  assumes "DecodeNodeInfos grow input addr = Ret ni"
  shows "\<forall>n\<in>set (Friends ni). PodName n = []"
  by (rule gfold_invariant [OF assms [unfolded DecodeNodeInfos_def], where I = "\<lambda>ni. \<forall>n\<in>set (Friends ni). PodName n = []"])
    (auto simp: NewNodeInfos_def dest: decodeLine_PodName)

lemma deleteStalePod_unnamed: "PodName u = [] \<Longrightarrow> deleteStalePod kb c cluster u errs s = (errs, s)"
  by (simp add: deleteStalePod_def checkIfPodNameExistAndIsReused_def)

lemma untrustedFold:
  assumes "\<forall>i u. mget g i = Some u \<longrightarrow> P u" "\<forall>n\<in>set ns. P n"
  shows "mget (fold untrustedStep ns g) i = Some u \<Longrightarrow> P u"
  using assms
proof (induction ns arbitrary: g)
  case (Cons n ns)
  have "\<forall>i u. mget (untrustedStep n g) i = Some u \<longrightarrow> P u"
    using Cons.prems by (auto simp: untrustedStep_def gomap_simps split: option.splits if_splits)
  then show ?case using Cons by simp
qed simp

lemma listUntrustedNodes_all:
  assumes ord: "is_order ord" and P: "\<forall>ni\<in>views infos. \<forall>n\<in>set (Friends ni). P n"
    and u: "mget (listUntrustedNodes ord infos) i = Some u"
  shows "P u"
proof -
  have "mget (fold (\<lambda>ni. fold untrustedStep (Friends ni)) nis g) i = Some u \<Longrightarrow>
      \<forall>ni\<in>set nis. \<forall>n\<in>set (Friends ni). P n \<Longrightarrow> \<forall>i u. mget g i = Some u \<longrightarrow> P u \<Longrightarrow> P u" for nis g
  proof (induction nis arbitrary: g)
    case (Cons ni nis)
    have "\<forall>i u. mget (fold untrustedStep (Friends ni) g) i = Some u \<longrightarrow> P u"
      using untrustedFold [of g P "Friends ni"] Cons.prems by auto
    then show ?case using Cons by simp
  qed simp
  from this [OF u [unfolded listUntrustedNodes_def]] show ?thesis
    unfolding set_views [OF ord] using P by (simp add: mget_def)
qed

lemma untrustedLoop_unnamed:
  assumes "\<forall>i u. mget m i = Some u \<longrightarrow> PodName u = []"
  shows "untrustedLoop env kb c cluster infos m ids d errs s =
    untrustedLoop env kb' (c\<lparr>Pods := ps\<rparr>) cluster infos m ids d errs s"
proof (induction ids arbitrary: d errs s)
  case (Cons i ids)
  have "untrustedNode env kb c cluster infos i u d errs s =
      untrustedNode env kb' (c\<lparr>Pods := ps\<rparr>) cluster infos i u d errs s" if "PodName u = []" for u
    using that by (simp add: untrustedNode_def deleteStalePod_unnamed split: prod.split)
  moreover have "untrustedLoop env kb c cluster infos m ids = untrustedLoop env kb' (c\<lparr>Pods := ps\<rparr>) cluster infos m ids"
    using Cons.IH by (simp add: fun_eq_iff)
  ultimately show ?case using assms by (auto split: option.split)
qed simp

section \<open>Terminating pods\<close>

text \<open>A pod whose deletion was asked for longer ago than the limit.\<close>

definition expired :: "int \<Rightarrow> int \<Rightarrow> Pod \<Rightarrow> bool" where
  "expired maxDuration now pod \<longleftrightarrow> (case DeletionTimestamp pod of None \<Rightarrow> False | Some t \<Rightarrow> t + maxDuration < now)"

text \<open>A server that knows every pod it is asked for and accepts every request.\<close>

definition deletes_pods :: "kube \<Rightarrow> string \<Rightarrow> bool" where
  "deletes_pods kb ns \<longleftrightarrow> (\<forall>tr n. \<exists>p. getPod kb tr ns n = Inr p \<and> PoNamespace p = ns \<and> PoName p = n) \<and>
     (\<forall>tr q. apiError kb tr q = None)"

definition deletion :: "string \<Rightarrow> Pod \<Rightarrow> kube_req list" where
  "deletion ns pod = [KGet ''Pod'' ns (PoName pod), KDelete ''Pod'' ns (PoName pod)]"

lemma DeletePodByName_accepted:
  assumes "deletes_pods kb ns"
  shows "DeletePodByName kb ns n s = (None, s\<lparr>trace := trace s @ [EKube (KGet ''Pod'' ns n), EKube (KDelete ''Pod'' ns n)]\<rparr>)"
proof -
  obtain p where "getPod kb (trace s) ns n = Inr p" "PoNamespace p = ns" "PoName p = n"
    using assms unfolding deletes_pods_def by blast
  then show ?thesis using assms by (simp add: DeletePodByName_def GetPod_def request_def emit_def deletes_pods_def)
qed

lemma terminatingFold:
  assumes "deletes_pods kb (DrcNamespace drc)" "\<not> DryRun c"
  shows "fold (terminatingStep kb c drc d now) pods ((a, []), s) =
    ((a \<or> (\<exists>pod\<in>set pods. expired d now pod), []),
     s\<lparr>trace := trace s @ map EKube (concat (map (deletion (DrcNamespace drc)) (filter (expired d now) pods)))\<rparr>)"
proof (induction pods arbitrary: a s)
  case (Cons pod pods)
  have "terminatingStep kb c drc d now pod ((a, []), s) =
    (if expired d now pod then ((True, []), s\<lparr>trace := trace s @ map EKube (deletion (DrcNamespace drc) pod)\<rparr>) else ((a, []), s))"
    using assms by (simp add: terminatingStep_def expired_def deletion_def DeletePodByName_accepted split: option.split)
  then show ?case by (auto simp: Cons.IH)
qed simp

lemma FixTerminatingPods_exact:
  assumes "deletes_pods kb (DrcNamespace drc)" "\<not> DryRun c" "d \<noteq> 0"
  shows "FixTerminatingPods kb c drc d s =
    ((\<exists>pod\<in>set (Pods c). expired d (timeNow kb (trace s)) pod, None),
     s\<lparr>trace := trace s @ map EKube (concat (map (deletion (DrcNamespace drc)) (filter (expired d (timeNow kb (trace s))) (Pods c))))\<rparr>)"
  using assms terminatingFold [OF assms(1,2)] by (simp add: FixTerminatingPods_def NewAggregate_def)

end
