(* ===== verification/Sync_Facts.thy ===== *)
theory Sync_Facts
  imports Sync Heal_Facts
begin

text \<open>
  What the reported status says of the pods and nodes it was built from, when two statuses
  count as equal, and that scaling down deletes nothing of a stateful set with a node that
  still has slots.
\<close>

section \<open>buildClusterStatus\<close>

text \<open>The node of a pod: the one node with the pod's address, if exactly one has it.\<close>

definition nodes_of :: "ClusterInfos \<Rightarrow> Pod \<Rightarrow> Node list" where
  "nodes_of infos pod = filter (\<lambda>n. IP n = PodIP pod) (GetNodes (\<lambda>ks. ks) infos)"

definition node_of :: "ClusterInfos \<Rightarrow> Pod \<Rightarrow> Node option" where
  "node_of infos pod = (case nodes_of infos pod of [n] \<Rightarrow> Some n | _ \<Rightarrow> None)"

lemma mset_map_filter_cong: "mset xs = mset ys \<Longrightarrow> mset (List.map_filter f xs) = mset (List.map_filter f ys)"
  by (simp add: map_filter_def)

lemma mset_GetNodes:
  assumes "is_order ord"
  shows "mset (GetNodes ord infos) = mset (GetNodes (\<lambda>ks. ks) infos)"
  unfolding GetNodes_def by (rule mset_map_filter_cong) (rule is_orderD(1) [OF assms])

lemma podStep_eq:
  assumes "is_order (ords i)"
  shows "podStep ords infos (i, pod) (ns, k, nb) =
    (case nodes_of infos pod of
       [] \<Rightarrow> (ns, k, nb)
     | [n] \<Rightarrow> (ns @ [redisNodeStatus n (podNode pod)], if IsMasterWithSlot n then k + 1 else k, countMaster n nb)
     | _ \<Rightarrow> (ns @ [podNode pod], k, nb))"
proof -
  let ?F = "filter (\<lambda>n. IP n = PodIP pod) (GetNodes (ords i) infos)"
  have m: "mset ?F = mset (nodes_of infos pod)" using mset_GetNodes [OF assms, of infos] by (simp add: nodes_of_def)
  then have l: "length ?F = length (nodes_of infos pod)" by (rule mset_eq_length)
  show ?thesis
  proof (cases "nodes_of infos pod")
    case Nil
    then show ?thesis using l by (simp add: podStep_def GetNodesByFunc_def)
  next
    case (Cons n rest)
    show ?thesis
    proof (cases rest)
      case Nil
      then have "mset ?F = {#n#}" using m Cons by simp
      then have "?F = [n]" by (metis mset_single_iff_right)
      then show ?thesis using Cons Nil by (simp add: podStep_def GetNodesByFunc_def Let_def)
    next
      case (Cons n2 rest2)
      then have two: "length ?F \<noteq> 0" "length ?F \<noteq> 1" using l \<open>nodes_of infos pod = n # rest\<close> by simp_all
      then show ?thesis using Cons \<open>nodes_of infos pod = n # rest\<close>
        by (simp add: podStep_def GetNodesByFunc_def Let_def del: length_0_conv)
    qed
  qed
qed

definition status_node :: "ClusterInfos \<Rightarrow> Pod \<Rightarrow> RedisClusterNode option" where
  "status_node infos pod =
     (case nodes_of infos pod of [] \<Rightarrow> None | [n] \<Rightarrow> Some (redisNodeStatus n (podNode pod)) | _ \<Rightarrow> Some (podNode pod))"

definition is_master_pod :: "ClusterInfos \<Rightarrow> Pod \<Rightarrow> bool" where
  "is_master_pod infos pod \<longleftrightarrow> (\<exists>n. node_of infos pod = Some n \<and> IsMasterWithSlot n)"

lemma map_filter_split: "List.map_filter f (x # xs) = List.map_filter f [x] @ List.map_filter f xs"
  by (simp add: map_filter_def)

lemma podFold:
  assumes "\<And>i. is_order (ords i)"
  shows "fold (podStep ords infos) (zip [a..<a + length pods] pods) (ns, k, nb) =
    (ns @ List.map_filter (status_node infos) pods, k + int (length (filter (is_master_pod infos) pods)),
     fold countMaster (List.map_filter (node_of infos) pods) nb)"
proof (induction pods arbitrary: a ns k nb)
  case (Cons pod pods)
  have z: "zip [a..<a + length (pod # pods)] (pod # pods) = (a, pod) # zip [Suc a..<Suc a + length pods] pods"
    using upt_conv_Cons [of a "a + length (pod # pods)"] by (simp del: upt_Suc)
  have step: "podStep ords infos (a, pod) (ns, k, nb) =
    (ns @ List.map_filter (status_node infos) [pod], k + int (length (filter (is_master_pod infos) [pod])),
     fold countMaster (List.map_filter (node_of infos) [pod]) nb)"
    unfolding podStep_eq [of ords, OF assms]
    by (auto simp: status_node_def is_master_pod_def node_of_def map_filter_def split: list.splits)
  show ?case
    unfolding z fold_Cons comp_apply step Cons.IH map_filter_split [of _ pod pods] by simp
qed (simp add: map_filter_def)

lemma buildClusterStatus_nodes:
  assumes "\<And>i. is_order (ords i)"
  shows "DNodes (buildClusterStatus ords ord2 infos pods drc) = List.map_filter (status_node infos) pods"
    and "NumberOfMaster (buildClusterStatus ords ord2 infos pods drc) = int (length (filter (is_master_pod infos) pods))"
  using podFold [of ords infos 0 pods "[]" 0 "[]", OF assms]
  by (simp_all add: buildClusterStatus_def Let_def case_prod_unfold)

section \<open>compareStatus\<close>

lemma ClusterStatus_text_inj: "ClusterStatus_text a = ClusterStatus_text b \<longleftrightarrow> a = b"
  by (cases a; cases b) simp_all

lemma RestorePhase_text_inj: "RestorePhase_text a = RestorePhase_text b \<longleftrightarrow> a = b"
  by (cases a; cases b) simp_all

lemma RedisRole_text_inj: "RedisRole_text a = RedisRole_text b \<longleftrightarrow> a = b"
  by (cases a; cases b) simp_all

definition same_node :: "RedisClusterNode \<Rightarrow> RedisClusterNode \<Rightarrow> bool" where
  "same_node a b \<longleftrightarrow> RnIP a = RnIP b \<and> RnMasterRef a = RnMasterRef b \<and> RnPodName a = RnPodName b \<and>
     RnPort a = RnPort b \<and> RnRole a = RnRole b \<and> RnSlots a = RnSlots b"

lemma compareNodes_iff: "compareNodes a b \<longleftrightarrow> \<not> same_node a b"
  by (auto simp: compareNodes_def same_node_def CompareStringValue_def RedisRole_text_inj)

lemma compareNodeLoop_iff:
  "compareNodeLoop old new \<longleftrightarrow>
     \<not> (\<forall>a\<in>set old. (\<exists>b\<in>set new. RnID b = RnID a) \<and> (\<forall>b\<in>set new. RnID b = RnID a \<longrightarrow> same_node a b))"
  by (induction old) (auto simp: Let_def list_ex_iff compareNodes_iff filter_empty_conv)

lemma compareStatus_iff:
  "\<not> compareStatus old new \<longleftrightarrow>
     DStatus old = DStatus new \<and> DReason old = DReason new \<and> NumberOfMaster old = NumberOfMaster new \<and>
     length (DNodes old) = length (DNodes new) \<and> RePhase (DRestore old) = RePhase (DRestore new) \<and>
     (\<forall>a\<in>set (DNodes old). (\<exists>b\<in>set (DNodes new). RnID b = RnID a) \<and>
        (\<forall>b\<in>set (DNodes new). RnID b = RnID a \<longrightarrow> same_node a b))"
  by (auto simp: compareStatus_def CompareStringValue_def CompareInt32_def ClusterStatus_text_inj
      RestorePhase_text_inj compareNodeLoop_iff)

text \<open>
  The status of the next round, built from the same infos and pods in other map orders, is
  written again exactly when two nodes of it have one identifier and differ.
\<close>

definition ids_agree :: "RedisClusterNode list \<Rightarrow> bool" where
  "ids_agree ns \<longleftrightarrow> (\<forall>a\<in>set ns. \<forall>b\<in>set ns. RnID a = RnID b \<longrightarrow> same_node a b)"

lemma buildClusterStatus_again:
  assumes "\<And>i. is_order (ords i)" "\<And>i. is_order (ords' i)"
    and "st = SetClusterOK reason (buildClusterStatus ords ord2 infos pods drc)"
    and "st' = SetClusterOK reason (buildClusterStatus ords' ord2' infos pods (drc\<lparr>Status := st\<rparr>))"
  shows "compareStatus st st' \<longleftrightarrow> \<not> ids_agree (List.map_filter (status_node infos) pods)"
proof -
  let ?ns = "List.map_filter (status_node infos) pods"
  have n: "DNodes st = ?ns" "DNodes st' = ?ns" "NumberOfMaster st = NumberOfMaster st'"
    using buildClusterStatus_nodes [of ords, OF assms(1)] buildClusterStatus_nodes [of ords', OF assms(2)]
    by (simp_all add: assms(3,4) SetClusterOK_def)
  have "DStatus st = DStatus st'" "DReason st = DReason st'" "DRestore st = DRestore st'"
    by (simp_all add: assms(3,4) SetClusterOK_def buildClusterStatus_def Let_def case_prod_unfold)
  then have "\<not> compareStatus st st' \<longleftrightarrow>
      (\<forall>a\<in>set ?ns. (\<exists>b\<in>set ?ns. RnID b = RnID a) \<and> (\<forall>b\<in>set ?ns. RnID b = RnID a \<longrightarrow> same_node a b))"
    unfolding compareStatus_iff n by simp
  then show ?thesis unfolding ids_agree_def by metis
qed

section \<open>Scaling down\<close>

lemma forgetNodes_empty:
  "forgetNodes fmtTime env h ns s = Ret (None, s') \<Longrightarrow> \<forall>r\<in>set ns. NSlots (h r) = []"
proof (induction ns arbitrary: s)
  case (Cons r ns)
  then show ?case by (fastforce simp: gbind_Ret_iff split: if_splits option.splits)
qed simp

lemma scaleDownLoop_empty:
  "scaleDownLoop fmtTime env kb drc h m is s = Ret (None, s') \<Longrightarrow>
   \<forall>i\<in>set is. \<forall>r\<in>set (mgetd [] m (ClusterStatefulSetName (DrcName drc) i)). NSlots (h r) = []"
proof (induction "is" arbitrary: s)
  case (Cons i "is")
  obtain s1 sts s2 where 1: "GetStatefulSet kb (DrcNamespace drc) (ClusterStatefulSetName (DrcName drc) i) s = (Inr sts, s1)"
    "forgetNodes fmtTime env h (mgetd [] m (ClusterStatefulSetName (DrcName drc) i)) s1 = Ret (None, s2)"
    "scaleDownLoop fmtTime env kb drc h m is (deleteSts kb drc i (ClusterStatefulSetName (DrcName drc) i) sts s2) = Ret (None, s')"
    using Cons.prems by (auto simp: Let_def gbind_Ret_iff split: prod.splits sum.splits option.splits)
  show ?case using forgetNodes_empty [OF 1(2)] Cons.IH [OF 1(3)] by simp
qed simp

text \<open>A stateful set with a node that has slots stops the loop before anything of it is deleted.\<close>

lemma forgetNodes_refuses:
  assumes "forgetNodes fmtTime env h ns s = Ret (e, s')" "r \<in> set ns" "NSlots (h r) \<noteq> []"
  shows "e \<noteq> None"
  using forgetNodes_empty [of fmtTime env h ns s s'] assms by (cases e) auto

lemma scalingDown_empty:
  assumes "scalingDown fmtTime env kb drc n h m s = Ret ((None, drc'), s')"
    and "i \<in> {nat (MasterSize (Spec drc))..<nat n}" "r \<in> set (mgetd [] m (ClusterStatefulSetName (DrcName drc) i))"
  shows "NSlots (h r) = []"
proof -
  obtain t where "scaleDownLoop fmtTime env kb (drc\<lparr>Status := Status drc'\<rparr>) h m (leaving (MasterSize (Spec drc)) n) t = Ret (None, s')"
    using assms(1) by (auto simp: scalingDown_def Let_def gbind_Ret_iff)
  from scaleDownLoop_empty [OF this] show ?thesis using assms(2,3) by (simp add: leaving_def)
qed

end
