(* ===== verification/Placement_Facts.thy ===== *)
theory Placement_Facts
  imports Placement
begin

text \<open>
  Placing masters and slaves by stateful set: which node becomes the master of a stateful
  set, that every other node of it is attached to that master, and that a stateful set
  without a master makes \<open>PlaceSlaves\<close> panic.
\<close>

section \<open>Masters\<close>

definition sts_master :: "heap \<Rightarrow> Ctx \<Rightarrow> string \<Rightarrow> ref \<Rightarrow> bool" where
  "sts_master h c sts m \<longleftrightarrow>
     (\<exists>ns. mget (nodes c) sts = Some ns \<and> m \<in> set ns \<and>
        filter (\<lambda>n. IsMasterWithSlot (h n)) ns \<in> {[], [m]})"

lemma Ctx_PlaceMasters_spec:
  assumes "Ctx_PlaceMasters ord h sts c = Ret (m, c')"
  shows "m \<in> set (mgetd [] (nodes c) sts)" and "c' = c \<or> c' = c\<lparr>bestEffort := True\<rparr>"
  using assms
  by (auto simp: Ctx_PlaceMasters_def Let_def find_Some_iff split: option.splits list.splits)

lemma dispatchLoop_step:
  assumes "dispatchLoop ords h (i # is) c = Ret (None, c')"
  shows "\<exists>m c1. sts_master h c (ClusterStatefulSetName (clusterName c) i) m \<and> (c1 = c \<or> c1 = c\<lparr>bestEffort := True\<rparr>) \<and>
    dispatchLoop ords h is (c1\<lparr>newMastersBySts :=
      mput (ClusterStatefulSetName (clusterName c) i) m (newMastersBySts c)\<rparr>) = Ret (None, c')"
proof -
  let ?sts = "ClusterStatefulSetName (clusterName c) i"
  obtain ns where ns: "mget (nodes c) ?sts = Some ns" using assms by (auto simp: Let_def split: option.splits)
  let ?F = "filter (\<lambda>n. IsMasterWithSlot (h n)) ns"
  have "length ?F = 0 \<or> length ?F = 1"
    using assms ns by (auto simp: Let_def FilterByFunc_def split: if_splits)
  then show ?thesis
  proof
    assume "length ?F = 0"
    then have F: "?F = []" by simp
    then obtain m c1 where 1: "Ctx_PlaceMasters (ords i) h ?sts c = Ret (m, c1)"
      "dispatchLoop ords h is (c1\<lparr>newMastersBySts := mput ?sts m (newMastersBySts c1)\<rparr>) = Ret (None, c')"
      using assms ns by (auto simp: Let_def FilterByFunc_def gbind_Ret_iff)
    have "m \<in> set ns" using Ctx_PlaceMasters_spec(1) [OF 1(1)] ns by (simp add: mgetd_def)
    moreover have "newMastersBySts c1 = newMastersBySts c" using Ctx_PlaceMasters_spec(2) [OF 1(1)] by auto
    ultimately show ?thesis using 1(2) Ctx_PlaceMasters_spec(2) [OF 1(1)] ns F unfolding sts_master_def by auto
  next
    assume "length ?F = 1"
    then obtain m where F: "?F = [m]" by (metis length_0_conv length_Suc_conv One_nat_def)
    then have "m \<in> set ?F" by simp
    then have "m \<in> set ns" by simp
    moreover have "dispatchLoop ords h is (c\<lparr>newMastersBySts := mput ?sts m (newMastersBySts c)\<rparr>) = Ret (None, c')"
      using assms ns F by (simp add: Let_def FilterByFunc_def)
    ultimately show ?thesis using ns F unfolding sts_master_def by auto
  qed
qed

lemma dispatchLoop_spec:
  assumes "dispatchLoop ords h is c = Ret (None, c')"
  shows "nodes c' = nodes c" "clusterName c' = clusterName c"
    and "\<forall>sts m. mget (newMastersBySts c') sts = Some m \<longrightarrow> mget (newMastersBySts c) sts = Some m \<or> sts_master h c sts m"
    and "\<forall>sts. mget (newMastersBySts c') sts \<noteq> None \<longleftrightarrow>
      mget (newMastersBySts c) sts \<noteq> None \<or> sts \<in> ClusterStatefulSetName (clusterName c) ` set is"
proof -
  have "nodes c' = nodes c \<and> clusterName c' = clusterName c \<and>
    (\<forall>sts m. mget (newMastersBySts c') sts = Some m \<longrightarrow> mget (newMastersBySts c) sts = Some m \<or> sts_master h c sts m) \<and>
    (\<forall>sts. mget (newMastersBySts c') sts \<noteq> None \<longleftrightarrow>
      mget (newMastersBySts c) sts \<noteq> None \<or> sts \<in> ClusterStatefulSetName (clusterName c) ` set is)"
    using assms
  proof (induction "is" arbitrary: c)
    case (Cons i "is")
    let ?sts = "ClusterStatefulSetName (clusterName c) i"
    obtain m c1 where 1: "sts_master h c ?sts m" "c1 = c \<or> c1 = c\<lparr>bestEffort := True\<rparr>"
      "dispatchLoop ords h is (c1\<lparr>newMastersBySts := mput ?sts m (newMastersBySts c)\<rparr>) = Ret (None, c')"
      using dispatchLoop_step [OF Cons.prems] by blast
    define c2 where "c2 = c1\<lparr>newMastersBySts := mput ?sts m (newMastersBySts c)\<rparr>"
    have same: "nodes c2 = nodes c" "clusterName c2 = clusterName c" "sts_master h c2 = sts_master h c"
      using 1(2) by (auto simp: c2_def sts_master_def fun_eq_iff)
    have get: "mget (newMastersBySts c2) sts = (if sts = ?sts then Some m else mget (newMastersBySts c) sts)" for sts
      by (simp add: c2_def gomap_simps)
    note IH = Cons.IH [OF 1(3), folded c2_def, unfolded same get]
    have "mget (newMastersBySts c) sts = Some m' \<or> sts_master h c sts m'"
      if "mget (newMastersBySts c') sts = Some m'" for sts m'
    proof -
      have "(if sts = ?sts then Some m else mget (newMastersBySts c) sts) = Some m' \<or> sts_master h c sts m'"
        using IH that by blast
      then show ?thesis using 1(1) by (cases "sts = ?sts") auto
    qed
    moreover have "mget (newMastersBySts c') sts \<noteq> None \<longleftrightarrow>
        mget (newMastersBySts c) sts \<noteq> None \<or> sts \<in> ClusterStatefulSetName (clusterName c) ` set (i # is)" for sts
    proof -
      have "mget (newMastersBySts c') sts \<noteq> None \<longleftrightarrow>
          (if sts = ?sts then Some m else mget (newMastersBySts c) sts) \<noteq> None \<or>
          sts \<in> ClusterStatefulSetName (clusterName c) ` set is" using IH by blast
      then show ?thesis by (cases "sts = ?sts") simp_all
    qed
    ultimately show ?case using IH by blast
  qed simp
  then show "nodes c' = nodes c" "clusterName c' = clusterName c"
    and "\<forall>sts m. mget (newMastersBySts c') sts = Some m \<longrightarrow> mget (newMastersBySts c) sts = Some m \<or> sts_master h c sts m"
    and "\<forall>sts. mget (newMastersBySts c') sts \<noteq> None \<longleftrightarrow>
      mget (newMastersBySts c) sts \<noteq> None \<or> sts \<in> ClusterStatefulSetName (clusterName c) ` set is" by blast+
qed

section \<open>Slaves\<close>

text \<open>A node that needs no command: the master itself, or a slave of it already.\<close>

definition settled :: "heap \<Rightarrow> ref \<Rightarrow> ref \<Rightarrow> bool" where
  "settled h master r \<longleftrightarrow>
     IP (h r) = IP (h master) \<or> (GetRole (h r) = RedisClusterNodeRoleSlave \<and> MasterReferent (h r) = ID (h master))"

lemma placeSlave_eq:
  "nodes (placeSlave h m r c) = nodes c" "newMastersBySts (placeSlave h m r c) = newMastersBySts c"
  "slavesByMaster (placeSlave h m r c) =
     (if settled h m r then slavesByMaster c else mappend (ID (h m)) r (slavesByMaster c))"
  by (auto simp: placeSlave_def settled_def Let_def)

lemma placeSlave_fold:
  "nodes (fold (placeSlave h m) rs c) = nodes c" "newMastersBySts (fold (placeSlave h m) rs c) = newMastersBySts c"
  "mgetd [] (slavesByMaster (fold (placeSlave h m) rs c)) k =
     mgetd [] (slavesByMaster c) k @ (if k = ID (h m) then filter (\<lambda>r. \<not> settled h m r) rs else [])"
  by (induction rs arbitrary: c) (auto simp: placeSlave_eq gomap_simps)

lemma placeSlavesSts_Ret:
  assumes "placeSlavesSts h sts c = Ret c'"
  shows "nodes c' = nodes c" "newMastersBySts c' = newMastersBySts c"
    and "mgetd [] (slavesByMaster c') k = mgetd [] (slavesByMaster c) k @
      (case mget (newMastersBySts c) sts of
         Some m \<Rightarrow> if k = ID (h m) then filter (\<lambda>r. \<not> settled h m r) (mgetd [] (nodes c) sts) else []
       | None \<Rightarrow> [])"
  using assms
  by (auto simp: placeSlavesSts_def placeSlave_fold placeSlave_eq gomap_simps split: list.splits option.splits)

lemma placeAll_spec:
  assumes "gfold (placeSlavesSts h) ss c = Ret c'"
  shows "nodes c' = nodes c" "newMastersBySts c' = newMastersBySts c"
    and "mgetd [] (slavesByMaster c') k = mgetd [] (slavesByMaster c) k @
      concat (map (\<lambda>sts. case mget (newMastersBySts c) sts of
         Some m \<Rightarrow> if k = ID (h m) then filter (\<lambda>r. \<not> settled h m r) (mgetd [] (nodes c) sts) else []
       | None \<Rightarrow> []) ss)"
proof -
  have "nodes c' = nodes c \<and> newMastersBySts c' = newMastersBySts c \<and>
    mgetd [] (slavesByMaster c') k = mgetd [] (slavesByMaster c) k @
      concat (map (\<lambda>sts. case mget (newMastersBySts c) sts of
         Some m \<Rightarrow> if k = ID (h m) then filter (\<lambda>r. \<not> settled h m r) (mgetd [] (nodes c) sts) else []
       | None \<Rightarrow> []) ss)"
    using assms
  proof (induction ss arbitrary: c)
    case (Cons sts ss)
    obtain c1 where c1: "placeSlavesSts h sts c = Ret c1" "gfold (placeSlavesSts h) ss c1 = Ret c'"
      using Cons.prems by (auto simp: gbind_Ret_iff)
    show ?case
      using Cons.IH [OF c1(2)] unfolding placeSlavesSts_Ret(1,2) [OF c1(1)] placeSlavesSts_Ret(3) [OF c1(1)] by simp
  qed simp
  then show "nodes c' = nodes c" "newMastersBySts c' = newMastersBySts c"
    and "mgetd [] (slavesByMaster c') k = mgetd [] (slavesByMaster c) k @
      concat (map (\<lambda>sts. case mget (newMastersBySts c) sts of
         Some m \<Rightarrow> if k = ID (h m) then filter (\<lambda>r. \<not> settled h m r) (mgetd [] (nodes c) sts) else []
       | None \<Rightarrow> []) ss)" by blast+
qed

lemma placeAll_panics:
  assumes "sts \<in> set ss" "mget (newMastersBySts c) sts = None" "mgetd [] (nodes c) sts \<noteq> []"
  shows "gfold (placeSlavesSts h) ss c = Panic ''nil pointer dereference''"
  using assms
proof (induction ss arbitrary: c)
  case (Cons x ss)
  have cases: "placeSlavesSts h x c = Panic ''nil pointer dereference'' \<or> (\<exists>c1. placeSlavesSts h x c = Ret c1)"
    by (auto simp: placeSlavesSts_def split: list.splits option.splits)
  have bad: "placeSlavesSts h sts c = Panic ''nil pointer dereference''"
    using Cons.prems(2,3) by (auto simp: placeSlavesSts_def split: list.splits)
  show ?case
  proof (cases "placeSlavesSts h x c")
    case (Ret c1)
    then have "x \<noteq> sts" using bad by auto
    then show ?thesis using Ret Cons.IH [of c1] Cons.prems placeSlavesSts_Ret(1,2) [OF Ret] by simp
  qed (use cases in auto)
qed simp

lemma Ctx_PlaceSlaves_panics:
  assumes "is_order ord" "mget (newMastersBySts c) sts = None" "mgetd [] (nodes c) sts \<noteq> []"
  shows "Ctx_PlaceSlaves ord h c = Panic ''nil pointer dereference''"
proof -
  have "sts \<in> set (mkeys (nodes c))" using assms(3) by (cases "mget (nodes c) sts") (simp_all add: mgetd_def set_mkeys)
  then have "sts \<in> set (ord (mkeys (nodes c)))" using is_orderD(2) [OF assms(1)] by simp
  then show ?thesis using placeAll_panics [of sts _ "c\<lparr>bestEffort := True\<rparr>"] assms(2,3) by (simp add: Ctx_PlaceSlaves_def)
qed

lemma Ctx_PlaceSlaves_covers:
  assumes run: "Ctx_PlaceSlaves ord h c = Ret (e, c')" and ord: "is_order ord"
    and m: "mget (newMastersBySts c) sts = Some m" and r: "r \<in> set (mgetd [] (nodes c) sts)" "\<not> settled h m r"
  shows "r \<in> set (mgetd [] (slavesByMaster c') (ID (h m)))"
proof -
  have "gfold (placeSlavesSts h) (ord (mkeys (nodes c))) (c\<lparr>bestEffort := True\<rparr>) = Ret c'"
    using run by (auto simp: Ctx_PlaceSlaves_def gbind_Ret_iff)
  note S = placeAll_spec(3) [OF this, of "ID (h m)"]
  have "sts \<in> set (mkeys (nodes c))" using r(1) by (cases "mget (nodes c) sts") (simp_all add: mgetd_def set_mkeys)
  then have "sts \<in> set (ord (mkeys (nodes c)))" using is_orderD(2) [OF ord] by simp
  then show ?thesis using r m unfolding S by force
qed

lemma placeAll_returns:
  "\<forall>sts\<in>set ss. mget (newMastersBySts c) sts \<noteq> None \<Longrightarrow> \<exists>c'. gfold (placeSlavesSts h) ss c = Ret c'"
proof (induction ss arbitrary: c)
  case (Cons sts ss)
  then obtain m where "mget (newMastersBySts c) sts = Some m" by auto
  then obtain c1 where 1: "placeSlavesSts h sts c = Ret c1"
    by (cases "mgetd [] (nodes c) sts") (simp_all add: placeSlavesSts_def)
  then show ?case using Cons placeSlavesSts_Ret(2) [OF 1] by simp
qed simp

text \<open>Dispatching masters and then placing slaves, when there are no other stateful sets.\<close>

lemma dispatch_and_place:
  assumes run: "Ctx_DispatchMasters ords h c = Ret (None, c1)" and fresh: "newMastersBySts c = []" and ord: "is_order ord"
    and only: "set (mkeys (nodes c)) \<subseteq> ClusterStatefulSetName (clusterName c) ` {..<nat (expectedMasterNum c)}"
  shows "\<exists>c2. Ctx_PlaceSlaves ord h c1 = Ret (None, c2) \<and>
    (\<forall>sts ns. mget (nodes c) sts = Some ns \<longrightarrow>
       (\<exists>m. sts_master h c sts m \<and> (\<forall>r\<in>set ns. settled h m r \<or> r \<in> set (mgetd [] (slavesByMaster c2) (ID (h m))))))"
proof -
  note spec = dispatchLoop_spec [OF run [unfolded Ctx_DispatchMasters_def]]
  have no: "mget (newMastersBySts c) sts = None" for sts by (simp add: fresh mget_def)
  have all: "mget (newMastersBySts c1) sts \<noteq> None" if "sts \<in> set (mkeys (nodes c))" for sts
  proof -
    have "sts \<in> ClusterStatefulSetName (clusterName c) ` set [0..<nat (expectedMasterNum c)]"
      using that only by (auto simp: atLeast0LessThan)
    then show ?thesis using spec(4) by blast
  qed
  have "\<exists>c2. gfold (placeSlavesSts h) (ord (mkeys (nodes c1))) (c1\<lparr>bestEffort := True\<rparr>) = Ret c2"
    by (rule placeAll_returns) (use all is_orderD(2) [OF ord] spec(1) in simp)
  then obtain c2 where c2: "Ctx_PlaceSlaves ord h c1 = Ret (None, c2)" by (auto simp: Ctx_PlaceSlaves_def)
  have "\<exists>m. sts_master h c sts m \<and> (\<forall>r\<in>set ns. settled h m r \<or> r \<in> set (mgetd [] (slavesByMaster c2) (ID (h m))))"
    if ns: "mget (nodes c) sts = Some ns" for sts ns
  proof -
    have "sts \<in> set (mkeys (nodes c))" using ns by (simp add: set_mkeys)
    then obtain m where m: "mget (newMastersBySts c1) sts = Some m" using all by blast
    have "r \<in> set (mgetd [] (slavesByMaster c2) (ID (h m)))" if "r \<in> set ns" "\<not> settled h m r" for r
      by (rule Ctx_PlaceSlaves_covers [OF c2 ord m]) (use ns that spec(1) in \<open>simp_all add: mgetd_def\<close>)
    then show ?thesis using spec(3) m no [of sts] by fastforce
  qed
  then show ?thesis using c2 by blast
qed

end
