(* ===== verification/Demo.thy ===== *)
theory Demo
  imports Serving Sync_Facts Placement_Facts
begin

text \<open>
  Concrete clusters on which the results of the development are applied: masters that share
  the slots evenly, one of them about to leave, a cluster to be created, one with a master
  just added.
\<close>

definition demo_node :: "nat \<Rightarrow> Slot list \<Rightarrow> Node" where
  "demo_node r slots =
     NewDefaultNode\<lparr>ID := fmt_nat r, IP := ''10.0.0.'' @ fmt_nat r, Role := RedisMasterRole, NSlots := slots,
       NodeName := ''vm'' @ fmt_nat r\<rparr>"

definition slot_range :: "nat \<Rightarrow> nat \<Rightarrow> Slot list" where
  "slot_range a b = map of_nat [a..<b]"

text \<open>Four masters with 4096 slots each.\<close>

definition four :: heap where
  "four r = demo_node r (if r < 4 then slot_range (4096 * r) (4096 * r + 4096) else [])"

text \<open>Three masters: 5462, 5461 and 5461 slots.\<close>

definition three :: heap where
  "three r = demo_node r
     (if r = 0 then slot_range 0 5462 else if r = 1 then slot_range 5462 10923
      else if r = 2 then slot_range 10923 16384 else [])"

text \<open>Two masters that disagree on the slots of the second.\<close>

definition torn :: ClusterInfos where
  "torn = \<lparr>Infos =
     [(''a'', \<lparr>NINode = demo_node 0 [5], Friends = [demo_node 1 [7]], FriendsCap = 1\<rparr>),
      (''b'', \<lparr>NINode = demo_node 1 [6], Friends = [demo_node 0 [5]], FriendsCap = 1\<rparr>)],
     InfosStatus = ClusterInfosUnset\<rparr>"

definition unsorted :: ClusterInfos where
  "unsorted = \<lparr>Infos =
     [(''a'', \<lparr>NINode = demo_node 0 [1], Friends = [demo_node 1 [6, 5]], FriendsCap = 1\<rparr>),
      (''b'', \<lparr>NINode = demo_node 1 [6, 5], Friends = [demo_node 0 [1]], FriendsCap = 1\<rparr>)],
     InfosStatus = ClusterInfosUnset\<rparr>"

text \<open>A cluster resource of three masters with one replica each.\<close>

definition demo_spec :: DistributedRedisClusterSpec where
  "demo_spec = \<lparr>Image = [], ImagePullPolicy = [], ImagePullSecrets = [], Command = [], Env = [], MasterSize = 3,
     ClusterReplicas = 1, ServiceName = [], Config = None, RequiredAntiAffinity = False, Affinity = None,
     NodeSelector = [], ToleRations = [], SecurityContext = None, ContainerSecurityContext = None,
     Annotations = None, Storage = None, Resources = None, PasswordSecret = None, Monitor = None, Init = None\<rparr>"

definition demo_status :: DistributedRedisClusterStatus where
  "demo_status = \<lparr>DStatus = ClusterStatusScaling, DReason = [], NumberOfMaster = 3, MinReplicationFactor = 1,
     MaxReplicationFactor = 1, DNodesPlacement = PlacementEmpty, DNodes = [],
     DRestore = \<lparr>RePhase = RestorePhaseEmpty, ReBackup = None\<rparr>\<rparr>"

definition demo_drc :: DistributedRedisCluster where
  "demo_drc = \<lparr>DrcName = ''drc'', DrcNamespace = ''default'', DrcUID = [], DrcGeneration = 1, DrcAnnotations = [],
     Spec = demo_spec, Status = demo_status\<rparr>"

text \<open>A line of \<open>CLUSTER NODES\<close>.\<close>

definition demo_desc :: "string \<Rightarrow> string list \<Rightarrow> slot_item list \<Rightarrow> node_desc" where
  "demo_desc i flags items = \<lparr>dID = i, dIP = ''10.0.0.1'', dPort = ''6379'', dBus = ''16379'', dFlags = flags,
     dRef = ''-'', dPing = 0, dPong = 1, dEpoch = 2, dConnected = True, dItems = items\<rparr>"

text \<open>One stateful set of two empty nodes, before and after a master was chosen.\<close>

definition demo_ctx :: "(string, ref) gomap \<Rightarrow> Ctx" where
  "demo_ctx masters = \<lparr>expectedMasterNum = 1, clusterName = ''drc'', cluster = NewCluster [] [],
     nodes = [(ClusterStatefulSetName ''drc'' 0, [0, 1])], currentMasters = [], newMastersBySts = masters,
     slavesByMaster = [], bestEffort = False\<rparr>"

text \<open>A view with one failing node.\<close>

definition ailing :: ClusterInfos where
  "ailing = \<lparr>Infos =
     [(''a'', \<lparr>NINode = demo_node 0 [5], Friends = [(demo_node 1 [])\<lparr>FailStatus := [NodeStatusFail]\<rparr>], FriendsCap = 1\<rparr>)],
     InfosStatus = ClusterInfosUnset\<rparr>"

definition demo_pod :: "nat \<Rightarrow> Pod" where
  "demo_pod r = \<lparr>PoName = ''pod-'' @ fmt_nat r, PoNamespace = ''default'', DeletionTimestamp = None, OwnerReferences = [],
     PoNodeName = ''vm'' @ fmt_nat r, PoContainers = [], PodIP = ''10.0.0.'' @ fmt_nat r, PoPhase = PodRunning\<rparr>"

text \<open>An API server that has nothing and accepts every write.\<close>

definition no_kube :: kube where
  "no_kube = \<lparr>getPod = (\<lambda>tr ns n. Inl (KubeError NotFound n)), getSts = (\<lambda>tr ns n. Inl (KubeError NotFound n)),
     getOther = (\<lambda>tr k ns n. Inl (KubeError NotFound n)), getConfigMap = (\<lambda>tr ns n. Inl (KubeError NotFound n)),
     getSecret = (\<lambda>tr ns n. Inl (KubeError NotFound n)), getDrc = (\<lambda>tr ns n. Inl (KubeError NotFound n)), listPods = (\<lambda>tr ns l. Inr []), listSts = (\<lambda>tr ns l. Inr []),
     getBackup = (\<lambda>tr ns n. Inl (KubeError NotFound n)), listPvcs = (\<lambda>tr ns l. Inr []), getJob = (\<lambda>tr ns n. Inl (KubeError NotFound n)), listJobs = (\<lambda>tr ns l. Inr []), listBackups = (\<lambda>tr ns l. Inr []),
     apiError = (\<lambda>tr q. None),
     timeNow = (\<lambda>tr. 0), waitTicks = (\<lambda>tr n t. 0),
     execDial = (\<lambda>tr x. None), execOutput = (\<lambda>tr x. ([], []))\<rparr>"

definition no_pool :: AdminConnections where
  "no_pool = \<lparr>clients = [], connectionTimeout = 0, commandsMapping = [], clientName = [], password = []\<rparr>"

definition start :: "'k net" where
  "start = \<lparr>cnx = no_pool, trace = []\<rparr>"

lemma length_slot_range [simp]: "length (slot_range a b) = b - a"
  by (simp add: slot_range_def)

lemma slot_range_append: "a \<le> b \<Longrightarrow> b \<le> c \<Longrightarrow> slot_range a b @ slot_range b c = slot_range a c"
  using upt_add_eq_append [of a b "c - b"] by (simp add: slot_range_def flip: map_append)

lemma slot_range_below: "s \<in> set (slot_range a b) \<Longrightarrow> b \<le> 16384 \<Longrightarrow> unat s < 16384"
  by (auto simp: slot_range_def unat_of_nat take_bit_eq_mod)

lemma distinct_slot_range: "b \<le> 16384 \<Longrightarrow> distinct (slot_range a b)"
  unfolding slot_range_def distinct_map
proof (intro conjI inj_onI)
  fix x y :: nat assume b: "b \<le> 16384" and xy: "x \<in> set [a..<b]" "y \<in> set [a..<b]" "of_nat x = (of_nat y :: Slot)"
  then have "unat (of_nat x :: Slot) = unat (of_nat y :: Slot)" by simp
  then show "x = y" using b xy(1,2) by (simp add: unat_of_nat take_bit_eq_mod)
qed simp

lemma demo_fields [simp]:
  "ID (demo_node r sl) = fmt_nat r" "NSlots (demo_node r sl) = sl" "IP (demo_node r sl) = ''10.0.0.'' @ fmt_nat r"
  "NodeName (demo_node r sl) = ''vm'' @ fmt_nat r"
  by (simp_all add: demo_node_def)

lemma demo_Role [simp]: "Role (demo_node r sl) = RedisMasterRole"
  by (simp add: demo_node_def)

lemma demo_IPPort [simp]: "IPPort (demo_node r sl) = ''10.0.0.'' @ fmt_nat r @ '':6379''"
proof -
  have "CHR '':'' \<notin> set (fmt_nat r)" "CHR ''%'' \<notin> set (fmt_nat r)"
    by (rule fmt_nat_no_char, simp add: is_digit_def byte_def)+
  then show ?thesis by (simp add: IPPort_def demo_node_def JoinHostPort_def NewDefaultNode_def DefaultRedisPort_def)
qed

lemma demo_distinct [simp]: "(fmt_nat r @ t = fmt_nat q @ t) \<longleftrightarrow> r = q"
  by (simp add: fmt_nat_inj)

lemma torn_infos:
  "mget (Infos torn) k = Some ni \<longleftrightarrow>
     k = ''a'' \<and> ni = \<lparr>NINode = demo_node 0 [5], Friends = [demo_node 1 [7]], FriendsCap = 1\<rparr> \<or>
     k = ''b'' \<and> ni = \<lparr>NINode = demo_node 1 [6], Friends = [demo_node 0 [5]], FriendsCap = 1\<rparr>"
  by (auto simp: torn_def mget_def)

text \<open>Two masters that see each other alike; the second has its slots out of order.\<close>

lemma unsorted_infos:
  "mget (Infos unsorted) k = Some ni \<longleftrightarrow>
     k = ''a'' \<and> ni = \<lparr>NINode = demo_node 0 [1], Friends = [demo_node 1 [6, 5]], FriendsCap = 1\<rparr> \<or>
     k = ''b'' \<and> ni = \<lparr>NINode = demo_node 1 [6, 5], Friends = [demo_node 0 [1]], FriendsCap = 1\<rparr>"
  by (auto simp: unsorted_def mget_def)

lemma unsorted_views: "views_agree unsorted"
proof -
  have own: "own_view unsorted = master_view [demo_node 0 [1], demo_node 1 [6, 5]]"
  proof (rule set_eqI)
    fix x
    have "x \<in> own_view unsorted \<longleftrightarrow> (\<exists>k ni. x = (IPPort (NINode ni), sort (NSlots (NINode ni))) \<and>
      mget (Infos unsorted) k = Some ni \<and> Role (NINode ni) = RedisMasterRole)" by (simp add: own_view_def)
    also have "\<dots> \<longleftrightarrow> x \<in> master_view [demo_node 0 [1], demo_node 1 [6, 5]]"
      by (auto simp: master_view_def unsorted_infos ex_disj_distrib conj_disj_distribL conj_disj_distribR)
    finally show "x \<in> own_view unsorted \<longleftrightarrow> x \<in> master_view [demo_node 0 [1], demo_node 1 [6, 5]]" .
  qed
  have "master_view [demo_node 1 [6, 5], demo_node 0 [1]] = master_view [demo_node 0 [1], demo_node 1 [6, 5]]"
    by (auto simp: master_view_def)
  then show ?thesis unfolding views_agree_def unsorted_infos own by auto
qed

lemma four_ok: "scale_down_ok four [0, 1, 2] [0, 1, 2, 3] 16384"
proof -
  have all: "concat (map (\<lambda>r. NSlots (four r)) [0, 1, 2, 3]) = slot_range 0 16384"
    by (simp add: four_def slot_range_append)
  have "list_all (\<lambda>r. list_all (\<lambda>s. unat s < 16384) (NSlots (four r))) [0, 1, 2, 3]"
    by (auto simp: four_def list_all_iff intro: slot_range_below)
  moreover have "distinct (map (\<lambda>r. ID (four r)) (remdups ([0, 1, 2, 3] @ [0, 1, 2])))"
    by (simp add: four_def) code_simp
  moreover have "list_all (\<lambda>r. ID (four r) \<noteq> []) ([0, 1, 2, 3] @ [0, 1, 2])"
    by (simp add: four_def)
  ultimately show ?thesis unfolding scale_down_ok_def all by (simp add: distinct_slot_range)
qed

text \<open>The sizes of the demo clusters, as numerals.\<close>

lemma demo_sizes: "length [0, 1, 2 :: nat] = 3" "length [0, 1, 2, 3 :: nat] = 4"
  by simp_all

lemma demo_divides: "\<not> (3 :: nat) dvd 16384" "(4 :: nat) dvd 16384"
  by simp_all

lemma three_assigned: "all_assigned three [0, 1, 2, 3]"
  by (simp add: all_assigned_def three_def)

lemma three_full: "all_assigned three [0, 1, 2]"
  by (simp add: all_assigned_def three_def)

lemma ok_env_orders [simp]:
  "is_order (rangeOrd ok_env tr site)" "is_order (rangeMoves ok_env tr)" "is_sorter (sortRefs ok_env)"
  by (simp_all add: ok_env_def insertSort_is_sorter)

end
