(* ===== verification/Redis_Properties.thy ===== *)
theory Redis_Properties
  imports Demo
begin

text \<open>
  Properties of the Redis side of the operator: slots and their text, the decoding of
  \<open>CLUSTER NODES\<close>, the agreement of the nodes' views, the pool of connections, and the
  helpers and defaults they rest on.
\<close>

section \<open>Cluster infos\<close>

text \<open>
  C11. What \<open>ComputeStatus\<close> decides on fresh infos: it returns true, and sets the status
  \<open>Consistent\<close>, exactly when every node sees the masters and their slots as the masters see
  themselves, up to the order of the slots, and every master visited after the first has its
  own slots in ascending order; otherwise the status is \<open>Inconsistent\<close>. The second condition
  comes from the log line that prints, and so sorts, only the view just visited before it is
  compared. It holds for the ascending slots Redis prints, and then the orders of the loops do
  not matter. No two masters of one view have the same address.
\<close>

theorem consistent_iff:
  assumes "is_sorter srt" "is_order ord1" "is_order ord2" "wf_map (Infos c)"
    and "InfosStatus c = ClusterInfosUnset" "addrs_distinct (GetNodes ord1 c)"
    and "\<And>k ni. mget (Infos c) k = Some ni \<Longrightarrow> addrs_distinct (Friends ni @ [NINode ni])"
  shows "(fst (ComputeStatus srt ord1 ord2 c) \<longleftrightarrow>
      views_agree c \<and> list_all (own_sorted c) (tl (ord2 (mkeys (Infos c))))) \<and>
    InfosStatus (snd (ComputeStatus srt ord1 ord2 c)) =
      (if views_agree c \<and> list_all (own_sorted c) (tl (ord2 (mkeys (Infos c))))
       then ClusterInfosConsistent else ClusterInfosInconsistent)"
  using ComputeStatus_iff [of srt ord1 ord2 c] assms by blast

theorem consistent_iff_witness:
  "fst (ComputeStatus insertSort (\<lambda>ks. ks) rev unsorted) \<and> \<not> fst (ComputeStatus insertSort (\<lambda>ks. ks) (\<lambda>ks. ks) unsorted)"
proof -
  have d: "addrs_distinct (GetNodes (\<lambda>ks. ks) unsorted)"
    by (simp add: unsorted_def addrs_distinct_def GetNodes_def mkeys_def mget_def map_filter_def fmt_nat_inj)
  have v: "addrs_distinct (Friends ni @ [NINode ni])" if "mget (Infos unsorted) k = Some ni" for k ni
    using that unfolding unsorted_infos by (auto simp: addrs_distinct_def fmt_nat_inj)
  have u: "wf_map (Infos unsorted)" "InfosStatus unsorted = ClusterInfosUnset" "mkeys (Infos unsorted) = [''a'', ''b'']"
    "is_order (\<lambda>ks. ks)" by (simp_all add: unsorted_def wf_map_def mkeys_def is_order_def)
  have "fst (ComputeStatus insertSort (\<lambda>ks. ks) ord2 unsorted) \<longleftrightarrow> list_all (own_sorted unsorted) (tl (ord2 [''a'', ''b'']))"
    if "is_order ord2" for ord2
    using consistent_iff [OF insertSort_is_sorter u(4) that u(1,2) d v] unsorted_views by (simp add: u(3))
  then show ?thesis
    by (simp add: is_order_def own_sorted_def ownNode_def unsorted_def)
qed

text \<open>
  C12. Decoding inverts printing: from the text Redis prints for a list of nodes,
  \<open>DecodeNodeInfos\<close> returns the described nodes, in order, with their address, role, failure
  flags, epochs, slots and open migrations; the node the text calls \<open>myself\<close> is the node of the
  view, all others are its friends.
\<close>

theorem decode_print_nodes:
  assumes "list_all desc_ok ds"
  shows "\<exists>ni. DecodeNodeInfos grow (print_nodes ds) addr = Ret ni \<and>
    Friends ni = map (desc_node addr) (filter (\<lambda>d. \<not> is_myself d) ds) \<and>
    NINode ni = (case filter is_myself ds of [] \<Rightarrow> NewDefaultNode | ms \<Rightarrow> desc_node addr (last ms))"
  using DecodeNodeInfos_print [OF assms, of grow addr]
  by (simp add: fold_desc_step_Friends fold_desc_step_NINode NewNodeInfos_def split: list.split)

theorem decode_print_nodes_witness:
  "\<exists>ni. DecodeNodeInfos (\<lambda>c n. n) (print_nodes [demo_desc ''a'' [''myself'', ''master''] [OneSlot 7],
      demo_desc ''b'' [''master'', ''fail''] []]) ''10.0.0.1:6379'' = Ret ni \<and>
    map ID (Friends ni) = [''b''] \<and> NSlots (NINode ni) = [7]"
proof -
  let ?ds = "[demo_desc ''a'' [''myself'', ''master''] [OneSlot 7], demo_desc ''b'' [''master'', ''fail''] []]"
  have "list_all desc_ok ?ds" by (simp add: desc_ok_def demo_desc_def plain_def int64_ok_def)
  from decode_print_nodes [OF this, of "\<lambda>c n. n" "''10.0.0.1:6379''"] show ?thesis
    by (auto simp: is_myself_def demo_desc_def HasPrefix_def desc_node_def NewDefaultNode_def)
qed

section \<open>Connections\<close>

text \<open>
  C13. The pool stays sound: when every registered client has an open connection, dialled to the
  address it is registered under and never closed since, then this is so again after \<open>Get\<close>. \<open>Get\<close>
  leaves the other addresses alone, and what it returns without an error is the client now
  registered under the requested address, with an open connection to it. A pool made on
  distinct addresses is of this kind; a failed \<open>Update\<close> of a registered address and \<open>Close\<close> leave
  a pool that is not.
\<close>

theorem get_connects:
  assumes "Get env addr s = Ret (r, s')" "pool_open s"
  shows "pool_open s' \<and> (\<forall>a. a \<noteq> addr \<longrightarrow> mget (clients (cnx s')) a = mget (clients (cnx s)) a) \<and>
    (snd r = None \<longrightarrow> (\<exists>c. fst r = Some c \<and> mget (clients (cnx s')) addr = Some c \<and> open_to s' addr c))"
proof -
  have k: "pool_open s'" "\<forall>a. a \<noteq> addr \<longrightarrow> mget (clients (cnx s')) a = mget (clients (cnx s)) a"
    using Get_opens(1) [OF assms(1)] assms(2) by (simp_all add: keeps_open_def)
  have "\<exists>c. fst r = Some c \<and> mget (clients (cnx s')) addr = Some c" if "snd r = None"
    using Get_opens(2) [OF assms(1) that] by auto
  moreover have "open_to s' addr c" if "mget (clients (cnx s')) addr = Some c" for c
    using k(1) that by (simp add: pool_open_def)
  ultimately show ?thesis using k by blast
qed

theorem get_connects_witness:
  "\<exists>s c s'. NewAdminConnections (ok_env :: kenv) [''10.0.0.0:6379''] None [] = Ret s \<and>
    Get (ok_env :: kenv) ''10.0.0.1:6379'' s = Ret ((Some c, None), s') \<and> pool_open s' \<and>
    mget (clients (cnx s')) ''10.0.0.0:6379'' \<noteq> None \<and> open_to s' ''10.0.0.1:6379'' c"
proof -
  let ?c = "\<lambda>n. \<lparr>CCommandsMapping = [], Conn = n\<rparr>"
  obtain s where s: "NewAdminConnections (ok_env :: kenv) [''10.0.0.0:6379''] None [] = Ret s"
    "clients (cnx s) = [(''10.0.0.0:6379'', ?c 0)]" "trace s = [EDial ''10.0.0.0:6379'']"
    "password (cnx s) = []" "clientName (cnx s) = []" "commandsMapping (cnx s) = []"
    by (simp add: NewAdminConnections_def AddAll_def Add_def Update_def closeCurrent_def connect_no_name NewClient_def
        ok_env_def setClients_def emit_def mput_def)
  obtain s' where run: "Get (ok_env :: kenv) ''10.0.0.1:6379'' s = Ret ((Some (?c 1), None), s')"
    using s by (simp add: Get_def connect_no_name NewClient_def ok_env_def)
  have "pool_open s" by (rule NewAdminConnections_opens [OF s(1)]) simp
  from get_connects [OF run this] show ?thesis using run s(1,2) by auto
qed

section \<open>Slots\<close>

text \<open>
  C14. \<open>SlotRangesFromSlots\<close> on slots without repetition: the ranges, written out, are the
  slots in ascending order, and no two neighbouring ranges could be one.
\<close>

theorem slot_ranges_exact:
  assumes "distinct slots"
  shows "concat (map range_slots (fst (SlotRangesFromSlots slots))) = sort slots \<and>
    separated (fst (SlotRangesFromSlots slots))"
  using SlotRangesFromSlots_exact [OF assms] by blast

theorem slot_ranges_exact_witness:
  "concat (map range_slots (fst (SlotRangesFromSlots [9, 2, 3, 1]))) = [1, 2, 3, 9]"
proof -
  have "sort [9, 2, 3, 1 :: Slot] = [1, 2, 3, 9]" by code_simp
  then show ?thesis using slot_ranges_exact [of "[9, 2, 3, 1]"] by simp
qed

text \<open>
  C15. Decoding inverts printing for ranges: \<open>DecodeSlotRange\<close> of a printed range returns its
  slots and no migration, except that it never returns when the upper end is the largest slot
  value of 64 bits, because \<open>BuildSlotSlice\<close> wraps around there.
\<close>

theorem decode_slot_range:
  "DecodeSlotRange (SlotRange_String r) =
     (if SMax r = - 1 then Hang else Ret (Inr (slots_between (SMin r) (SMax r), None, None)))"
  unfolding DecodeSlotRange_SlotRange_String range_slots_def ..

text \<open>
  \<open>RemoveSlots\<close> keeps exactly the slots that are not removed, in their order, duplicates
  included, and \<open>AddSlots\<close> adds each missing slot once behind the others.
\<close>

theorem remove_add_slots:
  "RemoveSlots slots rs = filter (\<lambda>s. s \<notin> set rs) slots \<and>
   set (AddSlots slots rs) = set slots \<union> set rs \<and> take (length slots) (AddSlots slots rs) = slots"
  by (simp add: RemoveSlots_filter AddSlots_prefix)

section \<open>Helpers, defaults and admission\<close>

text \<open>
  C17. \<open>ParseRedisMemConf\<close> reads a number with any of the units Redis knows, in either case:
  the result is the product, wrapped to a signed 64 bit integer, in decimal.
\<close>

theorem mem_conf_unit:
  assumes "(suf, mul) \<in> set mem_units" "n < 2 ^ 63" "ToLower unit = suf"
  shows "ParseRedisMemConf (fmt_nat n @ unit) = Inr (fmt_int (int64 (int n * mul)))"
  by (rule ParseRedisMemConf_unit [OF assms])

theorem mem_conf_unit_witness: "ParseRedisMemConf (fmt_nat 8589934592 @ ''GB'') = Inr (fmt_int (- (2 ^ 63)))"
proof -
  have "ParseRedisMemConf (fmt_nat 8589934592 @ ''GB'') = Inr (fmt_int (int64 (int 8589934592 * 1073741824)))"
    by (rule mem_conf_unit [of "''gb''"]) (simp_all add: mem_units_def, code_simp)
  then show ?thesis by (simp add: int64_def)
qed

text \<open>
  C20. \<open>DefaultSpec\<close> reaches a fixed point at once: applied to a resource it has defaulted it
  changes nothing and reports no update, so the controller does not update the resource for
  ever. The resource has a name, and the size of the default resources is not zero.
\<close>

theorem default_spec_idempotent:
  assumes "DefaultSpec sizeOf drc = (drc', u)" "DrcName drc \<noteq> []" "sizeOf defaultResource \<noteq> 0"
  shows "DefaultSpec sizeOf drc' = (drc', False)"
  by (rule DefaultSpec_fix [OF assms])

theorem default_spec_idempotent_witness:
  "DefaultSpec (\<lambda>_. 1) (fst (DefaultSpec (\<lambda>_. 1) demo_drc)) = (fst (DefaultSpec (\<lambda>_. 1) demo_drc), False)"
  using default_spec_idempotent [of "\<lambda>_. 1" demo_drc "fst (DefaultSpec (\<lambda>_. 1) demo_drc)" "snd (DefaultSpec (\<lambda>_. 1) demo_drc)"]
  by (simp add: demo_drc_def)

text \<open>
  The update webhook: with a valid service name and valid resources, a change of the
  master size, the image, the resources or the password is admitted exactly when the cluster
  is healthy or has no status yet; any other change is admitted.
\<close>

theorem update_admission:
  assumes "ServiceName (Spec new) = [] \<or> dns (ServiceName (Spec new)) = []"
    and "\<forall>r. Resources (Spec new) = Some r \<longrightarrow> valid r = []"
  shows "ValidateUpdate dns valid new old = Admit \<longleftrightarrow>
    DStatus (Status old) \<in> {ClusterStatusEmpty, ClusterStatusOK} \<or>
    (MasterSize (Spec new) = MasterSize (Spec old) \<and> Image (Spec new) = Image (Spec old) \<and>
     Resources (Spec new) = Resources (Spec old) \<and> PasswordSecret (Spec new) = PasswordSecret (Spec old))"
  using assms by (auto simp: ValidateUpdate_def Let_def compareObj_iff split: option.splits)

theorem update_admission_witness:
  "ValidateUpdate (\<lambda>_. []) (\<lambda>_. []) (demo_drc\<lparr>Spec := demo_spec\<lparr>MasterSize := 4\<rparr>\<rparr>) demo_drc \<noteq> Admit"
  using update_admission [of "demo_drc\<lparr>Spec := demo_spec\<lparr>MasterSize := 4\<rparr>\<rparr>" "\<lambda>_. []" "\<lambda>_. []" demo_drc]
  by (simp add: demo_drc_def demo_spec_def demo_status_def)

end
