(* ===== verification/Operator_Properties.thy ===== *)
theory Operator_Properties
  imports Demo
begin

text \<open>
  Properties of the controllers: placing masters and slaves, healing, the reported status, and
  scaling down.
\<close>

section \<open>Placement\<close>

text \<open>
  C22. After \<open>DispatchMasters\<close> has chosen the masters, and when the nodes belong to the
  expected stateful sets only, \<open>PlaceSlaves\<close> returns, each stateful set has as its master one of
  its own nodes (the one that has slots, if one has), and each other node of it either is
  already a slave of that master, or shares its address, or is listed to be attached to it.
\<close>

theorem masters_and_slaves_placed:
  assumes "Ctx_DispatchMasters ords h c = Ret (None, c1)" "newMastersBySts c = []" "is_order ord"
    and "set (mkeys (nodes c)) \<subseteq> ClusterStatefulSetName (clusterName c) ` {..<nat (expectedMasterNum c)}"
  shows "\<exists>c2. Ctx_PlaceSlaves ord h c1 = Ret (None, c2) \<and>
    (\<forall>sts ns. mget (nodes c) sts = Some ns \<longrightarrow>
       (\<exists>m. sts_master h c sts m \<and> (\<forall>r\<in>set ns. settled h m r \<or> r \<in> set (mgetd [] (slavesByMaster c2) (ID (h m))))))"
  by (rule dispatch_and_place [OF assms])

theorem masters_and_slaves_placed_witness:
  "\<exists>c1 c2. Ctx_DispatchMasters (\<lambda>_ ks. ks) (\<lambda>r. demo_node r []) (demo_ctx []) = Ret (None, c1) \<and>
    Ctx_PlaceSlaves (\<lambda>ks. ks) (\<lambda>r. demo_node r []) c1 = Ret (None, c2) \<and>
    (\<exists>m. sts_master (\<lambda>r. demo_node r []) (demo_ctx []) (ClusterStatefulSetName ''drc'' 0) m)"
proof -
  let ?h = "\<lambda>r. demo_node r []"
  have m: "mget (nodes (demo_ctx [])) (ClusterStatefulSetName ''drc'' 0) = Some [0, 1]" by (simp add: demo_ctx_def mget_def)
  have "\<not> IsMasterWithSlot (?h n)" for n by (simp add: IsMasterWithSlot_iff)
  then obtain c1 where run: "Ctx_DispatchMasters (\<lambda>_ ks. ks) ?h (demo_ctx []) = Ret (None, c1)"
    by (simp add: Ctx_DispatchMasters_def demo_ctx_def mget_def FilterByFunc_def Ctx_PlaceMasters_def GetNodesByFunc_def
        mgetd_def mkeys_def map_filter_def Let_def)
  have fresh: "newMastersBySts (demo_ctx []) = []" by (simp add: demo_ctx_def)
  have only: "set (mkeys (nodes (demo_ctx []))) \<subseteq>
      ClusterStatefulSetName (clusterName (demo_ctx [])) ` {..<nat (expectedMasterNum (demo_ctx []))}"
    by (simp add: demo_ctx_def mkeys_def)
  from masters_and_slaves_placed [OF run fresh _ only, of "\<lambda>ks. ks"] m show ?thesis
    using run by (simp add: is_order_def) blast
qed

text \<open>
  A stateful set that has nodes but no new master, as one that is about to be removed,
  makes \<open>PlaceSlaves\<close> dereference a nil master, in whatever order the map is ranged over.
\<close>

theorem place_slaves_panics:
  assumes "is_order ord" "mget (newMastersBySts c) sts = None" "mgetd [] (nodes c) sts \<noteq> []"
  shows "Ctx_PlaceSlaves ord h c = Panic ''nil pointer dereference''"
  by (rule Ctx_PlaceSlaves_panics [OF assms])

theorem place_slaves_panics_witness:
  "Ctx_PlaceSlaves rev (\<lambda>r. demo_node r []) (demo_ctx []) = Panic ''nil pointer dereference''"
  by (rule place_slaves_panics [where sts = "ClusterStatefulSetName ''drc'' 0"])
    (simp_all add: is_order_def demo_ctx_def mget_def mgetd_def)

section \<open>Healing\<close>

text \<open>
  The nodes to forget are exactly the identifiers of nodes some node knows that have no
  address, or that have failed or are suspected to have failed and belong to no pod of the
  reported status.
\<close>

theorem ghost_nodes_exact:
  assumes "is_order ord"
  shows "set (mkeys (listGhostNodes ord drc infos)) = {ID n |n ni. ni \<in> views infos \<and> n \<in> set (Friends ni) \<and>
    (NodeStatusNoAddr \<in> set (FailStatus n) \<or>
     ((NodeStatusFail \<in> set (FailStatus n) \<or> NodeStatusPFail \<in> set (FailStatus n)) \<and>
      (\<forall>pod\<in>set (DNodes (Status drc)). RnID pod \<noteq> ID n)))}"
  using listGhostNodes_keys [OF assms] unfolding is_ghost_def .

theorem ghost_nodes_exact_witness: "set (mkeys (listGhostNodes (\<lambda>ks. ks) demo_drc ailing)) = {fmt_nat 1}"
proof -
  have v: "views ailing = {\<lparr>NINode = demo_node 0 [5], Friends = [(demo_node 1 [])\<lparr>FailStatus := [NodeStatusFail]\<rparr>], FriendsCap = 1\<rparr>}"
    by (auto simp: views_def ailing_def mget_def)
  show ?thesis using ghost_nodes_exact [of "\<lambda>ks. ks" demo_drc ailing] unfolding v
    by (auto simp: is_order_def demo_drc_def demo_status_def)
qed

text \<open>
  A dry run of \<open>FixFailedNodes\<close> sends nothing: the state is unchanged, no error is
  returned, and an action is reported exactly when there is a ghost node.
\<close>

theorem failed_nodes_dry_run:
  assumes "DryRun c" "is_order (rangeOrd env (trace s) ''listGhostNodes'')" "is_order (rangeOrd env (trace s) ''FixFailedNodes'')"
  shows "FixFailedNodes env c drc infos s =
    Ret ((\<exists>ni\<in>views infos. \<exists>n\<in>set (Friends ni). is_ghost drc n, None), s)"
  by (rule FixFailedNodes_dry [OF assms])

theorem failed_nodes_dry_run_witness:
  "FixFailedNodes (ok_env :: kenv) \<lparr>Pods = [], DryRun = True\<rparr> demo_drc torn start = Ret ((False, None), start)"
proof -
  have "\<not> is_ghost demo_drc (demo_node r sl)" for r sl by (simp add: is_ghost_def demo_node_def NewDefaultNode_def)
  then have "\<not> (\<exists>ni\<in>views torn. \<exists>n\<in>set (Friends ni). is_ghost demo_drc n)"
    unfolding views_def torn_infos by auto
  then show ?thesis using failed_nodes_dry_run [of "\<lparr>Pods = [], DryRun = True\<rparr>" "ok_env :: kenv" start demo_drc torn] by simp
qed

text \<open>
  C26. Nodes decoded from Redis carry no pod name, and so \<open>FixUntrustedNodes\<close> never looks at
  the pods nor at the API server: its result and everything it sends are the same for every list
  of pods and every server. The deletion of the pod of an untrusted node is never reached.
\<close>

theorem untrusted_pods_untouched:
  assumes "\<forall>ni\<in>views infos. \<exists>grow input addr. DecodeNodeInfos grow input addr = Ret ni"
    and "is_order (rangeOrd env (trace s) ''listUntrustedNodes'')"
  shows "FixUntrustedNodes env kb c drc infos s = FixUntrustedNodes env kb' (c\<lparr>Pods := ps\<rparr>) drc infos s"
proof -
  have "\<forall>ni\<in>views infos. \<forall>n\<in>set (Friends ni). PodName n = []" using assms(1) DecodeNodeInfos_PodName by blast
  then have "\<forall>i u. mget (listUntrustedNodes (rangeOrd env (trace s) ''listUntrustedNodes'') infos) i = Some u \<longrightarrow> PodName u = []"
    using listUntrustedNodes_all [OF assms(2), of infos "\<lambda>n. PodName n = []"] by blast
  from untrustedLoop_unnamed [OF this] show ?thesis unfolding FixUntrustedNodes_def Let_def by (rule arg_cong2 [where f = gbind]) simp
qed

theorem untrusted_pods_untouched_witness:
  "FixUntrustedNodes (ok_env :: kenv) no_kube \<lparr>Pods = [demo_pod 1], DryRun = False\<rparr> demo_drc
     \<lparr>Infos = [(''a'', NewNodeInfos)], InfosStatus = ClusterInfosUnset\<rparr> start =
   FixUntrustedNodes ok_env no_kube \<lparr>Pods = [], DryRun = False\<rparr> demo_drc
     \<lparr>Infos = [(''a'', NewNodeInfos)], InfosStatus = ClusterInfosUnset\<rparr> start"
proof -
  have "DecodeNodeInfos (\<lambda>c n. n) [] [] = Ret NewNodeInfos" by (simp add: DecodeNodeInfos_def decodeLine_def)
  then have "\<forall>ni\<in>views \<lparr>Infos = [(''a'', NewNodeInfos)], InfosStatus = ClusterInfosUnset\<rparr>. \<exists>grow input addr. DecodeNodeInfos grow input addr = Ret ni"
    by (auto simp: views_def mget_def split: if_splits)
  from untrusted_pods_untouched [OF this, of "ok_env :: kenv" start no_kube "\<lparr>Pods = [demo_pod 1], DryRun = False\<rparr>" demo_drc no_kube "[]"]
  show ?thesis by simp
qed

text \<open>
  C27. A cluster is split when two views do not meet: \<open>buildClustersLists\<close> returns pairwise
  disjoint lists of addresses, each the addresses of one view without its failed nodes, and every
  other view meets one of them. So when all views meet each other there is at most one list and
  \<open>FixClusterSplit\<close> does nothing.
\<close>

theorem split_clusters_separate:
  assumes "is_order ord"
  shows "separate (buildClustersLists ord infos) \<and>
    set (buildClustersLists ord infos) \<subseteq> viewAddrs ` views infos \<and>
    (\<forall>ni\<in>views infos. viewAddrs ni \<in> set (buildClustersLists ord infos) \<or>
       set (viewAddrs ni) \<inter> \<Union> (set ` set (buildClustersLists ord infos)) \<noteq> {})"
  using buildClustersLists_spec [OF assms] by blast

theorem split_clusters_separate_witness: "separate (buildClustersLists rev torn)"
  using split_clusters_separate [of rev torn] by (simp add: is_order_def)

text \<open>
  The cluster that survives a split is the first of the largest: \<open>splitMainCluster\<close>
  returns the longest list, the first one if several are longest, and all the others.
\<close>

theorem main_cluster_largest:
  assumes "\<exists>c\<in>set clusters. c \<noteq> []"
  shows "\<exists>k<length clusters. splitMainCluster clusters = (clusters ! k, take k clusters @ drop (Suc k) clusters) \<and>
    (\<forall>c\<in>set clusters. length c \<le> length (clusters ! k)) \<and> (\<forall>i<k. length (clusters ! i) < length (clusters ! k))"
proof -
  let ?P = "\<lambda>k. k < length clusters \<and> (\<forall>c\<in>set clusters. length c \<le> length (clusters ! k))"
  let ?k = "LEAST k. ?P k"
  note spec = splitMainCluster_spec [OF assms]
  have "length (clusters ! i) < length (clusters ! ?k)" if i: "i < ?k" for i
  proof (rule ccontr)
    assume "\<not> ?thesis"
    then have "?P i" using spec(2,3) i by fastforce
    then show False using not_less_Least [of i ?P] i by blast
  qed
  then show ?thesis using spec by blast
qed

theorem main_cluster_largest_witness:
  "\<exists>k<3. splitMainCluster [[''a''], [''b'', ''c''], [''d'', ''e'']] =
     ([[''a''], [''b'', ''c''], [''d'', ''e'']] ! k, take k [[''a''], [''b'', ''c''], [''d'', ''e'']] @ drop (Suc k) [[''a''], [''b'', ''c''], [''d'', ''e'']])"
  using main_cluster_largest [of "[[''a''], [''b'', ''c''], [''d'', ''e'']]"] by (simp add: numeral_3_eq_3) blast

section \<open>Status\<close>

text \<open>
  C29. The reported status lists, in the order of the pods, one node for each pod whose
  address some Redis node has, with the fields of that node when it is the only one; the number
  of masters counts the pods whose only node is a master with slots.
\<close>

theorem status_of_pods:
  assumes "\<And>i. is_order (ords i)"
  shows "DNodes (buildClusterStatus ords ord2 infos pods drc) = List.map_filter (status_node infos) pods \<and>
    NumberOfMaster (buildClusterStatus ords ord2 infos pods drc) = int (length (filter (is_master_pod infos) pods))"
  using buildClusterStatus_nodes [of ords ord2 infos pods drc] assms by blast

theorem status_of_pods_witness:
  "NumberOfMaster (buildClusterStatus (\<lambda>_ ks. ks) (\<lambda>ks. ks) torn [demo_pod 0, demo_pod 1, demo_pod 2] demo_drc) = 2"
proof -
  have o: "is_order (\<lambda>ks. ks)" by (simp add: is_order_def)
  have n: "nodes_of torn (demo_pod 0) = [demo_node 0 [5]]" "nodes_of torn (demo_pod 1) = [demo_node 1 [6]]" "nodes_of torn (demo_pod 2) = []"
    by (simp_all add: nodes_of_def torn_def GetNodes_def mkeys_def map_filter_def mget_def demo_pod_def fmt_nat_inj)
  have m: "IsMasterWithSlot (demo_node r (x # xs))" for r x xs
    by (simp add: IsMasterWithSlot_iff GetRole_def)
  have "filter (is_master_pod torn) [demo_pod 0, demo_pod 1, demo_pod 2] = [demo_pod 0, demo_pod 1]"
    using m by (simp add: is_master_pod_def node_of_def n n [simplified])
  then show ?thesis using status_of_pods [of "\<lambda>_ ks. ks" "\<lambda>ks. ks" torn "[demo_pod 0, demo_pod 1, demo_pod 2]" demo_drc] o by simp
qed

text \<open>
  C16. The status is written when it changed, and rests when nothing did. \<open>updateClusterIfNeed\<close>
  writes the new status, and the object takes it, unless state, reason, number of masters,
  number of nodes and restore phase are as before and every node reported before is reported
  again, with the same address, port, role, master, pod and slots in every node of that
  identifier. So a healthy round that finds the same pods and nodes as the round before, in
  any order of the maps, writes nothing, exactly when no two nodes of the status have one
  identifier and differ.
\<close>

theorem status_written_iff_changed:
  fixes kb :: kube
  assumes "\<And>i. is_order (ords i)" "\<And>i. is_order (ords' i)"
    and "st = SetClusterOK ''OK'' (buildClusterStatus ords ord2 infos pods drc)"
    and "st' = SetClusterOK ''OK'' (buildClusterStatus ords' ord2' infos pods (drc\<lparr>Status := st\<rparr>))"
  shows "updateClusterIfNeed kb drc st s =
      (if DStatus (Status drc) = DStatus st \<and> DReason (Status drc) = DReason st \<and>
          NumberOfMaster (Status drc) = NumberOfMaster st \<and> length (DNodes (Status drc)) = length (DNodes st) \<and>
          RePhase (DRestore (Status drc)) = RePhase (DRestore st) \<and>
          (\<forall>a\<in>set (DNodes (Status drc)). (\<exists>b\<in>set (DNodes st). RnID b = RnID a) \<and>
             (\<forall>b\<in>set (DNodes st). RnID b = RnID a \<longrightarrow> RnIP a = RnIP b \<and> RnMasterRef a = RnMasterRef b \<and>
                RnPodName a = RnPodName b \<and> RnPort a = RnPort b \<and> RnRole a = RnRole b \<and> RnSlots a = RnSlots b))
       then (drc, s) else (drc\<lparr>Status := st\<rparr>, snd (UpdateCRStatus kb (drc\<lparr>Status := st\<rparr>) s))) \<and>
    updateClusterIfNeed kb (drc\<lparr>Status := st\<rparr>) st' s =
      (if ids_agree (List.map_filter (status_node infos) pods) then (drc\<lparr>Status := st\<rparr>, s)
       else (drc\<lparr>Status := st'\<rparr>, snd (UpdateCRStatus kb (drc\<lparr>Status := st'\<rparr>) s)))"
  unfolding same_node_def [symmetric] compareStatus_iff [symmetric]
proof
  show "updateClusterIfNeed kb (drc\<lparr>Status := st\<rparr>) st' s =
      (if ids_agree (List.map_filter (status_node infos) pods) then (drc\<lparr>Status := st\<rparr>, s)
       else (drc\<lparr>Status := st'\<rparr>, snd (UpdateCRStatus kb (drc\<lparr>Status := st'\<rparr>) s)))"
    using buildClusterStatus_again [OF assms] by (simp add: updateClusterIfNeed_def Let_def)
qed (simp add: updateClusterIfNeed_def Let_def)

theorem status_written_iff_changed_witness:
  "let st = SetClusterOK ''OK'' (buildClusterStatus (\<lambda>_ ks. ks) (\<lambda>ks. ks) torn [demo_pod 0, demo_pod 1] demo_drc);
       st' = SetClusterOK ''OK'' (buildClusterStatus (\<lambda>_. rev) rev torn [demo_pod 0, demo_pod 1] (demo_drc\<lparr>Status := st\<rparr>))
   in updateClusterIfNeed no_kube (demo_drc\<lparr>Status := st\<rparr>) st' start = (demo_drc\<lparr>Status := st\<rparr>, start)"
proof -
  let ?pods = "[demo_pod 0, demo_pod 1]"
  have n: "nodes_of torn (demo_pod 0) = [demo_node 0 [5]]" "nodes_of torn (demo_pod 1) = [demo_node 1 [6]]"
    by (simp_all add: nodes_of_def torn_def GetNodes_def mkeys_def map_filter_def mget_def demo_pod_def fmt_nat_inj)
  then have "List.map_filter (status_node torn) ?pods =
      [redisNodeStatus (demo_node 0 [5]) (podNode (demo_pod 0)), redisNodeStatus (demo_node 1 [6]) (podNode (demo_pod 1))]"
    by (simp add: status_node_def map_filter_def)
  then have "ids_agree (List.map_filter (status_node torn) ?pods)"
    by (auto simp: ids_agree_def same_node_def redisNodeStatus_def fmt_nat_inj)
  moreover have o: "is_order (\<lambda>ks. ks)" "is_order rev" by (simp_all add: is_order_def)
  note written = status_written_iff_changed [of "\<lambda>_ ks. ks" "\<lambda>_. rev", OF o refl refl]
  ultimately show ?thesis using written [where infos = torn and drc = demo_drc and kb = no_kube] by (simp add: Let_def)
qed

section \<open>Scaling down\<close>

text \<open>
  C31. Scaling down refuses to lose data: when some node of a stateful set that is to go still
  has slots, \<open>scalingDown\<close> does not succeed, whatever Redis and the API server answer.
\<close>

theorem scaling_down_refuses:
  assumes "i \<in> {nat (MasterSize (Spec drc))..<nat n}" "r \<in> set (mgetd [] m (ClusterStatefulSetName (DrcName drc) i))"
    and "NSlots (h r) \<noteq> []"
  shows "scalingDown fmtTime env kb drc n h m s \<noteq> Ret ((None, drc'), s')"
  using scalingDown_empty [of fmtTime env kb drc n h m s drc' s' i r] assms by blast

theorem scaling_down_refuses_witness:
  "scalingDown (\<lambda>_. []) (ok_env :: kenv) no_kube demo_drc 4 four [(ClusterStatefulSetName ''drc'' 3, [3])] start \<noteq>
     Ret ((None, demo_drc), start)"
  by (rule scaling_down_refuses [where i = 3 and r = 3])
    (simp_all add: demo_drc_def demo_spec_def mgetd_def mget_def four_def slot_range_def)

end
