(* ===== verification/Resources.thy ===== *)
theory Resources
  imports Kube Placement
begin

text \<open>
  The objects the operator creates: \<open>src/pkg/resources\<close> (stateful sets, config maps, services,
  disruption budgets) and the rclone secret of \<open>src/pkg/osm/rclone.go\<close>, with the reading of
  passwords in \<open>statefulsets/helper.go\<close>. What the builders take from outside the program (the
  configuration of the process, the file system, the object store library, the formatting of
  times, the order of quantities, the names of the credentials in a secret) is the record \<open>outside\<close>. A nil pointer that is
  dereferenced is a panic.
\<close>

record outside =
  redisConf :: RedisConfig
  filesOf :: "string \<Rightarrow> string option"
  locationOf :: "Backend \<Rightarrow> go_error + string"
  providerOf :: "Backend \<Rightarrow> go_error + string"
  fmtStart :: "int \<Rightarrow> string"
  cmpQuantity :: "Quantity \<Rightarrow> Quantity \<Rightarrow> int"
  awsKeyId :: string
  awsSecretKey :: string
  sizeOfRes :: "ResourceRequirements \<Rightarrow> nat"

section \<open>statefulset.go: volumes and passwords\<close>

definition redisStorageVolumeName :: string where "redisStorageVolumeName = ''redis-data''"
definition redisRestoreLocalVolumeName :: string where "redisRestoreLocalVolumeName = ''redis-local''"
definition redisServerName :: string where "redisServerName = ''redis''"
definition hostnameTopologyKey :: string where "hostnameTopologyKey = ''kubernetes.io/hostname''"
definition ExporterContainerName :: string where "ExporterContainerName = ''exporter''"
definition configMapVolumeName :: string where "configMapVolumeName = ''conf''"
definition PasswordENV :: string where "PasswordENV = ''REDIS_PASSWORD''"

definition redisPassword :: "DistributedRedisCluster \<Rightarrow> EnvVar option" where
  "redisPassword drc =
     (case PasswordSecret (Spec drc) of
        None \<Rightarrow> None
      | Some secretName \<Rightarrow> Some \<lparr>EvName = PasswordENV, EvValue = [], EvValueFrom = Some (SecretKeyRef secretName ''password'')\<rparr>)"

definition RedisConfigMapName :: "string \<Rightarrow> string" where
  "RedisConfigMapName name = ''redis-cluster-'' @ name"

definition RestoreConfigMapName :: "string \<Rightarrow> string" where
  "RestoreConfigMapName name = ''rediscluster-restore-'' @ name"

definition emptyVolume :: Volume where
  "emptyVolume = \<lparr>VoName = redisStorageVolumeName, VoSource = VolEmptyDir\<rparr>"

definition redisDataVolume :: "DistributedRedisCluster \<Rightarrow> Volume option" where
  "redisDataVolume drc =
     (case Storage (Spec drc) of
        None \<Rightarrow> Some emptyVolume
      | Some st \<Rightarrow> (case StType st of Ephemeral \<Rightarrow> Some emptyVolume | PersistentClaim \<Rightarrow> None | StorageNone \<Rightarrow> Some emptyVolume))"

definition localVolume :: "LocalSpec \<Rightarrow> volume_source" where
  "localVolume l = VolObj (case PersistentVolumeClaim l of Some c \<Rightarrow> c | None \<Rightarrow> LcVolumeSource l)"

text \<open>The mode 0755 of the scripts is 493.\<close>

definition redisVolumes :: "DistributedRedisCluster \<Rightarrow> Volume list" where
  "redisVolumes drc =
     (let volumes = [\<lparr>VoName = configMapVolumeName, VoSource = VolConfigMap (RedisConfigMapName (DrcName drc)) 493\<rparr>];
          volumes = (case redisDataVolume drc of Some v \<Rightarrow> volumes @ [v] | None \<Rightarrow> volumes)
      in case ReBackup (DRestore (Status drc)) of
           None \<Rightarrow> volumes
         | Some backup \<Rightarrow>
             if \<not> IsRestoreFromBackup drc \<or> \<not> IsRestoreRunning drc then volumes
             else
               let volumes = volumes @ [\<lparr>VoName = ''rcloneconfig'', VoSource = VolSecret (RCloneSecretName backup)\<rparr>]
               in case BkLocal (BuBackend (BuSpec backup)) of
                    Some l \<Rightarrow> if IsRefLocalPVC backup
                      then volumes @ [\<lparr>VoName = redisRestoreLocalVolumeName, VoSource = localVolume l\<rparr>] else volumes
                  | None \<Rightarrow> volumes)"

definition volumeMounts :: "VolumeMount list" where
  "volumeMounts =
     [\<lparr>VmName = redisStorageVolumeName, VmMountPath = ''/data'', VmSubPath = [], VmReadOnly = False\<rparr>,
      \<lparr>VmName = configMapVolumeName, VmMountPath = ''/conf'', VmSubPath = [], VmReadOnly = False\<rparr>]"

definition customContainerEnv :: "EnvVar list \<Rightarrow> EnvVar list \<Rightarrow> EnvVar list" where
  "customContainerEnv env customEnv = env @ customEnv"

section \<open>statefulset.go: the command line\<close>

definition keepUserCmd :: "(string, string) gomap \<Rightarrow> string \<Rightarrow> bool" where
  "keepUserCmd systemRenameCmdMap cmd =
     (let splitedCmd = Fields cmd in
      if length splitedCmd = 3 \<and> ToLower (splitedCmd ! 0) = ''--rename-command''
      then mget systemRenameCmdMap (splitedCmd ! 1) = None else True)"

text \<open>The system's renamings are sorted as lines, so the order of ranging over the map is lost.\<close>

definition mergeRenameCmds :: "string list \<Rightarrow> (string, string) gomap \<Rightarrow> string list" where
  "mergeRenameCmds userCmds systemRenameCmdMap =
     filter (keepUserCmd systemRenameCmdMap) userCmds @
     sort (map (\<lambda>(key, value). ''--rename-command '' @ key @ '' '' @ value) systemRenameCmdMap)"

definition quoted :: "string \<Rightarrow> string" where
  "quoted t = CHR 0x27 # t @ [CHR 0x27]"

definition getRedisCommand :: "outside \<Rightarrow> DistributedRedisCluster \<Rightarrow> EnvVar option \<Rightarrow> string list" where
  "getRedisCommand out drc pw =
     (let cmd = [''/conf/fix-ip.sh'', ''redis-server'', ''/conf/redis.conf'', ''--cluster-enabled yes'',
                 ''--cluster-config-file /data/nodes.conf''];
          cmd = (if pw \<noteq> None
                 then cmd @ [''--requirepass '' @ quoted (''$('' @ PasswordENV @ '')''), ''--masterauth '' @ quoted (''$('' @ PasswordENV @ '')'')]
                 else cmd)
      in cmd @ mergeRenameCmds (Command (Spec drc)) (BuildCommandReplaceMapping (filesOf out) (GetRenameCommandsFile (redisConf out))))"

section \<open>statefulset.go: containers\<close>

definition graceTime :: int where "graceTime = 30"

definition withPassword :: "EnvVar option \<Rightarrow> EnvVar list \<Rightarrow> EnvVar list" where
  "withPassword pw env = (case pw of Some p \<Rightarrow> env @ [p] | None \<Rightarrow> env)"

definition redisServerContainer :: "outside \<Rightarrow> DistributedRedisCluster \<Rightarrow> EnvVar option \<Rightarrow> Container go" where
  "redisServerContainer out drc pw =
     (case Resources (Spec drc) of
        None \<Rightarrow> Panic ''nil pointer dereference''
      | Some res \<Rightarrow>
          let probe = ExecProbe graceTime 5 [''sh'', ''-c'', ''redis-cli -h $(hostname) ping''];
              env = [\<lparr>EvName = ''POD_IP'', EvValue = [], EvValueFrom = Some (FieldRef ''status.podIP'')\<rparr>]
          in Ret
            \<lparr>CoName = redisServerName, CoImage = Image (Spec drc), CoImagePullPolicy = ImagePullPolicy (Spec drc),
             CoCommand = getRedisCommand out drc pw, CoArgs = [],
             CoPorts = [\<lparr>CpName = ''client'', CpContainerPort = 6379, CpProtocol = ''TCP''\<rparr>,
                        \<lparr>CpName = ''gossip'', CpContainerPort = 16379, CpProtocol = ''TCP''\<rparr>],
             CoEnv = customContainerEnv (withPassword pw env) (Env (Spec drc)), CoResources = res,
             CoVolumeMounts = volumeMounts, CoLivenessProbe = Some probe, CoReadinessProbe = Some probe,
             CoLifecycle = Some (ExecHooks [''/bin/sh'', ''-c'', ''echo ${REDIS_PASSWORD} > /data/redis_password'']
               [''/bin/sh'', ''/conf/shutdown.sh'']),
             CoSecurityContext = ContainerSecurityContext (Spec drc)\<rparr>)"

definition redisExporterContainer :: "DistributedRedisCluster \<Rightarrow> AgentSpec \<Rightarrow> EnvVar option \<Rightarrow> Container go" where
  "redisExporterContainer drc mon pw =
     (case AgPrometheus mon of
        None \<Rightarrow> Panic ''nil pointer dereference''
      | Some prom \<Rightarrow> Ret
          \<lparr>CoName = ExporterContainerName, CoImage = AgImage mon, CoImagePullPolicy = ''Always'', CoCommand = [],
           CoArgs = [''--web.listen-address=:'' @ fmt_int (PromPort prom), ''--web.telemetry-path=/metrics''] @ AgArgs mon,
           CoPorts = [\<lparr>CpName = ''prom-http'', CpContainerPort = PromPort prom, CpProtocol = ''TCP''\<rparr>],
           CoEnv = customContainerEnv (withPassword pw (AgEnv mon)) (Env (Spec drc)), CoResources = AgResources mon,
           CoVolumeMounts = [], CoLivenessProbe = None, CoReadinessProbe = None, CoLifecycle = None,
           CoSecurityContext = AgSecurityContext mon\<rparr>)"

definition noResources :: ResourceRequirements where
  "noResources = \<lparr>Limits = [], Requests = []\<rparr>"

definition restoreMounts :: "RedisClusterBackup \<Rightarrow> VolumeMount list" where
  "restoreMounts backup =
     [\<lparr>VmName = redisStorageVolumeName, VmMountPath = ''/data'', VmSubPath = [], VmReadOnly = False\<rparr>,
      \<lparr>VmName = ''rcloneconfig'', VmMountPath = ''/etc/rclone'', VmSubPath = [], VmReadOnly = True\<rparr>] @
     (case BkLocal (BuBackend (BuSpec backup)) of
        Some l \<Rightarrow> if IsRefLocalPVC backup
          then [\<lparr>VmName = redisRestoreLocalVolumeName, VmMountPath = LcMountPath l, VmSubPath = LcSubPath l, VmReadOnly = True\<rparr>] else []
      | None \<Rightarrow> [])"

definition restoreContainer :: "DistributedRedisCluster \<Rightarrow> RedisClusterBackup \<Rightarrow> EnvVar option \<Rightarrow> string \<Rightarrow> string \<Rightarrow> Container" where
  "restoreContainer drc backup pw location folderName =
     (let c = \<lparr>CoName = ''restore'', CoImage = BuImage (BuSpec backup), CoImagePullPolicy = ''Always'', CoCommand = [],
               CoArgs = [''restore'', ''--data-dir=/data'', ''--location='' @ location, ''--folder='' @ folderName,
                         ''--snapshot='' @ BuName backup, ''--''],
               CoPorts = [],
               CoEnv = customContainerEnv (withPassword pw
                 [\<lparr>EvName = ''POD_NAME'', EvValue = [], EvValueFrom = Some (FieldRef ''metadata.name'')\<rparr>,
                  \<lparr>EvName = ''REDIS_RESTORE_SUCCEEDED'', EvValue = [],
                   EvValueFrom = Some (ConfigMapKeyRef (RestoreConfigMapName (DrcName drc)) ''succeeded'')\<rparr>]) (Env (Spec drc)),
               CoResources = noResources, CoVolumeMounts = restoreMounts backup, CoLivenessProbe = None, CoReadinessProbe = None,
               CoLifecycle = None, CoSecurityContext = None\<rparr>
      in case BuPodSpec (BuSpec backup) of
           None \<Rightarrow> c
         | Some ps \<Rightarrow> c\<lparr>CoResources := PsResources ps, CoLivenessProbe := PsLivenessProbe ps,
                        CoReadinessProbe := PsReadinessProbe ps, CoLifecycle := PsLifecycle ps\<rparr>)"

definition redisInitContainer ::
    "outside \<Rightarrow> DistributedRedisCluster \<Rightarrow> RedisClusterBackup \<Rightarrow> EnvVar option \<Rightarrow> (go_error + Container) go" where
  "redisInitContainer out drc backup pw =
     (case locationOf out (BuBackend (BuSpec backup)) of
        Inl e \<Rightarrow> Ret (Inl e)
      | Inr location \<Rightarrow>
          gbind (RemotePath pathJoin (fmtStart out) backup) (\<lambda>r.
            case r of
              Inl msg \<Rightarrow> Ret (Inl (ErrText msg))
            | Inr folderName \<Rightarrow> Ret (Inr (restoreContainer drc backup pw location folderName))))"

section \<open>statefulset.go: the stateful set\<close>

definition getAffinity :: "DistributedRedisCluster \<Rightarrow> (string, string) gomap \<Rightarrow> pod_affinity" where
  "getAffinity drc labels =
     (case Affinity (Spec drc) of
        Some a \<Rightarrow> AffinityObj a
      | None \<Rightarrow>
          let preferred = [(100, hostnameTopologyKey, [(''redis.kun/name'', DrcName drc)])] in
          if RequiredAntiAffinity (Spec drc) then AntiAffinity preferred [(hostnameTopologyKey, labels)]
          else AntiAffinity preferred [])"

definition persistentClaim :: "RedisStorage \<Rightarrow> (string, string) gomap \<Rightarrow> VolumeClaim" where
  "persistentClaim storage labels =
     \<lparr>PvName = redisStorageVolumeName, PvLabels = labels, PvOwnerReferences = [], PvAccessModes = [''ReadWriteOnce''],
      PvVolumeMode = ''Filesystem'', PvSize = StSize storage,
      PvStorageClass = StClass storage\<rparr>"

definition volumeClaims :: "DistributedRedisCluster \<Rightarrow> (string, string) gomap \<Rightarrow> VolumeClaim list" where
  "volumeClaims drc labels =
     (case Storage (Spec drc) of
        None \<Rightarrow> []
      | Some st \<Rightarrow>
          if StType st = PersistentClaim
          then let c = persistentClaim st labels in
               [if StDeleteClaim st then c\<lparr>PvOwnerReferences := DefaultOwnerReferences drc\<rparr> else c]
          else [])"

definition monitorContainers :: "DistributedRedisCluster \<Rightarrow> EnvVar option \<Rightarrow> Container list go" where
  "monitorContainers drc pw =
     (case Monitor (Spec drc) of
        None \<Rightarrow> Ret []
      | Some mon \<Rightarrow> gbind (redisExporterContainer drc mon pw) (\<lambda>c. Ret [c]))"

definition initContainers :: "outside \<Rightarrow> DistributedRedisCluster \<Rightarrow> EnvVar option \<Rightarrow> (go_error + Container list) go" where
  "initContainers out drc pw =
     (case ReBackup (DRestore (Status drc)) of
        None \<Rightarrow> Ret (Inr [])
      | Some backup \<Rightarrow>
          if IsRestoreFromBackup drc \<and> IsRestoreRunning drc
          then gbind (redisInitContainer out drc backup pw) (\<lambda>r. Ret (map_sum id (\<lambda>c. [c]) r))
          else Ret (Inr []))"

definition NewStatefulSetForCR ::
    "outside \<Rightarrow> DistributedRedisCluster \<Rightarrow> string \<Rightarrow> string \<Rightarrow> (string, string) gomap \<Rightarrow> (go_error + StatefulSet) go" where
  "NewStatefulSetForCR out drc ssName svcName labels =
     (let pw = redisPassword drc in
      gbind (redisServerContainer out drc pw) (\<lambda>server.
      gbind (monitorContainers drc pw) (\<lambda>exporter.
      gbind (initContainers out drc pw) (\<lambda>r.
        case r of
          Inl e \<Rightarrow> Ret (Inl e)
        | Inr init \<Rightarrow> Ret (Inr
            \<lparr>StsName = ssName, StsNamespace = DrcNamespace drc, StsLabels = labels,
             StsOwnerReferences = DefaultOwnerReferences drc, StsServiceName = svcName,
             StsReplicas = Some (ClusterReplicas (Spec drc) + 1), StsUpdateStrategy = ''RollingUpdate'', StsSelector = labels,
             StsTemplate = \<lparr>TmLabels = labels, TmAnnotations = Annotations (Spec drc),
               TmImagePullSecrets = ImagePullSecrets (Spec drc), TmAffinity = getAffinity drc labels,
               TmTolerations = ToleRations (Spec drc), TmSecurityContext = SecurityContext (Spec drc),
               TmNodeSelector = NodeSelector (Spec drc), TmContainers = server # exporter,
               TmInitContainers = init, TmVolumes = redisVolumes drc\<rparr>,
             StsClaims = volumeClaims drc labels, ReadyReplicas = 0, CurrentReplicas = 0\<rparr>)))))"

section \<open>statefulsets/helper.go\<close>

fun getSecretKeyRefByKey :: "string \<Rightarrow> EnvVar list \<Rightarrow> string" where
  "getSecretKeyRefByKey key [] = []"
| "getSecretKeyRefByKey key (value # envSet) =
     (if key = EvName value
      then (case EvValueFrom value of Some (SecretKeyRef name k) \<Rightarrow> name | _ \<Rightarrow> getSecretKeyRefByKey key envSet)
      else getSecretKeyRefByKey key envSet)"

definition firstEnv :: "StatefulSet \<Rightarrow> EnvVar list go" where
  "firstEnv sts = (case TmContainers (StsTemplate sts) of [] \<Rightarrow> Panic ''index out of range'' | c # _ \<Rightarrow> Ret (CoEnv c))"

definition IsPasswordChanged :: "DistributedRedisCluster \<Rightarrow> StatefulSet \<Rightarrow> bool go" where
  "IsPasswordChanged drc sts =
     (case PasswordSecret (Spec drc) of
        None \<Rightarrow> Ret False
      | Some secret \<Rightarrow> gbind (firstEnv sts) (\<lambda>envSet.
          let secretName = getSecretKeyRefByKey PasswordENV envSet in
          Ret (if secretName = [] then True else if secretName \<noteq> secret then True else False)))"

definition GetOldRedisClusterPassword :: "kube \<Rightarrow> StatefulSet \<Rightarrow> knet \<Rightarrow> ((go_error + string) \<times> knet) go" where
  "GetOldRedisClusterPassword kb sts s =
     gbind (firstEnv sts) (\<lambda>envSet.
       let secretName = getSecretKeyRefByKey PasswordENV envSet in
       if secretName = [] then Ret (Inr [], s)
       else case clientGetSecret kb (StsNamespace sts) secretName s of
         (Inl e, s) \<Rightarrow> Ret (Inl e, s)
       | (Inr secret, s) \<Rightarrow> Ret (Inr (mgetd [] (SeData secret) ''password''), s))"

definition GetClusterPassword :: "kube \<Rightarrow> DistributedRedisCluster \<Rightarrow> knet \<Rightarrow> (go_error + string) \<times> knet" where
  "GetClusterPassword kb drc s =
     (case PasswordSecret (Spec drc) of
        None \<Rightarrow> (Inr [], s)
      | Some name \<Rightarrow>
          (case clientGetSecret kb (DrcNamespace drc) name s of
             (Inl e, s) \<Rightarrow> (Inl e, s)
           | (Inr secret, s) \<Rightarrow> (Inr (mgetd [] (SeData secret) ''password''), s)))"

section \<open>configmap.go\<close>

text \<open>The scripts, with stand-ins for quotes, tabs and backslashes.\<close>

definition shell :: "string list \<Rightarrow> string" where
  "shell ls = Join [CHR 0x0A] (map (map (\<lambda>c. if c = CHR ''~'' then CHR 0x22 else if c = CHR ''^'' then CHR 0x27
     else if c = CHR ''%'' then CHR 0x09 else if c = CHR ''?'' then CHR 0x5C else c)) ls)"

definition shutdownContent :: string where
  "shutdownContent = shell
     [''#!/bin/sh'',
      ''CLUSTER_CONFIG=~/data/nodes.conf~'',
      ''failover() {'',
      ''%echo ~Do CLUSTER FAILOVER~'',
      ''%masterID=$(cat ${CLUSTER_CONFIG} | grep ~myself~ | awk ^{print $1}^)'',
      ''%echo ~Master: ${masterID}~'',
      ''%slave=$(cat ${CLUSTER_CONFIG} | grep ${masterID} | grep ~slave~ | awk ^NR==1{print $2}^ | sed ^s/:6379@16379//^)'',
      ''%echo ~Slave: ${slave}~'',
      ''%password=$(cat /data/redis_password)'',
      ''%if ['' @ ''[ -z ~${password}~ ]'' @ '']; then'',
      ''%%redis-cli -h ${slave} CLUSTER FAILOVER'',
      ''%else'',
      ''%%redis-cli -h ${slave} -a ~${password}~ CLUSTER FAILOVER'',
      ''%fi'',
      ''%echo ~Wait for MASTER <-> SLAVE syncFinished~'',
      ''%sleep 20'',
      ''}'',
      ''if [ -f ${CLUSTER_CONFIG} ]; then'',
      ''%cat ${CLUSTER_CONFIG} | grep ~myself~ | grep ~master~ && ?'',
      ''%failover'',
      ''fi'']"

definition fixIPContent :: string where
  "fixIPContent = shell
     [''#!/bin/sh'',
      ''CLUSTER_CONFIG=~/data/nodes.conf~'',
      ''if [ -f ${CLUSTER_CONFIG} ]; then'',
      ''    if [ -z ~${POD_IP}~ ]; then'',
      ''    echo ~Unable to determine Pod IP address!~'',
      ''    exit 1'',
      ''    fi'',
      ''    echo ~Updating my IP to ${POD_IP} in ${CLUSTER_CONFIG}~'',
      ''    sed -i.bak -e ~/myself/ s/ .*:6379@16379/ ${POD_IP}:6379@16379/~ ${CLUSTER_CONFIG}'',
      ''fi'',
      ''exec ~$@~'']"

definition confLines :: "(string, string) gomap \<Rightarrow> string list" where
  "confLines m = map (\<lambda>k. k @ '' '' @ mgetd [] m k) (filter (\<lambda>k. length (mgetd [] m k) \<noteq> 0) (sort (mkeys m)))"

definition generateRedisConfContent :: "(string, string) gomap option \<Rightarrow> string" where
  "generateRedisConfContent configMap =
     (case configMap of None \<Rightarrow> [] | Some m \<Rightarrow> concat (map (\<lambda>l. l @ [CHR 0x0A]) (confLines m)))"

definition RedisConfKey :: string where "RedisConfKey = ''redis.conf''"
definition RestoreSucceeded :: string where "RestoreSucceeded = ''succeeded''"

definition NewConfigMapForCR :: "DistributedRedisCluster \<Rightarrow> (string, string) gomap \<Rightarrow> ConfigMap" where
  "NewConfigMapForCR drc labels =
     \<lparr>CmName = RedisConfigMapName (DrcName drc), CmNamespace = DrcNamespace drc, CmLabels = labels,
      CmOwnerReferences = DefaultOwnerReferences drc,
      CmData = [(''shutdown.sh'', shutdownContent), (''fix-ip.sh'', fixIPContent),
                (RedisConfKey, generateRedisConfContent (Config (Spec drc)))]\<rparr>"

definition NewConfigMapForRestore :: "DistributedRedisCluster \<Rightarrow> (string, string) gomap \<Rightarrow> ConfigMap" where
  "NewConfigMapForRestore drc labels =
     \<lparr>CmName = RestoreConfigMapName (DrcName drc), CmNamespace = DrcNamespace drc, CmLabels = labels,
      CmOwnerReferences = DefaultOwnerReferences drc, CmData = [(RestoreSucceeded, ''0'')]\<rparr>"

section \<open>service.go, poddisruptionbudget.go\<close>

definition NewHeadLessSvcForCR :: "DistributedRedisCluster \<Rightarrow> string \<Rightarrow> (string, string) gomap \<Rightarrow> Service" where
  "NewHeadLessSvcForCR drc name labels =
     \<lparr>SvName = name, SvNamespace = DrcNamespace drc, SvLabels = labels, SvOwnerReferences = DefaultOwnerReferences drc,
      SvPorts = [(''client'', 6379), (''gossip'', 16379)], SvSelector = labels, SvClusterIP = ''None''\<rparr>"

definition NewSvcForCR :: "DistributedRedisCluster \<Rightarrow> string \<Rightarrow> (string, string) gomap \<Rightarrow> Service go" where
  "NewSvcForCR drc name labels =
     gbind (case Monitor (Spec drc) of
              None \<Rightarrow> Ret []
            | Some mon \<Rightarrow> (case AgPrometheus mon of
                None \<Rightarrow> Panic ''nil pointer dereference'' | Some prom \<Rightarrow> Ret [(''prom-http'', PromPort prom)]))
       (\<lambda>more. Ret
         \<lparr>SvName = name, SvNamespace = DrcNamespace drc, SvLabels = labels, SvOwnerReferences = DefaultOwnerReferences drc,
          SvPorts = [(''client'', 6379), (''gossip'', 16379)] @ more, SvSelector = labels, SvClusterIP = []\<rparr>)"

definition NewPodDisruptionBudgetForCR :: "DistributedRedisCluster \<Rightarrow> string \<Rightarrow> (string, string) gomap \<Rightarrow> PodDisruptionBudget" where
  "NewPodDisruptionBudgetForCR drc name labels =
     \<lparr>PdName = name, PdNamespace = DrcNamespace drc, PdLabels = labels, PdOwnerReferences = DefaultOwnerReferences drc,
      PdMaxUnavailable = 1, PdSelector = labels\<rparr>"

section \<open>osm/rclone.go\<close>

definition localContext :: "string \<Rightarrow> string" where
  "localContext provider = concat (map (\<lambda>l. l @ [CHR 0x0A]) [''['' @ provider @ '']'', ''type = local''])"

definition cephContext :: "outside \<Rightarrow> (string, string) gomap \<Rightarrow> string \<Rightarrow> StoreSpec \<Rightarrow> string" where
  "cephContext out config provider s3 = concat (map (\<lambda>l. l @ [CHR 0x0A])
     [''['' @ provider @ '']'', ''type = s3'', ''provider = Ceph'', ''env_auth = false'',
      ''access_key_id = '' @ mgetd [] config (awsKeyId out),
      ''secret_access_key = '' @ mgetd [] config (awsSecretKey out), ''region ='',
      ''endpoint = '' @ StoreEndpoint s3, ''location_constraint ='', ''acl ='', ''server_side_encryption ='', ''storage_class =''])"

definition newContext :: "outside \<Rightarrow> kube \<Rightarrow> Backend \<Rightarrow> string \<Rightarrow> knet \<Rightarrow> (go_error + string) \<times> knet" where
  "newContext out kb spec namespace s =
     (let (r, s) = (if StorageSecretName spec \<noteq> []
                    then case clientGetSecret kb namespace (StorageSecretName spec) s of
                        (Inl e, s) \<Rightarrow> (Inl e, s)
                      | (Inr secret, s) \<Rightarrow> (Inr (SeData secret), s)
                    else (Inr [], s))
      in case r of
           Inl e \<Rightarrow> (Inl e, s)
         | Inr config \<Rightarrow>
             (case providerOf out spec of
                Inl e \<Rightarrow> (Inl e, s)
              | Inr provider \<Rightarrow>
                  (case BkS3 spec of
                     Some s3 \<Rightarrow> (Inr (cephContext out config provider s3), s)
                   | None \<Rightarrow> if BkLocal spec \<noteq> None then (Inr (localContext provider), s)
                             else (Inl (ErrText ''no storage provider is configured''), s))))"

definition NewRcloneSecret ::
    "outside \<Rightarrow> kube \<Rightarrow> string \<Rightarrow> string \<Rightarrow> Backend \<Rightarrow> OwnerReference list \<Rightarrow> knet \<Rightarrow> (go_error + Secret) \<times> knet" where
  "NewRcloneSecret out kb name namespace spec ownerReference s =
     (case newContext out kb spec namespace s of
        (Inl e, s) \<Rightarrow> (Inl e, s)
      | (Inr rcloneCtx, s) \<Rightarrow>
          (Inr \<lparr>SeName = name, SeNamespace = namespace, SeOwnerReferences = ownerReference, SeData = [(''config'', rcloneCtx)]\<rparr>, s))"

end
