(* ===== verification/Ensurer.thy ===== *)
theory Ensurer
  imports Resources Sync
begin

text \<open>
  \<open>src/pkg/controller/manager/ensurer.go\<close>: creating and updating the objects of a cluster.
  The map of labels is shared and changed by the loops, so it is passed and returned.
\<close>

type_synonym labels = "(string, string) gomap"

definition StatefulSetLabel :: string where "StatefulSetLabel = ''statefulSet''"

section \<open>When a stateful set must change\<close>

definition quantityOf :: "(string, Quantity) gomap \<Rightarrow> string \<Rightarrow> Quantity" where
  "quantityOf m k = mgetd (Quantity ''0'') m k"

definition resourcesDiffer :: "outside \<Rightarrow> ResourceRequirements \<Rightarrow> ResourceRequirements \<Rightarrow> bool" where
  "resourcesDiffer out expect current =
     (if cmpQuantity out (quantityOf (Requests expect) ''memory'') (quantityOf (Requests current) ''memory'') \<noteq> 0 then True
      else if cmpQuantity out (quantityOf (Requests expect) ''cpu'') (quantityOf (Requests current) ''cpu'') \<noteq> 0 then True
      else if cmpQuantity out (quantityOf (Limits expect) ''memory'') (quantityOf (Limits current) ''memory'') \<noteq> 0 then True
      else if cmpQuantity out (quantityOf (Limits expect) ''cpu'') (quantityOf (Limits current) ''cpu'') \<noteq> 0 then True
      else False)"

definition monitorChanged :: "DistributedRedisCluster \<Rightarrow> StatefulSet \<Rightarrow> bool" where
  "monitorChanged drc sts =
     (let exporter = list_ex (\<lambda>c. CoName c = ExporterContainerName) (TmContainers (StsTemplate sts)) in
      if Monitor (Spec drc) \<noteq> None then \<not> exporter else exporter)"

definition shouldUpdateRedis :: "outside \<Rightarrow> DistributedRedisCluster \<Rightarrow> StatefulSet \<Rightarrow> bool go" where
  "shouldUpdateRedis out drc sts =
     (case StsReplicas sts of
        None \<Rightarrow> Panic ''nil pointer dereference''
      | Some replicas \<Rightarrow>
          if ClusterReplicas (Spec drc) + 1 \<noteq> replicas then Ret True
          else case TmContainers (StsTemplate sts) of
            [] \<Rightarrow> Panic ''index out of range''
          | c # _ \<Rightarrow>
              if Image (Spec drc) \<noteq> CoImage c then Ret True
              else gbind (IsPasswordChanged drc sts) (\<lambda>changed.
                if changed then Ret True
                else case Resources (Spec drc) of
                  None \<Rightarrow> Panic ''nil pointer dereference''
                | Some expect \<Rightarrow>
                    if resourcesDiffer out expect (CoResources c) then Ret True else Ret (monitorChanged drc sts)))"

section \<open>Stateful sets\<close>

definition ensureRedisPDB :: "kube \<Rightarrow> DistributedRedisCluster \<Rightarrow> string \<Rightarrow> labels \<Rightarrow> knet \<Rightarrow> go_error option \<times> knet" where
  "ensureRedisPDB kb drc name labels s =
     (case GetPodDisruptionBudget kb (DrcNamespace drc) name s of
        (Inr _, s) \<Rightarrow> (None, s)
      | (Inl e, s) \<Rightarrow> if IsNotFound e then CreatePodDisruptionBudget kb (NewPodDisruptionBudgetForCR drc name labels) s else (Some e, s))"

definition ensureRedisStatefulset ::
    "outside \<Rightarrow> kube \<Rightarrow> DistributedRedisCluster \<Rightarrow> string \<Rightarrow> string \<Rightarrow> labels \<Rightarrow> knet \<Rightarrow> ((bool \<times> go_error option) \<times> knet) go" where
  "ensureRedisStatefulset out kb drc ssName svcName labels s =
     (case ensureRedisPDB kb drc ssName labels s of
        (Some e, s) \<Rightarrow> Ret ((False, Some e), s)
      | (None, s) \<Rightarrow>
          (case GetStatefulSet kb (DrcNamespace drc) ssName s of
             (Inr ss, s) \<Rightarrow>
               gbind (shouldUpdateRedis out drc ss) (\<lambda>should.
                 if should then
                   gbind (NewStatefulSetForCR out drc ssName svcName labels) (\<lambda>r.
                     case r of
                       Inl e \<Rightarrow> Ret ((False, Some e), s)
                     | Inr newSS \<Rightarrow> (case UpdateStatefulSet kb newSS s of (e, s) \<Rightarrow> Ret ((True, e), s)))
                 else Ret ((False, None), s))
           | (Inl e, s) \<Rightarrow>
               if IsNotFound e then
                 gbind (NewStatefulSetForCR out drc ssName svcName labels) (\<lambda>r.
                   case r of
                     Inl e \<Rightarrow> Ret ((False, Some e), s)
                   | Inr newSS \<Rightarrow> (case CreateStatefulSet kb newSS s of (e, s) \<Rightarrow> Ret ((False, e), s)))
               else Ret ((False, Some e), s)))"

fun ensureStsLoop ::
    "outside \<Rightarrow> kube \<Rightarrow> DistributedRedisCluster \<Rightarrow> nat list \<Rightarrow> bool \<Rightarrow> labels \<Rightarrow> knet \<Rightarrow>
     ((bool \<times> go_error option \<times> labels) \<times> knet) go" where
  "ensureStsLoop out kb drc [] updated labels s = Ret ((updated, None, labels), s)"
| "ensureStsLoop out kb drc (i # is) updated labels s =
     (let name = ClusterStatefulSetName (DrcName drc) i;
          svcName = ClusterHeadlessSvcName (ServiceName (Spec drc)) i;
          labels = mput StatefulSetLabel name labels
      in gbind (ensureRedisStatefulset out kb drc name svcName labels s) (\<lambda>((stsUpdated, e), s).
           case e of
             Some e \<Rightarrow> Ret ((False, Some e, labels), s)
           | None \<Rightarrow> ensureStsLoop out kb drc is (updated \<or> stsUpdated) labels s))"

definition EnsureRedisStatefulsets ::
    "outside \<Rightarrow> kube \<Rightarrow> DistributedRedisCluster \<Rightarrow> labels \<Rightarrow> knet \<Rightarrow> ((bool \<times> go_error option \<times> labels) \<times> knet) go" where
  "EnsureRedisStatefulsets out kb drc labels s =
     ensureStsLoop out kb drc [0..<nat (MasterSize (Spec drc))] False labels s"

definition updateRedisStatefulset ::
    "outside \<Rightarrow> kube \<Rightarrow> DistributedRedisCluster \<Rightarrow> string \<Rightarrow> string \<Rightarrow> labels \<Rightarrow> knet \<Rightarrow> (go_error option \<times> knet) go" where
  "updateRedisStatefulset out kb drc ssName svcName labels s =
     gbind (NewStatefulSetForCR out drc ssName svcName labels) (\<lambda>r.
       case r of Inl e \<Rightarrow> Ret (Some e, s) | Inr newSS \<Rightarrow> Ret (UpdateStatefulSet kb newSS s))"

fun updateStsLoop ::
    "outside \<Rightarrow> kube \<Rightarrow> DistributedRedisCluster \<Rightarrow> nat list \<Rightarrow> labels \<Rightarrow> knet \<Rightarrow> (go_error option \<times> knet) go" where
  "updateStsLoop out kb drc [] labels s = Ret (None, s)"
| "updateStsLoop out kb drc (i # is) labels s =
     (let name = ClusterStatefulSetName (DrcName drc) i;
          svcName = ClusterHeadlessSvcName (ServiceName (Spec drc)) i;
          labels = mput StatefulSetLabel name labels
      in gbind (updateRedisStatefulset out kb drc name svcName labels s) (\<lambda>(e, s).
           case e of Some e \<Rightarrow> Ret (Some e, s) | None \<Rightarrow> updateStsLoop out kb drc is labels s))"

definition UpdateRedisStatefulsets ::
    "outside \<Rightarrow> kube \<Rightarrow> DistributedRedisCluster \<Rightarrow> labels \<Rightarrow> knet \<Rightarrow> (go_error option \<times> knet) go" where
  "UpdateRedisStatefulsets out kb drc labels s =
     updateStsLoop out kb drc [0..<nat (MasterSize (Spec drc))] labels s"

section \<open>Services\<close>

definition ensureRedisHeadLessSvc :: "kube \<Rightarrow> DistributedRedisCluster \<Rightarrow> string \<Rightarrow> labels \<Rightarrow> knet \<Rightarrow> go_error option \<times> knet" where
  "ensureRedisHeadLessSvc kb drc name labels s =
     (case GetService kb (DrcNamespace drc) name s of
        (Inr _, s) \<Rightarrow> (None, s)
      | (Inl e, s) \<Rightarrow> if IsNotFound e then CreateService kb (NewHeadLessSvcForCR drc name labels) s else (Some e, s))"

fun headLessLoop ::
    "kube \<Rightarrow> DistributedRedisCluster \<Rightarrow> nat list \<Rightarrow> labels \<Rightarrow> knet \<Rightarrow> (go_error option \<times> labels) \<times> knet" where
  "headLessLoop kb drc [] labels s = ((None, labels), s)"
| "headLessLoop kb drc (i # is) labels s =
     (let svcName = ClusterHeadlessSvcName (ServiceName (Spec drc)) i;
          labels = mput StatefulSetLabel (ClusterStatefulSetName (DrcName drc) i) labels
      in case ensureRedisHeadLessSvc kb drc svcName labels s of
           (Some e, s) \<Rightarrow> ((Some e, labels), s)
         | (None, s) \<Rightarrow> headLessLoop kb drc is labels s)"

definition EnsureRedisHeadLessSvcs ::
    "kube \<Rightarrow> DistributedRedisCluster \<Rightarrow> labels \<Rightarrow> knet \<Rightarrow> (go_error option \<times> labels) \<times> knet" where
  "EnsureRedisHeadLessSvcs kb drc labels s = headLessLoop kb drc [0..<nat (MasterSize (Spec drc))] labels s"

definition EnsureRedisSvc ::
    "kube \<Rightarrow> DistributedRedisCluster \<Rightarrow> labels \<Rightarrow> knet \<Rightarrow> ((go_error option \<times> labels) \<times> knet) go" where
  "EnsureRedisSvc kb drc labels s =
     (let name = ServiceName (Spec drc); labels = mdel StatefulSetLabel labels in
      case GetService kb (DrcNamespace drc) name s of
        (Inr _, s) \<Rightarrow> Ret ((None, labels), s)
      | (Inl e, s) \<Rightarrow>
          if IsNotFound e
          then gbind (NewSvcForCR drc name labels) (\<lambda>svc. case CreateService kb svc s of (e, s) \<Rightarrow> Ret ((e, labels), s))
          else Ret ((Some e, labels), s))"

section \<open>Config maps and secrets\<close>

fun confLinesChanged :: "string list \<Rightarrow> (string, string) gomap \<Rightarrow> bool" where
  "confLinesChanged [] currentConf = False"
| "confLinesChanged (line # rest) currentConf =
     (case SplitN2 (CHR '' '') (TrimSuffix line '' '') of
        [key, value] \<Rightarrow>
          (case mget currentConf key of
             None \<Rightarrow> True
           | Some v \<Rightarrow> if v \<noteq> value then True else confLinesChanged rest currentConf)
      | _ \<Rightarrow> confLinesChanged rest currentConf)"

definition isRedisConfChanged :: "string \<Rightarrow> (string, string) gomap \<Rightarrow> bool" where
  "isRedisConfChanged confInCm currentConf =
     (let ls = Split (CHR 0x0A) (TrimSuffix confInCm [CHR 0x0A]) in
      if length ls \<noteq> length currentConf then True else confLinesChanged ls currentConf)"

definition ensureConf :: "kube \<Rightarrow> DistributedRedisCluster \<Rightarrow> labels \<Rightarrow> knet \<Rightarrow> go_error option \<times> knet" where
  "ensureConf kb drc labels s =
     (case GetConfigMap kb (DrcNamespace drc) (RedisConfigMapName (DrcName drc)) s of
        (Inl e, s) \<Rightarrow> if IsNotFound e then CreateConfigMap kb (NewConfigMapForCR drc labels) s else (Some e, s)
      | (Inr drcCm, s) \<Rightarrow>
          if isRedisConfChanged (mgetd [] (CmData drcCm) RedisConfKey) (case Config (Spec drc) of None \<Rightarrow> [] | Some m \<Rightarrow> m)
          then UpdateConfigMap kb (NewConfigMapForCR drc labels) s else (None, s))"

definition ensureRestoreConf :: "kube \<Rightarrow> DistributedRedisCluster \<Rightarrow> labels \<Rightarrow> knet \<Rightarrow> go_error option \<times> knet" where
  "ensureRestoreConf kb drc labels s =
     (case GetConfigMap kb (DrcNamespace drc) (RestoreConfigMapName (DrcName drc)) s of
        (Inl e, s) \<Rightarrow> if IsNotFound e then CreateConfigMap kb (NewConfigMapForRestore drc labels) s else (Some e, s)
      | (Inr restoreCm, s) \<Rightarrow>
          if RePhase (DRestore (Status drc)) = RestorePhaseRestart \<and> mgetd [] (CmData restoreCm) RestoreSucceeded = ''0''
          then UpdateConfigMap kb (NewConfigMapForRestore drc labels) s else (None, s))"

definition EnsureRedisConfigMap :: "kube \<Rightarrow> DistributedRedisCluster \<Rightarrow> labels \<Rightarrow> knet \<Rightarrow> go_error option \<times> knet" where
  "EnsureRedisConfigMap kb drc labels s =
     (case ensureConf kb drc labels s of
        (Some e, s) \<Rightarrow> (Some e, s)
      | (None, s) \<Rightarrow> if IsRestoreFromBackup drc then ensureRestoreConf kb drc labels s else (None, s))"

definition EnsureRedisRCloneSecret :: "outside \<Rightarrow> kube \<Rightarrow> DistributedRedisCluster \<Rightarrow> knet \<Rightarrow> (go_error option \<times> knet) go" where
  "EnsureRedisRCloneSecret out kb drc s =
     (if \<not> IsRestoreFromBackup drc \<or> IsRestored drc then Ret (None, s)
      else case ReBackup (DRestore (Status drc)) of
        None \<Rightarrow> Panic ''nil pointer dereference''
      | Some backup \<Rightarrow> Ret
          (case NewRcloneSecret out kb (RCloneSecretName backup) (DrcNamespace drc) (BuBackend (BuSpec backup))
                  (DefaultOwnerReferences drc) s of
             (Inl e, s) \<Rightarrow> (Some e, s)
           | (Inr secret, s) \<Rightarrow> CreateSecret kb secret s))"

end
