(* ===== verification/Ensurer_Facts.thy ===== *)
theory Ensurer_Facts
  imports Ensurer
begin

text \<open>
  When the objects of a cluster are written: the configuration file of the config map and its
  comparison with the wanted settings, stateful sets that need no update, and what is created on
  a server that has nothing.
\<close>

section \<open>The configuration file\<close>

text \<open>A setting that survives printing: no line break, no blank in the key or at the end of the value.\<close>

definition conf_ok :: "string \<times> string \<Rightarrow> bool" where
  "conf_ok kv \<longleftrightarrow> CHR 0x0A \<notin> set (fst kv) \<and> CHR '' '' \<notin> set (fst kv) \<and>
     CHR 0x0A \<notin> set (snd kv) \<and> snd kv \<noteq> [] \<and> last (snd kv) \<noteq> CHR '' ''"

lemma concat_lines: "ls \<noteq> [] \<Longrightarrow> concat (map (\<lambda>l. l @ [c]) ls) = Join [c] ls @ [c]"
  by (induction ls rule: induct_list012) simp_all

lemma TrimSuffix_blank: "t \<noteq> [] \<Longrightarrow> last t \<noteq> c \<Longrightarrow> TrimSuffix t [c] = t"
  by (cases t rule: rev_cases) (simp_all add: TrimSuffix_def HasSuffix_def)

lemma SplitN2_pair: "c \<notin> set k \<Longrightarrow> SplitN2 c (k @ c # v) = [k, v]"
  by (induction k) auto

lemma mget_member: "wf_map m \<Longrightarrow> (k, v) \<in> set m \<Longrightarrow> mget m k = Some v"
  by (simp add: mget_def wf_map_def)

lemma confLines_ok:
  assumes "wf_map m" "\<forall>kv\<in>set m. conf_ok kv"
  shows "confLines m = map (\<lambda>k. k @ '' '' @ mgetd [] m k) (sort (mkeys m))"
    and "k \<in> set (mkeys m) \<Longrightarrow> conf_ok (k, mgetd [] m k)"
proof -
  show ok: "conf_ok (k, mgetd [] m k)" if "k \<in> set (mkeys m)" for k
  proof -
    obtain v where "(k, v) \<in> set m" using \<open>k \<in> set (mkeys m)\<close> by (auto simp: mkeys_def)
    then show ?thesis using mget_member [OF assms(1)] assms(2) by (auto simp: mgetd_def)
  qed
  have "filter (\<lambda>k. length (mgetd [] m k) \<noteq> 0) (sort (mkeys m)) = sort (mkeys m)"
    using ok by (auto intro!: filter_True simp: conf_ok_def)
  then show "confLines m = map (\<lambda>k. k @ '' '' @ mgetd [] m k) (sort (mkeys m))"
    by (simp add: confLines_def)
qed

lemma confLinesChanged_iff:
  assumes "\<forall>k\<in>set ks. conf_ok (k, f k)"
  shows "confLinesChanged (map (\<lambda>k. k @ '' '' @ f k) ks) m \<longleftrightarrow> (\<exists>k\<in>set ks. mget m k \<noteq> Some (f k))"
  using assms
proof (induction ks)
  case (Cons k ks)
  then have k: "CHR '' '' \<notin> set k" "f k \<noteq> []" "last (f k) \<noteq> CHR '' ''" by (simp_all add: conf_ok_def)
  then have "TrimSuffix (k @ CHR '' '' # f k) '' '' = k @ CHR '' '' # f k" by (intro TrimSuffix_blank) simp_all
  then have "SplitN2 (CHR '' '') (TrimSuffix (k @ CHR '' '' # f k) '' '') = [k, f k]" using SplitN2_pair [OF k(1)] by simp
  moreover have "(\<exists>j\<in>set ks. mget m j \<noteq> Some (f j)) \<longleftrightarrow> confLinesChanged (map (\<lambda>k. k @ '' '' @ f k) ks) m"
    using Cons by simp
  ultimately show ?case by (auto split: option.splits)
qed simp

lemma mget_eq_iff:
  assumes "wf_map m" "wf_map m'" "length m = length m'"
  shows "(\<forall>k\<in>set (mkeys m). mget m' k = mget m k) \<longleftrightarrow> mget m = mget m'"
proof
  assume agree: "\<forall>k\<in>set (mkeys m). mget m' k = mget m k"
  then have "set (mkeys m) \<subseteq> set (mkeys m')" by (auto simp: set_mkeys)
  moreover have "card (set (mkeys m)) = card (set (mkeys m'))"
    using assms distinct_card [of "mkeys m"] distinct_card [of "mkeys m'"] by (simp add: wf_map_def mkeys_def)
  ultimately have keys: "set (mkeys m) = set (mkeys m')" by (simp add: card_subset_eq)
  show "mget m = mget m'"
  proof
    fix k
    show "mget m k = mget m' k"
    proof (cases "k \<in> set (mkeys m)")
      case False
      then have "k \<notin> set (mkeys m')" by (simp add: keys)
      with False have "mget m k = None" "mget m' k = None" by (auto simp: set_mkeys)
      then show ?thesis by simp
    qed (simp add: agree)
  qed
qed simp

lemma wf_map_same_length:
  assumes "wf_map m" "wf_map m'" "mget m = mget m'"
  shows "length m = length m'"
proof -
  have "set (mkeys m) = set (mkeys m')" by (simp add: set_mkeys assms(3))
  then have "length (mkeys m) = length (mkeys m')"
    using assms(1,2) distinct_card [of "mkeys m"] distinct_card [of "mkeys m'"] by (simp add: wf_map_def mkeys_def)
  then show ?thesis by (simp add: mkeys_def)
qed

lemma isRedisConfChanged_iff:
  assumes "wf_map m" "m \<noteq> []" "\<forall>kv\<in>set m. conf_ok kv" "wf_map m'"
  shows "isRedisConfChanged (generateRedisConfContent (Some m)) m' \<longleftrightarrow> mget m \<noteq> mget m'"
proof -
  let ?ks = "sort (mkeys m)" and ?line = "\<lambda>k. k @ '' '' @ mgetd [] m k"
  let ?ls = "map ?line ?ks"
  have ne: "?ls \<noteq> []" using assms(2) by (metis length_0_conv length_map length_sort mkeys_def)
  have nl: "CHR 0x0A \<notin> set l" if "l \<in> set ?ls" for l
    using confLines_ok(2) [OF assms(1,3)] that by (auto simp: conf_ok_def)
  have "generateRedisConfContent (Some m) = Join [CHR 0x0A] ?ls @ [CHR 0x0A]"
    unfolding generateRedisConfContent_def option.case confLines_ok(1) [OF assms(1,3)] using concat_lines [OF ne] by simp
  then have ls: "Split (CHR 0x0A) (TrimSuffix (generateRedisConfContent (Some m)) [CHR 0x0A]) = ?ls"
    using Split_Join [OF ne nl] by simp
  have len: "length ?ls = length m" by (simp add: mkeys_def)
  have "confLinesChanged ?ls m' \<longleftrightarrow> (\<exists>k\<in>set (mkeys m). mget m' k \<noteq> mget m k)"
    using confLinesChanged_iff [of ?ks "mgetd [] m" m'] confLines_ok(2) [OF assms(1,3)]
    by (auto simp: mgetd_def set_mkeys)
  then show ?thesis
    unfolding isRedisConfChanged_def ls Let_def len
    using mget_eq_iff [OF assms(1,4)] wf_map_same_length [OF assms(1,4)] by auto
qed

lemma isRedisConfChanged_empty: "isRedisConfChanged (generateRedisConfContent None) []" "isRedisConfChanged (generateRedisConfContent (Some [])) []"
  by (simp_all add: isRedisConfChanged_def generateRedisConfContent_def confLines_def mkeys_def TrimSuffix_def HasSuffix_def)

section \<open>Stateful sets\<close>

lemma NewStatefulSetForCR_Ret:
  assumes "NewStatefulSetForCR out drc ssName svcName labels = Ret (Inr sts)"
  shows "StsReplicas sts = Some (ClusterReplicas (Spec drc) + 1)" "StsName sts = ssName" "StsNamespace sts = DrcNamespace drc"
    and "\<exists>server exporter. redisServerContainer out drc (redisPassword drc) = Ret server \<and>
      monitorContainers drc (redisPassword drc) = Ret exporter \<and> TmContainers (StsTemplate sts) = server # exporter"
    and "StsOwnerReferences sts = DefaultOwnerReferences drc"
proof -
  obtain server exporter r where parts: "redisServerContainer out drc (redisPassword drc) = Ret server"
      "monitorContainers drc (redisPassword drc) = Ret exporter" "initContainers out drc (redisPassword drc) = Ret r"
    using assms unfolding NewStatefulSetForCR_def Let_def outcome_simps by blast
  moreover obtain init where "r = Inr init" using assms parts by (cases r) (simp_all add: NewStatefulSetForCR_def)
  ultimately show "StsReplicas sts = Some (ClusterReplicas (Spec drc) + 1)" "StsName sts = ssName" "StsNamespace sts = DrcNamespace drc"
    "\<exists>server exporter. redisServerContainer out drc (redisPassword drc) = Ret server \<and>
      monitorContainers drc (redisPassword drc) = Ret exporter \<and> TmContainers (StsTemplate sts) = server # exporter"
    "StsOwnerReferences sts = DefaultOwnerReferences drc"
    using assms by (auto simp: NewStatefulSetForCR_def Let_def)
qed

lemma redisServerContainer_Ret:
  assumes "redisServerContainer out drc pw = Ret c"
  shows "CoName c = redisServerName" "CoImage c = Image (Spec drc)" "Resources (Spec drc) = Some (CoResources c)"
    and "CoEnv c = withPassword pw [\<lparr>EvName = ''POD_IP'', EvValue = [], EvValueFrom = Some (FieldRef ''status.podIP'')\<rparr>] @ Env (Spec drc)"
  using assms by (auto simp: redisServerContainer_def customContainerEnv_def Let_def split: option.splits)

lemma monitorContainers_Ret:
  assumes "monitorContainers drc pw = Ret cs"
  shows "list_ex (\<lambda>c. CoName c = ExporterContainerName) cs \<longleftrightarrow> Monitor (Spec drc) \<noteq> None"
  using assms by (auto simp: monitorContainers_def redisExporterContainer_def outcome_simps split: option.splits)

lemma server_not_exporter [simp]: "redisServerName \<noteq> ExporterContainerName"
  by (simp add: redisServerName_def ExporterContainerName_def)

text \<open>A stateful set the operator has just built passes its own test.\<close>

lemma shouldUpdateRedis_new:
  assumes "NewStatefulSetForCR out drc ssName svcName labels = Ret (Inr sts)"
    and "\<And>q. cmpQuantity out q q = 0" and "PasswordSecret (Spec drc) \<noteq> Some []"
  shows "shouldUpdateRedis out drc sts = Ret False"
proof -
  obtain server exporter where c: "redisServerContainer out drc (redisPassword drc) = Ret server"
      "monitorContainers drc (redisPassword drc) = Ret exporter" "TmContainers (StsTemplate sts) = server # exporter"
    using NewStatefulSetForCR_Ret(4) [OF assms(1)] by blast
  note server = redisServerContainer_Ret [OF c(1)]
  have "IsPasswordChanged drc sts = Ret False"
    using assms(3) by (auto simp: IsPasswordChanged_def firstEnv_def c(3) server(4) redisPassword_def withPassword_def
        PasswordENV_def Let_def split: option.splits)
  moreover have "\<not> resourcesDiffer out (CoResources server) (CoResources server)"
    by (simp add: resourcesDiffer_def assms(2))
  moreover have "\<not> monitorChanged drc sts"
    using monitorContainers_Ret [OF c(2)] by (simp add: monitorChanged_def c(3) server(1))
  ultimately show ?thesis
    by (simp add: shouldUpdateRedis_def NewStatefulSetForCR_Ret(1) [OF assms(1)] c(3) server(2,3))
qed

section \<open>Creating everything\<close>

text \<open>A server without disruption budgets and stateful sets that accepts every write.\<close>

definition bare :: "kube \<Rightarrow> bool" where
  "bare kb \<longleftrightarrow> (\<forall>tr k ns n. \<exists>m. getOther kb tr k ns n = Inl (KubeError NotFound m)) \<and>
     (\<forall>tr ns n. \<exists>m. getSts kb tr ns n = Inl (KubeError NotFound m)) \<and> (\<forall>tr q. apiError kb tr q = None)"

text \<open>The objects of the stateful set with a given index, and the requests that create them.\<close>

definition sts_labels :: "DistributedRedisCluster \<Rightarrow> nat \<Rightarrow> labels \<Rightarrow> labels" where
  "sts_labels drc i labels = mput StatefulSetLabel (ClusterStatefulSetName (DrcName drc) i) labels"

definition built :: "outside \<Rightarrow> DistributedRedisCluster \<Rightarrow> nat \<Rightarrow> labels \<Rightarrow> (go_error + StatefulSet) go" where
  "built out drc i labels =
     NewStatefulSetForCR out drc (ClusterStatefulSetName (DrcName drc) i) (ClusterHeadlessSvcName (ServiceName (Spec drc)) i) labels"

definition creation :: "DistributedRedisCluster \<Rightarrow> nat \<Rightarrow> labels \<Rightarrow> StatefulSet \<Rightarrow> kube_req list" where
  "creation drc i labels sts =
     (let n = ClusterStatefulSetName (DrcName drc) i in
      [KGet ''PodDisruptionBudget'' (DrcNamespace drc) n, KCreateObj (ObjPdb (NewPodDisruptionBudgetForCR drc n labels)),
       KGet ''StatefulSet'' (DrcNamespace drc) n, KCreateObj (ObjSts sts)])"

lemma mput_again [simp]: "mput k v (mput k w m) = mput k v m"
  unfolding mput_def by (induction m) auto

lemma sts_labels_again [simp]: "sts_labels drc i (sts_labels drc j labels) = sts_labels drc i labels"
  by (simp add: sts_labels_def)

lemma emit_all: "fold (\<lambda>q. emit (EKube q)) qs s = s\<lparr>trace := trace s @ map EKube qs\<rparr>"
  by (induction qs arbitrary: s) (simp_all add: emit_def)

lemma ensureRedisStatefulset_bare:
  assumes "bare kb" "NewStatefulSetForCR out drc n svc labels = Ret (Inr sts)"
  shows "ensureRedisStatefulset out kb drc n svc labels s = Ret ((False, None), fold (\<lambda>q. emit (EKube q))
     [KGet ''PodDisruptionBudget'' (DrcNamespace drc) n, KCreateObj (ObjPdb (NewPodDisruptionBudgetForCR drc n labels)),
      KGet ''StatefulSet'' (DrcNamespace drc) n, KCreateObj (ObjSts sts)] s)"
proof -
  obtain m1 m2 where "getOther kb (trace s) ''PodDisruptionBudget'' (DrcNamespace drc) n = Inl (KubeError NotFound m1)"
     "getSts kb (trace s @ [EKube (KGet ''PodDisruptionBudget'' (DrcNamespace drc) n),
        EKube (KCreateObj (ObjPdb (NewPodDisruptionBudgetForCR drc n labels)))]) (DrcNamespace drc) n = Inl (KubeError NotFound m2)"
    using assms(1) unfolding bare_def by blast
  then show ?thesis using assms
    by (simp add: ensureRedisStatefulset_def ensureRedisPDB_def GetPodDisruptionBudget_def CreatePodDisruptionBudget_def
        request_def GetStatefulSet_def CreateStatefulSet_def bare_def)
qed

lemma ensureStsLoop_bare:
  assumes "bare kb" "\<And>i. i \<in> set is \<Longrightarrow> built out drc i (sts_labels drc i labels) = Ret (Inr (stss i))"
  shows "\<exists>labels'. ensureStsLoop out kb drc is False labels s = Ret ((False, None, labels'),
     s\<lparr>trace := trace s @ map EKube (concat (map (\<lambda>i. creation drc i (sts_labels drc i labels) (stss i)) is))\<rparr>)"
  using assms(2)
proof (induction "is" arbitrary: labels s)
  case (Cons i js)
  let ?l = "sts_labels drc i labels"
  let ?qs = "creation drc i ?l (stss i)"
  have "ensureRedisStatefulset out kb drc (ClusterStatefulSetName (DrcName drc) i)
      (ClusterHeadlessSvcName (ServiceName (Spec drc)) i) ?l s = Ret ((False, None), fold (\<lambda>q. emit (EKube q)) ?qs s)"
    unfolding creation_def Let_def using ensureRedisStatefulset_bare [OF assms(1)] Cons.prems [of i] by (simp add: built_def)
  moreover have "\<exists>labels'. ensureStsLoop out kb drc js False ?l (s\<lparr>trace := trace s @ map EKube ?qs\<rparr>) =
      Ret ((False, None, labels'), s\<lparr>trace := (trace s @ map EKube ?qs) @
        map EKube (concat (map (\<lambda>j. creation drc j (sts_labels drc j ?l) (stss j)) js))\<rparr>)"
    using Cons.IH [of ?l "s\<lparr>trace := trace s @ map EKube ?qs\<rparr>"] Cons.prems by simp
  ultimately show ?case by (simp add: emit_all Let_def flip: sts_labels_def)
qed simp

section \<open>Finding everything in place\<close>

text \<open>A server that has the disruption budgets, and the stateful sets the operator would build.\<close>

definition in_place :: "kube \<Rightarrow> DistributedRedisCluster \<Rightarrow> (nat \<Rightarrow> StatefulSet) \<Rightarrow> nat \<Rightarrow> bool" where
  "in_place kb drc stss n \<longleftrightarrow>
     (\<forall>tr. \<forall>i<n. getSts kb tr (DrcNamespace drc) (ClusterStatefulSetName (DrcName drc) i) = Inr (stss i)) \<and>
     (\<forall>tr. \<forall>i<n. \<exists>p. getOther kb tr ''PodDisruptionBudget'' (DrcNamespace drc) (ClusterStatefulSetName (DrcName drc) i) = Inr p)"

definition lookups :: "DistributedRedisCluster \<Rightarrow> nat \<Rightarrow> kube_req list" where
  "lookups drc i = [KGet ''PodDisruptionBudget'' (DrcNamespace drc) (ClusterStatefulSetName (DrcName drc) i),
     KGet ''StatefulSet'' (DrcNamespace drc) (ClusterStatefulSetName (DrcName drc) i)]"

lemma ensureStsLoop_in_place:
  assumes "in_place kb drc stss n" "\<And>i. i < n \<Longrightarrow> shouldUpdateRedis out drc (stss i) = Ret False" "\<forall>i\<in>set is. i < n"
  shows "\<exists>labels'. ensureStsLoop out kb drc is False labels s = Ret ((False, None, labels'),
     s\<lparr>trace := trace s @ map EKube (concat (map (lookups drc) is))\<rparr>)"
  using assms(3)
proof (induction "is" arbitrary: labels s)
  case (Cons i js)
  let ?n = "ClusterStatefulSetName (DrcName drc) i"
  obtain p where "getOther kb (trace s) ''PodDisruptionBudget'' (DrcNamespace drc) ?n = Inr p"
    using assms(1) Cons.prems unfolding in_place_def by (meson list.set_intros(1))
  moreover have "getSts kb tr (DrcNamespace drc) ?n = Inr (stss i)" for tr
    using assms(1) Cons.prems unfolding in_place_def by auto
  ultimately have "ensureRedisStatefulset out kb drc ?n svc l s = Ret ((False, None), s\<lparr>trace := trace s @ map EKube (lookups drc i)\<rparr>)" for svc l
    using assms(2) Cons.prems
    by (simp add: ensureRedisStatefulset_def ensureRedisPDB_def GetPodDisruptionBudget_def GetStatefulSet_def lookups_def emit_def)
  then show ?case
    using Cons.IH [of "mput StatefulSetLabel ?n labels" "s\<lparr>trace := trace s @ map EKube (lookups drc i)\<rparr>"] Cons.prems
    by (simp add: Let_def)
qed simp

end
