(* ===== verification/Ownership.thy ===== *)
theory Ownership
  imports Ensurer_Facts
begin

text \<open>
  What the ensurer may do to the API server, as a machine: it reads, it creates an object right
  after the server has said that there is none, and it updates stateful sets and config maps;
  every object it writes is in the namespace of the cluster and owned by the cluster. The
  controllers of \<open>k8sutil\<close> are used through the locale \<open>object_control\<close>, interpreted for each of
  them; the methods of \<open>IEnsureResource\<close> are shown to be runs of the machine.
\<close>

section \<open>Objects by kind\<close>

fun objKind :: "kube_obj \<Rightarrow> string" where
  "objKind (ObjPod _) = ''Pod''"
| "objKind (ObjSts _) = ''StatefulSet''"
| "objKind (ObjSvc _) = ''Service''"
| "objKind (ObjPdb _) = ''PodDisruptionBudget''"
| "objKind (ObjCm _) = ''ConfigMap''"
| "objKind (ObjSecret _) = ''Secret''"
| "objKind (ObjJob _) = ''Job''"
| "objKind (ObjClaim _ _) = ''PersistentVolumeClaim''"

fun objNamespace :: "kube_obj \<Rightarrow> string" where
  "objNamespace (ObjPod o1) = PoNamespace o1"
| "objNamespace (ObjSts o1) = StsNamespace o1"
| "objNamespace (ObjSvc o1) = SvNamespace o1"
| "objNamespace (ObjPdb o1) = PdNamespace o1"
| "objNamespace (ObjCm o1) = CmNamespace o1"
| "objNamespace (ObjSecret o1) = SeNamespace o1"
| "objNamespace (ObjJob o1) = JbNamespace o1"
| "objNamespace (ObjClaim ns _) = ns"

fun objName :: "kube_obj \<Rightarrow> string" where
  "objName (ObjPod o1) = PoName o1"
| "objName (ObjSts o1) = StsName o1"
| "objName (ObjSvc o1) = SvName o1"
| "objName (ObjPdb o1) = PdName o1"
| "objName (ObjCm o1) = CmName o1"
| "objName (ObjSecret o1) = SeName o1"
| "objName (ObjJob o1) = JbName o1"
| "objName (ObjClaim _ o1) = PvName o1"

fun objOwners :: "kube_obj \<Rightarrow> OwnerReference list" where
  "objOwners (ObjPod o1) = OwnerReferences o1"
| "objOwners (ObjSts o1) = StsOwnerReferences o1"
| "objOwners (ObjSvc o1) = SvOwnerReferences o1"
| "objOwners (ObjPdb o1) = PdOwnerReferences o1"
| "objOwners (ObjCm o1) = CmOwnerReferences o1"
| "objOwners (ObjSecret o1) = SeOwnerReferences o1"
| "objOwners (ObjJob o1) = JbOwnerReferences o1"
| "objOwners (ObjClaim _ o1) = PvOwnerReferences o1"

text \<open>The server says at this moment that there is no object of this kind and name.\<close>

definition not_found :: "go_error + 'a \<Rightarrow> bool" where
  "not_found r = (case r of Inl e \<Rightarrow> IsNotFound e | Inr _ \<Rightarrow> False)"

fun absent :: "kube \<Rightarrow> kube_req event list \<Rightarrow> kube_obj \<Rightarrow> bool" where
  "absent kb tr (ObjPod o1) = not_found (getPod kb tr (PoNamespace o1) (PoName o1))"
| "absent kb tr (ObjSts o1) = not_found (getSts kb tr (StsNamespace o1) (StsName o1))"
| "absent kb tr (ObjCm o1) = not_found (getConfigMap kb tr (CmNamespace o1) (CmName o1))"
| "absent kb tr (ObjSecret o1) = not_found (getSecret kb tr (SeNamespace o1) (SeName o1))"
| "absent kb tr (ObjJob o1) = not_found (getJob kb tr (JbNamespace o1) (JbName o1))"
| "absent kb tr ob = not_found (getOther kb tr (objKind ob) (objNamespace ob) (objName ob))"

definition owned :: "DistributedRedisCluster \<Rightarrow> kube_obj \<Rightarrow> bool" where
  "owned drc ob \<longleftrightarrow> objNamespace ob = DrcNamespace drc \<and> objOwners ob = DefaultOwnerReferences drc"

fun is_read :: "kube_req \<Rightarrow> bool" where
  "is_read (KGet _ _ _) = True"
| "is_read (KList _ _ _) = True"
| "is_read _ = False"

section \<open>The machine\<close>

inductive ensured :: "kube \<Rightarrow> DistributedRedisCluster \<Rightarrow> knet \<Rightarrow> knet \<Rightarrow> bool" for kb drc s where
  stays: "ensured kb drc s s"
| looks: "ensured kb drc s t \<Longrightarrow> is_read q \<Longrightarrow> ensured kb drc s (emit (EKube q) t)"
| creates: "ensured kb drc s t \<Longrightarrow> owned drc ob \<Longrightarrow> absent kb (trace t) ob \<Longrightarrow>
    ensured kb drc s (emit (EKube (KCreateObj ob)) (emit (EKube (KGet (objKind ob) (objNamespace ob) (objName ob))) t))"
| updates: "ensured kb drc s t \<Longrightarrow> owned drc ob \<Longrightarrow> objKind ob \<in> {''StatefulSet'', ''ConfigMap''} \<Longrightarrow>
    ensured kb drc s (emit (EKube (KUpdateObj ob)) t)"

lemmas ensured_intros = ensured.intros

lemma ensured_trans: "ensured kb drc t u \<Longrightarrow> ensured kb drc s t \<Longrightarrow> ensured kb drc s u"
  by (induction rule: ensured.induct) (auto intro: ensured_intros)

lemma gpost_ensured:
  "gpost (\<lambda>(_, u). ensured kb drc t u) g \<Longrightarrow> ensured kb drc s t \<Longrightarrow> gpost (\<lambda>(_, u). ensured kb drc s u) g"
  by (erule gpost_mono) (auto intro: ensured_trans)

text \<open>What a run leaves in the trace.\<close>

fun ensurer_request :: "DistributedRedisCluster \<Rightarrow> kube_req \<Rightarrow> bool" where
  "ensurer_request drc (KCreateObj ob) = owned drc ob"
| "ensurer_request drc (KUpdateObj ob) = (owned drc ob \<and> objKind ob \<in> {''StatefulSet'', ''ConfigMap''})"
| "ensurer_request drc q = is_read q"

lemma ensured_requests:
  assumes "ensured kb drc s t"
  shows "cnx t = cnx s \<and> (\<exists>qs. trace t = trace s @ map EKube qs \<and> list_all (ensurer_request drc) qs)"
  using assms
proof (induction rule: ensured.induct)
  case (looks t q)
  then obtain qs where "cnx t = cnx s" "trace t = trace s @ map EKube qs" "list_all (ensurer_request drc) qs" by blast
  moreover have "ensurer_request drc q" using looks(2) by (cases q) simp_all
  ultimately show ?case by (auto simp: emit_def intro!: exI[of _ "qs @ [q]"])
next
  case (creates t ob)
  then obtain qs where "cnx t = cnx s" "trace t = trace s @ map EKube qs" "list_all (ensurer_request drc) qs" by blast
  then show ?case using creates(2)
    by (auto simp: emit_def intro!: exI[of _ "qs @ [KGet (objKind ob) (objNamespace ob) (objName ob), KCreateObj ob]"])
next
  case (updates t ob)
  then obtain qs where "cnx t = cnx s" "trace t = trace s @ map EKube qs" "list_all (ensurer_request drc) qs" by blast
  then show ?case using updates(2,3) by (auto simp: emit_def intro!: exI[of _ "qs @ [KUpdateObj ob]"])
qed simp

section \<open>The controllers of k8sutil\<close>

text \<open>What the ensurer relies on: reading an object sends one request, whose answer says when the
  object is absent, and creating one sends one request.\<close>

locale object_control =
  fixes kind :: string
    and obj :: "'o \<Rightarrow> kube_obj"
    and get :: "kube \<Rightarrow> string \<Rightarrow> string \<Rightarrow> knet \<Rightarrow> (go_error + 'a) \<times> knet"
    and create :: "kube \<Rightarrow> 'o \<Rightarrow> knet \<Rightarrow> go_error option \<times> knet"
  assumes obj_kind: "objKind (obj x) = kind"
    and get_sends: "snd (get kb ns n s) = emit (EKube (KGet kind ns n)) s"
    and get_absent: "not_found (fst (get kb (objNamespace (obj x)) (objName (obj x)) s)) \<Longrightarrow> absent kb (trace s) (obj x)"
    and create_sends: "snd (create kb x s) = emit (EKube (KCreateObj (obj x))) s"
begin

lemma get_ensured: "get kb ns n s = (r, s') \<Longrightarrow> ensured kb drc s s'"
  using get_sends[of kb ns n s] ensured.looks[OF ensured.stays, of "KGet kind ns n" kb drc s] by simp

lemma create_ensured:
  assumes "get kb (objNamespace (obj x)) (objName (obj x)) s = (Inl e, s')" and "IsNotFound e" and "owned drc (obj x)"
    and "create kb x s' = (r, s'')"
  shows "ensured kb drc s s''"
proof -
  have "absent kb (trace s) (obj x)" using get_absent assms(1,2) by (simp add: not_found_def)
  from ensured.creates[OF ensured.stays assms(3) this] show ?thesis
    using get_sends[of kb "objNamespace (obj x)" "objName (obj x)" s] create_sends[of kb x s'] assms(1,4) by (simp add: obj_kind)
qed

text \<open>The pattern of the ensurer: read, and create what is not found.\<close>

lemma get_or_create:
  assumes "owned drc (obj x)" and "ns = objNamespace (obj x)" and "n = objName (obj x)"
  shows "ensured kb drc s (snd (case get kb ns n s of
      (Inr _, s) \<Rightarrow> (None, s) | (Inl e, s) \<Rightarrow> if IsNotFound e then create kb x s else (Some e, s)))"
proof (cases "get kb ns n s")
  case (Pair r s')
  obtain c s'' where c: "create kb x s' = (c, s'')" by fastforce
  show ?thesis
  proof (cases "\<exists>e. r = Inl e \<and> IsNotFound e")
    case True
    then show ?thesis using create_ensured[OF _ _ assms(1) c, of s] Pair assms(2,3) c by auto
  next
    case False
    then show ?thesis using get_ensured[OF Pair] Pair by (auto split: sum.split)
  qed
qed

end

text \<open>Objects that are also updated.\<close>

locale object_editor = object_control kind obj get create
  for kind :: string and obj :: "'o \<Rightarrow> kube_obj" and get :: "kube \<Rightarrow> string \<Rightarrow> string \<Rightarrow> knet \<Rightarrow> (go_error + 'a) \<times> knet"
    and create :: "kube \<Rightarrow> 'o \<Rightarrow> knet \<Rightarrow> go_error option \<times> knet" +
  fixes update :: "kube \<Rightarrow> 'o \<Rightarrow> knet \<Rightarrow> go_error option \<times> knet"
  assumes kind_edited: "kind \<in> {''StatefulSet'', ''ConfigMap''}"
    and update_sends: "snd (update kb x s) = emit (EKube (KUpdateObj (obj x))) s"
begin

lemma update_ensured: "update kb x s = (r, s') \<Longrightarrow> owned drc (obj x) \<Longrightarrow> ensured kb drc s s'"
  using update_sends[of kb x s] ensured.updates[OF ensured.stays, of drc "obj x" kb s] kind_edited by (simp add: obj_kind)

text \<open>Read, create what is not found, and update what has changed.\<close>

lemma get_create_or_update:
  assumes "owned drc (obj x)" and "ns = objNamespace (obj x)" and "n = objName (obj x)"
  shows "ensured kb drc s (snd (case get kb ns n s of
      (Inl e, s) \<Rightarrow> if IsNotFound e then create kb x s else (Some e, s)
    | (Inr y, s) \<Rightarrow> if changed y then update kb x s else (None, s)))"
proof (cases "get kb ns n s")
  case (Pair r s')
  note g = get_ensured[OF Pair, of drc]
  have "ensured kb drc s (snd (update kb x s'))"
    using ensured_trans[OF update_ensured g] assms(1) by (metis prod.collapse)
  then show ?thesis using get_or_create[OF assms, of kb s] g Pair by (auto split: sum.splits)
qed

end

interpretation services: object_control "''Service''" ObjSvc GetService CreateService
  by unfold_locales (simp_all add: GetService_def CreateService_def request_def)

interpretation budgets: object_control "''PodDisruptionBudget''" ObjPdb GetPodDisruptionBudget CreatePodDisruptionBudget
  by unfold_locales (simp_all add: GetPodDisruptionBudget_def CreatePodDisruptionBudget_def request_def)

interpretation pods: object_control "''Pod''" ObjPod GetPod CreatePod
  by unfold_locales (simp_all add: GetPod_def CreatePod_def request_def)

interpretation jobs: object_control "''Job''" ObjJob GetJob CreateJob
  by unfold_locales (simp_all add: GetJob_def CreateJob_def request_def)

interpretation secrets: object_control "''Secret''" ObjSecret clientGetSecret "\<lambda>kb secret. request kb (KCreateObj (ObjSecret secret))"
  by unfold_locales (simp_all add: clientGetSecret_def request_def)

interpretation config_maps: object_editor "''ConfigMap''" ObjCm GetConfigMap CreateConfigMap UpdateConfigMap
  by unfold_locales (simp_all add: GetConfigMap_def CreateConfigMap_def UpdateConfigMap_def request_def)

interpretation stateful_sets: object_editor "''StatefulSet''" ObjSts GetStatefulSet CreateStatefulSet UpdateStatefulSet
  by unfold_locales (simp_all add: GetStatefulSet_def CreateStatefulSet_def UpdateStatefulSet_def request_def)

section \<open>The methods of the ensurer\<close>

lemma built_owned [simp]:
  "owned drc (ObjPdb (NewPodDisruptionBudgetForCR drc name labels))"
  "owned drc (ObjSvc (NewHeadLessSvcForCR drc name labels))"
  "owned drc (ObjCm (NewConfigMapForCR drc labels))"
  "owned drc (ObjCm (NewConfigMapForRestore drc labels))"
  by (simp_all add: owned_def NewPodDisruptionBudgetForCR_def NewHeadLessSvcForCR_def NewConfigMapForCR_def
      NewConfigMapForRestore_def)

lemma built_sts: "NewStatefulSetForCR out drc ssName svcName labels = Ret (Inr sts) \<Longrightarrow> owned drc (ObjSts sts)"
  by (simp add: owned_def NewStatefulSetForCR_Ret)

lemma built_svc:
  assumes "NewSvcForCR drc name labels = Ret svc"
  shows "owned drc (ObjSvc svc)" "SvName svc = name" "SvNamespace svc = DrcNamespace drc"
  using assms by (auto simp: NewSvcForCR_def owned_def outcome_simps)

lemma ensureRedisPDB_ensured: "ensured kb drc s (snd (ensureRedisPDB kb drc name labels s))"
  unfolding ensureRedisPDB_def
  by (rule budgets.get_or_create) (simp, simp_all add: NewPodDisruptionBudgetForCR_def)

lemma ensureRedisHeadLessSvc_ensured: "ensured kb drc s (snd (ensureRedisHeadLessSvc kb drc name labels s))"
  unfolding ensureRedisHeadLessSvc_def
  by (rule services.get_or_create) (simp, simp_all add: NewHeadLessSvcForCR_def)

lemma ensureConf_ensured: "ensured kb drc s (snd (ensureConf kb drc labels s))"
  unfolding ensureConf_def
  by (rule config_maps.get_create_or_update) (simp, simp_all add: NewConfigMapForCR_def)

lemma ensureRestoreConf_ensured: "ensured kb drc s (snd (ensureRestoreConf kb drc labels s))"
  unfolding ensureRestoreConf_def
  by (rule config_maps.get_create_or_update) (simp, simp_all add: NewConfigMapForRestore_def)

lemma EnsureRedisConfigMap_ensured: "ensured kb drc s (snd (EnsureRedisConfigMap kb drc labels s))"
proof (cases "ensureConf kb drc labels s")
  case (Pair e t)
  then have "ensured kb drc s t" using ensureConf_ensured[of kb drc s labels] by simp
  then show ?thesis using Pair ensured_trans[OF ensureRestoreConf_ensured]
    by (auto simp: EnsureRedisConfigMap_def split: option.split)
qed

lemma headLessLoop_ensured: "ensured kb drc s (snd (headLessLoop kb drc is labels s))"
proof (induction "is" arbitrary: labels s)
  case (Cons i js)
  let ?l = "mput StatefulSetLabel (ClusterStatefulSetName (DrcName drc) i) labels"
  let ?r = "ensureRedisHeadLessSvc kb drc (ClusterHeadlessSvcName (ServiceName (Spec drc)) i) ?l s"
  have "ensured kb drc s (snd ?r)" by (rule ensureRedisHeadLessSvc_ensured)
  then show ?case using ensured_trans[OF Cons.IH] by (cases ?r) (auto simp: Let_def split: option.split)
qed (simp add: ensured.stays)

lemma EnsureRedisSvc_ensured: "gpost (\<lambda>(_, s'). ensured kb drc s s') (EnsureRedisSvc kb drc labels s)"
proof (cases "GetService kb (DrcNamespace drc) (ServiceName (Spec drc)) s")
  case (Pair r t)
  note g = services.get_ensured[OF Pair, of drc]
  have "ensured kb drc s (snd (CreateService kb svc t))"
    if "r = Inl e" "IsNotFound e" "NewSvcForCR drc (ServiceName (Spec drc)) (mdel StatefulSetLabel labels) = Ret svc" for e svc
    using services.create_ensured[of kb svc s e t drc] Pair that built_svc[OF that(3)] by (metis objName.simps(3) objNamespace.simps(3) prod.collapse)
  then show ?thesis using g Pair
    by (auto simp: EnsureRedisSvc_def Let_def split: sum.split prod.split intro!: gpost_I) force+
qed

text \<open>A stateful set that was built from the resource may be created or updated.\<close>

lemma sts_created:
  assumes "GetStatefulSet kb (DrcNamespace drc) ssName s = (Inl e, t)" and "IsNotFound e"
    and "NewStatefulSetForCR out drc ssName svcName labels = Ret (Inr sts)"
  shows "ensured kb drc s (snd (CreateStatefulSet kb sts t))"
proof -
  have "GetStatefulSet kb (objNamespace (ObjSts sts)) (objName (ObjSts sts)) s = (Inl e, t)"
    using assms(1) NewStatefulSetForCR_Ret(2,3)[OF assms(3)] by simp
  from stateful_sets.create_ensured[OF this assms(2) built_sts[OF assms(3)]] show ?thesis by (metis prod.collapse)
qed

lemma sts_updated:
  assumes "NewStatefulSetForCR out drc ssName svcName labels = Ret (Inr sts)"
  shows "ensured kb drc s (snd (UpdateStatefulSet kb sts s))"
  using stateful_sets.update_ensured[OF _ built_sts[OF assms]] by (metis prod.collapse)

lemma ensureRedisStatefulset_ensured:
  "gpost (\<lambda>(_, s'). ensured kb drc s s') (ensureRedisStatefulset out kb drc ssName svcName labels s)"
proof -
  obtain e t where t: "ensureRedisPDB kb drc ssName labels s = (e, t)" by fastforce
  obtain r u where u: "GetStatefulSet kb (DrcNamespace drc) ssName t = (r, u)" by fastforce
  have st: "ensured kb drc s t" using ensureRedisPDB_ensured[of kb drc s ssName labels] t by simp
  have su: "ensured kb drc s u" using ensured_trans[OF stateful_sets.get_ensured[OF u] st] .
  have up: "ensured kb drc s (snd (UpdateStatefulSet kb sts u))"
    if "NewStatefulSetForCR out drc ssName svcName labels = Ret (Inr sts)" for sts
    using ensured_trans[OF sts_updated[OF that] su] .
  have cr: "ensured kb drc s (snd (CreateStatefulSet kb sts u))"
    if "r = Inl x" "IsNotFound x" "NewStatefulSetForCR out drc ssName svcName labels = Ret (Inr sts)" for x sts
    using ensured_trans[OF sts_created[OF u[unfolded that(1)] that(2,3)] st] .
  show ?thesis
  proof (cases e)
    case None
    show ?thesis using su up cr
      by (auto simp: ensureRedisStatefulset_def t u None split: sum.split prod.split intro!: gpost_I) force+
  qed (simp add: ensureRedisStatefulset_def t st)
qed

lemma ensureStsLoop_ensured:
  "gpost (\<lambda>(_, s'). ensured kb drc s s') (ensureStsLoop out kb drc is updated labels s)"
proof (induction "is" arbitrary: updated labels s)
  case (Cons i js)
  show ?case unfolding ensureStsLoop.simps Let_def gpost_gbind
    by (rule gpost_mono[OF ensureRedisStatefulset_ensured])
       (auto split: option.split intro: gpost_ensured[OF Cons.IH])
qed (simp add: ensured.stays)

lemma updateStsLoop_ensured: "gpost (\<lambda>(_, s'). ensured kb drc s s') (updateStsLoop out kb drc is labels s)"
proof (induction "is" arbitrary: labels s)
  case (Cons i js)
  have one: "gpost (\<lambda>(_, s'). ensured kb drc s s') (updateRedisStatefulset out kb drc name svc l s)" for name svc l
    unfolding updateRedisStatefulset_def gpost_gbind
    by (auto split: sum.split prod.split intro!: gpost_I intro: ensured.stays) (metis snd_conv sts_updated)
  show ?case unfolding updateStsLoop.simps Let_def gpost_gbind
    by (rule gpost_mono[OF one]) (auto split: option.split intro: gpost_ensured[OF Cons.IH])
qed (simp add: ensured.stays)

text \<open>The secret of a restore belongs to the cluster, too.\<close>

lemma NewRcloneSecret_ensured:
  assumes "NewRcloneSecret out kb name (DrcNamespace drc) spec (DefaultOwnerReferences drc) s = (r, s')"
  shows "ensured kb drc s s'" and "r = Inr secret \<Longrightarrow> owned drc (ObjSecret secret)"
  using assms
  by (auto simp: NewRcloneSecret_def newContext_def Let_def owned_def split: sum.splits prod.splits if_splits option.splits
      intro: ensured.stays secrets.get_ensured)

lemma EnsureRedisRCloneSecret_ensured: "gpost (\<lambda>(_, s'). ensured kb drc s s') (EnsureRedisRCloneSecret out kb drc s)"
proof -
  have "ensured kb drc s (snd (CreateSecret kb secret t))"
    if "NewRcloneSecret out kb name (DrcNamespace drc) spec (DefaultOwnerReferences drc) s = (Inr secret, t)" for name spec secret t
  proof -
    note S = NewRcloneSecret_ensured[OF that]
    have "ensured kb drc t (snd (CreateSecret kb secret t))"
      unfolding CreateSecret_def by (rule secrets.get_or_create) (use S(2) in simp_all)
    from ensured_trans[OF this S(1)] show ?thesis .
  qed
  then show ?thesis
    unfolding EnsureRedisRCloneSecret_def
    by (auto split: option.split sum.split prod.split intro!: gpost_I intro: ensured.stays NewRcloneSecret_ensured(1)) force+
qed

end
