(* ===== verification/Exec.thy ===== *)
theory Exec
  imports Kube
begin

text \<open>
  \<open>src/pkg/exec/exec.go\<close>: commands in the containers of pods. The remote command library is
  outside: \<open>execDial\<close> says whether an executor for the request can be made, \<open>execOutput\<close> what the
  command writes to its two streams, and the answer of the API server to the request is the error
  of the stream. A request enters the trace when the stream is opened.
\<close>

record ExecOptions =
  EoCommand :: "string list"
  EoNamespace :: string
  EoPodName :: string
  EoContainerName :: string
  EoStdin :: "string option"
  EoCaptureStdout :: bool
  EoCaptureStderr :: bool
  EoPreserveWhitespace :: bool

text \<open>\<open>execute\<close>: the bytes in the two buffers afterwards and the error.\<close>

definition execute :: "kube \<Rightarrow> PodExec \<Rightarrow> knet \<Rightarrow> (string \<times> string \<times> go_error option) \<times> knet" where
  "execute kb req s =
     (case execDial kb (trace s) req of
        Some e \<Rightarrow> (([], [], Some e), s)
      | None \<Rightarrow>
          (let (out, err) = execOutput kb (trace s) req;
               (e, s) = request kb (KExec req) s
           in ((out, err, e), s)))"

definition ExecWithOptions ::
    "kube \<Rightarrow> ExecOptions \<Rightarrow> knet \<Rightarrow> (string \<times> string \<times> go_error option) \<times> knet" where
  "ExecWithOptions kb options s =
     (let req = \<lparr>PxNamespace = EoNamespace options, PxPod = EoPodName options,
                 PxContainerParam = EoContainerName options, PxContainer = EoContainerName options,
                 PxCommand = EoCommand options, PxStdin = (EoStdin options \<noteq> None),
                 PxStdout = EoCaptureStdout options, PxStderr = EoCaptureStderr options,
                 PxTTY = False\<rparr>;
          ((stdout, stderr, err), s) = execute kb req s
      in if EoPreserveWhitespace options then ((stdout, stderr, err), s)
         else ((TrimSpace stdout, TrimSpace stderr, err), s))"

definition ExecCommandInContainerWithFullOutput ::
    "kube \<Rightarrow> string \<Rightarrow> string \<Rightarrow> string \<Rightarrow> string list \<Rightarrow> knet
       \<Rightarrow> (string \<times> string \<times> go_error option) \<times> knet" where
  "ExecCommandInContainerWithFullOutput kb namespace podName containerName cmd s =
     ExecWithOptions kb \<lparr>EoCommand = cmd, EoNamespace = namespace, EoPodName = podName,
       EoContainerName = containerName, EoStdin = None, EoCaptureStdout = True,
       EoCaptureStderr = True, EoPreserveWhitespace = False\<rparr> s"

text \<open>What the command writes to its error stream is logged only.\<close>

definition ExecCommandInContainer ::
    "kube \<Rightarrow> string \<Rightarrow> string \<Rightarrow> string \<Rightarrow> string list \<Rightarrow> knet \<Rightarrow> (string \<times> go_error option) \<times> knet" where
  "ExecCommandInContainer kb namespace podName containerName cmd s =
     (let ((stdout, stderr, err), s) = ExecCommandInContainerWithFullOutput kb namespace podName containerName cmd s
      in ((stdout, err), s))"

fun ExecCommandInPodSet :: "kube \<Rightarrow> Pod list \<Rightarrow> string list \<Rightarrow> knet \<Rightarrow> (go_error option \<times> knet) go" where
  "ExecCommandInPodSet kb [] cmd s = Ret (None, s)"
| "ExecCommandInPodSet kb (pod # pods) cmd s =
     (case PoContainers pod of
        [] \<Rightarrow> Panic ''index out of range''
      | c # _ \<Rightarrow>
          (case ExecCommandInContainer kb (PoNamespace pod) (PoName pod) (CoName c) cmd s of
             ((_, Some e), s) \<Rightarrow> Ret (Some e, s)
           | ((_, None), s) \<Rightarrow> ExecCommandInPodSet kb pods cmd s))"

section \<open>What reaches the pods\<close>

definition podExec :: "string list \<Rightarrow> Pod \<Rightarrow> PodExec" where
  "podExec cmd pod = (let c = CoName (hd (PoContainers pod)) in
     \<lparr>PxNamespace = PoNamespace pod, PxPod = PoName pod, PxContainerParam = c, PxContainer = c,
      PxCommand = cmd, PxStdin = False, PxStdout = True, PxStderr = True, PxTTY = False\<rparr>)"

text \<open>Running a command in one container: at most one request, the first error of dialing and
  streaming.\<close>

lemma ExecCommandInContainer_pod:
  assumes "PoContainers pod = c # cs"
  shows "ExecCommandInContainer kb (PoNamespace pod) (PoName pod) (CoName c) cmd s =
    (case execDial kb (trace s) (podExec cmd pod) of
       Some e \<Rightarrow> ((TrimSpace [], Some e), s)
     | None \<Rightarrow> ((TrimSpace (fst (execOutput kb (trace s) (podExec cmd pod))),
                apiError kb (trace s) (KExec (podExec cmd pod))),
               emit (EKube (KExec (podExec cmd pod))) s))"
  using assms
  by (simp add: ExecCommandInContainer_def ExecCommandInContainerWithFullOutput_def ExecWithOptions_def
      execute_def podExec_def request_def Let_def split: option.split prod.split)

end
