(* ===== verification/Reconcile.thy ===== *)
theory Reconcile
  imports Ensurer Exec
begin

text \<open>
  One round of the controller: \<open>Reconcile\<close> and the event filters of
  \<open>src/pkg/controller/distributedrediscluster/distributedrediscluster_controller.go\<close>, with
  \<open>ensureCluster\<close> and \<open>resetClusterPassword\<close> of \<open>sync_handler.go\<close>. The pointer to the cluster
  resource is passed through the calls that change it and returned, so that the result of
  \<open>Reconcile\<close> carries the resource as the round leaves it (\<open>None\<close> when it could not be read).
\<close>

text \<open>
  The reconciler: its clients are the environments of Redis, of the API server and of the rest;
  \<open>rFuel\<close> bounds the pairing loop of \<open>RebalancedCluster\<close>, the formatting functions occur in error
  texts, and \<open>reconcileTime\<close> is the flag \<open>ctr-reconciletime\<close>, in seconds.
\<close>

record ReconcileDistributedRedisCluster =
  rEnv :: kenv
  rKube :: kube
  rOut :: outside
  rFuel :: nat
  rFmtTime :: "int \<Rightarrow> string"
  rFmtNodes :: "Node list \<Rightarrow> string"
  rAggregate :: "string list \<Rightarrow> string"
  reconcileTime :: int

record Result =
  RsRequeue :: bool
  RequeueAfter :: int

definition noResult :: Result where "noResult = \<lparr>RsRequeue = False, RequeueAfter = 0\<rparr>"

definition requeueAfter :: int where "requeueAfter = 10000000000"

definition later :: "int \<Rightarrow> Result" where "later d = \<lparr>RsRequeue = False, RequeueAfter = d\<rparr>"

section \<open>Event filters\<close>

definition UpdateFunc :: "bool \<Rightarrow> DistributedRedisCluster \<Rightarrow> DistributedRedisCluster \<Rightarrow> bool" where
  "UpdateFunc isClusterScoped old new =
     (if \<not> ShoudManage isClusterScoped (DrcAnnotations new) then False
      else if DrcGeneration old \<noteq> DrcGeneration new then True else False)"

definition DeleteFunc :: "bool \<Rightarrow> DistributedRedisCluster \<Rightarrow> bool \<Rightarrow> bool" where
  "DeleteFunc isClusterScoped drc deleteStateUnknown =
     (if \<not> ShoudManage isClusterScoped (DrcAnnotations drc) then False else \<not> deleteStateUnknown)"

definition CreateFunc :: "bool \<Rightarrow> DistributedRedisCluster \<Rightarrow> bool" where
  "CreateFunc isClusterScoped drc = (if \<not> ShoudManage isClusterScoped (DrcAnnotations drc) then False else True)"

section \<open>sync_handler.go: resetClusterPassword\<close>

definition changePassword :: "kenv \<Rightarrow> kube \<Rightarrow> Pod list \<Rightarrow> string \<Rightarrow> knet \<Rightarrow> (go_error option \<times> knet) go" where
  "changePassword env kb podSet newPassword s =
     gbind (ExecCommandInPodSet kb podSet [''/bin/sh'', ''-c'', ''echo '' @ newPassword @ '' > /data/redis_password''] s)
       (\<lambda>(e, s). case e of Some e \<Rightarrow> Ret (Some e, s) | None \<Rightarrow> ResetPassword env newPassword s)"

text \<open>The admin of this function has a pool of its own, which is closed when it returns.\<close>

definition newPasswordFrom ::
    "ReconcileDistributedRedisCluster \<Rightarrow> StatefulSet \<Rightarrow> DistributedRedisCluster \<Rightarrow> Pod list \<Rightarrow> knet \<Rightarrow> (go_error option \<times> knet) go" where
  "newPasswordFrom r sts drc podItems s =
     gbind (GetOldRedisClusterPassword (rKube r) sts s) (\<lambda>(old, s).
       case old of
         Inl e \<Rightarrow> Ret (Some e, s)
       | Inr oldPassword \<Rightarrow>
           (case GetClusterPassword (rKube r) drc s of
              (Inl e, s) \<Rightarrow> Ret (Some e, s)
            | (Inr newPassword, s) \<Rightarrow>
                let podSet = clusterPods podItems in
                gbind (newRedisAdmin (rEnv r) podSet oldPassword (redisConf (rOut r)) s) (\<lambda>t.
                gbind (changePassword (rEnv r) (rKube r) podSet newPassword t) (\<lambda>(e, t).
                  Ret (e, s\<lparr>trace := trace (Admin_Close (rEnv r) t)\<rparr>)))))"

definition resetClusterPassword ::
    "ReconcileDistributedRedisCluster \<Rightarrow> DistributedRedisCluster \<Rightarrow> knet \<Rightarrow>
     ((go_error option \<times> DistributedRedisCluster) \<times> knet) go" where
  "resetClusterPassword r drc s =
     gbind (CheckRedisNodeNum (rKube r) drc s) (\<lambda>(err, s).
       if err \<noteq> None then Ret ((None, drc), s)
       else case GetStatefulSet (rKube r) (DrcNamespace drc) (ClusterStatefulSetName (DrcName drc) 0) s of
         (Inl e, s) \<Rightarrow> Ret ((Some e, drc), s)
       | (Inr sts, s) \<Rightarrow>
           gbind (IsPasswordChanged drc sts) (\<lambda>changed.
             if \<not> changed then Ret ((None, drc), s)
             else
               let drc = drc\<lparr>Status := SetClusterResetPassword (''updating cluster'' @ [CHR 0x27] @ ''s password'') (Status drc)\<rparr>;
                   s = snd (UpdateCRStatus (rKube r) drc s)
               in case GetStatefulSetPodsByLabels (rKube r) (DrcNamespace drc) (getLabels drc) s of
                    (Inl e, s) \<Rightarrow> Ret ((Some e, drc), s)
                  | (Inr podItems, s) \<Rightarrow>
                      gbind (newPasswordFrom r sts drc podItems s) (\<lambda>(e, s). Ret ((e, drc), s))))"

section \<open>sync_handler.go: ensureCluster\<close>

definition typedError :: "string \<Rightarrow> go_error \<Rightarrow> go_error" where
  "typedError msg e =
     (if IsRequestRetryable e then ErrorType_Wrap Kubernetes e msg else ErrorType_Wrap StopRetry e ''stop retry'')"

text \<open>A rolling update is announced and awaited; the error of the announcement is dropped.\<close>

definition rollingUpdate ::
    "kube \<Rightarrow> DistributedRedisCluster \<Rightarrow> knet \<Rightarrow> (go_error option \<times> DistributedRedisCluster) \<times> knet" where
  "rollingUpdate kb drc s =
     (let drc = drc\<lparr>Status := SetClusterUpdating ''cluster spec updated'' (Status drc)\<rparr>;
          s = snd (UpdateCRStatus kb drc s)
      in case waiting kb (waitStatefulSetUpdating ''waitStatefulSetUpdating''
                (30000000000 * (ClusterReplicas (Spec drc) + 2)) 5000000000 kb drc) s of (e, s) \<Rightarrow> ((e, drc), s))"

definition ensureServices ::
    "ReconcileDistributedRedisCluster \<Rightarrow> DistributedRedisCluster \<Rightarrow> labels \<Rightarrow> knet \<Rightarrow> (go_error option \<times> knet) go" where
  "ensureServices r drc labels s =
     (case EnsureRedisHeadLessSvcs (rKube r) drc labels s of
        ((Some e, labels), s) \<Rightarrow> Ret (Some (ErrorType_Wrap Kubernetes e ''EnsureRedisHeadLessSvcs''), s)
      | ((None, labels), s) \<Rightarrow>
          gbind (EnsureRedisSvc (rKube r) drc labels s) (\<lambda>((err, labels), s).
            case err of
              Some e \<Rightarrow> Ret (Some (ErrorType_Wrap Kubernetes e ''EnsureRedisSvc''), s)
            | None \<Rightarrow>
                gbind (EnsureRedisRCloneSecret (rOut r) (rKube r) drc s) (\<lambda>(err, s).
                  Ret (map_option (typedError ''EnsureRedisRCloneSecret'') err, s))))"

definition ensureObjects ::
    "ReconcileDistributedRedisCluster \<Rightarrow> DistributedRedisCluster \<Rightarrow> labels \<Rightarrow> knet \<Rightarrow>
     ((go_error option \<times> DistributedRedisCluster) \<times> knet) go" where
  "ensureObjects r drc labels s =
     gbind (EnsureRedisStatefulsets (rOut r) (rKube r) drc labels s) (\<lambda>((updated, err, labels), s).
       case err of
         Some e \<Rightarrow> Ret ((Some (ErrorType_Wrap Kubernetes e ''EnsureRedisStatefulSets''), drc), s)
       | None \<Rightarrow>
           (case (if updated then rollingUpdate (rKube r) drc s else ((None, drc), s)) of
              ((Some e, drc), s) \<Rightarrow> Ret ((Some e, drc), s)
            | ((None, drc), s) \<Rightarrow> gbind (ensureServices r drc labels s) (\<lambda>(e, s). Ret ((e, drc), s))))"

definition ensureCluster ::
    "ReconcileDistributedRedisCluster \<Rightarrow> DistributedRedisCluster \<Rightarrow> knet \<Rightarrow>
     ((go_error option \<times> DistributedRedisCluster) \<times> knet) go" where
  "ensureCluster r drc s =
     gbind (validateAndSetDefault (sizeOfRes (rOut r)) (rKube r) drc s) (\<lambda>((err, drc), s).
       case err of
         Some e \<Rightarrow> Ret ((Some (typedError ''Validate'' e), drc), s)
       | None \<Rightarrow>
           let drc = dbLoadedFromDiskWhenRestore drc; labels = getLabels drc in
           case EnsureRedisConfigMap (rKube r) drc labels s of
             (Some e, s) \<Rightarrow> Ret ((Some (ErrorType_Wrap Kubernetes e ''EnsureRedisConfigMap''), drc), s)
           | (None, s) \<Rightarrow>
               gbind (resetClusterPassword r drc s) (\<lambda>((err, drc), s).
                 case err of
                   Some e \<Rightarrow> Ret ((Some (ErrorType_Wrap ClusterErr e ''ResetPassword''), drc), s)
                 | None \<Rightarrow> ensureObjects r drc labels s))"

section \<open>Reconcile\<close>

definition isScalingDown :: "kube \<Rightarrow> DistributedRedisCluster \<Rightarrow> knet \<Rightarrow> bool \<times> knet" where
  "isScalingDown kb drc s =
     (case ListStatefulSetByLabels kb (DrcNamespace drc) (getLabels drc) s of
        (Inl e, s) \<Rightarrow> (False, s)
      | (Inr stsList, s) \<Rightarrow> (if int (length stsList) > MasterSize (Spec drc) then (True, s) else (False, s)))"

type_synonym round = "((Result \<times> go_error option \<times> DistributedRedisCluster) \<times> knet) go"

definition setPhase :: "RestorePhase \<Rightarrow> DistributedRedisCluster \<Rightarrow> DistributedRedisCluster" where
  "setPhase p drc = drc\<lparr>Status := (Status drc)\<lparr>DRestore := (DRestore (Status drc))\<lparr>RePhase := p\<rparr>\<rparr>\<rparr>"

text \<open>The masters have loaded the backup: they restart without the restore container.\<close>

definition restoreRestart :: "ReconcileDistributedRedisCluster \<Rightarrow> DistributedRedisCluster \<Rightarrow> knet \<Rightarrow> round" where
  "restoreRestart r drc s =
     (let drc = setPhase RestorePhaseRestart drc in
      case UpdateCRStatus (rKube r) drc s of
        (Some e, s) \<Rightarrow> Ret ((noResult, Some e, drc), s)
      | (None, s) \<Rightarrow>
          gbind (UpdateRedisStatefulsets (rOut r) (rKube r) drc (getLabels drc) s) (\<lambda>(err, s).
            case err of
              Some e \<Rightarrow> Ret ((noResult, Some e, drc), s)
            | None \<Rightarrow>
                (case waiting (rKube r) (waitStatefulSetUpdating ''waitMasterNodeRestarting'' 60000000000 5000000000
                        (rKube r) drc) s of
                   (Some e, s) \<Rightarrow> Ret ((noResult, Some e, drc), s)
                 | (None, s) \<Rightarrow> Ret ((\<lparr>RsRequeue = True, RequeueAfter = 0\<rparr>, None, drc), s))))"

text \<open>The masters have restarted: the number of replicas is that of the backup again.\<close>

definition restoreSucceeded :: "ReconcileDistributedRedisCluster \<Rightarrow> DistributedRedisCluster \<Rightarrow> knet \<Rightarrow> round" where
  "restoreSucceeded r drc s =
     (let drc = setPhase RestorePhaseSucceeded drc in
      case UpdateCRStatus (rKube r) drc s of
        (Some e, s) \<Rightarrow> Ret ((noResult, Some e, drc), s)
      | (None, s) \<Rightarrow>
          (case ReBackup (DRestore (Status drc)) of
             None \<Rightarrow> Panic ''nil pointer dereference''
           | Some backup \<Rightarrow>
               let drc = drc\<lparr>Spec := (Spec drc)\<lparr>ClusterReplicas := BuClusterReplicas (BuStatus backup)\<rparr>\<rparr> in
               case UpdateCR (rKube r) drc s of (err, s) \<Rightarrow> Ret ((noResult, err, drc), s)))"

text \<open>The status of the pods; each loop over a map has an order of its own.\<close>

definition statusNow ::
    "kenv \<Rightarrow> ClusterInfos \<Rightarrow> Pod list \<Rightarrow> DistributedRedisCluster \<Rightarrow> knet \<Rightarrow> DistributedRedisClusterStatus" where
  "statusNow env infos pods drc s =
     buildClusterStatus (\<lambda>i. rangeOrd env (trace s) (''buildClusterStatus'' @ fmt_nat i))
       (rangeOrd env (trace s) ''buildClusterStatus'') infos pods drc"

definition clusterRound ::
    "ReconcileDistributedRedisCluster \<Rightarrow> Pod list \<Rightarrow> ClusterInfos \<Rightarrow> DistributedRedisCluster \<Rightarrow> knet \<Rightarrow> round" where
  "clusterRound r pods infos drc s =
     gbind (GetClusterInfos (rEnv r) s) (\<lambda>((newInfos, err), s).
       if err \<noteq> None \<and> InfosStatus infos = ClusterInfosPartial
       then Ret ((noResult, map_option (\<lambda>e. ErrorType_Wrap Redis e ''GetClusterInfos'') err, drc), s)
       else
         let newStatus = SetClusterOK ''OK'' (statusNow (rEnv r) newInfos pods drc s);
             (drc, s) = updateClusterIfNeed (rKube r) drc newStatus s
         in Ret ((later (reconcileTime r * 1000000000), None, drc), s))"

definition operateRound ::
    "ReconcileDistributedRedisCluster \<Rightarrow> Pod list \<Rightarrow> ClusterInfos \<Rightarrow> DistributedRedisCluster \<Rightarrow> knet \<Rightarrow> round" where
  "operateRound r pods infos drc s =
     gbind (SetConfigIfNeed (rEnv r) (case Config (Spec drc) of None \<Rightarrow> [] | Some m \<Rightarrow> m) s) (\<lambda>(err, s).
       case err of
         Some e \<Rightarrow> Ret ((noResult, Some (ErrorType_Wrap Redis e ''SetConfigIfNeed''), drc), s)
       | None \<Rightarrow>
           let status = statusNow (rEnv r) infos pods drc s;
               infos = printedForPods pods infos;
               (is, s) = isScalingDown (rKube r) drc s;
               status = (if is then SetClusterRebalancing ''scaling down'' status else status);
               (drc, s) = updateClusterIfNeed (rKube r) drc status s;
               drc = drc\<lparr>Status := status\<rparr>
           in if needClusterOperation drc
              then gbind (syncCluster (rFuel r) (rFmtTime r) (rFmtNodes r) (rEnv r) (rKube r) drc infos s)
                     (\<lambda>((err, drc, h), s).
                       case err of
                         Some e \<Rightarrow>
                           let (drc, s) = updateClusterIfNeed (rKube r) drc
                                 (SetClusterFailed (error_text (rAggregate r) e) (Status drc)) s
                           in Ret ((noResult, Some e, drc), s)
                       | None \<Rightarrow> clusterRound r pods infos drc s)
              else clusterRound r pods infos drc s)"

definition joinedRound ::
    "ReconcileDistributedRedisCluster \<Rightarrow> Pod list \<Rightarrow> ClusterInfos \<Rightarrow> DistributedRedisCluster \<Rightarrow> knet \<Rightarrow> round" where
  "joinedRound r pods infos drc s =
     gbind (waitForClusterJoin (rEnv r) infos s) (\<lambda>(err, s).
       case err of
         Some e \<Rightarrow>
           if GetType e = Requeue then Ret ((later requeueAfter, None, drc), s)
           else let (drc, s) = updateClusterIfNeed (rKube r) drc
                      (SetClusterFailed (error_text (rAggregate r) e) (Status drc)) s
                in Ret ((noResult, Some e, drc), s)
       | None \<Rightarrow>
           if IsRestoreFromBackup drc \<and> IsRestoreRunning drc then restoreRestart r drc s
           else if IsRestoreFromBackup drc \<and> IsRestoreRestarting drc then restoreSucceeded r drc s
           else operateRound r pods infos drc s)"

definition redisRound ::
    "ReconcileDistributedRedisCluster \<Rightarrow> Pod list \<Rightarrow> CheckAndHeal \<Rightarrow> DistributedRedisCluster \<Rightarrow> knet \<Rightarrow> round" where
  "redisRound r pods healer drc s =
     gbind (GetClusterInfos (rEnv r) s) (\<lambda>((infos, err), s).
       if err \<noteq> None \<and> InfosStatus infos = ClusterInfosPartial
       then Ret ((noResult, map_option (\<lambda>e. ErrorType_Wrap Redis e ''GetClusterInfos'') err, drc), s)
       else gbind (Heal (rEnv r) (rKube r) healer drc infos s) (\<lambda>((requeue, err), s).
         case err of
           Some e \<Rightarrow> Ret ((noResult, Some (ErrorType_Wrap Redis e ''Heal''), drc), s)
         | None \<Rightarrow> if requeue then Ret ((later requeueAfter, None, drc), s) else joinedRound r pods infos drc s))"

definition scalingLater ::
    "ReconcileDistributedRedisCluster \<Rightarrow> DistributedRedisCluster \<Rightarrow> go_error \<Rightarrow> knet \<Rightarrow> round" where
  "scalingLater r drc e s =
     (let (drc, s) = updateClusterIfNeed (rKube r) drc (SetClusterScaling (error_text (rAggregate r) e) (Status drc)) s
      in Ret ((later requeueAfter, None, drc), s))"

definition podRound :: "ReconcileDistributedRedisCluster \<Rightarrow> DistributedRedisCluster \<Rightarrow> knet \<Rightarrow> round" where
  "podRound r drc s =
     (case GetStatefulSetPodsByLabels (rKube r) (DrcNamespace drc) (getLabels drc) s of
        (Inl e, s) \<Rightarrow> Ret ((noResult, Some (ErrorType_Wrap Kubernetes e ''GetStatefulSetPods''), drc), s)
      | (Inr podItems, s) \<Rightarrow>
          let pods = clusterPods podItems; healer = \<lparr>Pods = pods, DryRun = False\<rparr> in
          gbind (waitPodReady (rKube r) healer drc s) (\<lambda>(err, s).
            case err of
              Some e \<Rightarrow>
                if GetType e = Kubernetes then Ret ((noResult, Some e, drc), s) else scalingLater r drc e s
            | None \<Rightarrow>
                (case GetClusterPassword (rKube r) drc s of
                   (Inl e, s) \<Rightarrow> Ret ((noResult, Some (ErrorType_Wrap Kubernetes e ''getClusterPassword''), drc), s)
                 | (Inr pw, s) \<Rightarrow>
                     gbind (newRedisAdmin (rEnv r) pods pw (redisConf (rOut r)) s) (\<lambda>s.
                     gbind (redisRound r pods healer drc s) (\<lambda>(res, s). Ret (res, Admin_Close (rEnv r) s))))))"

definition Reconcile ::
    "ReconcileDistributedRedisCluster \<Rightarrow> string \<Rightarrow> string \<Rightarrow> knet \<Rightarrow>
     ((Result \<times> go_error option \<times> DistributedRedisCluster option) \<times> knet) go" where
  "Reconcile r namespace name s =
     (case GetDistributedRedisCluster (rKube r) namespace name s of
        (Inl e, s) \<Rightarrow> Ret ((noResult, if IsNotFound e then None else Some e, None), s)
      | (Inr drc, s) \<Rightarrow>
          gbind (ensureCluster r drc s) (\<lambda>((err, drc), s).
          gbind (case err of
                   Some e \<Rightarrow> if GetType e = StopRetry then Ret ((noResult, None, drc), s) else scalingLater r drc e s
                 | None \<Rightarrow> podRound r drc s)
            (\<lambda>((res, err, drc), s). Ret ((res, err, Some drc), s))))"

end
