(* ===== verification/Reconcile_Facts.thy ===== *)
theory Reconcile_Facts
  imports Reconcile Sync_Facts
begin

text \<open>
  What a round of the controller does to the restore phase, an abstract machine of four states
  that the round refines, when a round ends in the healthy state, and when it gives up.
\<close>

section \<open>The restore phase as a state machine\<close>

inductive restore_step :: "RestorePhase \<Rightarrow> RestorePhase \<Rightarrow> bool" where
  start: "restore_step RestorePhaseEmpty RestorePhaseRunning"
| restart: "restore_step RestorePhaseRunning RestorePhaseRestart"
| succeed: "restore_step RestorePhaseRestart RestorePhaseSucceeded"

text \<open>Preparing a resource can start a restore, and nothing else.\<close>

definition starts :: "RestorePhase \<Rightarrow> RestorePhase \<Rightarrow> bool" where
  "starts p q \<longleftrightarrow> p = RestorePhaseEmpty \<and> q = RestorePhaseRunning"

inductive_cases restored_step: "restore_step RestorePhaseSucceeded q"

lemma restored_final:
  assumes "restore_step\<^sup>*\<^sup>* p q" "p = RestorePhaseSucceeded"
  shows "q = RestorePhaseSucceeded"
  using assms by (induction rule: rtranclp_induct) (auto elim: restored_step)

definition phase :: "DistributedRedisCluster \<Rightarrow> RestorePhase" where
  "phase drc = RePhase (DRestore (Status drc))"

lemma phase_updates [simp]:
  "phase (drc\<lparr>Spec := sp\<rparr>) = phase drc" "phase (drc\<lparr>Status := st\<rparr>) = RePhase (DRestore st)"
  "phase (setPhase p drc) = p"
  by (simp_all add: phase_def setPhase_def)

lemma status_restore [simp]:
  "DRestore (SetClusterFailed m st) = DRestore st" "DRestore (SetClusterOK m st) = DRestore st"
  "DRestore (SetClusterRebalancing m st) = DRestore st" "DRestore (SetClusterScaling m st) = DRestore st"
  "DRestore (SetClusterUpdating m st) = DRestore st" "DRestore (SetClusterResetPassword m st) = DRestore st"
  "DRestore (statusNow env infos pods drc s) = DRestore (Status drc)"
  by (simp_all add: SetClusterFailed_def SetClusterOK_def SetClusterRebalancing_def SetClusterScaling_def
      SetClusterUpdating_def SetClusterResetPassword_def statusNow_def buildClusterStatus_def Let_def case_prod_unfold)

lemma phase_status: "RePhase (DRestore (Status drc)) = phase drc"
  by (simp add: phase_def)

lemma updateClusterIfNeed_phase:
  "RePhase (DRestore st) = phase drc \<Longrightarrow> phase (fst (updateClusterIfNeed kb drc st s)) = phase drc"
  by (simp add: updateClusterIfNeed_def Let_def)

lemma DefaultSpec_phase: "phase (fst (DefaultSpec sizeOf drc)) = phase drc"
  by (simp add: DefaultSpec_def Let_def split: option.split prod.split)

lemma dbLoaded_phase [simp]: "phase (dbLoadedFromDiskWhenRestore drc) = phase drc"
  by (simp add: dbLoadedFromDiskWhenRestore_def split: option.split)

section \<open>Parts of a round\<close>

lemma initRestore_phase:
  "gpost (\<lambda>((u, e, drc'), s'). phase drc' = phase drc \<or> phase drc' = RestorePhaseRunning) (initRestore kb drc s)"
  by (simp add: initRestore_def Let_def phase_status split: option.split prod.split sum.split)

lemma validateAndSetDefault_phase:
  "gpost (\<lambda>((e, drc'), s'). phase drc' = phase drc \<or> starts (phase drc) (phase drc'))
     (validateAndSetDefault sizeOf kb drc s)"
proof -
  let ?d = "\<lambda>drc. if IsRestoreFromBackup drc \<and> (IsRestoreRunning drc \<or> IsRestoreRestarting drc)
                  then drc\<lparr>Spec := (Spec drc)\<lparr>ClusterReplicas := 0\<rparr>\<rparr> else drc"
  have "gpost (\<lambda>((u, e, d1), s1). phase d1 = phase drc \<or> starts (phase drc) (phase d1))
     (if IsRestoreFromBackup drc \<and> ShouldInitRestorePhase drc then initRestore kb drc s else Ret ((False, None, drc), s))"
    using initRestore_phase [of drc kb s]
    by (auto simp: ShouldInitRestorePhase_def phase_status elim!: gpost_mono simp: starts_def)
  then show ?thesis unfolding validateAndSetDefault_def gpost_gbind
  proof (rule gpost_mono, clarify)
    fix u e d1 s1 assume p: "phase d1 = phase drc \<or> starts (phase drc) (phase d1)"
    show "gpost (\<lambda>((e, drc'), s'). phase drc' = phase drc \<or> starts (phase drc) (phase drc'))
       (case e of Some e \<Rightarrow> Ret ((Some e, d1), s1)
        | None \<Rightarrow> let drc = ?d d1; (drc, updateDefault) = DefaultSpec sizeOf drc
           in if u \<or> updateDefault then (case UpdateCR kb drc s1 of (e, s) \<Rightarrow> Ret ((e, drc), s)) else Ret ((None, drc), s1))"
      using p unfolding Let_def case_prod_unfold by (simp add: DefaultSpec_phase split: option.split)
  qed
qed

lemma resetClusterPassword_phase:
  "gpost (\<lambda>((e, drc'), s'). phase drc' = phase drc) (resetClusterPassword r drc s)"
  by (simp add: resetClusterPassword_def Let_def phase_status case_prod_unfold split: prod.split sum.split)

lemma ensureObjects_phase: "gpost (\<lambda>((e, drc'), s'). phase drc' = phase drc) (ensureObjects r drc labels s)"
  by (simp add: ensureObjects_def rollingUpdate_def Let_def phase_status case_prod_unfold split: prod.split option.split)

lemma ensureCluster_phase:
  "gpost (\<lambda>((e, drc'), s'). phase drc' = phase drc \<or> starts (phase drc) (phase drc')) (ensureCluster r drc s)"
  unfolding ensureCluster_def gpost_gbind
proof (rule gpost_mono [OF validateAndSetDefault_phase], clarify)
  fix e d1 s1 assume p: "phase d1 = phase drc \<or> starts (phase drc) (phase d1)"
  have q: "gpost (\<lambda>((e, drc'), s'). phase drc' = phase drc \<or> starts (phase drc) (phase drc')) c"
    if "gpost (\<lambda>((e, drc'), s'). phase drc' = phase d2) c" "phase d2 = phase d1"
    for c :: "((go_error option \<times> DistributedRedisCluster) \<times> knet) go" and d2
    by (rule gpost_mono [OF that(1)]) (use p that(2) in auto)
  show "gpost (\<lambda>((e, drc'), s'). phase drc' = phase drc \<or> starts (phase drc) (phase drc'))
      (case e of Some e \<Rightarrow> Ret ((Some (typedError ''Validate'' e), d1), s1)
       | None \<Rightarrow> let drc = dbLoadedFromDiskWhenRestore d1; labels = getLabels drc in
           case EnsureRedisConfigMap (rKube r) drc labels s1 of
             (Some e, s) \<Rightarrow> Ret ((Some (ErrorType_Wrap Kubernetes e ''EnsureRedisConfigMap''), drc), s)
           | (None, s) \<Rightarrow> gbind (resetClusterPassword r drc s) (\<lambda>((err, drc), s).
                 case err of Some e \<Rightarrow> Ret ((Some (ErrorType_Wrap ClusterErr e ''ResetPassword''), drc), s)
                 | None \<Rightarrow> ensureObjects r drc labels s))"
    using p by (auto simp: Let_def split: option.split prod.split
        intro!: gpost_mono [OF resetClusterPassword_phase] q [OF ensureObjects_phase])
qed

lemma syncCluster_phase:
  "gpost (\<lambda>((e, drc', h), s'). phase drc' = phase drc) (syncCluster fuel ft fn env kb drc infos s)"
  by (simp add: syncCluster_def scalingDown_def Let_def phase_status case_prod_unfold split: prod.split option.split)

section \<open>The rounds\<close>

text \<open>The phases one round can lead to once the resource has been prepared.\<close>

definition round_phase :: "RestorePhase \<Rightarrow> RestorePhase \<Rightarrow> bool" where
  "round_phase p q \<longleftrightarrow> q = p \<or> p = RestorePhaseRunning \<and> q = RestorePhaseRestart \<or>
     p = RestorePhaseRestart \<and> q = RestorePhaseSucceeded"

abbreviation advances :: "DistributedRedisCluster \<Rightarrow> round \<Rightarrow> bool" where
  "advances drc c \<equiv> gpost (\<lambda>x. round_phase (phase drc) (phase (snd (snd (fst x))))) c"

lemma round_phase_same: "q = p \<Longrightarrow> round_phase p q"
  by (simp add: round_phase_def)

lemma advances_update:
  "RePhase (DRestore st) = phase drc \<Longrightarrow>
     advances drc (let (drc, s) = updateClusterIfNeed kb drc st s in Ret ((res, err, drc), s))"
  by (simp add: updateClusterIfNeed_phase round_phase_same Let_def case_prod_unfold)

lemma clusterRound_phase: "phase d = phase drc \<Longrightarrow> advances drc (clusterRound r pods infos d s)"
  unfolding clusterRound_def gpost_gbind
  by (auto intro!: gpost_I simp: Let_def case_prod_unfold updateClusterIfNeed_phase phase_status round_phase_same)

lemma operateRound_phase: "advances drc (operateRound r pods infos drc s)"
  unfolding operateRound_def gpost_gbind
proof (rule gpost_I, clarify)
  fix e s1
  let ?d = "\<lambda>st. drc\<lparr>Status := st\<rparr>"
  have sync: "gpost (\<lambda>((err, d, h), s). advances drc (case err of
         Some e \<Rightarrow> let (drc, s) = updateClusterIfNeed (rKube r) d (SetClusterFailed (error_text (rAggregate r) e) (Status d)) s
                   in Ret ((noResult, Some e, drc), s)
       | None \<Rightarrow> clusterRound r pods infos d s))
     (syncCluster (rFuel r) (rFmtTime r) (rFmtNodes r) (rEnv r) (rKube r) d1 infos s)" if "phase d1 = phase drc" for d1 s infos
    by (rule gpost_mono [OF syncCluster_phase])
      (auto simp: that phase_status Let_def updateClusterIfNeed_phase round_phase_same clusterRound_phase case_prod_unfold split: option.split)
  show "advances drc (case e of
         Some e \<Rightarrow> Ret ((noResult, Some (ErrorType_Wrap Redis e ''SetConfigIfNeed''), drc), s1)
       | None \<Rightarrow>
           let status = statusNow (rEnv r) infos pods drc s1;
               infos = printedForPods pods infos;
               (is, s) = isScalingDown (rKube r) drc s1;
               status = (if is then SetClusterRebalancing ''scaling down'' status else status);
               (drc, s) = updateClusterIfNeed (rKube r) drc status s;
               drc = drc\<lparr>Status := status\<rparr>
           in if needClusterOperation drc
              then gbind (syncCluster (rFuel r) (rFmtTime r) (rFmtNodes r) (rEnv r) (rKube r) drc infos s)
                     (\<lambda>((err, drc, h), s).
                       case err of
                         Some e \<Rightarrow>
                           let (drc, s) = updateClusterIfNeed (rKube r) drc
                                 (SetClusterFailed (error_text (rAggregate r) e) (Status drc)) s
                           in Ret ((noResult, Some e, drc), s)
                       | None \<Rightarrow> clusterRound r pods infos drc s)
              else clusterRound r pods infos drc s)"
    using sync by (auto simp: Let_def round_phase_same phase_status clusterRound_phase case_prod_unfold split: option.split)
qed

lemma restoreRestart_phase:
  "gpost (\<lambda>x. round_phase RestorePhaseRunning (phase (snd (snd (fst x))))) (restoreRestart r drc s)"
  by (simp add: restoreRestart_def Let_def round_phase_def case_prod_unfold split: prod.split option.split)

lemma restoreSucceeded_phase:
  "gpost (\<lambda>x. round_phase RestorePhaseRestart (phase (snd (snd (fst x))))) (restoreSucceeded r drc s)"
  by (simp add: restoreSucceeded_def Let_def round_phase_def case_prod_unfold split: prod.split option.split)

lemma joinedRound_phase: "advances drc (joinedRound r pods infos drc s)"
  unfolding joinedRound_def gpost_gbind
  by (rule gpost_I)
    (auto simp: Let_def round_phase_same phase_status updateClusterIfNeed_phase operateRound_phase restoreRestart_phase
      restoreSucceeded_phase IsRestoreRunning_def IsRestoreRestarting_def case_prod_unfold split: option.split)

lemma redisRound_phase: "advances drc (redisRound r pods healer drc s)"
  unfolding redisRound_def gpost_gbind
  by (rule gpost_I) (auto intro!: gpost_I [of "Heal _ _ _ _ _ _"] simp: round_phase_same joinedRound_phase split: option.split)

lemma scalingLater_phase: "advances drc (scalingLater r drc e s)"
  by (simp add: scalingLater_def Let_def phase_status updateClusterIfNeed_phase round_phase_same case_prod_unfold)

lemma podRound_phase: "advances drc (podRound r drc s)"
proof -
  have "gpost (\<lambda>x. advances drc (case x of (res, s) \<Rightarrow> Ret (res, Admin_Close (rEnv r) s))) (redisRound r pods healer drc s1)" for pods healer s1
    by (rule gpost_mono [OF redisRound_phase]) auto
  then show ?thesis
    by (auto simp: podRound_def Let_def round_phase_same scalingLater_phase intro!: gpost_I [of "waitPodReady _ _ _ _"]
        gpost_I [of "newRedisAdmin _ _ _ _ _"] split: prod.split sum.split option.split)
qed

lemma Reconcile_phase:
  assumes "getDrc (rKube r) (trace s) namespace name = Inr drc"
  shows "gpost (\<lambda>((res, err, drc'), s'). \<exists>d q. drc' = Some d \<and> (q = phase drc \<or> starts (phase drc) q) \<and> round_phase q (phase d))
    (Reconcile r namespace name s)"
proof -
  let ?P = "\<lambda>((res, err, drc'), s'). \<exists>d q. drc' = Some d \<and> (q = phase drc \<or> starts (phase drc) q) \<and> round_phase q (phase d)"
  let ?rest = "\<lambda>e d1 s1. case e of
      Some e \<Rightarrow> if GetType e = StopRetry then Ret ((noResult, None, d1), s1) else scalingLater r d1 e s1
    | None \<Rightarrow> podRound r d1 s1"
  have adv: "advances d1 (?rest e d1 s1)" for e d1 s1
    by (simp add: scalingLater_phase podRound_phase round_phase_same split: option.split)
  show ?thesis
  proof (rule gpost_I)
    fix x assume "Reconcile r namespace name s = Ret x"
    then obtain e d1 s1 res err d2 s2 where e: "ensureCluster r drc (emit (EKube (KGet ''DistributedRedisCluster'' namespace name)) s) = Ret ((e, d1), s1)"
      and rest: "?rest e d1 s1 = Ret ((res, err, d2), s2)" and x: "x = ((res, err, Some d2), s2)"
      by (auto simp: Reconcile_def GetDistributedRedisCluster_def assms gbind_Ret_iff)
    from gpost_D [OF ensureCluster_phase e] gpost_D [OF adv rest] show "?P x" unfolding x by auto
  qed
qed

section \<open>Healthy rounds\<close>

text \<open>A round is repeated at once, after the short delay, or leaves the resource healthy.\<close>

definition settled_result :: "Result \<Rightarrow> DistributedRedisCluster \<Rightarrow> bool" where
  "settled_result res drc \<longleftrightarrow> RequeueAfter res = 0 \<or> RequeueAfter res = requeueAfter \<or>
     DStatus (Status drc) = ClusterStatusOK \<and> DReason (Status drc) = ''OK''"

abbreviation settles :: "round \<Rightarrow> bool" where
  "settles c \<equiv> gpost (\<lambda>x. settled_result (fst (fst x)) (snd (snd (fst x)))) c"

lemma settled_short [simp]: "settled_result noResult drc" "settled_result (later requeueAfter) drc" "settled_result \<lparr>RsRequeue = b, RequeueAfter = 0\<rparr> drc"
  by (simp_all add: settled_result_def noResult_def later_def)

lemma updateClusterIfNeed_status:
  "DStatus (Status (fst (updateClusterIfNeed kb drc st s))) = DStatus st"
  "DReason (Status (fst (updateClusterIfNeed kb drc st s))) = DReason st"
  using compareStatus_iff [of "Status drc" st] by (auto simp: updateClusterIfNeed_def Let_def)

lemma clusterRound_settles: "settles (clusterRound r pods infos drc s)"
  unfolding clusterRound_def gpost_gbind
  by (rule gpost_I) (simp add: Let_def case_prod_unfold settled_result_def updateClusterIfNeed_status SetClusterOK_def noResult_def)

lemma operateRound_settles: "settles (operateRound r pods infos drc s)"
  by (auto simp: operateRound_def Let_def case_prod_unfold clusterRound_settles
      intro!: gpost_I [of "SetConfigIfNeed _ _ _"] gpost_I [of "syncCluster _ _ _ _ _ _ _ _"] split: option.split)

lemma restore_settles: "settles (restoreRestart r drc s)" "settles (restoreSucceeded r drc s)"
  by (simp_all add: restoreRestart_def restoreSucceeded_def Let_def case_prod_unfold split: prod.split option.split)

lemma redisRound_settles: "settles (redisRound r pods healer drc s)"
  by (auto simp: redisRound_def joinedRound_def Let_def case_prod_unfold operateRound_settles restore_settles
      intro!: gpost_I [of "GetClusterInfos _ _"] gpost_I [of "Heal _ _ _ _ _ _"] gpost_I [of "waitForClusterJoin _ _ _"] split: option.split)

lemma scalingLater_settles: "settles (scalingLater r drc e s)"
  by (simp add: scalingLater_def Let_def case_prod_unfold)

lemma podRound_settles: "settles (podRound r drc s)"
proof -
  have "gpost (\<lambda>x. settles (case x of (res, s) \<Rightarrow> Ret (res, Admin_Close (rEnv r) s))) (redisRound r pods healer drc s1)" for pods healer s1
    by (rule gpost_mono [OF redisRound_settles]) auto
  then show ?thesis
    by (auto simp: podRound_def Let_def scalingLater_settles intro!: gpost_I [of "waitPodReady _ _ _ _"]
        gpost_I [of "newRedisAdmin _ _ _ _ _"] split: prod.split sum.split option.split)
qed

lemma Reconcile_settles:
  "gpost (\<lambda>((res, err, drc'), s'). RequeueAfter res = 0 \<or> RequeueAfter res = requeueAfter \<or>
     (\<exists>d. drc' = Some d \<and> DStatus (Status d) = ClusterStatusOK \<and> DReason (Status d) = ''OK''))
   (Reconcile r namespace name s)" (is "gpost ?P _")
proof (rule gpost_I)
  fix x assume run: "Reconcile r namespace name s = Ret x"
  let ?rest = "\<lambda>e d1 s1. case e of
      Some e \<Rightarrow> if GetType e = StopRetry then Ret ((noResult, None, d1), s1) else scalingLater r d1 e s1
    | None \<Rightarrow> podRound r d1 s1"
  have set: "settles (?rest e d1 s1)" for e d1 s1
    by (simp add: scalingLater_settles podRound_settles split: option.split)
  show "?P x"
  proof (cases "getDrc (rKube r) (trace s) namespace name")
    case (Inl e)
    then show ?thesis using run by (auto simp: Reconcile_def GetDistributedRedisCluster_def noResult_def)
  next
    case (Inr drc)
    then obtain e d1 s1 res err d2 s2 where rest: "?rest e d1 s1 = Ret ((res, err, d2), s2)" and x: "x = ((res, err, Some d2), s2)"
      using run by (auto simp: Reconcile_def GetDistributedRedisCluster_def gbind_Ret_iff)
    from gpost_D [OF set rest] show ?thesis unfolding x by (auto simp: settled_result_def)
  qed
qed

section \<open>Rounds that give up\<close>

text \<open>A restore from a backup that has not succeeded yet.\<close>

lemma Reconcile_backup_running:
  assumes "getDrc (rKube r) (trace s) namespace name = Inr drc"
    and "Init (Spec drc) = Some \<lparr>BackupSource = Some src\<rparr>" "phase drc = RestorePhaseEmpty" "ReBackup (DRestore (Status drc)) = None"
    and "\<And>tr. getBackup (rKube r) tr (BsNamespace src) (BsName src) = Inr backup" "BuPhase (BuStatus backup) \<noteq> BackupPhaseSucceeded"
  shows "Reconcile r namespace name s = Ret ((noResult, None, Some drc), s\<lparr>trace := trace s @
    [EKube (KGet ''DistributedRedisCluster'' namespace name), EKube (KGet ''RedisClusterBackup'' (BsNamespace src) (BsName src))]\<rparr>)"
  using assms
  by (simp add: Reconcile_def GetDistributedRedisCluster_def ensureCluster_def validateAndSetDefault_def IsRestoreFromBackup_def
      ShouldInitRestorePhase_def phase_def initRestore_def GetRedisClusterBackup_def typedError_def emit_def)

end
