(* ===== verification/Reconcile_Properties.thy ===== *)
theory Reconcile_Properties
  imports Demo Ensurer_Facts Ownership Reconcile_Facts
begin

text \<open>
  Properties of the reconciliation round and of the objects it creates: the restore phase, the
  healthy state, restores that wait for a backup, config maps, stateful sets, and pods that do
  not terminate.
\<close>

section \<open>Demo objects\<close>

definition demo_outside :: outside where
  "demo_outside = \<lparr>redisConf = RedisConf [],
     filesOf = (\<lambda>_. None), locationOf = (\<lambda>_. Inr []), providerOf = (\<lambda>_. Inr []), fmtStart = (\<lambda>_. []),
     cmpQuantity = (\<lambda>p q. if p = q then 0 else 1), awsKeyId = [], awsSecretKey = [], sizeOfRes = (\<lambda>_. 1)\<rparr>"

definition demo_reconciler :: "kube \<Rightarrow> ReconcileDistributedRedisCluster" where
  "demo_reconciler kb = \<lparr>rEnv = ok_env, rKube = kb, rOut = demo_outside, rFuel = 0, rFmtTime = (\<lambda>_. []), rFmtNodes = (\<lambda>_. []),
     rAggregate = (\<lambda>_. []), reconcileTime = 60\<rparr>"

text \<open>A cluster to be restored from a backup that is still running.\<close>

definition restoring :: DistributedRedisCluster where
  "restoring = demo_drc\<lparr>Spec := demo_spec\<lparr>Init := Some \<lparr>BackupSource = Some \<lparr>BsNamespace = ''default'', BsName = ''bk'', BsArgs = []\<rparr>\<rparr>\<rparr>\<rparr>"

definition running_backup :: RedisClusterBackup where
  "running_backup = \<lparr>BuName = ''bk'', BuNamespace = ''default'', BuUID = [], BuGeneration = 1, BuLabels = [], BuAnnotations = [], BuFinalizers = [],
     BuSpec = \<lparr>BuImage = [], RedisClusterName = ''drc'', BuStorage = None,
       BuBackend = \<lparr>StorageSecretName = [], BkLocal = None, BkS3 = None, BkGCS = None, BkAzure = None, BkSwift = None\<rparr>,
       BuPodSpec = None, BuActiveDeadlineSeconds = None\<rparr>,
     BuStatus = \<lparr>StartTime = None, CompletionTime = None, BuPhase = BackupPhaseRunning, BuReason = [], BuMasterSize = 3,
       BuClusterReplicas = 1, ClusterImage = []\<rparr>\<rparr>"

definition restore_kube :: kube where
  "restore_kube = no_kube\<lparr>getDrc := (\<lambda>tr ns n. Inr restoring), getBackup := (\<lambda>tr ns n. Inr running_backup)\<rparr>"

text \<open>A cluster with resources, whose stateful sets can be built.\<close>

definition ready_drc :: DistributedRedisCluster where
  "ready_drc = demo_drc\<lparr>Spec := demo_spec\<lparr>Resources := Some defaultResource, PasswordSecret := Some ''pw''\<rparr>\<rparr>"

definition ready_sts :: "string \<Rightarrow> string \<Rightarrow> labels \<Rightarrow> StatefulSet" where
  "ready_sts n svc labels = (case NewStatefulSetForCR demo_outside ready_drc n svc labels of Ret (Inr sts) \<Rightarrow> sts)"

lemma ready_sts: "NewStatefulSetForCR demo_outside ready_drc n svc labels = Ret (Inr (ready_sts n svc labels))"
  by (simp add: ready_sts_def NewStatefulSetForCR_def redisServerContainer_def monitorContainers_def initContainers_def
      ready_drc_def demo_drc_def demo_spec_def demo_status_def Let_def)

section \<open>The round\<close>

text \<open>
  C32. One round of \<open>Reconcile\<close> refines the restore machine: the phase of the resource it
  leaves is reached from the phase it read by steps none to running, running to restart, restart
  to succeeded, and the last step is never taken in the round that asked for the restart, so the
  masters get a round in between. A restored cluster stays restored.
\<close>

theorem restore_phase_advances:
  assumes "getDrc (rKube r) (trace s) namespace name = Inr drc"
    and "Reconcile r namespace name s = Ret ((res, err, drc'), s')"
  shows "\<exists>d. drc' = Some d \<and> restore_step\<^sup>*\<^sup>* (phase drc) (phase d) \<and>
    (phase d = RestorePhaseSucceeded \<longrightarrow> phase drc = RestorePhaseSucceeded \<or> phase drc = RestorePhaseRestart) \<and>
    (phase drc = RestorePhaseSucceeded \<longrightarrow> phase d = RestorePhaseSucceeded)"
proof -
  obtain d q where d: "drc' = Some d" "q = phase drc \<or> starts (phase drc) q" "round_phase q (phase d)"
    using gpost_D [OF Reconcile_phase [OF assms(1)] assms(2)] by auto
  from d(3) have "phase d = q \<or> restore_step q (phase d)"
    by (auto simp: round_phase_def intro: restore_step.intros)
  moreover have "restore_step\<^sup>*\<^sup>* (phase drc) q" 
    using d(2) r_into_rtranclp [of restore_step, OF restore_step.start] by (auto simp: starts_def)
  ultimately have steps: "restore_step\<^sup>*\<^sup>* (phase drc) (phase d)" by (auto intro: rtranclp.rtrancl_into_rtrancl)
  moreover have "phase drc = RestorePhaseSucceeded \<or> phase drc = RestorePhaseRestart" if "phase d = RestorePhaseSucceeded"
    using d(2,3) that by (auto simp: round_phase_def starts_def)
  ultimately show ?thesis using d(1) steps restored_final [OF steps] by blast
qed

theorem restore_phase_advances_witness:
  "\<exists>res err d s'. Reconcile (demo_reconciler restore_kube) ''default'' ''drc'' start = Ret ((res, err, Some d), s') \<and>
    restore_step\<^sup>*\<^sup>* RestorePhaseEmpty (phase d)"
proof -
  let ?r = "demo_reconciler restore_kube"
  have g: "getDrc (rKube ?r) (trace start) ''default'' ''drc'' = Inr restoring"
    by (simp add: demo_reconciler_def restore_kube_def)
  have run: "Reconcile ?r ''default'' ''drc'' start = Ret ((noResult, None, Some restoring), start\<lparr>trace :=
      [EKube (KGet ''DistributedRedisCluster'' ''default'' ''drc''), EKube (KGet ''RedisClusterBackup'' ''default'' ''bk'')]\<rparr>)"
    by (subst Reconcile_backup_running [where drc = restoring and backup = running_backup and
          src = "\<lparr>BsNamespace = ''default'', BsName = ''bk'', BsArgs = []\<rparr>"])
      (simp_all add: demo_reconciler_def restore_kube_def restoring_def demo_drc_def demo_status_def phase_def running_backup_def start_def)
  have "phase restoring = RestorePhaseEmpty" by (simp add: restoring_def demo_drc_def demo_status_def phase_def)
  with restore_phase_advances [OF g run] run show ?thesis by auto
qed

text \<open>
  C33. A round asks to be repeated after the regular interval only when it leaves the resource
  in the healthy state: any other result without error is repeated at once, not at all, or after
  ten seconds.
\<close>

theorem regular_interval_healthy:
  "gpost (\<lambda>((res, err, drc'), s'). RequeueAfter res = 0 \<or> RequeueAfter res = 10000000000 \<or>
     (\<exists>d. drc' = Some d \<and> DStatus (Status d) = ClusterStatusOK \<and> DReason (Status d) = ''OK''))
   (Reconcile r namespace name s)"
  using Reconcile_settles [of r namespace name s] by (simp add: requeueAfter_def)

text \<open>
  A cluster to be restored from a backup that is still running is given up: \<open>Reconcile\<close>
  reads the resource and the backup, changes nothing, and returns without error and without
  asking for another round, although the error it met is only that the backup is not done yet.
\<close>

theorem restore_given_up:
  assumes "getDrc (rKube r) (trace s) namespace name = Inr drc"
    and "Init (Spec drc) = Some \<lparr>BackupSource = Some src\<rparr>"
    and "RePhase (DRestore (Status drc)) = RestorePhaseEmpty" "ReBackup (DRestore (Status drc)) = None"
    and "\<And>tr. getBackup (rKube r) tr (BsNamespace src) (BsName src) = Inr backup" "BuPhase (BuStatus backup) = BackupPhaseRunning"
  shows "Reconcile r namespace name s = Ret ((\<lparr>RsRequeue = False, RequeueAfter = 0\<rparr>, None, Some drc), s\<lparr>trace := trace s @
    [EKube (KGet ''DistributedRedisCluster'' namespace name), EKube (KGet ''RedisClusterBackup'' (BsNamespace src) (BsName src))]\<rparr>)"
  using Reconcile_backup_running [of r s namespace name drc src backup] assms by (simp add: phase_def noResult_def)

theorem restore_given_up_witness:
  "Reconcile (demo_reconciler restore_kube) ''default'' ''drc'' start =
     Ret ((\<lparr>RsRequeue = False, RequeueAfter = 0\<rparr>, None, Some restoring), start\<lparr>trace :=
       [EKube (KGet ''DistributedRedisCluster'' ''default'' ''drc''), EKube (KGet ''RedisClusterBackup'' ''default'' ''bk'')]\<rparr>)"
  by (subst restore_given_up [where drc = restoring and backup = running_backup and
        src = "\<lparr>BsNamespace = ''default'', BsName = ''bk'', BsArgs = []\<rparr>"])
    (simp_all add: demo_reconciler_def restore_kube_def restoring_def demo_drc_def demo_status_def running_backup_def start_def)

section \<open>Config maps\<close>

text \<open>
  C35. The configuration file is rewritten exactly when the settings differ: comparing the file
  that \<open>generateRedisConfContent\<close> prints for some settings with other settings finds a change
  exactly when the two maps differ. The settings have no line breaks, no blanks in keys or at
  the end of values, and no empty values, and there is at least one.
\<close>

theorem conf_change_exact:
  assumes "wf_map m" "m \<noteq> []" "\<forall>kv\<in>set m. conf_ok kv" "wf_map m'"
  shows "isRedisConfChanged (generateRedisConfContent (Some m)) m' \<longleftrightarrow> mget m \<noteq> mget m'"
  by (rule isRedisConfChanged_iff [OF assms])

theorem conf_change_exact_witness:
  "\<not> isRedisConfChanged (generateRedisConfContent (Some [(''maxmemory'', ''1gb''), (''appendonly'', ''no'')])) [(''appendonly'', ''no''), (''maxmemory'', ''1gb'')]"
proof -
  have "mget [(''maxmemory'', ''1gb''), (''appendonly'', ''no'')] = mget [(''appendonly'', ''no''), (''maxmemory'', ''1gb'')]"
    by (auto simp: fun_eq_iff)
  then show ?thesis
    using conf_change_exact [of "[(''maxmemory'', ''1gb''), (''appendonly'', ''no'')]" "[(''appendonly'', ''no''), (''maxmemory'', ''1gb'')]"]
    by (simp add: wf_map_def conf_ok_def)
qed

text \<open>
  A cluster without settings has its config map rewritten in every round: against a server
  that has exactly the config map the operator wants, \<open>EnsureRedisConfigMap\<close> still sends an
  update, because the empty file counts as one line.
\<close>

theorem empty_conf_rewritten:
  assumes "Config (Spec drc) = None \<or> Config (Spec drc) = Some []" "\<not> IsRestoreFromBackup drc"
    and "\<And>tr. getConfigMap kb tr (DrcNamespace drc) (RedisConfigMapName (DrcName drc)) = Inr (NewConfigMapForCR drc labels)"
  shows "trace (snd (EnsureRedisConfigMap kb drc labels s)) = trace s @
    [EKube (KGet ''ConfigMap'' (DrcNamespace drc) (RedisConfigMapName (DrcName drc))),
     EKube (KUpdateObj (ObjCm (NewConfigMapForCR drc labels)))]"
proof -
  have data: "mgetd [] (CmData (NewConfigMapForCR drc labels)) RedisConfKey = generateRedisConfContent (Config (Spec drc))"
    by (simp add: NewConfigMapForCR_def mgetd_def RedisConfKey_def)
  have "isRedisConfChanged (generateRedisConfContent (Config (Spec drc))) (case Config (Spec drc) of None \<Rightarrow> [] | Some m \<Rightarrow> m)"
    using assms(1) isRedisConfChanged_empty by auto
  then show ?thesis using assms(2,3)
    by (simp add: EnsureRedisConfigMap_def ensureConf_def GetConfigMap_def data UpdateConfigMap_def request_def split: option.split)
qed

theorem empty_conf_rewritten_witness:
  "trace (snd (EnsureRedisConfigMap (no_kube\<lparr>getConfigMap := (\<lambda>tr ns n. Inr (NewConfigMapForCR demo_drc []))\<rparr>) demo_drc [] start)) =
    [EKube (KGet ''ConfigMap'' ''default'' (RedisConfigMapName ''drc'')), EKube (KUpdateObj (ObjCm (NewConfigMapForCR demo_drc [])))]"
proof -
  have "trace (snd (EnsureRedisConfigMap (no_kube\<lparr>getConfigMap := (\<lambda>tr ns n. Inr (NewConfigMapForCR demo_drc []))\<rparr>) demo_drc [] start)) = trace (start :: knet) @
    [EKube (KGet ''ConfigMap'' (DrcNamespace demo_drc) (RedisConfigMapName (DrcName demo_drc))),
     EKube (KUpdateObj (ObjCm (NewConfigMapForCR demo_drc [])))]"
    by (rule empty_conf_rewritten) (simp_all add: demo_drc_def demo_spec_def IsRestoreFromBackup_def)
  then show ?thesis by (simp add: start_def demo_drc_def)
qed

section \<open>The objects of a cluster\<close>

text \<open>
  C37. The six methods of \<open>IEnsureResource\<close> are runs of the machine \<open>ensured\<close>: a method reads,
  creates an object right after the server has said that there is none, and updates stateful sets
  and config maps only. So all it sends is reads and writes of objects in the namespace of the
  cluster and owned by the cluster, which are collected with it; it deletes nothing, and does not
  touch the connections to Redis.
\<close>

theorem ensurer_owns:
  assumes "(\<exists>r. EnsureRedisConfigMap kb drc labels s = (r, s')) \<or>
      (\<exists>r. EnsureRedisStatefulsets out kb drc labels s = Ret (r, s')) \<or>
      (\<exists>r. UpdateRedisStatefulsets out kb drc labels s = Ret (r, s')) \<or>
      (\<exists>r. EnsureRedisHeadLessSvcs kb drc labels s = (r, s')) \<or>
      (\<exists>r. EnsureRedisSvc kb drc labels s = Ret (r, s')) \<or>
      (\<exists>r. EnsureRedisRCloneSecret out kb drc s = Ret (r, s'))"
  shows "ensured kb drc s s' \<and> cnx s' = cnx s \<and>
    (\<exists>qs. trace s' = trace s @ map EKube qs \<and> list_all (ensurer_request drc) qs)"
proof -
  have "ensured kb drc s s'"
    using assms
  proof (elim disjE exE)
    show "ensured kb drc s s'" if "EnsureRedisConfigMap kb drc labels s = (r, s')" for r
      using EnsureRedisConfigMap_ensured[of kb drc s labels] that by simp
    show "ensured kb drc s s'" if "EnsureRedisHeadLessSvcs kb drc labels s = (r, s')" for r
      using headLessLoop_ensured[of kb drc s _ labels] that unfolding EnsureRedisHeadLessSvcs_def by (metis snd_conv)
  qed (auto dest: gpost_D[OF ensureStsLoop_ensured] gpost_D[OF updateStsLoop_ensured] gpost_D[OF EnsureRedisSvc_ensured]
      gpost_D[OF EnsureRedisRCloneSecret_ensured] simp: EnsureRedisStatefulsets_def UpdateRedisStatefulsets_def)
  then show ?thesis using ensured_requests by blast
qed

theorem ensurer_owns_witness:
  "\<exists>r s' qs. EnsureRedisHeadLessSvcs no_kube ready_drc [] start = (r, s') \<and> trace s' = map EKube qs \<and>
     list_all (ensurer_request ready_drc) qs \<and> length qs = 6"
proof -
  obtain r s' where run: "EnsureRedisHeadLessSvcs no_kube ready_drc [] start = (r, s')" by fastforce
  then obtain qs where qs: "trace s' = map EKube qs" "list_all (ensurer_request ready_drc) qs"
    using ensurer_owns[of no_kube ready_drc "[]" start s' demo_outside] by (auto simp: start_def)
  have "[0..<nat (MasterSize (Spec ready_drc))] = [0, 1, 2]" by (simp add: ready_drc_def demo_drc_def demo_spec_def upt_rec)
  then have "length (trace s') = 6" using run
    by (auto simp: EnsureRedisHeadLessSvcs_def ensureRedisHeadLessSvc_def GetService_def CreateService_def request_def
        no_kube_def start_def emit_def Let_def)
  then show ?thesis using run qs by auto
qed

section \<open>Stateful sets\<close>

text \<open>
  C38. From nothing: on a server that has neither disruption budgets nor stateful sets and
  accepts every request, \<open>EnsureRedisStatefulsets\<close> creates for each master one budget and one
  stateful set, in the order of the indices, each carrying its own label, sends nothing else,
  and reports no rolling update.
\<close>

theorem statefulsets_created:
  assumes "bare kb" "\<And>i. i < nat (MasterSize (Spec drc)) \<Longrightarrow> built out drc i (sts_labels drc i labels) = Ret (Inr (stss i))"
  shows "\<exists>labels'. EnsureRedisStatefulsets out kb drc labels s = Ret ((False, None, labels'),
     s\<lparr>trace := trace s @ map EKube
       (concat (map (\<lambda>i. creation drc i (sts_labels drc i labels) (stss i)) [0..<nat (MasterSize (Spec drc))]))\<rparr>)"
  unfolding EnsureRedisStatefulsets_def by (rule ensureStsLoop_bare [OF assms(1)]) (simp add: assms(2))

theorem statefulsets_created_witness:
  "\<exists>labels' s'. EnsureRedisStatefulsets demo_outside no_kube ready_drc [] start = Ret ((False, None, labels'), s') \<and>
     length (trace s') = 12"
proof -
  let ?sts = "\<lambda>i. ready_sts (ClusterStatefulSetName (DrcName ready_drc) i) (ClusterHeadlessSvcName (ServiceName (Spec ready_drc)) i) (sts_labels ready_drc i [])"
  have bare: "bare no_kube" by (simp add: bare_def no_kube_def)
  have "\<exists>labels'. EnsureRedisStatefulsets demo_outside no_kube ready_drc [] start = Ret ((False, None, labels'),
     start\<lparr>trace := trace start @ map EKube
       (concat (map (\<lambda>i. creation ready_drc i (sts_labels ready_drc i []) (?sts i)) [0..<nat (MasterSize (Spec ready_drc))]))\<rparr>)"
    by (rule statefulsets_created [OF bare]) (simp add: built_def ready_sts)
  moreover have "nat (MasterSize (Spec ready_drc)) = 3" by (simp add: ready_drc_def demo_drc_def demo_spec_def)
  ultimately show ?thesis by (auto simp: start_def creation_def Let_def numeral_3_eq_3)
qed

text \<open>
  C39. And then at rest: against a server that has the stateful sets the operator would build,
  \<open>EnsureRedisStatefulsets\<close> only reads, one budget and one stateful set per master, and reports
  no rolling update.
\<close>

theorem statefulsets_at_rest:
  assumes "in_place kb drc stss (nat (MasterSize (Spec drc)))"
    and "\<And>i. i < nat (MasterSize (Spec drc)) \<Longrightarrow> built out drc i (sts_labels drc i labels) = Ret (Inr (stss i))"
    and "\<And>q. cmpQuantity out q q = 0" and "PasswordSecret (Spec drc) \<noteq> Some []"
  shows "\<exists>labels'. EnsureRedisStatefulsets out kb drc labels s = Ret ((False, None, labels'),
     s\<lparr>trace := trace s @ map EKube (concat (map (lookups drc) [0..<nat (MasterSize (Spec drc))]))\<rparr>)"
  unfolding EnsureRedisStatefulsets_def
  by (rule ensureStsLoop_in_place [OF assms(1)])
    (use shouldUpdateRedis_new [OF assms(2) [unfolded built_def] assms(3,4)] in simp_all)

theorem statefulsets_at_rest_witness:
  "\<exists>kb labels' s'. EnsureRedisStatefulsets demo_outside kb ready_drc [] start = Ret ((False, None, labels'), s') \<and> length (trace s') = 6"
proof -
  let ?name = "ClusterStatefulSetName (DrcName ready_drc)"
  let ?sts = "\<lambda>i. ready_sts (?name i) (ClusterHeadlessSvcName (ServiceName (Spec ready_drc)) i) (sts_labels ready_drc i [])"
  let ?kb = "no_kube\<lparr>getOther := (\<lambda>tr k ns n. Inr (ns, n)), getSts := (\<lambda>tr ns n. Inr (if n = ?name 0 then ?sts 0 else if n = ?name 1 then ?sts 1 else ?sts 2))\<rparr>"
  have size: "nat (MasterSize (Spec ready_drc)) = 3" by (simp add: ready_drc_def demo_drc_def demo_spec_def)
  have inj: "?name i = ?name j \<longleftrightarrow> i = j" for i j by (simp add: ClusterStatefulSetName_def fmt_nat_inj)
  have "in_place ?kb ready_drc ?sts (nat (MasterSize (Spec ready_drc)))"
    unfolding size in_place_def by (auto simp: inj less_Suc_eq numeral_3_eq_3 numeral_2_eq_2)
  moreover have same: "cmpQuantity demo_outside q q = 0" for q by (simp add: demo_outside_def)
  moreover have secret: "PasswordSecret (Spec ready_drc) \<noteq> Some []" by (simp add: ready_drc_def demo_drc_def demo_spec_def)
  ultimately have "\<exists>labels'. EnsureRedisStatefulsets demo_outside ?kb ready_drc [] start = Ret ((False, None, labels'),
     start\<lparr>trace := trace start @ map EKube (concat (map (lookups ready_drc) [0..<nat (MasterSize (Spec ready_drc))]))\<rparr>)"
    by (intro statefulsets_at_rest) (simp_all add: built_def ready_sts)
  then show ?thesis unfolding size by (auto simp: start_def lookups_def numeral_3_eq_3 intro!: exI [of _ ?kb])
qed

section \<open>Pods that do not terminate\<close>

text \<open>
  C40. \<open>FixTerminatingPods\<close> deletes exactly the pods whose deletion was asked for longer ago
  than the limit, each once and in order, and reports an action exactly when there is one, on a
  server that knows the pods and accepts the requests.
\<close>

theorem terminating_pods_exact:
  assumes "deletes_pods kb (DrcNamespace drc)" "\<not> DryRun c" "d \<noteq> 0"
  shows "FixTerminatingPods kb c drc d s =
    ((\<exists>pod\<in>set (Pods c). expired d (timeNow kb (trace s)) pod, None),
     s\<lparr>trace := trace s @ map EKube (concat (map (deletion (DrcNamespace drc)) (filter (expired d (timeNow kb (trace s))) (Pods c))))\<rparr>)"
  by (rule FixTerminatingPods_exact [OF assms])

theorem terminating_pods_exact_witness:
  "fst (FixTerminatingPods (no_kube\<lparr>getPod := (\<lambda>tr ns n. Inr ((demo_pod 1)\<lparr>PoNamespace := ns, PoName := n\<rparr>)), timeNow := (\<lambda>tr. 400)\<rparr>)
     \<lparr>Pods = [demo_pod 0, (demo_pod 1)\<lparr>DeletionTimestamp := Some 10\<rparr>], DryRun = False\<rparr> demo_drc 300 start) = (True, None)"
proof -
  let ?kb = "no_kube\<lparr>getPod := (\<lambda>tr ns n. Inr ((demo_pod 1)\<lparr>PoNamespace := ns, PoName := n\<rparr>)), timeNow := (\<lambda>tr. 400)\<rparr>"
  have "deletes_pods ?kb (DrcNamespace demo_drc)" by (simp add: deletes_pods_def no_kube_def)
  from terminating_pods_exact [OF this, of "\<lparr>Pods = [demo_pod 0, (demo_pod 1)\<lparr>DeletionTimestamp := Some 10\<rparr>], DryRun = False\<rparr>" 300 start]
  show ?thesis by (simp add: expired_def demo_pod_def)
qed

end
