(* ===== verification/Osm.thy ===== *)
theory Osm
  imports Resources
begin

text \<open>
  \<open>src/pkg/osm/osm.go\<close>: the configuration of the object store of a backup and the check that
  the operator may write to it. The record \<open>store\<close> stands for the libraries: the values of their
  constants by their Go names, the location of a bucket (from the signed-in session, or with an
  access key), what \<open>url.Parse\<close> finds wrong behind the scheme of an address, and the calls of the
  object store client, which fail with an error or not.
\<close>

record store =
  konst :: "string \<Rightarrow> string"
  bucketLocation :: "kube_req event list \<Rightarrow> (string \<times> string) option \<Rightarrow> string \<Rightarrow> go_error + string"
  urlInvalid :: "string \<Rightarrow> go_error option"
  stowDial :: "kube_req event list \<Rightarrow> string \<Rightarrow> (string, string) gomap \<Rightarrow> go_error option"
  containerOf :: "Backend \<Rightarrow> go_error + string"
  stowContainer :: "kube_req event list \<Rightarrow> string \<Rightarrow> (string, string) gomap \<Rightarrow> string \<Rightarrow> go_error option"
  stowWriteAccess :: "kube_req event list \<Rightarrow> string \<Rightarrow> (string, string) gomap \<Rightarrow> string \<Rightarrow> go_error option"

record OSMContext =
  OsName :: string
  OsProvider :: string
  OsConfig :: "(string, string) gomap"

text \<open>\<open>getScheme\<close> of \<open>net/url\<close>: the letters up to the first colon, lower case, or none.\<close>

definition is_letter :: "char \<Rightarrow> bool" where
  "is_letter c \<longleftrightarrow> (65 \<le> byte c \<and> byte c \<le> 90) \<or> (97 \<le> byte c \<and> byte c \<le> 122)"

fun schemeLoop :: "string \<Rightarrow> string \<Rightarrow> go_error + string" where
  "schemeLoop acc [] = Inr []"
| "schemeLoop acc (c # cs) =
     (if is_letter c then schemeLoop (acc @ [c]) cs
      else if is_digit c \<or> c \<in> {CHR ''+'', CHR ''-'', CHR ''.''}
        then (if acc = [] then Inr [] else schemeLoop (acc @ [c]) cs)
      else if c = CHR '':'' then (if acc = [] then Inl (ErrText ''missing protocol scheme'') else Inr (ToLower acc))
      else Inr [])"

definition urlScheme :: "store \<Rightarrow> string \<Rightarrow> go_error + string" where
  "urlScheme st u = (case urlInvalid st u of Some e \<Rightarrow> Inl e | None \<Rightarrow> schemeLoop [] u)"

section \<open>NewOSMContext\<close>

definition s3Auth :: "store \<Rightarrow> (string, string) gomap \<Rightarrow> (string, string) gomap" where
  "s3Auth st config =
     (case (mget config (konst st ''AWS_ACCESS_KEY_ID''), mget config (konst st ''AWS_SECRET_ACCESS_KEY'')) of
        (Some keyID, Some key) \<Rightarrow>
          mput (konst st ''s3.ConfigAuthType'') ''accesskey''
            (mput (konst st ''s3.ConfigSecretKey'') key (mput (konst st ''s3.ConfigAccessKeyID'') keyID []))
      | _ \<Rightarrow> mput (konst st ''s3.ConfigAuthType'') ''iam'' [])"

definition s3Keys :: "store \<Rightarrow> (string, string) gomap \<Rightarrow> (string \<times> string) option" where
  "s3Keys st config =
     (if mget (s3Auth st config) (konst st ''s3.ConfigAuthType'') = Some ''iam'' then None
      else Some (mgetd [] config (konst st ''AWS_ACCESS_KEY_ID''), mgetd [] config (konst st ''AWS_SECRET_ACCESS_KEY'')))"

definition s3Context :: "store \<Rightarrow> StoreSpec \<Rightarrow> (string, string) gomap \<Rightarrow> kube_req event list \<Rightarrow> go_error + (string, string) gomap" where
  "s3Context st s3 config tr =
     (let cfg = s3Auth st config in
      if StoreEndpoint s3 = [] \<or> HasSuffix (StoreEndpoint s3) ''.amazonaws.com''
      then (case bucketLocation st tr (s3Keys st config) (StoreBucket s3) of
              Inl e \<Rightarrow> Inl e
            | Inr region \<Rightarrow> Inr (mput (konst st ''s3.ConfigRegion'') (if region = [] then ''us-east-1'' else region) cfg))
      else let cfg = mput (konst st ''s3.ConfigEndpoint'') (StoreEndpoint s3) cfg in
        (case urlScheme st (StoreEndpoint s3) of
           Inl e \<Rightarrow> Inl e
         | Inr scheme \<Rightarrow>
             let cfg = mput (konst st ''s3.ConfigDisableSSL'') (if scheme = ''http'' then ''true'' else ''false'') cfg in
             Inr (case mget config (konst st ''CA_CERT_DATA'') of
                    Some cacert \<Rightarrow> if scheme = ''https'' then mput (konst st ''s3.ConfigCACertData'') cacert cfg else cfg
                  | None \<Rightarrow> cfg)))"

definition swiftKeys :: "(string \<times> string) list" where
  "swiftKeys =
     [(''swift.ConfigUsername'', ''OS_USERNAME''), (''swift.ConfigKey'', ''OS_PASSWORD''),
      (''swift.ConfigRegion'', ''OS_REGION_NAME''), (''swift.ConfigTenantAuthURL'', ''OS_AUTH_URL''),
      (''swift.ConfigDomain'', ''OS_USER_DOMAIN_NAME''), (''swift.ConfigTenantName'', ''OS_PROJECT_NAME''),
      (''swift.ConfigTenantDomain'', ''OS_PROJECT_DOMAIN_NAME''), (''swift.ConfigTenantId'', ''OS_TENANT_ID''),
      (''swift.ConfigTenantName'', ''OS_TENANT_NAME''), (''swift.ConfigTenantAuthURL'', ''ST_AUTH''),
      (''swift.ConfigUsername'', ''ST_USER''), (''swift.ConfigKey'', ''ST_KEY''),
      (''swift.ConfigStorageURL'', ''OS_STORAGE_URL''), (''swift.ConfigAuthToken'', ''OS_AUTH_TOKEN'')]"

definition swiftStep ::
    "store \<Rightarrow> (string, string) gomap \<Rightarrow> string \<times> string \<Rightarrow> (string, string) gomap \<Rightarrow> (string, string) gomap" where
  "swiftStep st config val cfg =
     (case val of (stowKey, secretKey) \<Rightarrow>
        if mget cfg (konst st stowKey) = None
        then mput (konst st stowKey) (mgetd [] config (konst st secretKey)) cfg else cfg)"

definition swiftContext :: "store \<Rightarrow> (string, string) gomap \<Rightarrow> (string, string) gomap" where
  "swiftContext st config = fold (swiftStep st config) swiftKeys []"

definition storeContext :: "store \<Rightarrow> Backend \<Rightarrow> (string, string) gomap \<Rightarrow> kube_req event list \<Rightarrow> go_error + OSMContext" where
  "storeContext st spec config tr =
     (let ctx = (\<lambda>kind cfg. \<lparr>OsName = ''objectstore'', OsProvider = konst st kind, OsConfig = cfg\<rparr>);
          secretOf = (\<lambda>k. mgetd [] config (konst st k)) in
      case BkS3 spec of
        Some s3 \<Rightarrow> map_sum id (ctx ''s3.Kind'') (s3Context st s3 config tr)
      | None \<Rightarrow>
          if BkGCS spec \<noteq> None then Inr (ctx ''gcs.Kind''
            (mput (konst st ''gcs.ConfigJSON'') (secretOf ''GOOGLE_SERVICE_ACCOUNT_JSON_KEY'')
              (mput (konst st ''gcs.ConfigProjectId'') (secretOf ''GOOGLE_PROJECT_ID'') [])))
          else if BkAzure spec \<noteq> None then Inr (ctx ''azure.Kind''
            (mput (konst st ''azure.ConfigKey'') (secretOf ''AZURE_ACCOUNT_KEY'')
              (mput (konst st ''azure.ConfigAccount'') (secretOf ''AZURE_ACCOUNT_NAME'') [])))
          else case BkLocal spec of
            Some l \<Rightarrow> Inr (ctx ''local.Kind'' (mput (konst st ''local.ConfigKeyPath'') (LcMountPath l) []))
          | None \<Rightarrow>
              if BkSwift spec \<noteq> None then Inr (ctx ''swift.Kind'' (swiftContext st config))
              else Inl (ErrText ''no storage provider is configured''))"

definition NewOSMContext :: "store \<Rightarrow> kube \<Rightarrow> Backend \<Rightarrow> string \<Rightarrow> knet \<Rightarrow> (go_error + OSMContext) \<times> knet" where
  "NewOSMContext st kb spec namespace s =
     (if StorageSecretName spec \<noteq> []
      then (case clientGetSecret kb namespace (StorageSecretName spec) s of
              (Inl e, s) \<Rightarrow> (Inl e, s)
            | (Inr secret, s) \<Rightarrow> (storeContext st spec (SeData secret) (trace s), s))
      else (storeContext st spec [] (trace s), s))"

section \<open>CheckBucketAccess\<close>

definition CheckBucketAccess :: "store \<Rightarrow> kube \<Rightarrow> Backend \<Rightarrow> string \<Rightarrow> knet \<Rightarrow> go_error option \<times> knet" where
  "CheckBucketAccess st kb spec namespace s =
     (case NewOSMContext st kb spec namespace s of
        (Inl e, s) \<Rightarrow> (Some e, s)
      | (Inr cfg, s) \<Rightarrow>
          (case stowDial st (trace s) (OsProvider cfg) (OsConfig cfg) of
             Some e \<Rightarrow> (Some e, s)
           | None \<Rightarrow>
               (case containerOf st spec of
                  Inl e \<Rightarrow> (Some e, s)
                | Inr bucket \<Rightarrow>
                    (case stowContainer st (trace s) (OsProvider cfg) (OsConfig cfg) bucket of
                       Some e \<Rightarrow> (Some e, s)
                     | None \<Rightarrow> (stowWriteAccess st (trace s) (OsProvider cfg) (OsConfig cfg) bucket, s)))))"

end
