(* ===== verification/Backup.thy ===== *)
theory Backup
  imports Osm Reconcile
begin

text \<open>
  The backup controller: \<open>src/pkg/controller/redisclusterbackup\<close>. A backup resource gets a start
  time, is validated, and becomes a batch job with one container per master; when the job has
  ended the backup has succeeded or failed, and a backup that meets the job of another one is
  ignored. The resource is passed through the calls and returned as they leave it; the events
  recorded for it are in the trace.
\<close>

record ReconcileRedisClusterBackup =
  bKube :: kube
  bOut :: outside
  bStore :: store
  bAggregate :: "string list \<Rightarrow> string"
  bClusterScoped :: bool

definition BackupError :: string where "BackupError = ''BakcupError''"
definition BackupFailed :: string where "BackupFailed = ''BakcupFailed''"
definition Starting :: string where "Starting = ''Starting''"
definition BackupSuccessful :: string where "BackupSuccessful = ''SuccessfulBackup''"

definition RedisClusterBackupKind :: string where "RedisClusterBackupKind = ''RedisClusterBackup''"
definition LabelClusterName :: string where "LabelClusterName = ''redis.kun/name''"
definition LabelBackupStatus :: string where "LabelBackupStatus = ''backup.redis.kun/status''"
definition AnnotationJobType :: string where "AnnotationJobType = ''redis.kun/job-type''"
definition JobTypeBackup :: string where "JobTypeBackup = ''backup''"
definition BackupDumpDir :: string where "BackupDumpDir = ''/data''"
definition UtilVolumeName :: string where "UtilVolumeName = ''util-volume''"

definition recordEvent :: "RedisClusterBackup \<Rightarrow> string \<Rightarrow> string \<Rightarrow> string \<Rightarrow> knet \<Rightarrow> knet" where
  "recordEvent backup eventtype reason message s =
     emit (EKube (KEvent RedisClusterBackupKind (BuName backup) eventtype reason message)) s"

definition UpdateBackupStatus :: "kube \<Rightarrow> RedisClusterBackup \<Rightarrow> knet \<Rightarrow> go_error option \<times> knet" where
  "UpdateBackupStatus kb backup s = request kb (KUpdateBackupStatus backup) s"

definition UpdateBackup :: "kube \<Rightarrow> RedisClusterBackup \<Rightarrow> knet \<Rightarrow> go_error option \<times> knet" where
  "UpdateBackup kb backup s = request kb (KUpdateBackup backup) s"

text \<open>Most errors are recorded as a warning and returned.\<close>

definition backupErr ::
    "ReconcileRedisClusterBackup \<Rightarrow> RedisClusterBackup \<Rightarrow> string \<Rightarrow> go_error \<Rightarrow> knet \<Rightarrow> (go_error option \<times> RedisClusterBackup) \<times> knet" where
  "backupErr r backup reason e s =
     ((Some e, backup), recordEvent backup ''Warning'' reason (error_text (bAggregate r) e) s)"

section \<open>helper.go\<close>

definition completed :: "BackupPhase \<Rightarrow> string \<Rightarrow> int \<Rightarrow> RedisClusterBackup \<Rightarrow> RedisClusterBackup" where
  "completed p reason t backup =
     backup\<lparr>BuStatus := (BuStatus backup)\<lparr>CompletionTime := Some t, BuPhase := p, BuReason := reason\<rparr>\<rparr>"

definition markAsFailedBackup ::
    "kube \<Rightarrow> RedisClusterBackup \<Rightarrow> string \<Rightarrow> knet \<Rightarrow> (go_error option \<times> RedisClusterBackup) \<times> knet" where
  "markAsFailedBackup kb backup reason s =
     (let backup = completed BackupPhaseFailed reason (timeNow kb (trace s)) backup in
      case UpdateBackupStatus kb backup s of (e, s) \<Rightarrow> ((e, backup), s))"

definition markAsIgnoredBackup ::
    "kube \<Rightarrow> RedisClusterBackup \<Rightarrow> string \<Rightarrow> knet \<Rightarrow> (go_error option \<times> RedisClusterBackup) \<times> knet" where
  "markAsIgnoredBackup kb backup reason s =
     (let backup = completed BackupPhaseIgnored reason (timeNow kb (trace s)) backup in
      case UpdateBackupStatus kb backup s of (e, s) \<Rightarrow> ((e, backup), s))"

definition isBackupRunning :: "kube \<Rightarrow> RedisClusterBackup \<Rightarrow> knet \<Rightarrow> (go_error + bool) \<times> knet" where
  "isBackupRunning kb backup s =
     (let labMap = [(LabelBackupStatus, ''Running''), (LabelClusterName, RedisClusterName (BuSpec backup))];
          r = listBackups kb (trace s) (BuNamespace backup) labMap;
          s = emit (EKube (KList RedisClusterBackupKind (BuNamespace backup) labMap)) s
      in case r of
           Inl e \<Rightarrow> (Inl e, s)
         | Inr backupList \<Rightarrow>
             (case ListJobByLabels kb (BuNamespace backup)
                     [(LabelClusterName, RedisClusterName (BuSpec backup)), (AnnotationJobType, JobTypeBackup)] s of
                (Inl e, s) \<Rightarrow> (Inl e, s)
              | (Inr backupJobList, s) \<Rightarrow> (Inr (length backupList > 0 \<and> length backupJobList > 0), s)))"

text \<open>\<open>upsertEnvVars\<close>: each new variable replaces the first of its name or goes to the end.\<close>

fun upsert :: "EnvVar \<Rightarrow> EnvVar list \<Rightarrow> EnvVar list" where
  "upsert env [] = [env]"
| "upsert env (v # vars) = (if EvName v = EvName env then env # vars else v # upsert env vars)"

definition upsertEnvVars :: "EnvVar list \<Rightarrow> EnvVar list \<Rightarrow> EnvVar list" where
  "upsertEnvVars vars nv = fold upsert nv vars"

definition backupPassword :: "string \<Rightarrow> EnvVar" where
  "backupPassword secretName =
     \<lparr>EvName = ''REDIS_PASSWORD'', EvValue = [], EvValueFrom = Some (SecretKeyRef secretName ''password'')\<rparr>"

definition isJobFinished :: "Job \<Rightarrow> bool" where
  "isJobFinished j \<longleftrightarrow>
     list_ex (\<lambda>(ty, st). (ty = ''Complete'' \<or> ty = ''Failed'') \<and> st = ''True'') (JbConditions j)"

section \<open>sync_handler.go: the job\<close>

definition backupOwner :: "RedisClusterBackup \<Rightarrow> bool \<Rightarrow> OwnerReference list" where
  "backupOwner backup isController =
     [\<lparr>OwAPIVersion = ''redis.kun/v1alpha1'', OwKind = RedisClusterBackupKind, OwName = BuName backup,
       OwUID = BuUID backup, OwController = isController\<rparr>]"

definition backupClaim :: "RedisClusterBackup \<Rightarrow> RedisStorage \<Rightarrow> string \<Rightarrow> VolumeClaim" where
  "backupClaim backup storage jobName =
     \<lparr>PvName = jobName, PvLabels = [], PvOwnerReferences = (if StDeleteClaim storage then backupOwner backup False else []),
      PvAccessModes = [''ReadWriteOnce''], PvVolumeMode = ''Filesystem'', PvSize = StSize storage, PvStorageClass = StClass storage\<rparr>"

definition createPVCForBackup :: "kube \<Rightarrow> RedisClusterBackup \<Rightarrow> RedisStorage \<Rightarrow> string \<Rightarrow> knet \<Rightarrow> go_error option \<times> knet" where
  "createPVCForBackup kb backup storage jobName s =
     (let r = getOther kb (trace s) ''PersistentVolumeClaim'' (BuNamespace backup) jobName;
          s = emit (EKube (KGet ''PersistentVolumeClaim'' (BuNamespace backup) jobName)) s
      in case r of
           Inr _ \<Rightarrow> (None, s)
         | Inl e \<Rightarrow>
             if IsNotFound e
             then request kb (KCreateObj (ObjClaim (BuNamespace backup) (backupClaim backup storage jobName))) s
             else (Some e, s))"

definition GetVolumeForBackup :: "kube \<Rightarrow> RedisClusterBackup \<Rightarrow> string \<Rightarrow> knet \<Rightarrow> (go_error + Volume) \<times> knet" where
  "GetVolumeForBackup kb backup jobName s =
     (case BuStorage (BuSpec backup) of
        None \<Rightarrow> (Inr \<lparr>VoName = UtilVolumeName, VoSource = VolEmptyDir\<rparr>, s)
      | Some storage \<Rightarrow>
          if StType storage = Ephemeral then (Inr \<lparr>VoName = UtilVolumeName, VoSource = VolEmptyDir\<rparr>, s)
          else case createPVCForBackup kb backup storage jobName s of
            (Some e, s) \<Rightarrow> (Inl e, s)
          | (None, s) \<Rightarrow> (Inr \<lparr>VoName = UtilVolumeName, VoSource = VolClaim jobName\<rparr>, s))"

definition zeroContainer :: Container where
  "zeroContainer = \<lparr>CoName = [], CoImage = [], CoImagePullPolicy = [], CoCommand = [], CoArgs = [], CoPorts = [], CoEnv = [],
     CoResources = noResources, CoVolumeMounts = [], CoLivenessProbe = None, CoReadinessProbe = None, CoLifecycle = None,
     CoSecurityContext = None\<rparr>"

definition backupContainer ::
    "RedisClusterBackup \<Rightarrow> DistributedRedisCluster \<Rightarrow> string \<Rightarrow> string \<Rightarrow> nat \<Rightarrow> RedisClusterNode \<Rightarrow> Container" where
  "backupContainer backup drc location folderName i node =
     (let c = zeroContainer
            \<lparr>CoName := JobTypeBackup @ ''-'' @ fmt_nat i, CoImage := BuImage (BuSpec backup), CoImagePullPolicy := ''Always'',
             CoArgs := [JobTypeBackup, ''--data-dir='' @ BackupDumpDir, ''--location='' @ location, ''--host='' @ RnIP node,
                        ''--folder='' @ folderName, ''--snapshot='' @ BuName backup @ ''-'' @ fmt_nat i, ''--''],
             CoVolumeMounts :=
               [\<lparr>VmName = UtilVolumeName, VmMountPath = BackupDumpDir, VmSubPath = [], VmReadOnly = False\<rparr>,
                \<lparr>VmName = ''rcloneconfig'', VmMountPath = ''/etc/rclone'', VmSubPath = [], VmReadOnly = True\<rparr>]\<rparr>;
          c = (case PasswordSecret (Spec drc) of None \<Rightarrow> c | Some n \<Rightarrow> c\<lparr>CoEnv := [backupPassword n]\<rparr>);
          c = (case BkLocal (BuBackend (BuSpec backup)) of
                 None \<Rightarrow> c
               | Some l \<Rightarrow> c\<lparr>CoVolumeMounts := CoVolumeMounts c @
                   [\<lparr>VmName = ''local'', VmMountPath = LcMountPath l, VmSubPath = LcSubPath l, VmReadOnly = False\<rparr>]\<rparr>)
      in case BuPodSpec (BuSpec backup) of
           None \<Rightarrow> c
         | Some ps \<Rightarrow> c\<lparr>CoResources := PsResources ps, CoLivenessProbe := PsLivenessProbe ps,
                        CoReadinessProbe := PsReadinessProbe ps, CoLifecycle := PsLifecycle ps\<rparr>)"

fun containerLoop ::
    "ReconcileRedisClusterBackup \<Rightarrow> RedisClusterBackup \<Rightarrow> DistributedRedisCluster \<Rightarrow> string \<Rightarrow> RedisClusterNode list \<Rightarrow> nat \<Rightarrow>
     Container list \<Rightarrow> knet \<Rightarrow> ((go_error + Container list) \<times> knet) go" where
  "containerLoop r backup drc location [] i containers s = Ret (Inr containers, s)"
| "containerLoop r backup drc location (node # ns) i containers s =
     (if RnRole node = RedisClusterNodeRoleMaster then
        (if int i = MasterSize (Spec drc) then Ret (Inr containers, s)
         else gbind (RemotePath pathJoin (fmtStart (bOut r)) backup) (\<lambda>res.
           case res of
             Inl msg \<Rightarrow> Ret (Inl (ErrText msg), recordEvent backup ''Warning'' BackupError msg s)
           | Inr folderName \<Rightarrow>
               containerLoop r backup drc location ns (i + 1)
                 (containers[i := backupContainer backup drc location folderName i node]) s))
      else containerLoop r backup drc location ns i containers s)"

definition backupContainers ::
    "ReconcileRedisClusterBackup \<Rightarrow> RedisClusterBackup \<Rightarrow> DistributedRedisCluster \<Rightarrow> knet \<Rightarrow> ((go_error + Container list) \<times> knet) go" where
  "backupContainers r backup drc s =
     (case locationOf (bOut r) (BuBackend (BuSpec backup)) of
        Inl e \<Rightarrow> Ret (Inl e, s)
      | Inr location \<Rightarrow>
          if MasterSize (Spec drc) < 0 then Panic ''makeslice: len out of range''
          else containerLoop r backup drc location (DNodes (Status drc)) 0
                 (replicate (nat (MasterSize (Spec drc))) zeroContainer) s)"

definition backupJob ::
    "bool \<Rightarrow> RedisClusterBackup \<Rightarrow> Volume \<Rightarrow> Container list \<Rightarrow> Job" where
  "backupJob isClusterScoped backup vol containers =
     (let job = \<lparr>JbName = JobName backup, JbNamespace = BuNamespace backup,
            JbLabels = [(LabelClusterName, RedisClusterName (BuSpec backup)), (AnnotationJobType, JobTypeBackup)],
            JbAnnotations = [], JbOwnerReferences = backupOwner backup True,
            JbActiveDeadlineSeconds = BuActiveDeadlineSeconds (BuSpec backup), JbContainers = containers,
            JbVolumes = [vol, \<lparr>VoName = ''rcloneconfig'', VoSource = VolSecret (RCloneSecretName backup)\<rparr>],
            JbRestartPolicy = ''Never'', JbNodeSelector = [], JbAffinity = None, JbSchedulerName = [], JbTolerations = [],
            JbPriorityClassName = [], JbPriority = None, JbSecurityContext = None, JbImagePullSecrets = [],
            JbBackoffLimit = None, JbConditions = [], JbSucceeded = 0, JbFailed = 0\<rparr>;
          job = (case BuPodSpec (BuSpec backup) of
                   None \<Rightarrow> job
                 | Some ps \<Rightarrow> job\<lparr>JbNodeSelector := PsNodeSelector ps, JbAffinity := PsAffinity ps,
                     JbSchedulerName := PsSchedulerName ps, JbTolerations := PsTolerations ps,
                     JbPriorityClassName := PsPriorityClassName ps, JbPriority := PsPriority ps,
                     JbSecurityContext := PsSecurityContext ps, JbImagePullSecrets := PsImagePullSecrets ps\<rparr>);
          job = (case BkLocal (BuBackend (BuSpec backup)) of
                   None \<Rightarrow> job
                 | Some l \<Rightarrow> job\<lparr>JbVolumes := JbVolumes job @ [\<lparr>VoName = ''local'', VoSource = localVolume l\<rparr>]\<rparr>)
      in if isClusterScoped then job\<lparr>JbAnnotations := mput AnnotationScope AnnotationClusterScoped (JbAnnotations job)\<rparr> else job)"

definition getBackupJob ::
    "ReconcileRedisClusterBackup \<Rightarrow> RedisClusterBackup \<Rightarrow> DistributedRedisCluster \<Rightarrow> knet \<Rightarrow> ((go_error + Job) \<times> knet) go" where
  "getBackupJob r backup drc s =
     (case GetVolumeForBackup (bKube r) backup (JobName backup) s of
        (Inl e, s) \<Rightarrow> Ret (Inl e, s)
      | (Inr vol, s) \<Rightarrow>
          gbind (backupContainers r backup drc s) (\<lambda>(res, s).
            Ret (map_sum id (backupJob (bClusterScoped r) backup vol) res, s)))"

section \<open>sync_handler.go: a job that has ended\<close>

definition dropStatusLabel :: "RedisClusterBackup \<Rightarrow> RedisClusterBackup" where
  "dropStatusLabel backup = backup\<lparr>BuLabels := mdel LabelBackupStatus (BuLabels backup)\<rparr>"

definition ignoreBackup ::
    "ReconcileRedisClusterBackup \<Rightarrow> RedisClusterBackup \<Rightarrow> string \<Rightarrow> knet \<Rightarrow> (go_error option \<times> RedisClusterBackup) \<times> knet" where
  "ignoreBackup r backup msg s =
     (case markAsIgnoredBackup (bKube r) backup msg s of ((_, backup), s) \<Rightarrow>
        let backup = dropStatusLabel backup in
        case UpdateBackup (bKube r) backup s of
          (Some e, s) \<Rightarrow> backupErr r backup BackupError e s
        | (None, s) \<Rightarrow> ((None, backup), recordEvent backup ''Warning'' BackupFailed msg s))"

definition clusterEvent :: "DistributedRedisCluster \<Rightarrow> string \<Rightarrow> string \<Rightarrow> string \<Rightarrow> knet \<Rightarrow> knet" where
  "clusterEvent drc eventtype reason message s =
     emit (EKube (KEvent ''DistributedRedisCluster'' (DrcName drc) eventtype reason message)) s"

definition finishBackup ::
    "ReconcileRedisClusterBackup \<Rightarrow> RedisClusterBackup \<Rightarrow> DistributedRedisCluster \<Rightarrow> bool \<Rightarrow> knet \<Rightarrow>
     (go_error option \<times> RedisClusterBackup) \<times> knet" where
  "finishBackup r backup drc jobSucceeded s =
     (let t = timeNow (bKube r) (trace s);
          backup = completed (if jobSucceeded then BackupPhaseSucceeded else BackupPhaseFailed)
            (if jobSucceeded then BuReason (BuStatus backup) else ''run batch job failed'') t backup
      in case UpdateBackupStatus (bKube r) backup s of
           (Some e, s) \<Rightarrow> backupErr r backup BackupError e s
         | (None, s) \<Rightarrow>
             let backup = dropStatusLabel backup in
             case UpdateBackup (bKube r) backup s of
               (Some e, s) \<Rightarrow> backupErr r backup BackupError e s
             | (None, s) \<Rightarrow>
                 if jobSucceeded
                 then let msg = ''Successfully completed backup'' in
                   ((None, backup), clusterEvent drc ''Normal'' BackupSuccessful msg (recordEvent backup ''Normal'' BackupSuccessful msg s))
                 else let msg = ''Failed to complete backup'' in
                   ((None, backup), clusterEvent drc ''Warning'' BackupFailed msg (recordEvent backup ''Warning'' BackupFailed msg s)))"

definition handleBackupJob ::
    "ReconcileRedisClusterBackup \<Rightarrow> RedisClusterBackup \<Rightarrow> knet \<Rightarrow> ((go_error option \<times> RedisClusterBackup) \<times> knet) go" where
  "handleBackupJob r backup s =
     (case GetJob (bKube r) (BuNamespace backup) (JobName backup) s of
        (Inl e, s) \<Rightarrow>
          if IsNotFound e then Ret (ignoreBackup r backup ''One Backup is already Running, Job not found'' s)
          else Ret ((Some e, backup), s)
      | (Inr jobObj, s) \<Rightarrow>
          if \<not> isJobFinished jobObj then Ret ((Some (ErrText ''wait for job Succeeded or Failed''), backup), s)
          else case GetDistributedRedisCluster (bKube r) (BuNamespace backup) (RedisClusterName (BuSpec backup)) s of
            (Inl e, s) \<Rightarrow> Ret (backupErr r backup BackupError e s)
          | (Inr drc, s) \<Rightarrow>
              (case JbConditions jobObj of
                 [] \<Rightarrow> Panic ''index out of range''
               | (jobType, _) # _ \<Rightarrow>
                   (case find (\<lambda>o1. OwKind o1 = RedisClusterBackupKind) (JbOwnerReferences jobObj) of
                      None \<Rightarrow> Ret ((None, backup), s)
                    | Some o1 \<Rightarrow>
                        if OwName o1 = BuName backup then Ret (finishBackup r backup drc (jobType = ''Complete'') s)
                        else Ret (ignoreBackup r backup ''One Backup is already Running'' s))))"

section \<open>sync_handler.go: create\<close>

definition ValidateBackup :: "kube \<Rightarrow> RedisClusterBackup \<Rightarrow> knet \<Rightarrow> go_error option \<times> knet" where
  "ValidateBackup kb backup s =
     (case Backup_Validate backup of
        Some msg \<Rightarrow> (Some (ErrText msg), s)
      | None \<Rightarrow>
          (case GetDistributedRedisCluster kb (BuNamespace backup) (RedisClusterName (BuSpec backup)) s of
             (Inl e, s) \<Rightarrow> (Some e, s)
           | (Inr _, s) \<Rightarrow> (None, s)))"

definition failBackup ::
    "ReconcileRedisClusterBackup \<Rightarrow> RedisClusterBackup \<Rightarrow> string \<Rightarrow> knet \<Rightarrow> (go_error option \<times> RedisClusterBackup) \<times> knet" where
  "failBackup r backup msg s =
     (case markAsFailedBackup (bKube r) backup msg s of ((_, backup), s) \<Rightarrow>
        ((None, backup), recordEvent backup ''Warning'' BackupFailed msg s))"

definition runBackup ::
    "ReconcileRedisClusterBackup \<Rightarrow> RedisClusterBackup \<Rightarrow> DistributedRedisCluster \<Rightarrow> Job \<Rightarrow> knet \<Rightarrow>
     (go_error option \<times> RedisClusterBackup) \<times> knet" where
  "runBackup r backup drc job s =
     (let backup = backup\<lparr>BuStatus := (BuStatus backup)\<lparr>BuPhase := BackupPhaseRunning, BuMasterSize := MasterSize (Spec drc),
            BuClusterReplicas := ClusterReplicas (Spec drc), ClusterImage := Image (Spec drc)\<rparr>\<rparr>
      in case UpdateBackupStatus (bKube r) backup s of
           (Some e, s) \<Rightarrow> backupErr r backup BackupFailed e s
         | (None, s) \<Rightarrow>
             let backup = backup\<lparr>BuLabels := mput LabelBackupStatus ''Running''
                   (mput LabelClusterName (RedisClusterName (BuSpec backup)) (BuLabels backup))\<rparr>
             in case UpdateBackup (bKube r) backup s of
                  (Some e, s) \<Rightarrow> backupErr r backup BackupError e s
                | (None, s) \<Rightarrow>
                    (case request (bKube r) (KCreateObj (ObjJob job)) (recordEvent backup ''Normal'' Starting ''Backup running'' s) of
                       (Some e, s) \<Rightarrow> backupErr r backup BackupError e s
                     | (None, s) \<Rightarrow> ((None, backup), s)))"

definition submitBackup ::
    "ReconcileRedisClusterBackup \<Rightarrow> RedisClusterBackup \<Rightarrow> DistributedRedisCluster \<Rightarrow> knet \<Rightarrow>
     ((go_error option \<times> RedisClusterBackup) \<times> knet) go" where
  "submitBackup r backup drc s =
     gbind (getBackupJob r backup drc s) (\<lambda>(res, s).
       case res of
         Inl e \<Rightarrow>
           let message = ''Failed to create Backup Job. Reason: '' @ error_text (bAggregate r) e;
               s = recordEvent backup ''Warning'' BackupError message s
           in Ret (if IsRequestRetryable e then ((Some e, backup), s) else markAsFailedBackup (bKube r) backup message s)
       | Inr job \<Rightarrow> Ret (runBackup r backup drc job s))"

definition prepareBackup ::
    "ReconcileRedisClusterBackup \<Rightarrow> RedisClusterBackup \<Rightarrow> DistributedRedisCluster \<Rightarrow> knet \<Rightarrow>
     ((go_error option \<times> RedisClusterBackup) \<times> knet) go" where
  "prepareBackup r backup drc s =
     (case NewRcloneSecret (bOut r) (bKube r) (RCloneSecretName backup) (BuNamespace backup) (BuBackend (BuSpec backup))
             (backupOwner backup False) s of
        (Inl e, s) \<Rightarrow> Ret (failBackup r backup (''Failed to generate rclone secret. Reason: '' @ error_text (bAggregate r) e) s)
      | (Inr secret, s) \<Rightarrow>
          (case CreateSecret (bKube r) secret s of
             (Some e, s) \<Rightarrow> Ret (backupErr r backup BackupError e s)
           | (None, s) \<Rightarrow>
               (case (if BkLocal (BuBackend (BuSpec backup)) = None
                      then CheckBucketAccess (bStore r) (bKube r) (BuBackend (BuSpec backup)) (BuNamespace backup) s
                      else (None, s)) of
                  (Some e, s) \<Rightarrow> Ret (failBackup r backup (error_text (bAggregate r) e) s)
                | (None, s) \<Rightarrow> submitBackup r backup drc s)))"

definition processBackup ::
    "ReconcileRedisClusterBackup \<Rightarrow> RedisClusterBackup \<Rightarrow> knet \<Rightarrow> ((go_error option \<times> RedisClusterBackup) \<times> knet) go" where
  "processBackup r backup s =
     (case ValidateBackup (bKube r) backup s of
        (Some e, s) \<Rightarrow>
          if IsRequestRetryable e then Ret ((Some e, backup), s)
          else Ret (failBackup r backup (error_text (bAggregate r) e) s)
      | (None, s) \<Rightarrow>
          (case isBackupRunning (bKube r) backup s of
             (Inl e, s) \<Rightarrow> Ret (backupErr r backup BackupError e s)
           | (Inr running, s) \<Rightarrow>
               if running then handleBackupJob r backup s
               else case GetDistributedRedisCluster (bKube r) (BuNamespace backup) (RedisClusterName (BuSpec backup)) s of
                 (Inl e, s) \<Rightarrow> Ret (backupErr r backup BackupError e s)
               | (Inr drc, s) \<Rightarrow> prepareBackup r backup drc s))"

definition isCompleted :: "BackupPhase \<Rightarrow> bool" where
  "isCompleted p \<longleftrightarrow> p = BackupPhaseFailed \<or> p = BackupPhaseSucceeded \<or> p = BackupPhaseIgnored"

definition create ::
    "ReconcileRedisClusterBackup \<Rightarrow> RedisClusterBackup \<Rightarrow> knet \<Rightarrow> ((go_error option \<times> RedisClusterBackup) \<times> knet) go" where
  "create r backup s =
     (let (err, backup, s) =
        (case StartTime (BuStatus backup) of
           Some _ \<Rightarrow> (None, backup, s)
         | None \<Rightarrow>
             let backup = backup\<lparr>BuStatus := (BuStatus backup)\<lparr>StartTime := Some (timeNow (bKube r) (trace s))\<rparr>\<rparr> in
             case UpdateBackupStatus (bKube r) backup s of (e, s) \<Rightarrow> (e, backup, s))
      in case err of
           Some e \<Rightarrow> Ret (backupErr r backup BackupError e s)
         | None \<Rightarrow>
             if isCompleted (BuPhase (BuStatus backup)) then
               let backup = dropStatusLabel backup in
               case UpdateBackup (bKube r) backup s of
                 (Some e, s) \<Rightarrow> Ret (backupErr r backup BackupError e s)
               | (None, s) \<Rightarrow> Ret ((None, backup), s)
             else processBackup r backup s)"

section \<open>redisclusterbackup_controller.go\<close>

definition BackupUpdateFunc :: "bool \<Rightarrow> RedisClusterBackup \<Rightarrow> RedisClusterBackup \<Rightarrow> bool" where
  "BackupUpdateFunc isClusterScoped old new =
     (if \<not> ShoudManage isClusterScoped (BuAnnotations new) then False
      else if BuGeneration old \<noteq> BuGeneration new then True else False)"

definition BackupDeleteFunc :: "bool \<Rightarrow> RedisClusterBackup \<Rightarrow> bool \<Rightarrow> bool" where
  "BackupDeleteFunc isClusterScoped backup deleteStateUnknown =
     (if \<not> ShoudManage isClusterScoped (BuAnnotations backup) then False else \<not> deleteStateUnknown)"

definition BackupCreateFunc :: "bool \<Rightarrow> RedisClusterBackup \<Rightarrow> bool" where
  "BackupCreateFunc isClusterScoped backup = (if \<not> ShoudManage isClusterScoped (BuAnnotations backup) then False else True)"

definition isJobCompleted :: "Job \<Rightarrow> bool" where
  "isJobCompleted newJob = (if isJobFinished newJob then True else False)"

definition JobUpdateFunc :: "bool \<Rightarrow> Job \<Rightarrow> bool" where
  "JobUpdateFunc isClusterScoped newJob =
     (if \<not> ShoudManage isClusterScoped (JbAnnotations newJob) then False
      else if isJobCompleted newJob then True else False)"

definition JobDeleteFunc :: "bool \<Rightarrow> Job \<Rightarrow> bool" where
  "JobDeleteFunc isClusterScoped job =
     (if \<not> ShoudManage isClusterScoped (JbAnnotations job) then False
      else if JbSucceeded job = 0 \<and> JbFailed job \<le> Int32 (JbBackoffLimit job) then True else False)"

definition JobCreateFunc :: "bool \<Rightarrow> Job \<Rightarrow> bool" where
  "JobCreateFunc isClusterScoped job =
     (if \<not> ShoudManage isClusterScoped (JbAnnotations job) then False
      else if JbSucceeded job > 0 \<or> JbFailed job \<ge> Int32 (JbBackoffLimit job) then True else False)"

definition Backup_Reconcile ::
    "ReconcileRedisClusterBackup \<Rightarrow> string \<Rightarrow> string \<Rightarrow> knet \<Rightarrow>
     ((Result \<times> go_error option \<times> RedisClusterBackup option) \<times> knet) go" where
  "Backup_Reconcile r namespace name s =
     (case GetRedisClusterBackup (bKube r) namespace name s of
        (Inl e, s) \<Rightarrow> Ret ((noResult, if IsNotFound e then None else Some e, None), s)
      | (Inr backup, s) \<Rightarrow> gbind (create r backup s) (\<lambda>((err, backup), s). Ret ((noResult, err, Some backup), s)))"

subsection \<open>Finalizers\<close>

text \<open>
  Their calls are commented out in \<open>Reconcile\<close>; the functions are there.
\<close>

definition backupFinalizer :: string where
  "backupFinalizer = ''finalizer.backup.redis.kun''"

definition finalizeBackup :: "ReconcileRedisClusterBackup \<Rightarrow> RedisClusterBackup \<Rightarrow> go_error option" where
  "finalizeBackup r b = None"

definition addFinalizer ::
    "ReconcileRedisClusterBackup \<Rightarrow> RedisClusterBackup \<Rightarrow> knet \<Rightarrow> (go_error option \<times> RedisClusterBackup) \<times> knet" where
  "addFinalizer r b s =
     (let b = b\<lparr>BuFinalizers := BuFinalizers b @ [backupFinalizer]\<rparr>;
          (e, s) = request (bKube r) (KUpdateBackup b) s
      in ((e, b), s))"

fun contains :: "string list \<Rightarrow> string \<Rightarrow> bool" where
  "contains [] s = False"
| "contains (v # list) s = (if v = s then True else contains list s)"

text \<open>
  \<open>remove\<close> deletes in place while it ranges over the slice: the range reads the array \<open>arr\<close> at the
  indices of the original slice, \<open>len\<close> is the length of the variable \<open>list\<close>. The append moves the
  elements behind \<open>i\<close> one place down and leaves the last place as it was; \<open>list[i+1:]\<close> panics when
  \<open>i+1\<close> is beyond the length.
\<close>

fun removeLoop :: "string \<Rightarrow> nat list \<Rightarrow> string list \<Rightarrow> nat \<Rightarrow> (string list \<times> nat) go" where
  "removeLoop s [] arr len = Ret (arr, len)"
| "removeLoop s (i # is) arr len =
     (if arr ! i = s then
        if len < i + 1 then Panic ''slice bounds out of range''
        else removeLoop s is (take i arr @ drop (i + 1) (take len arr) @ drop (len - 1) arr) (len - 1)
      else removeLoop s is arr len)"

definition remove :: "string list \<Rightarrow> string \<Rightarrow> string list go" where
  "remove list s =
     gbind (removeLoop s [0..<length list] list (length list)) (\<lambda>(arr, len). Ret (take len arr))"

end
