(* ===== verification/Backup_Facts.thy ===== *)
theory Backup_Facts
  imports Backup
begin

text \<open>
  The life of a backup: what a round of the backup controller does to its phase, that no job is
  created beside a running one, and the containers of a job.
\<close>

section \<open>The phase\<close>

definition bphase :: "RedisClusterBackup \<Rightarrow> BackupPhase" where
  "bphase backup = BuPhase (BuStatus backup)"

text \<open>
  A backup that is not completed may be run again, or be completed, with the time of its
  completion; a completed one keeps its status.
\<close>

definition proceeds :: "RedisClusterBackup \<Rightarrow> RedisClusterBackup \<Rightarrow> bool" where
  "proceeds b b' \<longleftrightarrow> StartTime (BuStatus b') = StartTime (BuStatus b) \<and>
     (BuStatus b' = BuStatus b \<or> bphase b' = BackupPhaseRunning \<or> isCompleted (bphase b') \<and> CompletionTime (BuStatus b') \<noteq> None)"

lemma proceeds_refl [simp]: "proceeds b b"
  by (simp add: proceeds_def)

lemma proceeds_completed [simp]: "isCompleted p \<Longrightarrow> proceeds b (completed p reason t b)"
  by (simp add: proceeds_def completed_def bphase_def)

lemma proceeds_labels [simp]: "proceeds b (b'\<lparr>BuLabels := l\<rparr>) = proceeds b b'"
  by (simp add: proceeds_def bphase_def)

lemma isCompleted_simps [simp]:
  "isCompleted BackupPhaseFailed" "isCompleted BackupPhaseSucceeded" "isCompleted BackupPhaseIgnored"
  "\<not> isCompleted BackupPhaseEmpty" "\<not> isCompleted BackupPhaseRunning"
  by (simp_all add: isCompleted_def)

lemma backupErr_backup [simp]: "snd (fst (backupErr r b reason e s)) = b"
  by (simp add: backupErr_def)

lemma mark_proceeds:
  "proceeds b (snd (fst (markAsFailedBackup kb b reason s)))" "proceeds b (snd (fst (markAsIgnoredBackup kb b reason s)))"
  by (simp_all add: markAsFailedBackup_def markAsIgnoredBackup_def Let_def case_prod_unfold)

lemma failBackup_proceeds: "proceeds b (snd (fst (failBackup r b msg s)))"
  using mark_proceeds(1) by (simp add: failBackup_def case_prod_unfold)

lemma ignoreBackup_proceeds: "proceeds b (snd (fst (ignoreBackup r b msg s)))"
  using mark_proceeds(2) by (simp add: ignoreBackup_def dropStatusLabel_def Let_def case_prod_unfold split: prod.split option.split)

lemma finishBackup_proceeds: "proceeds b (snd (fst (finishBackup r b drc ok s)))"
  by (simp add: finishBackup_def dropStatusLabel_def Let_def split: prod.split option.split)

lemma runBackup_proceeds: "proceeds b (snd (fst (runBackup r b drc job s)))"
  by (simp add: runBackup_def Let_def proceeds_def bphase_def split: prod.split option.split)

lemma handleBackupJob_proceeds: "gpost (\<lambda>x. proceeds b (snd (fst x))) (handleBackupJob r b s)"
  by (simp add: handleBackupJob_def ignoreBackup_proceeds finishBackup_proceeds split: prod.split sum.split list.split option.split)

lemma submitBackup_proceeds: "gpost (\<lambda>x. proceeds b (snd (fst x))) (submitBackup r b drc s)"
  unfolding submitBackup_def gpost_gbind
  by (rule gpost_I) (simp add: Let_def mark_proceeds runBackup_proceeds split: prod.split sum.split)

lemma processBackup_proceeds: "gpost (\<lambda>x. proceeds b (snd (fst x))) (processBackup r b s)"
  by (simp add: processBackup_def prepareBackup_def failBackup_proceeds handleBackupJob_proceeds submitBackup_proceeds
      split: prod.split sum.split option.split)

lemma create_phase:
  "gpost (\<lambda>((e, b'), s'). StartTime (BuStatus b') \<noteq> None \<and>
     (if isCompleted (bphase b)
      then \<exists>t. BuStatus b' = (BuStatus b)\<lparr>StartTime := t\<rparr>
      else bphase b' = bphase b \<or> bphase b' = BackupPhaseRunning \<or> isCompleted (bphase b') \<and> CompletionTime (BuStatus b') \<noteq> None))
   (create r b s)" (is "gpost ?P _")
proof -
  have proc: "gpost ?P (processBackup r b1 s1)"
    if "\<not> isCompleted (bphase b)" "bphase b1 = bphase b" "StartTime (BuStatus b1) \<noteq> None" for b1 s1
    by (rule gpost_mono [OF processBackup_proceeds]) (use that in \<open>auto simp: proceeds_def bphase_def\<close>)
  have start: "\<exists>t. BuStatus b = (BuStatus b)\<lparr>StartTime := t\<rparr>" by (rule exI [of _ "StartTime (BuStatus b)"]) simp
  show ?thesis
  proof (cases "StartTime (BuStatus b)")
    case None
    let ?b = "b\<lparr>BuStatus := (BuStatus b)\<lparr>StartTime := Some (timeNow (bKube r) (trace s))\<rparr>\<rparr>"
    obtain e s1 where u: "UpdateBackupStatus (bKube r) ?b s = (e, s1)" by fastforce
    show ?thesis using proc [of ?b s1]
      by (auto simp: create_def None u Let_def backupErr_def dropStatusLabel_def bphase_def split: prod.split option.split)
  next
    case (Some t)
    then show ?thesis using proc [of b s]
      by (auto simp: start create_def Let_def backupErr_def dropStatusLabel_def bphase_def split: prod.split option.split)
  qed
qed

section \<open>At most one job\<close>

text \<open>Nothing but other events are sent: no job is created.\<close>

definition no_job :: "knet \<Rightarrow> knet \<Rightarrow> bool" where
  "no_job s s' \<longleftrightarrow> (\<exists>es. trace s' = trace s @ es \<and> (\<forall>job. EKube (KCreateObj (ObjJob job)) \<notin> set es))"

lemma no_job_refl [simp]: "no_job s s"
  by (simp add: no_job_def)

lemma no_job_emit: "no_job s t \<Longrightarrow> (\<And>job. ev \<noteq> EKube (KCreateObj (ObjJob job))) \<Longrightarrow> no_job s (emit ev t)"
  by (fastforce simp: no_job_def)

lemma no_job_request: "no_job s t \<Longrightarrow> (\<And>job. q \<noteq> KCreateObj (ObjJob job)) \<Longrightarrow> no_job s (snd (request kb q t))"
  by (simp add: request_def no_job_emit)

lemma no_job_recordEvent [simp]: "no_job s t \<Longrightarrow> no_job s (recordEvent b ty reason msg t)"
  by (simp add: recordEvent_def no_job_emit)

lemma no_job_clusterEvent [simp]: "no_job s t \<Longrightarrow> no_job s (clusterEvent drc ty reason msg t)"
  by (simp add: clusterEvent_def no_job_emit)

lemma no_job_updates [simp]:
  "no_job s t \<Longrightarrow> no_job s (snd (UpdateBackupStatus kb b t))" "no_job s t \<Longrightarrow> no_job s (snd (UpdateBackup kb b t))"
  by (simp_all add: UpdateBackupStatus_def UpdateBackup_def no_job_request)

lemma no_job_reads [simp]:
  "no_job s t \<Longrightarrow> no_job s (snd (GetDistributedRedisCluster kb ns n t))" "no_job s t \<Longrightarrow> no_job s (snd (GetJob kb ns n t))"
  "no_job s t \<Longrightarrow> no_job s (snd (ListJobByLabels kb ns l t))"
  by (simp_all add: GetDistributedRedisCluster_def GetJob_def ListJobByLabels_def no_job_emit)

lemma no_job_backupErr [simp]: "no_job s t \<Longrightarrow> no_job s (snd (backupErr r b reason e t))"
  by (simp add: backupErr_def)

lemma no_job_ends [simp]:
  "no_job s t \<Longrightarrow> no_job s (snd (ignoreBackup r b msg t))" "no_job s t \<Longrightarrow> no_job s (snd (finishBackup r b drc ok t))"
  "no_job s t \<Longrightarrow> no_job s (snd (failBackup r b msg t))"
  by (simp_all add: ignoreBackup_def finishBackup_def failBackup_def markAsIgnoredBackup_def markAsFailedBackup_def Let_def
      case_prod_unfold split: option.split)

lemma no_job_handle: "no_job s t \<Longrightarrow> gpost (\<lambda>x. no_job s (snd x)) (handleBackupJob r b t)"
  by (simp add: handleBackupJob_def case_prod_unfold split: sum.split list.split option.split)

text \<open>
  A server that has a backup and a job: a list it answers has the object exactly when it is asked
  for the object's namespace and every label of the selector is one of the object's.
\<close>

definition selects :: "(string, string) gomap \<Rightarrow> (string, string) gomap \<Rightarrow> bool" where
  "selects selector labels \<longleftrightarrow> list_all (\<lambda>(k, v). mget labels k = Some v) selector"

definition has_backup :: "kube \<Rightarrow> RedisClusterBackup \<Rightarrow> bool" where
  "has_backup kb rb \<longleftrightarrow> (\<forall>tr ns l bs. listBackups kb tr ns l = Inr bs \<longrightarrow>
     (rb \<in> set bs \<longleftrightarrow> ns = BuNamespace rb \<and> selects l (BuLabels rb)))"

definition has_job :: "kube \<Rightarrow> Job \<Rightarrow> bool" where
  "has_job kb j \<longleftrightarrow> (\<forall>tr ns l js. listJobs kb tr ns l = Inr js \<longrightarrow>
     (j \<in> set js \<longleftrightarrow> ns = JbNamespace j \<and> selects l (JbLabels j)))"

text \<open>The backup \<open>rb\<close> of the cluster of \<open>b\<close> is running, with the job \<open>j\<close>.\<close>

definition cluster_busy :: "kube \<Rightarrow> RedisClusterBackup \<Rightarrow> RedisClusterBackup \<Rightarrow> Job \<Rightarrow> bool" where
  "cluster_busy kb b rb j \<longleftrightarrow> has_backup kb rb \<and> has_job kb j \<and>
     BuNamespace rb = BuNamespace b \<and> mget (BuLabels rb) LabelBackupStatus = Some ''Running'' \<and>
     mget (BuLabels rb) LabelClusterName = Some (RedisClusterName (BuSpec b)) \<and>
     JbNamespace j = BuNamespace b \<and> mget (JbLabels j) LabelClusterName = Some (RedisClusterName (BuSpec b)) \<and>
     mget (JbLabels j) AnnotationJobType = Some JobTypeBackup"

lemma has_backup_nonempty:
  "has_backup kb rb \<Longrightarrow> ns = BuNamespace rb \<Longrightarrow> selects l (BuLabels rb) \<Longrightarrow> listBackups kb tr ns l = Inr bs \<Longrightarrow> bs \<noteq> []"
  by (fastforce simp: has_backup_def)

lemma has_job_nonempty:
  "has_job kb j \<Longrightarrow> ns = JbNamespace j \<Longrightarrow> selects l (JbLabels j) \<Longrightarrow> listJobs kb tr ns l = Inr js \<Longrightarrow> js \<noteq> []"
  by (fastforce simp: has_job_def)

lemma isBackupRunning_busy:
  assumes "cluster_busy kb b rb j" "no_job s t"
  shows "fst (isBackupRunning kb b t) \<noteq> Inr False \<and> no_job s (snd (isBackupRunning kb b t))"
proof -
  let ?l1 = "[(LabelBackupStatus, ''Running''), (LabelClusterName, RedisClusterName (BuSpec b))]"
  let ?l2 = "[(LabelClusterName, RedisClusterName (BuSpec b)), (AnnotationJobType, JobTypeBackup)]"
  have "selects ?l1 (BuLabels rb)" "selects ?l2 (JbLabels j)"
    using assms(1) by (simp_all add: cluster_busy_def selects_def)
  then have "bs \<noteq> []" if "listBackups kb tr (BuNamespace b) ?l1 = Inr bs" for tr bs
    using has_backup_nonempty [OF _ _ _ that, of rb] assms(1) by (simp add: cluster_busy_def)
  moreover have "js \<noteq> []" if "listJobs kb tr (BuNamespace b) ?l2 = Inr js" for tr js
    using has_job_nonempty [OF _ _ _ that, of j] assms(1) \<open>selects ?l2 (JbLabels j)\<close> by (simp add: cluster_busy_def)
  ultimately show ?thesis using assms(2)
    by (auto simp: isBackupRunning_def ListJobByLabels_def Let_def no_job_emit split: sum.splits)
qed

lemma processBackup_busy:
  assumes "cluster_busy (bKube r) b rb j" "no_job s t"
  shows "gpost (\<lambda>x. no_job s (snd x)) (processBackup r b t)"
proof -
  obtain e t1 where v: "ValidateBackup (bKube r) b t = (e, t1)" by fastforce
  have "no_job s (snd (ValidateBackup (bKube r) b t))"
    using assms(2) by (simp add: ValidateBackup_def case_prod_unfold split: option.split sum.split)
  then have t1: "no_job s t1" by (simp add: v)
  obtain x t2 where r: "isBackupRunning (bKube r) b t1 = (x, t2)" "x \<noteq> Inr False" "no_job s t2"
    using isBackupRunning_busy [OF assms(1) t1] by (metis prod.collapse)
  show ?thesis
  proof (cases x)
    case (Inl e1)
    then show ?thesis using r t1 by (simp add: processBackup_def v split: option.split)
  next
    case (Inr q)
    then have "x = Inr True" using r(2) by simp
    then show ?thesis using r t1 no_job_handle [of s t2 r b] by (simp add: processBackup_def v split: option.split)
  qed
qed

lemma cluster_busy_status [simp]: "cluster_busy kb (b\<lparr>BuStatus := st\<rparr>) rb j = cluster_busy kb b rb j"
  by (simp add: cluster_busy_def)

lemma create_busy:
  assumes "cluster_busy (bKube r) b rb j"
  shows "gpost (\<lambda>x. no_job s (snd x)) (create r b s)"
proof -
  have "gpost (\<lambda>x. no_job s (snd x)) (processBackup r (b\<lparr>BuStatus := st\<rparr>) t)" if "no_job s t" for st t
    using processBackup_busy [OF _ that] assms by simp
  moreover have "gpost (\<lambda>x. no_job s (snd x)) (processBackup r b t)" if "no_job s t" for t
    using processBackup_busy [OF assms that] .
  ultimately show ?thesis by (simp add: create_def Let_def case_prod_unfold split: option.split)
qed

section \<open>Containers\<close>

definition masters_of :: "DistributedRedisCluster \<Rightarrow> RedisClusterNode list" where
  "masters_of drc = filter (\<lambda>n. RnRole n = RedisClusterNodeRoleMaster) (DNodes (Status drc))"

lemma containerLoop_spec:
  assumes "RemotePath pathJoin (fmtStart (bOut r)) b = Ret (Inr folder)"
    and "length cs = i" "i + length zs = nat (MasterSize (Spec drc))" "0 \<le> MasterSize (Spec drc)"
  shows "containerLoop r b drc loc ns i (cs @ zs) s =
    (let ms = take (length zs) (filter (\<lambda>n. RnRole n = RedisClusterNodeRoleMaster) ns) in
     Ret (Inr (cs @ map (\<lambda>(j, n). backupContainer b drc loc folder j n) (zip [i..<i + length ms] ms) @ drop (length ms) zs), s))"
  using assms(2,3)
proof (induction ns arbitrary: i cs zs)
  case (Cons n ns)
  show ?case
  proof (cases "RnRole n = RedisClusterNodeRoleMaster")
    case master: True
    show ?thesis
    proof (cases zs)
      case Nil
      then show ?thesis using Cons.prems assms(4) master by simp
    next
      case (Cons z zs')
      let ?c = "backupContainer b drc loc folder i n"
      have upd: "(cs @ zs)[i := ?c] = (cs @ [?c]) @ zs'"
        using \<open>zs = z # zs'\<close> \<open>length cs = i\<close> by (simp add: list_update_append)
      have "int i \<noteq> MasterSize (Spec drc)" using Cons.prems(2) assms(4) \<open>zs = z # zs'\<close> by auto
      then have "containerLoop r b drc loc (n # ns) i (cs @ zs) s = containerLoop r b drc loc ns (Suc i) ((cs @ [?c]) @ zs') s"
        using master by (simp add: assms(1) upd)
      also note Cons.IH [of "cs @ [?c]" "Suc i" zs']
      finally show ?thesis using Cons.prems \<open>zs = z # zs'\<close> master upt_conv_Cons [of i] by (simp add: Let_def del: upt_Suc)
    qed
  qed (use Cons in simp)
qed simp

lemma backupContainers_spec:
  assumes "RemotePath pathJoin (fmtStart (bOut r)) b = Ret (Inr folder)"
    and "locationOf (bOut r) (BuBackend (BuSpec b)) = Inr loc" "MasterSize (Spec drc) = int n"
  shows "backupContainers r b drc s =
    (let ms = take n (masters_of drc) in
     Ret (Inr (map (\<lambda>(j, node). backupContainer b drc loc folder j node) (zip [0..<length ms] ms) @
       replicate (n - length ms) zeroContainer), s))"
  using containerLoop_spec [OF assms(1), of "[]" 0 "replicate n zeroContainer" drc loc "DNodes (Status drc)" s] assms(2,3)
  by (simp add: backupContainers_def masters_of_def Let_def)

section \<open>Object stores\<close>

text \<open>
  The first entry for a key of the Swift configuration decides, even when the secret lacks it:
  the alternatives for the first version of the protocol are never looked at.
\<close>

lemma swiftStep_keeps: "mget cfg k = Some v \<Longrightarrow> mget (swiftStep st config val cfg) k = Some v"
  by (auto simp: swiftStep_def split: prod.split)

lemma swiftFold_keeps: "mget cfg k = Some v \<Longrightarrow> mget (fold (swiftStep st config) vals cfg) k = Some v"
  by (induction vals arbitrary: cfg) (simp_all add: swiftStep_keeps)

lemma swiftFold_first:
  "mget (fold (swiftStep st config) ((k, sk) # vals) []) (konst st k) = Some (mgetd [] config (konst st sk))"
proof -
  have "mget (swiftStep st config (k, sk) []) (konst st k) = Some (mgetd [] config (konst st sk))" by (simp add: swiftStep_def)
  from swiftFold_keeps [OF this] show ?thesis by simp
qed

lemma swift_username: "mget (swiftContext st config) (konst st ''swift.ConfigUsername'') = Some (mgetd [] config (konst st ''OS_USERNAME''))"
  unfolding swiftContext_def swiftKeys_def by (rule swiftFold_first)

end
