(* ===== verification/Backup_Properties.thy ===== *)
theory Backup_Properties
  imports Reconcile_Properties Backup_Facts
begin

text \<open>Properties of the backup controller: the phases of a backup, its job and the job's containers.\<close>

section \<open>Demo objects\<close>

definition demo_store :: store where
  "demo_store = \<lparr>konst = (\<lambda>n. n), bucketLocation = (\<lambda>tr k b. Inr []), urlInvalid = (\<lambda>u. None), stowDial = (\<lambda>tr p c. None),
     containerOf = (\<lambda>b. Inr []), stowContainer = (\<lambda>tr p c b. None), stowWriteAccess = (\<lambda>tr p c b. None)\<rparr>"

definition demo_backups :: "kube \<Rightarrow> ReconcileRedisClusterBackup" where
  "demo_backups kb = \<lparr>bKube = kb, bOut = demo_outside, bStore = demo_store, bAggregate = (\<lambda>_. []), bClusterScoped = False\<rparr>"

definition local_backup :: "BackupPhase \<Rightarrow> RedisClusterBackup" where
  "local_backup p = running_backup\<lparr>
     BuSpec := (BuSpec running_backup)\<lparr>BuBackend := (BuBackend (BuSpec running_backup))\<lparr>
       BkLocal := Some \<lparr>PersistentVolumeClaim = None, LcVolumeSource = K8sObj [], LcMountPath = [], LcSubPath = []\<rparr>\<rparr>\<rparr>,
     BuStatus := (BuStatus running_backup)\<lparr>StartTime := Some 5, BuPhase := p\<rparr>\<rparr>"

definition demo_job :: Job where
  "demo_job = backupJob False running_backup \<lparr>VoName = UtilVolumeName, VoSource = VolEmptyDir\<rparr> []"

definition labelled_backup :: RedisClusterBackup where
  "labelled_backup = running_backup\<lparr>BuLabels := [(LabelBackupStatus, ''Running''), (LabelClusterName, ''drc'')]\<rparr>"

definition busy_kube :: kube where
  "busy_kube = no_kube\<lparr>
     listBackups := (\<lambda>tr ns l. Inr (filter (\<lambda>b. ns = BuNamespace b \<and> selects l (BuLabels b)) [labelled_backup])),
     listJobs := (\<lambda>tr ns l. Inr (filter (\<lambda>j. ns = JbNamespace j \<and> selects l (JbLabels j)) [demo_job])),
     getDrc := (\<lambda>tr ns n. Inr demo_drc)\<rparr>"

lemma busy_labels:
  "BuNamespace labelled_backup = BuNamespace (local_backup p)"
  "mget (BuLabels labelled_backup) LabelBackupStatus = Some ''Running''"
  "mget (BuLabels labelled_backup) LabelClusterName = Some (RedisClusterName (BuSpec (local_backup p)))"
  "JbNamespace demo_job = BuNamespace (local_backup p)"
  "mget (JbLabels demo_job) LabelClusterName = Some (RedisClusterName (BuSpec (local_backup p)))"
  "mget (JbLabels demo_job) AnnotationJobType = Some JobTypeBackup"
  by (simp_all add: labelled_backup_def demo_job_def local_backup_def running_backup_def backupJob_def Let_def
      LabelBackupStatus_def LabelClusterName_def AnnotationJobType_def JobTypeBackup_def)

text \<open>A resource of three masters whose status lists two.\<close>

definition status_master :: "nat \<Rightarrow> RedisClusterNode" where
  "status_master i = \<lparr>RnID = fmt_nat i, RnRole = RedisClusterNodeRoleMaster, RnIP = ''10.0.0.'' @ fmt_nat i, RnPort = ''6379'',
     RnSlots = [], RnMasterRef = [], RnPodName = [], RnNodeName = [], RnStatefulSet = []\<rparr>"

definition two_masters :: DistributedRedisCluster where
  "two_masters = demo_drc\<lparr>Status := demo_status\<lparr>DNodes := [status_master 0, status_master 1]\<rparr>\<rparr>"

section \<open>Jobs\<close>

text \<open>
  C18. The containers of a backup job: the first masters of the reported status get one each, in
  order, up to the wanted number of masters. When the status lists fewer, the places that are
  left hold empty containers, without name and image.
\<close>

theorem backup_containers_exact:
  assumes "RemotePath pathJoin (fmtStart (bOut r)) b = Ret (Inr folder)"
    and "locationOf (bOut r) (BuBackend (BuSpec b)) = Inr loc" "MasterSize (Spec drc) = int n"
  shows "backupContainers r b drc s =
    (let ms = take n (filter (\<lambda>node. RnRole node = RedisClusterNodeRoleMaster) (DNodes (Status drc))) in
     Ret (Inr (map (\<lambda>(j, node). backupContainer b drc loc folder j node) (zip [0..<length ms] ms) @
       replicate (n - length ms) zeroContainer), s))"
  using backupContainers_spec [OF assms] unfolding masters_of_def .

theorem backup_containers_exact_witness:
  "\<exists>c0 c1. backupContainers (demo_backups no_kube) (local_backup BackupPhaseEmpty) two_masters start =
     Ret (Inr [c0, c1, zeroContainer], start) \<and> CoName c1 = ''backup-'' @ fmt_nat 1"
proof -
  let ?b = "local_backup BackupPhaseEmpty" and ?r = "demo_backups no_kube"
  have path: "\<exists>folder. RemotePath pathJoin (fmtStart (bOut ?r)) ?b = Ret (Inr folder)"
    by (simp add: RemotePath_def local_backup_def running_backup_def Let_def)
  then obtain folder where folder: "RemotePath pathJoin (fmtStart (bOut ?r)) ?b = Ret (Inr folder)" by blast
  have loc: "locationOf (bOut ?r) (BuBackend (BuSpec ?b)) = Inr []" by (simp add: demo_backups_def demo_outside_def)
  have size: "MasterSize (Spec two_masters) = int 3" by (simp add: two_masters_def demo_drc_def demo_spec_def)
  have "DNodes (Status two_masters) = [status_master 0, status_master 1]" by (simp add: two_masters_def)
  with backup_containers_exact [OF folder loc size, of start] show ?thesis
    by (simp add: status_master_def backupContainer_def zeroContainer_def JobTypeBackup_def local_backup_def running_backup_def
        two_masters_def demo_drc_def demo_spec_def Let_def)
qed

text \<open>
  C19. The life of a backup: after a round of the backup controller the backup has a start time;
  a completed backup (succeeded, failed or ignored) keeps its status but for that, and a backup
  that is not completed keeps its phase, runs, or is completed and then has a completion time.
\<close>

theorem backup_phase_advances:
  assumes "create r b s = Ret ((err, b'), s')"
  shows "StartTime (BuStatus b') \<noteq> None \<and>
    (isCompleted (BuPhase (BuStatus b)) \<longrightarrow> (\<exists>t. BuStatus b' = (BuStatus b)\<lparr>StartTime := t\<rparr>)) \<and>
    (\<not> isCompleted (BuPhase (BuStatus b)) \<longrightarrow>
       BuPhase (BuStatus b') = BuPhase (BuStatus b) \<or> BuPhase (BuStatus b') = BackupPhaseRunning \<or>
       isCompleted (BuPhase (BuStatus b')) \<and> CompletionTime (BuStatus b') \<noteq> None)"
  using gpost_D [OF create_phase assms] by (simp add: bphase_def split: if_splits)

theorem backup_phase_advances_witness:
  "\<exists>s'. create (demo_backups no_kube) (local_backup BackupPhaseSucceeded) start = Ret ((None, local_backup BackupPhaseSucceeded), s') \<and>
     (\<exists>t. BuStatus (local_backup BackupPhaseSucceeded) = (BuStatus (local_backup BackupPhaseSucceeded))\<lparr>StartTime := t\<rparr>)"
proof -
  let ?b = "local_backup BackupPhaseSucceeded"
  have run: "\<exists>s'. create (demo_backups no_kube) ?b start = Ret ((None, ?b), s')"
    by (simp add: create_def local_backup_def running_backup_def demo_backups_def UpdateBackup_def request_def no_kube_def
        dropStatusLabel_def mdel_def Let_def)
  then obtain s' where "create (demo_backups no_kube) ?b start = Ret ((None, ?b), s')" by blast
  from backup_phase_advances [OF this] run show ?thesis by (simp add: local_backup_def)
qed

text \<open>
  C30. At most one backup job of a cluster: while the server has a backup labelled as a running
  one of the cluster, in the namespace of the new backup, and a backup job of that cluster
  there, a round of the backup controller creates no job, whatever else the server answers,
  errors of the lists included. The server lists by namespace and labels.
\<close>

theorem one_backup_job:
  assumes "has_backup (bKube r) rb" "BuNamespace rb = BuNamespace b"
    and "mget (BuLabels rb) LabelBackupStatus = Some ''Running''"
    and "mget (BuLabels rb) LabelClusterName = Some (RedisClusterName (BuSpec b))"
    and "has_job (bKube r) j" "JbNamespace j = BuNamespace b"
    and "mget (JbLabels j) LabelClusterName = Some (RedisClusterName (BuSpec b))"
    and "mget (JbLabels j) AnnotationJobType = Some JobTypeBackup"
    and "create r b s = Ret ((err, b'), s')"
  shows "\<exists>es. trace s' = trace s @ es \<and> (\<forall>job. EKube (KCreateObj (ObjJob job)) \<notin> set es)"
proof -
  have "cluster_busy (bKube r) b rb j" using assms(1-8) by (simp add: cluster_busy_def)
  from gpost_D [OF create_busy [OF this] assms(9)] show ?thesis by (simp add: no_job_def)
qed

text \<open>
  The witness: the server has one running backup of the cluster and its job, and lists them by
  namespace and labels; a second backup of the cluster is ignored.
\<close>

theorem one_backup_job_witness:
  "\<exists>b' s'. create (demo_backups busy_kube) (local_backup BackupPhaseEmpty) start = Ret ((None, b'), s') \<and>
     (\<forall>job. EKube (KCreateObj (ObjJob job)) \<notin> set (trace s'))"
proof -
  let ?b = "local_backup BackupPhaseEmpty" and ?r = "demo_backups busy_kube"
  have h: "has_backup (bKube ?r) labelled_backup" "has_job (bKube ?r) demo_job"
    by (simp_all add: has_backup_def has_job_def demo_backups_def busy_kube_def)
  have l: "BuNamespace labelled_backup = BuNamespace ?b" "mget (BuLabels labelled_backup) LabelBackupStatus = Some ''Running''"
    "mget (BuLabels labelled_backup) LabelClusterName = Some (RedisClusterName (BuSpec ?b))"
    "JbNamespace demo_job = BuNamespace ?b" "mget (JbLabels demo_job) LabelClusterName = Some (RedisClusterName (BuSpec ?b))"
    "mget (JbLabels demo_job) AnnotationJobType = Some JobTypeBackup"
    by (simp_all add: busy_labels)
  have lists: "listBackups busy_kube tr ''default'' [(LabelBackupStatus, ''Running''), (LabelClusterName, ''drc'')] = Inr [labelled_backup]"
    "listJobs busy_kube tr ''default'' [(LabelClusterName, ''drc''), (AnnotationJobType, JobTypeBackup)] = Inr [demo_job]" for tr
    using l by (simp_all add: busy_kube_def selects_def local_backup_def running_backup_def)
  have other: "getDrc busy_kube = (\<lambda>tr ns n. Inr demo_drc)" "getJob busy_kube = getJob no_kube" "apiError busy_kube = apiError no_kube"
    "timeNow busy_kube = timeNow no_kube" by (simp_all add: busy_kube_def)
  have "\<exists>b' s'. create ?r ?b start = Ret ((None, b'), s')"
    using lists by (simp add: create_def local_backup_def running_backup_def demo_backups_def other no_kube_def processBackup_def
        ValidateBackup_def Backup_Validate_def GetDistributedRedisCluster_def isBackupRunning_def ListJobByLabels_def
        handleBackupJob_def GetJob_def ignoreBackup_def markAsIgnoredBackup_def UpdateBackupStatus_def UpdateBackup_def
        request_def isCompleted_def Let_def)
  then obtain b' s' where "create ?r ?b start = Ret ((None, b'), s')" by blast
  with one_backup_job [OF h(1) l(1-3) h(2) l(4-6) this] show ?thesis by (auto simp: start_def)
qed

end
