(* ===== verification/Creation.thy ===== *)
theory Creation
  imports Serving Placement_Facts
begin

text \<open>
  The first \<open>syncCluster\<close> of a cluster none of whose nodes has slots: one master is chosen per
  stateful set, all of them different nodes, the slaves are attached, and the masters are given
  all the slots. The lemmas join placement and allocation.
\<close>

section \<open>Nodes by stateful set\<close>

text \<open>Every node is listed under one stateful set.\<close>

definition listed_once :: "Ctx \<Rightarrow> ref set \<Rightarrow> bool" where
  "listed_once c R \<longleftrightarrow>
     (\<forall>sts. set (mgetd [] (nodes c) sts) \<subseteq> R) \<and>
     (\<forall>sts sts'. sts \<noteq> sts' \<longrightarrow> set (mgetd [] (nodes c) sts) \<inter> set (mgetd [] (nodes c) sts') = {})"

lemma byStsStep_nodes:
  "nodes (byStsStep h r c) = nodes c \<or> (\<exists>ss. nodes (byStsStep h r c) = mappend ss r (nodes c))"
  by (auto simp: byStsStep_def Let_def split: sum.splits)

lemma listed_once_step:
  assumes "listed_once c R" and "r \<notin> R"
  shows "listed_once (byStsStep h r c) (insert r R)"
  using byStsStep_nodes[of h r c] assms unfolding listed_once_def
  by (elim disjE exE) (auto simp: gomap_simps)

lemma listed_once_fold:
  assumes "listed_once c R" and "distinct ns" and "set ns \<inter> R = {}"
  shows "listed_once (fold (byStsStep h) ns c) (R \<union> set ns)"
  using assms
proof (induction ns arbitrary: c R)
  case (Cons r ns)
  have "listed_once (byStsStep h r c) (insert r R)" using listed_once_step Cons.prems by auto
  from Cons.IH[OF this] Cons.prems show ?case by simp
qed simp

lemma NewCtx_listed_once: "distinct ns \<Longrightarrow> listed_once (NewCtx h cl ns k name) (set ns)"
  using listed_once_fold[of _ "{}" ns h]
  by (simp add: NewCtx_def sortRedisNodeByStatefulSet_def listed_once_def)

lemma byStsStep_keeps:
  "newMastersBySts (byStsStep h r c) = newMastersBySts c" "clusterName (byStsStep h r c) = clusterName c"
  "expectedMasterNum (byStsStep h r c) = expectedMasterNum c"
  by (auto simp: byStsStep_def Let_def split: sum.splits)

lemma NewCtx_keeps:
  "newMastersBySts (NewCtx h cl ns k name) = []" "clusterName (NewCtx h cl ns k name) = name"
  "expectedMasterNum (NewCtx h cl ns k name) = k"
proof -
  have "newMastersBySts (fold (byStsStep h) ns c) = newMastersBySts c \<and> clusterName (fold (byStsStep h) ns c) = clusterName c \<and>
    expectedMasterNum (fold (byStsStep h) ns c) = expectedMasterNum c" for c
    by (induction ns arbitrary: c) (simp_all add: byStsStep_keeps)
  then show "newMastersBySts (NewCtx h cl ns k name) = []" "clusterName (NewCtx h cl ns k name) = name"
    "expectedMasterNum (NewCtx h cl ns k name) = k"
    by (simp_all add: NewCtx_def sortRedisNodeByStatefulSet_def)
qed

section \<open>The chosen masters\<close>

lemma dispatchLoop_keeps:
  assumes "dispatchLoop ords h is c = Ret (None, c')" and "wf_map (newMastersBySts c)"
  shows "currentMasters c' = currentMasters c \<and> wf_map (newMastersBySts c')"
  using assms
proof (induction "is" arbitrary: c)
  case (Cons i "is")
  from dispatchLoop_step[OF Cons.prems(1)] obtain m c1 where c1: "c1 = c \<or> c1 = c\<lparr>bestEffort := True\<rparr>"
    "dispatchLoop ords h is (c1\<lparr>newMastersBySts := mput (ClusterStatefulSetName (clusterName c) i) m (newMastersBySts c)\<rparr>)
      = Ret (None, c')" by blast
  from Cons.IH[OF c1(2)] c1(1) Cons.prems(2) show ?case by auto
qed simp

lemma ClusterStatefulSetName_inj: "inj (ClusterStatefulSetName name)"
  by (rule injI) (simp add: ClusterStatefulSetName_def fmt_nat_inj)

lemma map_filter_total:
  "(\<And>x. x \<in> set xs \<Longrightarrow> f x \<noteq> None) \<Longrightarrow> List.map_filter f xs = map (\<lambda>x. the (f x)) xs"
proof (induction xs)
  case (Cons x xs)
  then have "f x \<noteq> None" and "List.map_filter f xs = map (\<lambda>x. the (f x)) xs" by simp_all
  then show ?case by auto
qed simp

lemma GetNewMasters_spec:
  assumes "Ctx_DispatchMasters ords h c = Ret (None, c1)" and "newMastersBySts c = []" and "listed_once c R"
    and "is_order ord"
  defines "news \<equiv> GetNewMasters ord c1"
  shows "distinct news" and "length news = nat (expectedMasterNum c)"
    and "\<And>i. i < nat (expectedMasterNum c) \<Longrightarrow> \<exists>m\<in>set news. sts_master h c (ClusterStatefulSetName (clusterName c) i) m"
proof -
  let ?M = "newMastersBySts c1" and ?n = "nat (expectedMasterNum c)"
  let ?names = "ClusterStatefulSetName (clusterName c) ` {..<?n}"
  note run = assms(1)[unfolded Ctx_DispatchMasters_def]
  note spec = dispatchLoop_spec[OF run]
  have wf: "distinct (mkeys ?M)" using dispatchLoop_keeps[OF run] assms(2) by (simp add: distinct_mkeys)
  have keys: "set (mkeys ?M) = ?names"
    using spec(4) assms(2) by (auto simp: set_mkeys mget_def lessThan_atLeast0)
  have ord: "set (ord (mkeys ?M)) = ?names" "distinct (ord (mkeys ?M))" "length (ord (mkeys ?M)) = length (mkeys ?M)"
    using is_orderD[OF assms(4)] wf keys by auto
  have news: "news = map (\<lambda>k. the (mget ?M k)) (ord (mkeys ?M))"
    unfolding news_def GetNewMasters_def using ord(1) keys by (intro map_filter_total) (simp add: set_mkeys set_eq_iff)
  have master: "sts_master h c k (the (mget ?M k))" if "k \<in> ?names" for k
  proof -
    have "k \<in> set (mkeys ?M)" using that keys by simp
    then obtain m where "mget ?M k = Some m" by (auto simp: set_mkeys)
    then show ?thesis using spec(3) assms(2) by (auto simp: mget_def)
  qed
  have mem: "the (mget ?M k) \<in> set (mgetd [] (nodes c) k)" if "k \<in> ?names" for k
    using master[OF that] by (auto simp: sts_master_def mgetd_def)
  have "inj_on (\<lambda>k. the (mget ?M k)) ?names"
  proof (rule inj_onI, rule ccontr)
    fix x y assume "x \<in> ?names" "y \<in> ?names" "the (mget ?M x) = the (mget ?M y)" "x \<noteq> y"
    then show False using mem assms(3) unfolding listed_once_def by (metis disjoint_iff)
  qed
  then show "distinct news" unfolding news using ord(1,2) by (simp add: distinct_map)
  have "length (mkeys ?M) = card ?names" using distinct_card[OF wf] keys by simp
  also have "\<dots> = ?n" using card_image[OF inj_on_subset[OF ClusterStatefulSetName_inj subset_UNIV]] by simp
  finally show "length news = ?n" using ord(3) news by simp
  show "\<exists>m\<in>set news. sts_master h c (ClusterStatefulSetName (clusterName c) i) m" if "i < ?n" for i
    using master ord(1) that unfolding news by auto
qed

section \<open>The first synchronisation\<close>

text \<open>What the masters of a new cluster hold.\<close>

definition created :: "heap \<Rightarrow> Ctx \<Rightarrow> int \<Rightarrow> ref list \<Rightarrow> heap \<Rightarrow> bool" where
  "created h c n news h' \<longleftrightarrow> distinct news \<and> int (length news) = n \<and>
     (\<forall>i<nat n. \<exists>m\<in>set news. sts_master h c (ClusterStatefulSetName (clusterName c) i) m) \<and>
     concat (map (\<lambda>r. NSlots (h' r)) news) = map of_nat [0..<16384] \<and>
     (\<forall>r\<in>set news. length (NSlots (h' r)) \<in> {16384 div nat n, Suc (16384 div nat n)})"

lemma created_by_AllocSlots:
  assumes "Ctx_DispatchMasters ords h c = Ret (None, c1)" and "newMastersBySts c = []" and "listed_once c R"
    and "is_order ord" and "0 < expectedMasterNum c" and "expectedMasterNum c \<le> 16384"
    and "AllocSlots env (GetNewMasters ord c1) h1 s = Ret ((None, h'), s')"
  shows "created h c (expectedMasterNum c) (GetNewMasters ord c1) h'"
proof -
  note news = GetNewMasters_spec[OF assms(1-4)]
  have ne: "GetNewMasters ord c1 \<noteq> []" "length (GetNewMasters ord c1) \<le> 16384"
    using news(2) assms(5,6) by auto
  note alloc = AllocSlots_spec[OF assms(7) news(1) ne]
  have "length (NSlots (h' r)) \<in> {16384 div nat (expectedMasterNum c), Suc (16384 div nat (expectedMasterNum c))}"
    if "r \<in> set (GetNewMasters ord c1)" for r
    using alloc(2)[OF that] news(2) by (auto simp: alloc_size_ok_def)
  then show ?thesis using news alloc(1) assms(5) by (auto simp: created_def)
qed

lemma syncCluster_creates:
  assumes "syncCluster fuel fmtTime fmtNodes env kb drc infos s = Ret ((None, drc', h'), s')"
    and "newRedisCluster (rangeOrd env (trace s) ''newRedisCluster'') infos drc = (cl, ns, h)"
    and "currentMasters (NewCtx h cl ns (MasterSize (Spec drc)) (DrcName drc)) = []"
    and "0 < MasterSize (Spec drc)" and "MasterSize (Spec drc) \<le> 16384"
    and "is_order (rangeOrd env (trace s) ''GetNewMasters'')"
  shows "\<exists>news. created h (NewCtx h cl ns (MasterSize (Spec drc)) (DrcName drc)) (MasterSize (Spec drc)) news h' \<and> drc' = drc"
proof -
  let ?c = "NewCtx h cl ns (MasterSize (Spec drc)) (DrcName drc)"
  have ns: "distinct ns" using assms(2) by (auto simp: newRedisCluster_def Let_def)
  note run = assms(1)[unfolded syncCluster_def assms(2) Let_def prod.case gbind_Ret_iff]
  obtain e c1 where d: "Ctx_DispatchMasters (\<lambda>i. rangeOrd env (trace s) (''PlaceMasters'' @ fmt_nat i)) h ?c = Ret (e, c1)"
    using run by auto
  then have "e = None" using run by (auto split: option.splits)
  have cur: "GetCurrentMasters c1 = []"
    using dispatchLoop_keeps[OF d[unfolded \<open>e = None\<close> Ctx_DispatchMasters_def]] assms(3)
    by (simp add: GetCurrentMasters_def NewCtx_keeps)
  let ?news = "GetNewMasters (rangeOrd env (trace s) ''GetNewMasters'') c1"
  have "gbind (placeAndAttach env c1 h s) (\<lambda>((e, c, h), s).
      if e \<noteq> None then Ret ((e, drc, h), s)
      else gbind (AllocSlots env ?news h s) (\<lambda>((e, h), s). Ret ((wrapCluster ''AllocSlots'' e, drc, h), s)))
    = Ret ((None, drc', h'), s')"
    using run d \<open>e = None\<close> cur by auto
  then obtain c2 h1 s1 h2 s2 e2 where "AllocSlots env ?news h1 s1 = Ret ((e2, h2), s2)"
    "wrapCluster ''AllocSlots'' e2 = None" "h2 = h'" "drc' = drc"
    by (auto simp: gbind_Ret_iff split: if_splits)
  then have alloc: "AllocSlots env ?news h1 s1 = Ret ((None, h'), s2)" and "drc' = drc"
    by (simp_all add: wrapCluster_def)
  then show ?thesis
    using created_by_AllocSlots[OF d[unfolded \<open>e = None\<close>] _ NewCtx_listed_once[OF ns] assms(6) _ _ alloc] assms(4,5)
    by (auto simp: NewCtx_keeps)
qed

section \<open>The first synchronisation succeeds\<close>

lemma dispatchLoop_returns:
  assumes "\<forall>i\<in>set is. \<exists>ns. mget (nodes c) (ClusterStatefulSetName (clusterName c) i) = Some ns \<and> ns \<noteq> [] \<and>
      (\<forall>r\<in>set ns. \<not> IsMasterWithSlot (h r))"
  shows "\<exists>c1. dispatchLoop ords h is c = Ret (None, c1)"
  using assms
proof (induction "is" arbitrary: c)
  case (Cons i "is")
  let ?sts = "ClusterStatefulSetName (clusterName c) i"
  obtain ns where ns: "mget (nodes c) ?sts = Some ns" "ns \<noteq> []" "filter (\<lambda>n. IsMasterWithSlot (h n)) ns = []"
    using Cons.prems by (auto simp: filter_empty_conv)
  have "\<exists>m c1. Ctx_PlaceMasters (ords i) h ?sts c = Ret (m, c1)"
    using ns(1,2) by (auto simp: Ctx_PlaceMasters_def Let_def mgetd_def split: option.split list.split)
  then obtain m c1 where c1: "Ctx_PlaceMasters (ords i) h ?sts c = Ret (m, c1)" by blast
  let ?c2 = "c1\<lparr>newMastersBySts := mput ?sts m (newMastersBySts c1)\<rparr>"
  have "nodes ?c2 = nodes c" "clusterName ?c2 = clusterName c" using Ctx_PlaceMasters_spec(2)[OF c1] by auto
  then have "\<exists>c3. dispatchLoop ords h is ?c2 = Ret (None, c3)" using Cons.IH[of ?c2] Cons.prems by simp
  then show ?case using ns c1 by (simp add: Let_def FilterByFunc_def)
qed simp

lemma AttachSlaveToMaster_accepts:
  assumes "accepts env"
  shows "\<exists>n s'. AttachSlaveToMaster env slave mid s = Ret ((None, n), s')"
proof -
  obtain c s1 where "getClient env (IPPort slave) s = Ret (Inr c, s1)" using getClient_accepts[OF assms] by blast
  moreover obtain r s2 where "call env c ''CLUSTER'' [''REPLICATE'', mid] (IPPort slave) ''unable to run command REPLICATE'' s1 = Ret (Inr r, s2)"
    using call_accepts[OF assms] by blast
  ultimately show ?thesis by (simp add: AttachSlaveToMaster_def)
qed

lemma attachSlaves_accepts:
  assumes "accepts env"
  shows "\<exists>h' s'. attachSlaves env mid slaves h None s = Ret ((h', None), s')"
proof (induction slaves arbitrary: h s)
  case (Cons r slaves)
  obtain n s1 where "AttachSlaveToMaster env (h r) mid s = Ret ((None, n), s1)"
    using AttachSlaveToMaster_accepts[OF assms] by blast
  with Cons.IH[of "h(r := n)" s1] show ?case by (simp del: fun_upd_apply)
qed simp

lemma attachLoop_accepts:
  assumes "accepts env"
  shows "\<exists>h' s'. attachLoop env c ms h None s = Ret ((h', None), s')"
proof (induction ms arbitrary: h s)
  case (Cons mid ms)
  show ?case
  proof (cases "GetNodeByID (cluster c) mid")
    case (Inl e)
    then show ?thesis using Cons.IH by simp
  next
    case (Inr m)
    obtain h1 s1 where "attachSlaves env (ID (h m)) (mgetd [] (slavesByMaster c) mid) h None s = Ret ((h1, None), s1)"
      using attachSlaves_accepts[OF assms] by blast
    then show ?thesis using Cons.IH[of h1 s1] Inr by simp
  qed
qed simp

text \<open>The lists of nodes are not empty, and hold nodes of the cluster.\<close>

lemma NewCtx_lists:
  "mget (nodes (NewCtx h cl ns k name)) sts = Some rs \<Longrightarrow> rs \<noteq> [] \<and> set rs \<subseteq> set ns"
  "(\<forall>r\<in>set ns. NSlots (h r) = []) \<Longrightarrow> currentMasters (NewCtx h cl ns k name) = []"
proof -
  have "\<forall>sts rs. mget (nodes (fold (byStsStep h) ns c)) sts = Some rs \<longrightarrow> rs \<noteq> [] \<and> set rs \<subseteq> R \<union> set ns"
    if "\<forall>sts rs. mget (nodes c) sts = Some rs \<longrightarrow> rs \<noteq> [] \<and> set rs \<subseteq> R" for c R
    using that
  proof (induction ns arbitrary: c R)
    case (Cons r ns)
    have "\<forall>sts rs. mget (nodes (byStsStep h r c)) sts = Some rs \<longrightarrow> rs \<noteq> [] \<and> set rs \<subseteq> insert r R"
      using byStsStep_nodes[of h r c]
    proof (elim disjE exE)
      fix ss assume "nodes (byStsStep h r c) = mappend ss r (nodes c)"
      then show ?thesis using Cons.prems
        by (cases "mget (nodes c) ss") (auto simp: gomap_simps mgetd_def split: if_splits)
    qed (use Cons.prems in auto)
    from Cons.IH[OF this] show ?case by simp
  qed simp
  from this[of "\<lparr>expectedMasterNum = k, clusterName = name, cluster = cl, nodes = [], currentMasters = [],
      newMastersBySts = [], slavesByMaster = [], bestEffort = False\<rparr>" "{}"]
  show "rs \<noteq> [] \<and> set rs \<subseteq> set ns" if "mget (nodes (NewCtx h cl ns k name)) sts = Some rs"
    using that by (simp add: NewCtx_def sortRedisNodeByStatefulSet_def mget_def)
  have "currentMasters (fold (byStsStep h) ns c) = currentMasters c" if "\<forall>r\<in>set ns. NSlots (h r) = []" for c
    using that
    by (induction ns arbitrary: c) (simp_all add: byStsStep_def Let_def TotalSlots_def split: sum.split)
  then show "currentMasters (NewCtx h cl ns k name) = []" if "\<forall>r\<in>set ns. NSlots (h r) = []"
    using that by (simp add: NewCtx_def sortRedisNodeByStatefulSet_def)
qed

lemma first_sync:
  assumes "accepts env" and "newRedisCluster (rangeOrd env (trace s) ''newRedisCluster'') infos drc = (cl, ns, h)"
    and "\<forall>r\<in>set ns. NSlots (h r) = []"
    and "set (mkeys (nodes (NewCtx h cl ns (MasterSize (Spec drc)) (DrcName drc)))) =
      ClusterStatefulSetName (DrcName drc) ` {..<nat (MasterSize (Spec drc))}"
    and "0 < MasterSize (Spec drc)" and "MasterSize (Spec drc) \<le> 16384"
    and "\<And>site. is_order (rangeOrd env (trace s) site)"
  shows "\<exists>news h' s'. syncCluster fuel fmtTime fmtNodes env kb drc infos s = Ret ((None, drc, h'), s') \<and>
    created h (NewCtx h cl ns (MasterSize (Spec drc)) (DrcName drc)) (MasterSize (Spec drc)) news h'"
proof -
  let ?c = "NewCtx h cl ns (MasterSize (Spec drc)) (DrcName drc)"
  let ?ords = "\<lambda>i. rangeOrd env (trace s) (''PlaceMasters'' @ fmt_nat i)"
  have "\<exists>rs. mget (nodes ?c) (ClusterStatefulSetName (DrcName drc) i) = Some rs \<and> rs \<noteq> [] \<and> (\<forall>r\<in>set rs. \<not> IsMasterWithSlot (h r))"
    if "i < nat (MasterSize (Spec drc))" for i
  proof -
    have "ClusterStatefulSetName (DrcName drc) i \<in> set (mkeys (nodes ?c))" using assms(4) that by simp
    then obtain rs where "mget (nodes ?c) (ClusterStatefulSetName (DrcName drc) i) = Some rs" by (auto simp: set_mkeys)
    then show ?thesis using NewCtx_lists(1) assms(3) by (fastforce simp: IsMasterWithSlot_iff)
  qed
  then obtain c1 where d: "Ctx_DispatchMasters ?ords h ?c = Ret (None, c1)"
    using dispatchLoop_returns[of "[0..<nat (MasterSize (Spec drc))]" ?c h ?ords]
    by (auto simp: Ctx_DispatchMasters_def NewCtx_keeps)
  have cur: "GetCurrentMasters c1 = []"
    using dispatchLoop_keeps[OF d[unfolded Ctx_DispatchMasters_def]] NewCtx_lists(2)[OF assms(3)]
    by (simp add: GetCurrentMasters_def NewCtx_keeps)
  have "set (mkeys (nodes ?c)) \<subseteq> ClusterStatefulSetName (clusterName ?c) ` {..<nat (expectedMasterNum ?c)}"
    by (simp add: NewCtx_keeps assms(4))
  from dispatch_and_place[OF d NewCtx_keeps(1) assms(7)[of "''PlaceSlaves''"] this]
  obtain c2 where p: "Ctx_PlaceSlaves (rangeOrd env (trace s) ''PlaceSlaves'') h c1 = Ret (None, c2)" by blast
  obtain h1 s1 where a: "AttachingSlavesToMaster env c2 h s = Ret ((h1, None), s1)"
    using attachLoop_accepts[OF assms(1)] unfolding AttachingSlavesToMaster_def by blast
  let ?news = "GetNewMasters (rangeOrd env (trace s) ''GetNewMasters'') c1"
  have "distinct ns" using assms(2) by (auto simp: newRedisCluster_def Let_def)
  note news = GetNewMasters_spec[OF d NewCtx_keeps(1) NewCtx_listed_once[OF this] assms(7)[of "''GetNewMasters''"]]
  have "?news \<noteq> []" "length ?news \<le> 16384" using news(2) assms(5,6) by (auto simp: NewCtx_keeps)
  then obtain h' s' where al: "AllocSlots env ?news h1 s1 = Ret ((None, h'), s')" using AllocSlots_accepts[OF assms(1)] by blast
  have run: "syncCluster fuel fmtTime fmtNodes env kb drc infos s = Ret ((None, drc, h'), s')"
    using d cur p a al by (simp add: syncCluster_def assms(2) placeAndAttach_def wrapCluster_def)
  from syncCluster_creates[OF run assms(2) NewCtx_lists(2)[OF assms(3)] assms(5,6,7)] run show ?thesis by blast
qed

end
