(* ===== verification/Go_Heap.thy ===== *)
theory Go_Heap
  imports Go_Prelude
begin

text \<open>
  Memory of a Go program, as far as copying of data structures needs it.

  A heap is a list of cells, an address an index into it, and allocation appends a cell. A value
  is a scalar, nil, a pointer, a slice (array, offset and length), a map reference or a struct with
  named fields. \<open>view h t v\<close> reads a value of Go type \<open>t\<close> out of the heap: it returns the value
  with every reference followed and the addresses met on the way, or \<open>None\<close> if the value does
  not have the type. \<open>copier\<close>s are the statements that generated copy functions consist of; the
  locale \<open>deep_copier\<close> says when one of them makes a deep copy.
\<close>

section \<open>Values, cells and types\<close>

datatype gval =
    GStr string
  | GInt int
  | GBool bool
  | GNil
  | GPtr nat
  | GSlice nat nat nat
  | GMapRef nat
  | GStruct "(string \<times> gval) list"

datatype cell = CVal gval | CArr "gval list" | CMap "(string, string) gomap"

type_synonym heap = "cell list"

datatype gty =
    TStr
  | TInt
  | TBool
  | TNil
  | TPtr gty
  | TSlice gty
  | TMap
  | TStruct "(string \<times> gty) list"

text \<open>A value with its references followed.\<close>

datatype gtree =
    NScalar gval
  | NNil
  | NPtr gtree
  | NSlice "gtree list"
  | NMap "(string, string) gomap"
  | NStruct "(string \<times> gtree) list"

definition cell_val :: "heap \<Rightarrow> nat \<Rightarrow> gval option" where
  "cell_val h a = (if a < length h then case h ! a of CVal w \<Rightarrow> Some w | _ \<Rightarrow> None else None)"

definition cell_arr :: "heap \<Rightarrow> nat \<Rightarrow> gval list option" where
  "cell_arr h a = (if a < length h then case h ! a of CArr ws \<Rightarrow> Some ws | _ \<Rightarrow> None else None)"

definition cell_map :: "heap \<Rightarrow> nat \<Rightarrow> (string, string) gomap option" where
  "cell_map h a = (if a < length h then case h ! a of CMap m \<Rightarrow> Some m | _ \<Rightarrow> None else None)"

lemmas cell_defs = cell_val_def cell_arr_def cell_map_def

lemma cell_Some_iff:
  "cell_val h a = Some w \<longleftrightarrow> a < length h \<and> h ! a = CVal w"
  "cell_arr h a = Some ws \<longleftrightarrow> a < length h \<and> h ! a = CArr ws"
  "cell_map h a = Some m \<longleftrightarrow> a < length h \<and> h ! a = CMap m"
  by (auto simp: cell_defs split: cell.splits)

fun view :: "heap \<Rightarrow> gty \<Rightarrow> gval \<Rightarrow> (gtree \<times> nat list) option"
  and views :: "heap \<Rightarrow> (string \<times> gty) list \<Rightarrow> (string \<times> gval) list
                 \<Rightarrow> ((string \<times> gtree) list \<times> nat list) option" where
  "view h TStr v = (case v of GStr s \<Rightarrow> Some (NScalar v, []) | _ \<Rightarrow> None)"
| "view h TInt v = (case v of GInt i \<Rightarrow> Some (NScalar v, []) | _ \<Rightarrow> None)"
| "view h TBool v = (case v of GBool b \<Rightarrow> Some (NScalar v, []) | _ \<Rightarrow> None)"
| "view h TNil v = (case v of GNil \<Rightarrow> Some (NNil, []) | _ \<Rightarrow> None)"
| "view h (TPtr t) v = (case v of
      GNil \<Rightarrow> Some (NNil, [])
    | GPtr a \<Rightarrow>
        (case cell_val h a of
           None \<Rightarrow> None
         | Some w \<Rightarrow>
             (case view h t w of None \<Rightarrow> None | Some (n, as) \<Rightarrow> Some (NPtr n, a # as)))
    | _ \<Rightarrow> None)"
| "view h (TSlice t) v = (case v of
      GNil \<Rightarrow> Some (NNil, [])
    | GSlice a off len \<Rightarrow>
        (case cell_arr h a of
           None \<Rightarrow> None
         | Some ws \<Rightarrow>
             if off + len \<le> length ws then
               (case those (map (view h t) (take len (drop off ws))) of
                  None \<Rightarrow> None
                | Some rs \<Rightarrow> Some (NSlice (map fst rs), a # concat (map snd rs)))
             else None)
    | _ \<Rightarrow> None)"
| "view h TMap v = (case v of
      GNil \<Rightarrow> Some (NNil, [])
    | GMapRef a \<Rightarrow>
        (case cell_map h a of
           None \<Rightarrow> None
         | Some m \<Rightarrow> if wf_map m then Some (NMap m, [a]) else None)
    | _ \<Rightarrow> None)"
| "view h (TStruct fs) v = (case v of
      GStruct vs \<Rightarrow> (case views h fs vs of None \<Rightarrow> None | Some (ns, as) \<Rightarrow> Some (NStruct ns, as))
    | _ \<Rightarrow> None)"
| "views h [] vs = (if vs = [] then Some ([], []) else None)"
| "views h ((n, t) # fs) vs = (case vs of
      [] \<Rightarrow> None
    | (m, v) # vs' \<Rightarrow>
        if m = n then
          (case view h t v of
             None \<Rightarrow> None
           | Some (x, as) \<Rightarrow>
               (case views h fs vs' of
                  None \<Rightarrow> None
                | Some (xs, bs) \<Rightarrow> Some ((n, x) # xs, as @ bs)))
        else None)"

text \<open>A value of the type, with all references valid.\<close>

definition well_typed :: "heap \<Rightarrow> gty \<Rightarrow> gval \<Rightarrow> bool" where
  "well_typed h t v \<longleftrightarrow> view h t v \<noteq> None"

text \<open>Types whose values hold no reference: an assignment copies them completely.\<close>

fun flat :: "gty \<Rightarrow> bool" where
  "flat TStr = True"
| "flat TInt = True"
| "flat TBool = True"
| "flat TNil = True"
| "flat (TPtr t) = False"
| "flat (TSlice t) = False"
| "flat TMap = False"
| "flat (TStruct fs) = list_all (\<lambda>(n, t). flat t) fs"

section \<open>Reading is local\<close>

lemma those_map_Some:
  "those (map f xs) = Some ys \<longleftrightarrow> list_all2 (\<lambda>x y. f x = Some y) xs ys"
proof (induction xs arbitrary: ys)
  case Nil
  show ?case by (cases ys) auto
next
  case (Cons x xs)
  show ?case
    by (cases ys) (auto simp: Cons.IH[symmetric] split: option.splits)
qed

lemma view_bounds:
  "view h t v = Some (n, as) \<Longrightarrow> set as \<subseteq> {..<length h}"
  "views h fs vs = Some (ns, as) \<Longrightarrow> set as \<subseteq> {..<length h}"
proof (induction h t v and h fs vs arbitrary: n as and ns as rule: view_views.induct)
  case (6 h t v)
  have sub: "set bs \<subseteq> {..<length h}" if "v = GSlice a off len" "cell_arr h a = Some ws" "off + len \<le> length ws"
    "list_all2 (\<lambda>x y. view h t x = Some y) (take len (drop off ws)) rs" "(m, bs) \<in> set rs" for a off len ws rs m bs
  proof -
    from \<open>(m, bs) \<in> set rs\<close> obtain i where "i < length rs" "rs ! i = (m, bs)"
      by (auto simp: in_set_conv_nth)
    with \<open>list_all2 _ _ rs\<close> have i: "i < length (take len (drop off ws))"
      "view h t (take len (drop off ws) ! i) = Some (m, bs)"
      by (auto simp: list_all2_conv_all_nth simp del: nth_take length_take)
    from 6(1)[OF that(1,2,3) nth_mem[OF i(1)] i(2)] show ?thesis .
  qed
  show ?case using 6(2)
    by (auto split: gval.splits option.splits if_splits simp: those_map_Some cell_Some_iff)
       (use sub in \<open>fastforce simp: cell_Some_iff\<close>)+
qed (auto split: gval.splits option.splits if_splits prod.splits list.splits simp: cell_Some_iff)

text \<open>Two heaps that agree on the addresses met give the same reading.\<close>

definition agree :: "nat list \<Rightarrow> heap \<Rightarrow> heap \<Rightarrow> bool" where
  "agree as h h' \<longleftrightarrow> (\<forall>a\<in>set as. a < length h' \<and> h' ! a = h ! a)"

lemma agree_simps [simp]:
  "agree [] h h'"
  "agree (a # as) h h' \<longleftrightarrow> a < length h' \<and> h' ! a = h ! a \<and> agree as h h'"
  "agree (as @ bs) h h' \<longleftrightarrow> agree as h h' \<and> agree bs h h'"
  by (auto simp: agree_def)

lemma agree_concat: "agree (concat xss) h h' \<longleftrightarrow> (\<forall>xs\<in>set xss. agree xs h h')"
  by (auto simp: agree_def)

lemma view_agree:
  "view h t v = Some (n, as) \<Longrightarrow> agree as h h' \<Longrightarrow> view h' t v = Some (n, as)"
  "views h fs vs = Some (ns, as) \<Longrightarrow> agree as h h' \<Longrightarrow> views h' fs vs = Some (ns, as)"
proof (induction h t v and h fs vs arbitrary: n as and ns as rule: view_views.induct)
  case (6 h t v)
  show ?case
  proof (cases v)
    case (GSlice a off len)
    from 6(2) GSlice obtain ws rs where ws: "cell_arr h a = Some ws" "off + len \<le> length ws"
      and rs: "list_all2 (\<lambda>x y. view h t x = Some y) (take len (drop off ws)) rs"
      and n: "n = NSlice (map fst rs)" "as = a # concat (map snd rs)"
      by (auto split: option.splits if_splits simp: those_map_Some)
    have "list_all2 (\<lambda>x y. view h' t x = Some y) (take len (drop off ws)) rs"
    proof (rule list.rel_mono_strong[OF rs])
      fix x y assume xy: "x \<in> set (take len (drop off ws))" "y \<in> set rs" "view h t x = Some y"
      obtain m bs where y: "y = (m, bs)" by (cases y)
      have "agree bs h h'" using 6(3) n xy(2) y by (auto simp: agree_concat)
      then show "view h' t x = Some y"
        using 6(1)[OF GSlice ws xy(1)] xy(3) y by simp
    qed
    then have "those (map (view h' t) (take len (drop off ws))) = Some rs"
      by (simp add: those_map_Some)
    moreover have "cell_arr h' a = Some ws" using ws(1) 6(3) n(2) by (simp add: cell_Some_iff)
    ultimately show ?thesis using ws(2) n GSlice by simp
  qed (use 6(2) in auto)
next
  case (10 h n t fs vs)
  from 10(3) obtain v vs' x bs xs cs where v: "vs = (n, v) # vs'" "view h t v = Some (x, bs)"
    "views h fs vs' = Some (xs, cs)" "ns = (n, x) # xs" "as = bs @ cs"
    by (auto split: list.splits if_splits option.splits)
  have "view h' t v = Some (x, bs)" using 10(1)[OF v(1) refl refl v(2)] v(5) 10(4) by simp
  moreover have "views h' fs vs' = Some (xs, cs)"
    using 10(2)[OF v(1) refl refl v(2) refl v(3)] v(5) 10(4) by simp
  ultimately show ?case using v by simp
qed (auto split: gval.splits option.splits if_splits prod.splits list.splits simp: cell_Some_iff)

text \<open>\<open>extends h h'\<close>: the cells of \<open>h\<close> are still there, with their contents.\<close>

definition extends :: "heap \<Rightarrow> heap \<Rightarrow> bool" where
  "extends h h' \<longleftrightarrow> take (length h) h' = h"

lemma extends_iff:
  "extends h h' \<longleftrightarrow> length h \<le> length h' \<and> (\<forall>a<length h. h' ! a = h ! a)"
proof
  assume *: "extends h h'"
  then have "length h \<le> length h'" by (metis extends_def nat_le_linear take_all)
  moreover have "\<forall>a<length h. h' ! a = h ! a" using * by (metis extends_def nth_take)
  ultimately show "length h \<le> length h' \<and> (\<forall>a<length h. h' ! a = h ! a)" by blast
next
  assume "length h \<le> length h' \<and> (\<forall>a<length h. h' ! a = h ! a)"
  then show "extends h h'" unfolding extends_def by (intro nth_equalityI) auto
qed

lemma extends_refl [simp]: "extends h h"
  by (simp add: extends_def)

lemma extends_trans [trans]: "extends h1 h2 \<Longrightarrow> extends h2 h3 \<Longrightarrow> extends h1 h3"
  by (auto simp: extends_iff)

lemma extends_append [simp]: "extends h (h @ k)"
  by (simp add: extends_def)

lemma extends_update: "extends h h' \<Longrightarrow> length h \<le> p \<Longrightarrow> extends h (h'[p := c])"
  by (auto simp: extends_iff)

lemma extends_agree: "extends h h' \<Longrightarrow> set as \<subseteq> {..<length h} \<Longrightarrow> agree as h h'"
  by (auto simp: extends_iff agree_def)

lemma view_extends:
  "view h t v = Some (n, as) \<Longrightarrow> extends h h' \<Longrightarrow> view h' t v = Some (n, as)"
  by (meson extends_agree view_agree(1) view_bounds(1))

lemma view_update:
  "view h t v = Some (n, as) \<Longrightarrow> p \<notin> set as \<Longrightarrow> view (h[p := c]) t v = Some (n, as)"
  by (rule view_agree(1))
     (auto simp: agree_def dest: view_bounds(1) intro!: nth_list_update_neq)

lemma flat_view:
  "view h t v = Some (n, as) \<Longrightarrow> flat t \<Longrightarrow> as = []"
  "views h fs vs = Some (ns, as) \<Longrightarrow> list_all (\<lambda>(n, t). flat t) fs \<Longrightarrow> as = []"
  by (induction h t v and h fs vs arbitrary: n as and ns as rule: view_views.induct)
     (auto split: gval.splits option.splits if_splits prod.splits list.splits)

section \<open>Copy statements\<close>

text \<open>
  A copier takes the value of \<open>*in\<close> and the heap and returns the value left in \<open>*out\<close>. The
  statements below are the ones the generated functions use for a field: plain assignment, a new
  pointer, a new slice of copied elements, a new slice filled by the builtin \<open>copy\<close>, a new map.
  All of them leave nil alone.
\<close>

type_synonym copier = "gval \<Rightarrow> heap \<Rightarrow> gval \<times> heap"

definition copy_assign :: copier where
  "copy_assign v h = (v, h)"

definition alloc :: "cell \<Rightarrow> heap \<Rightarrow> nat \<times> heap" where
  "alloc c h = (length h, h @ [c])"

definition copy_ptr :: "copier \<Rightarrow> copier" where
  "copy_ptr f v h = (case v of
      GPtr a \<Rightarrow>
        (case cell_val h a of
           Some w \<Rightarrow>
             (let (p, h1) = alloc (CVal GNil) h;
                  (w', h2) = f w h1
              in (GPtr p, h2[p := CVal w']))
         | None \<Rightarrow> (v, h))
    | _ \<Rightarrow> (v, h))"

text \<open>\<open>for i := range *in { (*in)[i].DeepCopyInto(&(*out)[i]) }\<close>.\<close>

definition set_elem :: "heap \<Rightarrow> nat \<Rightarrow> nat \<Rightarrow> gval \<Rightarrow> heap" where
  "set_elem h p i w = (case cell_arr h p of Some ws \<Rightarrow> h[p := CArr (ws[i := w])] | None \<Rightarrow> h)"

fun copy_elems :: "copier \<Rightarrow> nat \<Rightarrow> nat \<Rightarrow> gval list \<Rightarrow> heap \<Rightarrow> heap" where
  "copy_elems f p i [] h = h"
| "copy_elems f p i (w # ws) h =
     (let (w', h1) = f w h in copy_elems f p (Suc i) ws (set_elem h1 p i w'))"

definition copy_slice :: "copier \<Rightarrow> copier" where
  "copy_slice f v h = (case v of
      GSlice a off len \<Rightarrow>
        (case cell_arr h a of
           Some ws \<Rightarrow>
             (let (p, h1) = alloc (CArr (replicate len GNil)) h
              in (GSlice p 0 len, copy_elems f p 0 (take len (drop off ws)) h1))
         | None \<Rightarrow> (v, h))
    | _ \<Rightarrow> (v, h))"

definition copy_flat_slice :: copier where
  "copy_flat_slice v h = (case v of
      GSlice a off len \<Rightarrow>
        (case cell_arr h a of
           Some ws \<Rightarrow>
             (let (p, h1) = alloc (CArr (replicate len GNil)) h
              in (GSlice p 0 len, h1[p := CArr (take len (drop off ws))]))
         | None \<Rightarrow> (v, h))
    | _ \<Rightarrow> (v, h))"

definition copy_map :: copier where
  "copy_map v h = (case v of
      GMapRef a \<Rightarrow>
        (case cell_map h a of
           Some m \<Rightarrow>
             (let (p, h1) = alloc (CMap []) h
              in (GMapRef p, h1[p := CMap (fold (\<lambda>(k, x). mput k x) m [])]))
         | None \<Rightarrow> (v, h))
    | _ \<Rightarrow> (v, h))"

text \<open>
  A struct: \<open>*out = *in\<close>, then one statement per field that needs it, each reading the field of
  \<open>in\<close> and overwriting the field of \<open>out\<close>.
\<close>

fun copy_stmts :: "(string \<times> gval) list \<Rightarrow> (string \<times> copier) list
    \<Rightarrow> (string \<times> gval) list \<Rightarrow> heap \<Rightarrow> (string \<times> gval) list \<times> heap" where
  "copy_stmts ins [] out h = (out, h)"
| "copy_stmts ins ((n, f) # ss) out h =
     (case map_of ins n of
        None \<Rightarrow> copy_stmts ins ss out h
      | Some v \<Rightarrow>
          (let (v', h1) = f v h in copy_stmts ins ss (AList.update n v' out) h1))"

definition copy_struct :: "(string \<times> copier) list \<Rightarrow> copier" where
  "copy_struct ss v h = (case v of
      GStruct vs \<Rightarrow> (let (out, h') = copy_stmts vs ss vs h in (GStruct out, h'))
    | _ \<Rightarrow> (v, h))"

section \<open>Deep copies\<close>

text \<open>
  The contract: nothing that was in memory changes, the copy reads the same, and every address it
  reaches has been allocated by the copier.
\<close>

locale deep_copier =
  fixes ty :: gty and copy :: copier
  assumes deep: "view h ty v = Some (n, as) \<Longrightarrow> copy v h = (v', h') \<Longrightarrow>
    extends h h' \<and> (\<exists>bs. view h' ty v' = Some (n, bs) \<and> set bs \<subseteq> {length h..<length h'})"
begin

lemma copy_typed:
  assumes "well_typed h ty v" and "copy v h = (v', h')"
  shows "well_typed h' ty v' \<and> well_typed h' ty v"
proof -
  obtain n as where v: "view h ty v = Some (n, as)" using assms(1) by (auto simp: well_typed_def)
  then show ?thesis using deep[OF v assms(2)] view_extends[OF v] by (auto simp: well_typed_def)
qed

lemma copy_fresh:
  assumes "view h ty v = Some (n, as)" and "copy v h = (v', h')"
  obtains bs where "view h' ty v' = Some (n, bs)" "set bs \<inter> {..<length h} = {}" "extends h h'"
  using deep[OF assms] by fastforce

text \<open>Whatever is later written through the copy, the original still reads as before.\<close>

lemma original_unaffected:
  assumes "view h ty v = Some (n, as)" and "copy v h = (v', h')"
    and "view h' ty v' = Some (n, bs)" and "\<forall>a<length h'. a \<notin> set bs \<longrightarrow> h'' ! a = h' ! a"
    and "length h' \<le> length h''"
  shows "view h'' ty v = Some (n, as)"
proof -
  obtain bs' where bs': "view h' ty v' = Some (n, bs')" "set bs' \<inter> {..<length h} = {}" "extends h h'"
    using copy_fresh[OF assms(1,2)] by blast
  have "bs' = bs" using bs'(1) assms(3) by simp
  have "a < length h'' \<and> h'' ! a = h ! a" if "a \<in> set as" for a
  proof -
    have a: "a < length h" using that view_bounds(1)[OF assms(1)] by auto
    then have "a \<notin> set bs" "a < length h'" "h' ! a = h ! a"
      using bs' \<open>bs' = bs\<close> by (auto simp: extends_iff)
    then show ?thesis using assms(4,5) by auto
  qed
  then have "agree as h h''" by (simp add: agree_def)
  then show ?thesis using view_agree(1)[OF assms(1)] by blast
qed

lemma copy_independent:
  assumes "view h ty v = Some (n, as)" and "copy v h = (v', h')"
  shows "\<exists>bs. view h' ty v' = Some (n, bs) \<and> set bs \<inter> {..<length h} = {} \<and>
    (\<forall>h''. length h' \<le> length h'' \<and> (\<forall>a<length h'. a \<notin> set bs \<longrightarrow> h'' ! a = h' ! a) \<longrightarrow>
       view h'' ty v = Some (n, as))"
proof -
  obtain bs where bs: "view h' ty v' = Some (n, bs)" "set bs \<inter> {..<length h} = {}"
    by (rule copy_fresh[OF assms])
  have "\<forall>h''. length h' \<le> length h'' \<and> (\<forall>a<length h'. a \<notin> set bs \<longrightarrow> h'' ! a = h' ! a) \<longrightarrow>
      view h'' ty v = Some (n, as)"
    by (intro allI impI, elim conjE) (rule original_unaffected[OF assms bs(1)])
  then show ?thesis by (intro exI[of _ bs] conjI bs)
qed

text \<open>And whatever is later written to the memory the original lives in, the copy stays.\<close>

lemma copy_unaffected:
  assumes "view h ty v = Some (n, as)" and "copy v h = (v', h')"
    and "\<forall>a<length h'. length h \<le> a \<longrightarrow> h'' ! a = h' ! a" and "length h' \<le> length h''"
  shows "\<exists>bs. view h'' ty v' = Some (n, bs)"
proof -
  obtain bs where bs: "view h' ty v' = Some (n, bs)" "set bs \<subseteq> {length h..<length h'}"
    using deep[OF assms(1,2)] by blast
  then have "agree bs h' h''" using assms(3,4) by (fastforce simp: agree_def)
  then show ?thesis using view_agree(1)[OF bs(1)] by blast
qed

end

lemma deep_copier_assign: "flat t \<Longrightarrow> deep_copier t copy_assign"
  by unfold_locales (auto simp: copy_assign_def dest: flat_view(1))

lemma deep_copier_ptr:
  assumes "deep_copier t f"
  shows "deep_copier (TPtr t) (copy_ptr f)"
proof unfold_locales
  fix h v n as v' h' assume v: "view h (TPtr t) v = Some (n, as)" and c: "copy_ptr f v h = (v', h')"
  show "extends h h' \<and> (\<exists>bs. view h' (TPtr t) v' = Some (n, bs) \<and> set bs \<subseteq> {length h..<length h'})"
  proof (cases "v = GNil")
    case True
    then show ?thesis using v c by (auto simp: copy_ptr_def)
  next
    case False
    then obtain a w n1 as1 where a: "v = GPtr a" "cell_val h a = Some w" "view h t w = Some (n1, as1)"
      "n = NPtr n1" using v by (auto split: gval.splits option.splits)
    obtain w' h2 where f: "f w (h @ [CVal GNil]) = (w', h2)" by fastforce
    have vw: "view (h @ [CVal GNil]) t w = Some (n1, as1)" using a(3) by (rule view_extends) simp
    from deep_copier.deep[OF assms vw f] obtain bs where bs: "extends (h @ [CVal GNil]) h2"
      "view h2 t w' = Some (n1, bs)" "set bs \<subseteq> {Suc (length h)..<length h2}" by auto
    have h': "v' = GPtr (length h)" "h' = h2[length h := CVal w']"
      using c a(1,2) f by (simp_all add: copy_ptr_def alloc_def)
    have len: "length h < length h2" using bs(1) by (auto simp: extends_iff)
    have "view h' t w' = Some (n1, bs)"
      unfolding h' by (rule view_update[OF bs(2)]) (use bs(3) in auto)
    moreover have "cell_val h' (length h) = Some w'" using len h' by (simp add: cell_Some_iff)
    moreover have "extends h h'" unfolding h'
      using extends_trans[OF extends_append bs(1)] by (rule extends_update) simp
    ultimately show ?thesis using h' a(4) bs(3) len by auto
  qed
qed

lemma deep_copier_map: "deep_copier TMap copy_map"
proof unfold_locales
  fix h v n as v' h' assume v: "view h TMap v = Some (n, as)" and c: "copy_map v h = (v', h')"
  have same: "fold (\<lambda>(k, x). mput k x) m k = k @ m" if "wf_map (k @ m)" for m k :: "(string, string) gomap"
    using that
  proof (induction m arbitrary: k)
    case (Cons x m)
    obtain a b where x: "x = (a, b)" by (cases x)
    have "mput a b k = k @ [(a, b)]"
      using Cons.prems x unfolding mput_def wf_map_def
      by (induction k) auto
    then show ?case using Cons.IH[of "k @ [(a, b)]"] Cons.prems x by simp
  qed simp
  show "extends h h' \<and> (\<exists>bs. view h' TMap v' = Some (n, bs) \<and> set bs \<subseteq> {length h..<length h'})"
  proof (cases "v = GNil")
    case True
    then show ?thesis using v c by (auto simp: copy_map_def)
  next
    case False
    then obtain a m where "v = GMapRef a" "cell_map h a = Some m" "n = NMap m" "wf_map m"
      using v by (auto split: gval.splits option.splits if_splits)
    then show ?thesis using c same[of "[]" m]
      by (auto simp: copy_map_def alloc_def cell_map_def list_update_append)
  qed
qed

text \<open>\<open>copied h0 h' t v' n\<close>: the value reads as \<open>n\<close> and lives above \<open>h0\<close>.\<close>

definition copied :: "nat \<Rightarrow> heap \<Rightarrow> gty \<Rightarrow> gval \<Rightarrow> gtree \<Rightarrow> bool" where
  "copied lo h t v n \<longleftrightarrow> (\<exists>bs. view h t v = Some (n, bs) \<and> set bs \<subseteq> {lo..<length h})"

lemma deep_copierI:
  assumes "\<And>h v n as v' h'. view h t v = Some (n, as) \<Longrightarrow> f v h = (v', h') \<Longrightarrow>
    extends h h' \<and> copied (length h) h' t v' n"
  shows "deep_copier t f"
  using assms by unfold_locales (auto simp: copied_def)

lemma deep_copierD:
  assumes "deep_copier t f" and "view h0 t v = Some (n, as)" and "extends h0 h"
    and "f v h = (v', h')"
  shows "extends h h'" and "copied (length h) h' t v' n"
  using deep_copier.deep[OF assms(1) view_extends[OF assms(2,3)] assms(4)]
  by (auto simp: copied_def)

lemma copied_mono:
  assumes "copied lo h t v n" and "extends h h'" and "lo' \<le> lo"
  shows "copied lo' h' t v n"
proof -
  obtain bs where bs: "view h t v = Some (n, bs)" "set bs \<subseteq> {lo..<length h}"
    using assms(1) by (auto simp: copied_def)
  moreover have "length h \<le> length h'" using assms(2) by (simp add: extends_iff)
  ultimately show ?thesis using view_extends[OF bs(1) assms(2)] assms(3)
    by (fastforce simp: copied_def)
qed

lemma copied_update: "copied lo h t v n \<Longrightarrow> p < lo \<Longrightarrow> copied lo (h[p := c]) t v n"
  unfolding copied_def using view_update by (metis atLeastLessThan_iff in_mono leD length_list_update)

lemma copy_elems_deep:
  assumes "deep_copier t f" and "length h0 = p" and "extends h0 h" and "p < length h"
    and "h ! p = CArr arr" and "length arr = i + length ws"
    and "list_all2 (\<lambda>w r. view h0 t w = Some r) ws rs"
    and "list_all2 (\<lambda>w n. copied (Suc p) h t w n) (take i arr) ns"
  shows "let h' = copy_elems f p i ws h in extends h0 h' \<and> p < length h' \<and>
    (\<exists>arr'. h' ! p = CArr arr' \<and> length arr' = length arr \<and>
      list_all2 (\<lambda>w n. copied (Suc p) h' t w n) arr' (ns @ map fst rs))"
  using assms(3-8)
proof (induction ws arbitrary: i h arr rs ns)
  case Nil
  then show ?case by auto
next
  case (Cons w ws)
  obtain n as rs' where rs: "rs = (n, as) # rs'" "view h0 t w = Some (n, as)"
    "list_all2 (\<lambda>w r. view h0 t w = Some r) ws rs'"
    using Cons.prems(5) by (auto simp: list_all2_Cons1)
  obtain w' h1 where f: "f w h = (w', h1)" by fastforce
  note d = deep_copierD[OF assms(1) rs(2) Cons.prems(1) f]
  have p1: "p < length h1" "h1 ! p = CArr arr" using d(1) Cons.prems(2,3) by (auto simp: extends_iff)
  define h2 where "h2 = h1[p := CArr (arr[i := w'])]"
  have set: "set_elem h1 p i w' = h2" using p1 by (simp add: set_elem_def cell_arr_def h2_def)
  have old: "copied (Suc p) h2 t x m" if "copied (Suc p) h t x m" for x m
    unfolding h2_def by (rule copied_update, rule copied_mono[OF that d(1)]) simp_all
  have new: "copied (Suc p) h2 t w' n"
    unfolding h2_def by (rule copied_update, rule copied_mono[OF d(2)]) (use Cons.prems(2) in simp_all)
  have i: "i < length arr" using Cons.prems(4) by simp
  have take: "take (Suc i) (arr[i := w']) = take i arr @ [w']"
    using i by (simp add: take_Suc_conv_app_nth)
  have IH: "let h' = copy_elems f p (Suc i) ws h2 in extends h0 h' \<and> p < length h' \<and>
    (\<exists>arr'. h' ! p = CArr arr' \<and> length arr' = length (arr[i := w']) \<and>
      list_all2 (\<lambda>w n. copied (Suc p) h' t w n) arr' ((ns @ [n]) @ map fst rs'))"
  proof (rule Cons.IH)
    show "extends h0 h2" unfolding h2_def
      using extends_trans[OF Cons.prems(1) d(1)] assms(2) by (intro extends_update) simp_all
    show "p < length h2" "h2 ! p = CArr (arr[i := w'])" using p1 by (simp_all add: h2_def)
    show "length (arr[i := w']) = Suc i + length ws" using Cons.prems(4) by simp
    show "list_all2 (\<lambda>w r. view h0 t w = Some r) ws rs'" by (fact rs(3))
    show "list_all2 (copied (Suc p) h2 t) (take (Suc i) (arr[i := w'])) (ns @ [n])"
      unfolding take using list_all2_mono[OF Cons.prems(6) old] new by (simp add: list_all2_appendI)
  qed
  then show ?case using f set rs(1) by simp
qed

lemma view_NSlice:
  assumes "cell_arr h p = Some ws" and "lo \<le> p" and "p < length h"
    and "list_all2 (\<lambda>w n. copied (Suc p) h t w n) ws ns"
  shows "copied lo h (TSlice t) (GSlice p 0 (length ws)) (NSlice ns)"
proof -
  have "\<exists>bs. list_all2 (\<lambda>w r. view h t w = Some r) ws (zip ns bs) \<and> length bs = length ns \<and>
    set (concat bs) \<subseteq> {Suc p..<length h}" using assms(4)
  proof (induction ws ns rule: list_all2_induct)
    case Nil
    then show ?case by simp
  next
    case (Cons w ws n ns)
    then obtain b bs where "view h t w = Some (n, b)" "set b \<subseteq> {Suc p..<length h}"
      "list_all2 (\<lambda>w r. view h t w = Some r) ws (zip ns bs)" "length bs = length ns"
      "set (concat bs) \<subseteq> {Suc p..<length h}" by (auto simp: copied_def)
    then show ?case by (intro exI[of _ "b # bs"]) simp
  qed
  then obtain bs where bs: "those (map (view h t) ws) = Some (zip ns bs)" "length bs = length ns"
    "set (concat bs) \<subseteq> {Suc p..<length h}" by (auto simp: those_map_Some)
  have "set (p # concat bs) \<subseteq> {lo..<length h}" using bs(3) assms(2,3) by fastforce
  moreover have "view h (TSlice t) (GSlice p 0 (length ws)) = Some (NSlice ns, p # concat bs)"
    using assms(1) bs(1,2) by simp
  ultimately show ?thesis unfolding copied_def by blast
qed

lemma view_TSliceD:
  assumes "view h (TSlice t) v = Some (n, as)" and "v \<noteq> GNil"
  obtains a off len ws rs where "v = GSlice a off len" "cell_arr h a = Some ws"
    "off + len \<le> length ws" "n = NSlice (map fst rs)"
    "list_all2 (\<lambda>w r. view h t w = Some r) (take len (drop off ws)) rs"
  using assms by (auto split: gval.splits option.splits if_splits simp: those_map_Some)

lemma deep_copier_slice:
  assumes "deep_copier t f"
  shows "deep_copier (TSlice t) (copy_slice f)"
proof (rule deep_copierI)
  fix h v n as v' h' assume v: "view h (TSlice t) v = Some (n, as)" and c: "copy_slice f v h = (v', h')"
  show "extends h h' \<and> copied (length h) h' (TSlice t) v' n"
  proof (cases "v = GNil")
    case True
    then show ?thesis using v c by (auto simp: copy_slice_def copied_def)
  next
    case False
    from v False obtain a off len ws rs where a: "v = GSlice a off len" "cell_arr h a = Some ws"
      "off + len \<le> length ws" "n = NSlice (map fst rs)"
      "list_all2 (\<lambda>w r. view h t w = Some r) (take len (drop off ws)) rs" by (rule view_TSliceD)
    let ?h1 = "h @ [CArr (replicate len GNil)]"
    have r: "v' = GSlice (length h) 0 len"
      "h' = copy_elems f (length h) 0 (take len (drop off ws)) ?h1"
      using c a(1,2) by (simp_all add: copy_slice_def alloc_def)
    have "let h' = copy_elems f (length h) 0 (take len (drop off ws)) ?h1 in
      extends h h' \<and> length h < length h' \<and>
      (\<exists>arr'. h' ! length h = CArr arr' \<and> length arr' = length (replicate len GNil) \<and>
        list_all2 (\<lambda>w n. copied (Suc (length h)) h' t w n) arr' ([] @ map fst rs))"
      by (rule copy_elems_deep[OF assms]) (use a(3,5) in auto)
    then obtain arr' where arr: "extends h h'" "length h < length h'" "h' ! length h = CArr arr'"
      "length arr' = len" "list_all2 (\<lambda>w n. copied (Suc (length h)) h' t w n) arr' (map fst rs)"
      using r(2) by (auto simp: Let_def)
    have "cell_arr h' (length h) = Some arr'" using arr(2,3) by (simp add: cell_Some_iff)
    from view_NSlice[OF this _ arr(2,5), of "length h"] arr(1,4) r(1) a(4) show ?thesis by simp
  qed
qed

lemma deep_copier_flat_slice:
  assumes "flat t"
  shows "deep_copier (TSlice t) copy_flat_slice"
proof (rule deep_copierI)
  fix h v n as v' h' assume v: "view h (TSlice t) v = Some (n, as)" and c: "copy_flat_slice v h = (v', h')"
  show "extends h h' \<and> copied (length h) h' (TSlice t) v' n"
  proof (cases "v = GNil")
    case True
    then show ?thesis using v c by (auto simp: copy_flat_slice_def copied_def)
  next
    case False
    from v False obtain a off len ws rs where a: "v = GSlice a off len" "cell_arr h a = Some ws"
      "off + len \<le> length ws" "n = NSlice (map fst rs)"
      "list_all2 (\<lambda>w r. view h t w = Some r) (take len (drop off ws)) rs" by (rule view_TSliceD)
    let ?ws = "take len (drop off ws)"
    have r: "v' = GSlice (length h) 0 (length ?ws)" "h' = h @ [CArr ?ws]"
      using c a(1-3) by (simp_all add: copy_flat_slice_def alloc_def list_update_append)
    have ext: "extends h h'" using r(2) by simp
    have "list_all2 (\<lambda>w n. copied (Suc (length h)) h' t w n) ?ws (map fst rs)"
      unfolding list.rel_map
    proof (rule list_all2_mono[OF a(5)])
      fix w r assume wr: "view h t w = Some r"
      obtain m bs where r: "r = (m, bs)" by (cases r)
      with flat_view(1) wr assms have "bs = []" by blast
      then show "copied (Suc (length h)) h' t w (fst r)"
        using wr view_extends[OF _ ext] r by (auto simp: copied_def)
    qed
    moreover have "cell_arr h' (length h) = Some ?ws" by (simp add: cell_Some_iff r(2))
    ultimately have "copied (length h) h' (TSlice t) (GSlice (length h) 0 (length ?ws)) (NSlice (map fst rs))"
      by (intro view_NSlice) (simp_all add: r(2))
    then show ?thesis using ext r(1) a(4) by simp
  qed
qed

subsection \<open>Structs\<close>

text \<open>
  Fields are found by name. A struct is copied deeply when every field that has a statement is
  copied deeply by it and every field that has none holds no reference.
\<close>

definition fields_copied :: "(string \<times> gty) list \<Rightarrow> (string \<times> copier) list \<Rightarrow> bool" where
  "fields_copied fs ss \<longleftrightarrow> distinct (map fst fs) \<and> distinct (map fst ss) \<and>
     (\<forall>(n, t)\<in>set fs. case map_of ss n of Some f \<Rightarrow> deep_copier t f | None \<Rightarrow> flat t)"

lemma views_fields:
  assumes "views h fs vs = Some (ns, as)" and "(x, t) \<in> set fs" and "distinct (map fst fs)"
  shows "\<exists>v m bs. map_of vs x = Some v \<and> view h t v = Some (m, bs) \<and> map_of ns x = Some m"
  using assms
proof (induction fs arbitrary: vs ns as)
  case (Cons ft fs)
  obtain n t' where ft: "ft = (n, t')" by (cases ft)
  obtain v vs' x' bs xs cs where v: "vs = (n, v) # vs'" "view h t' v = Some (x', bs)"
    "views h fs vs' = Some (xs, cs)" "ns = (n, x') # xs"
    using Cons.prems(1) ft by (auto split: list.splits if_splits option.splits)
  show ?case
  proof (cases "x = n")
    case True
    then have "t = t'" using Cons.prems(2,3) ft by (auto simp: image_iff)
    then show ?thesis using True v by auto
  next
    case False
    then show ?thesis using Cons.IH[OF v(3)] Cons.prems(2,3) ft v by auto
  qed
qed simp

lemma views_field_reach:
  assumes "views h fs vs = Some (ns, as)" and "(x, TPtr t) \<in> set fs" and "distinct (map fst fs)"
    and "map_of vs x = Some (GPtr a)"
  shows "a \<in> set as"
  using assms
proof (induction fs arbitrary: vs ns as)
  case (Cons ft fs)
  obtain n t' where ft: "ft = (n, t')" by (cases ft)
  obtain v vs' x' bs xs cs where v: "vs = (n, v) # vs'" "view h t' v = Some (x', bs)"
    "views h fs vs' = Some (xs, cs)" "as = bs @ cs"
    using Cons.prems(1) ft by (auto split: list.splits if_splits option.splits)
  show ?case
  proof (cases "x = n")
    case True
    then have "t' = TPtr t" using Cons.prems(2,3) ft by (auto simp: image_iff)
    then show ?thesis using True v Cons.prems(4) by (auto split: option.splits)
  next
    case False
    then show ?thesis using Cons.IH[OF v(3)] Cons.prems(2-4) ft v by auto
  qed
qed simp

text \<open>What a pointer field of a struct points to is reached.\<close>

lemma view_field_reach:
  assumes "view h (TStruct fs) (GStruct vs) = Some (n, as)" and "(x, TPtr t) \<in> set fs"
    and "distinct (map fst fs)" and "map_of vs x = Some (GPtr a)"
  shows "a \<in> set as"
  using assms views_field_reach by (auto split: option.splits)

lemma views_names: "views h fs vs = Some (ns, as) \<Longrightarrow> map fst vs = map fst fs \<and> map fst ns = map fst fs"
  by (induction fs arbitrary: vs ns as)
     (auto split: list.splits if_splits option.splits prod.splits)

lemma views_intro:
  assumes "map fst vs = map fst fs" and "map fst ns = map fst fs" and "distinct (map fst fs)"
    and "\<And>x t. (x, t) \<in> set fs \<Longrightarrow> \<exists>v m. map_of vs x = Some v \<and> map_of ns x = Some m \<and> copied lo h t v m"
  shows "\<exists>as. views h fs vs = Some (ns, as) \<and> set as \<subseteq> {lo..<length h}"
  using assms
proof (induction fs arbitrary: vs ns)
  case (Cons ft fs)
  obtain n t where ft: "ft = (n, t)" by (cases ft)
  from Cons.prems(1,2) ft obtain v vs' m ns' where v: "vs = (n, v) # vs'" "ns = (n, m) # ns'"
    by (cases vs; cases ns) auto
  have "\<exists>as. views h fs vs' = Some (ns', as) \<and> set as \<subseteq> {lo..<length h}"
  proof (rule Cons.IH)
    fix x t' assume "(x, t') \<in> set fs"
    moreover from this have "x \<noteq> n" using Cons.prems(3) ft by (auto simp: image_iff)
    ultimately show "\<exists>v m. map_of vs' x = Some v \<and> map_of ns' x = Some m \<and> copied lo h t' v m"
      using Cons.prems(4)[of x t'] v by simp
  qed (use Cons.prems(1-3) v in auto)
  moreover have "copied lo h t v m" using Cons.prems(4)[of n t] ft v by simp
  ultimately show ?case using v ft by (auto simp: copied_def)
qed simp

text \<open>What the statements of a copy leave behind: the fields they name are copies, the others as
  they were.\<close>

definition stmts_copied ::
    "(string \<Rightarrow> gty) \<Rightarrow> (string \<Rightarrow> gtree) \<Rightarrow> nat \<Rightarrow> (string \<times> gval) list \<Rightarrow> string set \<Rightarrow> heap \<Rightarrow>
     (string \<times> gval) list \<Rightarrow> heap \<Rightarrow> (string \<times> gval) list \<Rightarrow> bool" where
  "stmts_copied T N lo ins xs h out h' out' \<longleftrightarrow> extends h h' \<and> map fst out' = map fst out \<and>
     (\<forall>x. map_of ins x = None \<or> x \<notin> xs \<longrightarrow> map_of out' x = map_of out x) \<and>
     (\<forall>x\<in>xs. map_of ins x \<noteq> None \<longrightarrow> (\<exists>v'. map_of out' x = Some v' \<and> copied lo h' (T x) v' (N x)))"

lemma copy_stmts_deep:
  assumes "copy_stmts ins ss out h = (out', h')" and "distinct (map fst ss)" and "extends h0 h"
    and "\<And>x f. (x, f) \<in> set ss \<Longrightarrow> map_of ins x \<noteq> None \<Longrightarrow>
      deep_copier (T x) f \<and> (\<exists>as. view h0 (T x) (the (map_of ins x)) = Some (N x, as))"
    and "\<And>x f. (x, f) \<in> set ss \<Longrightarrow> map_of ins x \<noteq> None \<Longrightarrow> x \<in> fst ` set out"
  shows "stmts_copied T N (length h0) ins (fst ` set ss) h out h' out'"
  using assms
proof (induction ss arbitrary: out h)
  case Nil
  then show ?case by (simp add: stmts_copied_def)
next
  case (Cons nf ss)
  obtain n f where nf: "nf = (n, f)" by (cases nf)
  show ?case
  proof (cases "map_of ins n")
    case None
    have "stmts_copied T N (length h0) ins (fst ` set ss) h out h' out'"
    proof (rule Cons.IH)
      show "x \<in> fst ` set out" if "(x, g) \<in> set ss" "map_of ins x \<noteq> None" for x g
        using Cons.prems(5)[of x g] that nf by simp
    qed (use Cons.prems nf None in auto)
    then show ?thesis using nf None by (auto simp: stmts_copied_def)
  next
    case (Some v)
    obtain v' h1 where f: "f v h = (v', h1)" by fastforce
    let ?out = "AList.update n v' out"
    have names: "map fst ?out = map fst out" using Cons.prems(5)[of n f] nf Some by (simp add: update_keys)
    have D: "deep_copier (T n) f" "\<exists>as. view h0 (T n) v = Some (N n, as)"
      using Cons.prems(4)[of n f] nf Some by auto
    then obtain as where as: "view h0 (T n) v = Some (N n, as)" by blast
    note d = deep_copierD[OF D(1) as Cons.prems(3) f]
    have IH: "stmts_copied T N (length h0) ins (fst ` set ss) h1 ?out h' out'"
    proof (rule Cons.IH)
      show "copy_stmts ins ss ?out h1 = (out', h')" using Cons.prems(1) nf Some f by simp
      show "extends h0 h1" using extends_trans[OF Cons.prems(3) d(1)] .
      show "x \<in> fst ` set ?out" if "(x, g) \<in> set ss" "map_of ins x \<noteq> None" for x g
        using Cons.prems(5)[of x g] that nf names by (metis list.set_intros(2) list.set_map)
    qed (use Cons.prems nf in auto)
    have "copied (length h0) h' (T n) v' (N n)"
      using copied_mono[OF d(2)] IH Cons.prems(3) by (auto simp: extends_iff stmts_copied_def)
    moreover have "map_of out' n = Some v'"
      using IH Cons.prems(2) nf by (auto simp: update_conv' stmts_copied_def)
    ultimately show ?thesis
      using IH names nf Some extends_trans[OF d(1)] by (auto simp: update_conv' stmts_copied_def)
  qed
qed

text \<open>The fields of a viewed struct, by name.\<close>

lemma views_by_name:
  assumes "views h fs vs = Some (ns, as)" and "distinct (map fst fs)" and "x \<in> fst ` set fs"
  shows "\<exists>v bs. (x, the (map_of fs x)) \<in> set fs \<and> map_of vs x = Some v \<and>
    view h (the (map_of fs x)) v = Some (the (map_of ns x), bs) \<and> map_of ns x \<noteq> None"
proof -
  obtain t where t: "(x, t) \<in> set fs" using assms(3) by auto
  then have "t = the (map_of fs x)" using assms(2) by simp
  then show ?thesis using views_fields[OF assms(1) t assms(2)] t by auto
qed

lemma views_of_copy:
  assumes "views h fs vs = Some (ns, as)" and "fields_copied fs ss"
    and S: "stmts_copied (\<lambda>x. the (map_of fs x)) (\<lambda>x. the (map_of ns x)) (length h) vs (fst ` set ss) h vs h' out"
  shows "\<exists>as. views h' fs out = Some (ns, as) \<and> set as \<subseteq> {length h..<length h'}"
proof (rule views_intro)
  have dist: "distinct (map fst fs)" using assms(2) by (simp add: fields_copied_def)
  fix x t assume xt: "(x, t) \<in> set fs"
  then have "t = the (map_of fs x)" using dist by simp
  with views_by_name[OF assms(1) dist, of x] xt obtain w bs m where
    w: "map_of vs x = Some w" "view h t w = Some (m, bs)" "map_of ns x = Some m" "t = the (map_of fs x)" by force
  show "\<exists>v m. map_of out x = Some v \<and> map_of ns x = Some m \<and> copied (length h) h' t v m"
  proof (cases "map_of ss x")
    case None
    then have "flat t" using assms(2) xt unfolding fields_copied_def by auto
    then have "bs = []" using flat_view(1)[OF w(2)] by simp
    then have "copied (length h) h' t w m"
      using view_extends[OF w(2)] S by (auto simp: copied_def stmts_copied_def)
    moreover have "map_of out x = Some w" using S None w(1) by (simp add: map_of_eq_None_iff stmts_copied_def)
    ultimately show ?thesis using w(3) by blast
  next
    case (Some f)
    then have "x \<in> fst ` set ss" by (metis map_of_SomeD image_eqI fst_conv)
    then show ?thesis using S w by (auto simp: stmts_copied_def)
  qed
qed (use assms views_names[OF assms(1)] in \<open>auto simp: stmts_copied_def fields_copied_def\<close>)

lemma deep_copier_struct:
  assumes "fields_copied fs ss"
  shows "deep_copier (TStruct fs) (copy_struct ss)"
proof (rule deep_copierI)
  fix h v n as v' h'
  assume v: "view h (TStruct fs) v = Some (n, as)" and c: "copy_struct ss v h = (v', h')"
  obtain vs ns where vs: "v = GStruct vs" "views h fs vs = Some (ns, as)" "n = NStruct ns"
    using v by (auto split: gval.splits option.splits)
  obtain out where out: "copy_stmts vs ss vs h = (out, h')" "v' = GStruct out"
    using c vs(1) by (auto simp: copy_struct_def split: prod.splits)
  have dist: "distinct (map fst fs)" "distinct (map fst ss)" using assms by (auto simp: fields_copied_def)
  have dom: "map_of vs x \<noteq> None \<longleftrightarrow> x \<in> fst ` set fs" for x
    using views_names[OF vs(2)] by (metis list.set_map map_of_eq_None_iff)
  have S: "stmts_copied (\<lambda>x. the (map_of fs x)) (\<lambda>x. the (map_of ns x)) (length h) vs (fst ` set ss) h vs h' out"
  proof (rule copy_stmts_deep[OF out(1) dist(2)])
    fix x f assume x: "(x, f) \<in> set ss" "map_of vs x \<noteq> None"
    note F = views_by_name[OF vs(2) dist(1), of x]
    have fs: "(x, the (map_of fs x)) \<in> set fs" using F x(2) dom[of x] by blast
    have "map_of ss x = Some f" using x(1) dist(2) by simp
    then have "deep_copier (the (map_of fs x)) f"
      using bspec[OF conjunct2[OF conjunct2[OF assms[unfolded fields_copied_def]]] fs] by simp
    then show "deep_copier (the (map_of fs x)) f \<and>
        (\<exists>as. view h (the (map_of fs x)) (the (map_of vs x)) = Some (the (map_of ns x), as))"
      using F x(2) dom[of x] by auto
    show "x \<in> fst ` set vs" using x(2) by (simp add: map_of_eq_None_iff)
  qed simp
  obtain bs where "views h' fs out = Some (ns, bs)" "set bs \<subseteq> {length h..<length h'}"
    using views_of_copy[OF vs(2) assms S] by blast
  moreover have "extends h h'" using S by (simp add: stmts_copied_def)
  ultimately show "extends h h' \<and> copied (length h) h' (TStruct fs) v' n"
    using out(2) vs(3) by (simp add: copied_def)
qed

end
