(* ===== verification/Deep_Copy.thy ===== *)
theory Deep_Copy
  imports Go_Heap
begin

text \<open>
  \<open>pkg/apis/redis/v1alpha1/zz_generated.deepcopy.go\<close> on the heap of \<open>Go_Heap\<close>: for every API type
  its Go type as declared in \<open>distributedrediscluster_types.go\<close> and
  \<open>redisclusterbackup_types.go\<close>, its \<open>DeepCopyInto\<close>, \<open>DeepCopy\<close> and \<open>DeepCopyObject\<close>. The copy
  functions of the Kubernetes and object store packages are parameters (\<open>k8s_copy\<close>); what the
  generated code relies on is \<open>k8s_deep\<close>: those functions make deep copies, and the types it copies
  by assignment hold no references.

  The proofs show by composition that each function meets the contract of \<open>deep_copier\<close>, with one
  exception: the spec of a cluster, whose \<open>ContainerSecurityContext\<close> has no copy statement.
\<close>

section \<open>Functions of other packages\<close>

record k8s_copy =
  xty :: "string \<Rightarrow> gty"
  xcopy :: "string \<Rightarrow> copier"

definition copied_types :: "string list" where
  "copied_types = [''v1.EnvVar'', ''v1.ResourceRequirements'', ''v1.SecurityContext'',
     ''v1.PodSecurityContext'', ''v1.Affinity'', ''v1.Toleration'', ''v1.Container'', ''v1.Probe'',
     ''v1.Lifecycle'', ''metav1.ObjectMeta'', ''metav1.ListMeta'', ''*metav1.Time'',
     ''resource.Quantity'', ''store.Backend'']"

definition assigned_types :: "string list" where
  "assigned_types = [''metav1.TypeMeta'', ''v1.LocalObjectReference'']"

definition k8s_deep :: "k8s_copy \<Rightarrow> bool" where
  "k8s_deep X \<longleftrightarrow> (\<forall>n\<in>set copied_types. deep_copier (xty X n) (xcopy X n)) \<and>
     (\<forall>n\<in>set assigned_types. flat (xty X n))"

text \<open>\<open>if in.F != nil { ... }\<close> around a call that does not allocate the target itself.\<close>

definition copy_nonnil :: "copier \<Rightarrow> copier" where
  "copy_nonnil f v h = (if v = GNil then (v, h) else f v h)"

text \<open>\<open>DeepCopy\<close>: nil for nil, otherwise \<open>DeepCopyInto\<close> a new value. \<open>DeepCopyObject\<close> turns the
  typed nil pointer into a nil interface.\<close>

definition DeepCopy :: "copier \<Rightarrow> copier" where
  "DeepCopy into v h = (if v = GNil then (GNil, h) else copy_ptr into v h)"

definition DeepCopyObject :: "copier \<Rightarrow> copier" where
  "DeepCopyObject into v h =
     (let (c, h') = DeepCopy into v h in if c \<noteq> GNil then (c, h') else (GNil, h'))"

section \<open>Types of the cluster resource\<close>

definition PrometheusSpec_ty :: gty where
  "PrometheusSpec_ty = TStruct [(''Port'', TInt), (''Namespace'', TStr), (''Labels'', TMap),
     (''Interval'', TStr)]"

definition AgentSpec_ty :: "k8s_copy \<Rightarrow> gty" where
  "AgentSpec_ty X = TStruct [(''Image'', TStr), (''Prometheus'', TPtr PrometheusSpec_ty),
     (''Args'', TSlice TStr), (''Env'', TSlice (xty X ''v1.EnvVar'')),
     (''Resources'', xty X ''v1.ResourceRequirements''),
     (''SecurityContext'', TPtr (xty X ''v1.SecurityContext''))]"

definition BackupSourceSpec_ty :: gty where
  "BackupSourceSpec_ty = TStruct [(''Namespace'', TStr), (''Name'', TStr), (''Args'', TSlice TStr)]"

definition InitSpec_ty :: gty where
  "InitSpec_ty = TStruct [(''BackupSource'', TPtr BackupSourceSpec_ty)]"

definition RedisStorage_ty :: "k8s_copy \<Rightarrow> gty" where
  "RedisStorage_ty X = TStruct [(''Size'', xty X ''resource.Quantity''), (''Type'', TStr),
     (''Class'', TStr), (''DeleteClaim'', TBool)]"

text \<open>The type of \<open>ContainerSecurityContext\<close> is an argument; in the source it is a pointer.\<close>

definition Spec_ty :: "k8s_copy \<Rightarrow> gty \<Rightarrow> gty" where
  "Spec_ty X csc = TStruct [
     (''Image'', TStr), (''ImagePullPolicy'', TStr),
     (''ImagePullSecrets'', TSlice (xty X ''v1.LocalObjectReference'')),
     (''Command'', TSlice TStr), (''Env'', TSlice (xty X ''v1.EnvVar'')),
     (''MasterSize'', TInt), (''ClusterReplicas'', TInt), (''ServiceName'', TStr), (''Config'', TMap),
     (''RequiredAntiAffinity'', TBool), (''Affinity'', TPtr (xty X ''v1.Affinity'')),
     (''NodeSelector'', TMap), (''ToleRations'', TSlice (xty X ''v1.Toleration'')),
     (''SecurityContext'', TPtr (xty X ''v1.PodSecurityContext'')),
     (''ContainerSecurityContext'', csc), (''Annotations'', TMap),
     (''Storage'', TPtr (RedisStorage_ty X)), (''Resources'', TPtr (xty X ''v1.ResourceRequirements'')),
     (''PasswordSecret'', TPtr (xty X ''v1.LocalObjectReference'')),
     (''Monitor'', TPtr (AgentSpec_ty X)), (''Init'', TPtr InitSpec_ty)]"

definition RedisClusterNode_ty :: gty where
  "RedisClusterNode_ty = TStruct [(''ID'', TStr), (''Role'', TStr), (''IP'', TStr), (''Port'', TStr),
     (''Slots'', TSlice TStr), (''MasterRef'', TStr), (''PodName'', TStr), (''NodeName'', TStr),
     (''StatefulSet'', TStr)]"

section \<open>Types of the backup resource\<close>

definition PodSpec_ty :: "k8s_copy \<Rightarrow> gty" where
  "PodSpec_ty X = TStruct [
     (''ServiceAccountName'', TStr), (''Args'', TSlice TStr), (''NodeSelector'', TMap),
     (''Resources'', xty X ''v1.ResourceRequirements''), (''Affinity'', TPtr (xty X ''v1.Affinity'')),
     (''SchedulerName'', TStr), (''Tolerations'', TSlice (xty X ''v1.Toleration'')),
     (''ImagePullSecrets'', TSlice (xty X ''v1.LocalObjectReference'')),
     (''Env'', TSlice (xty X ''v1.EnvVar'')), (''InitContainers'', TSlice (xty X ''v1.Container'')),
     (''PriorityClassName'', TStr), (''Priority'', TPtr TInt),
     (''SecurityContext'', TPtr (xty X ''v1.PodSecurityContext'')),
     (''LivenessProbe'', TPtr (xty X ''v1.Probe'')), (''ReadinessProbe'', TPtr (xty X ''v1.Probe'')),
     (''Lifecycle'', TPtr (xty X ''v1.Lifecycle''))]"

definition RedisClusterBackupSpec_ty :: "k8s_copy \<Rightarrow> gty" where
  "RedisClusterBackupSpec_ty X = TStruct [(''Image'', TStr), (''RedisClusterName'', TStr),
     (''Storage'', TPtr (RedisStorage_ty X)), (''Backend'', xty X ''store.Backend''),
     (''PodSpec'', TPtr (PodSpec_ty X)), (''ActiveDeadlineSeconds'', TPtr TInt)]"

definition RedisClusterBackupStatus_ty :: "k8s_copy \<Rightarrow> gty" where
  "RedisClusterBackupStatus_ty X = TStruct [(''StartTime'', xty X ''*metav1.Time''),
     (''CompletionTime'', xty X ''*metav1.Time''), (''Phase'', TStr), (''Reason'', TStr),
     (''MasterSize'', TInt), (''ClusterReplicas'', TInt), (''ClusterImage'', TStr)]"

definition RedisClusterBackup_ty :: "k8s_copy \<Rightarrow> gty" where
  "RedisClusterBackup_ty X = TStruct [(''TypeMeta'', xty X ''metav1.TypeMeta''),
     (''ObjectMeta'', xty X ''metav1.ObjectMeta''), (''Spec'', RedisClusterBackupSpec_ty X),
     (''Status'', RedisClusterBackupStatus_ty X)]"

definition RedisClusterBackupList_ty :: "k8s_copy \<Rightarrow> gty" where
  "RedisClusterBackupList_ty X = TStruct [(''TypeMeta'', xty X ''metav1.TypeMeta''),
     (''ListMeta'', xty X ''metav1.ListMeta''), (''Items'', TSlice (RedisClusterBackup_ty X))]"

definition Restore_ty :: "k8s_copy \<Rightarrow> gty" where
  "Restore_ty X = TStruct [(''Phase'', TStr), (''Backup'', TPtr (RedisClusterBackup_ty X))]"

definition Status_ty :: "k8s_copy \<Rightarrow> gty" where
  "Status_ty X = TStruct [(''Status'', TStr), (''Reason'', TStr), (''NumberOfMaster'', TInt),
     (''MinReplicationFactor'', TInt), (''MaxReplicationFactor'', TInt), (''NodesPlacement'', TStr),
     (''Nodes'', TSlice RedisClusterNode_ty), (''Restore'', Restore_ty X)]"

definition Cluster_ty :: "k8s_copy \<Rightarrow> gty \<Rightarrow> gty" where
  "Cluster_ty X csc = TStruct [(''TypeMeta'', xty X ''metav1.TypeMeta''),
     (''ObjectMeta'', xty X ''metav1.ObjectMeta''), (''Spec'', Spec_ty X csc),
     (''Status'', Status_ty X)]"

definition ClusterList_ty :: "k8s_copy \<Rightarrow> gty \<Rightarrow> gty" where
  "ClusterList_ty X csc = TStruct [(''TypeMeta'', xty X ''metav1.TypeMeta''),
     (''ListMeta'', xty X ''metav1.ListMeta''), (''Items'', TSlice (Cluster_ty X csc))]"

section \<open>The generated functions\<close>

definition PrometheusSpec_DeepCopyInto :: copier where
  "PrometheusSpec_DeepCopyInto = copy_struct [(''Labels'', copy_map)]"

definition AgentSpec_DeepCopyInto :: "k8s_copy \<Rightarrow> copier" where
  "AgentSpec_DeepCopyInto X = copy_struct [
     (''Prometheus'', copy_ptr PrometheusSpec_DeepCopyInto),
     (''Args'', copy_flat_slice),
     (''Env'', copy_slice (xcopy X ''v1.EnvVar'')),
     (''Resources'', xcopy X ''v1.ResourceRequirements''),
     (''SecurityContext'', copy_ptr (xcopy X ''v1.SecurityContext''))]"

definition BackupSourceSpec_DeepCopyInto :: copier where
  "BackupSourceSpec_DeepCopyInto = copy_struct [(''Args'', copy_flat_slice)]"

definition InitSpec_DeepCopyInto :: copier where
  "InitSpec_DeepCopyInto = copy_struct [(''BackupSource'', copy_ptr BackupSourceSpec_DeepCopyInto)]"

definition RedisStorage_DeepCopyInto :: "k8s_copy \<Rightarrow> copier" where
  "RedisStorage_DeepCopyInto X = copy_struct [(''Size'', xcopy X ''resource.Quantity'')]"

definition Spec_DeepCopyInto :: "k8s_copy \<Rightarrow> copier" where
  "Spec_DeepCopyInto X = copy_struct [
     (''ImagePullSecrets'', copy_flat_slice),
     (''Command'', copy_flat_slice),
     (''Env'', copy_slice (xcopy X ''v1.EnvVar'')),
     (''Config'', copy_map),
     (''Affinity'', copy_ptr (xcopy X ''v1.Affinity'')),
     (''NodeSelector'', copy_map),
     (''ToleRations'', copy_slice (xcopy X ''v1.Toleration'')),
     (''SecurityContext'', copy_ptr (xcopy X ''v1.PodSecurityContext'')),
     (''Annotations'', copy_map),
     (''Storage'', copy_ptr (RedisStorage_DeepCopyInto X)),
     (''Resources'', copy_ptr (xcopy X ''v1.ResourceRequirements'')),
     (''PasswordSecret'', copy_ptr copy_assign),
     (''Monitor'', copy_ptr (AgentSpec_DeepCopyInto X)),
     (''Init'', copy_ptr InitSpec_DeepCopyInto)]"

definition RedisClusterNode_DeepCopyInto :: copier where
  "RedisClusterNode_DeepCopyInto = copy_struct [(''Slots'', copy_flat_slice)]"

definition PodSpec_DeepCopyInto :: "k8s_copy \<Rightarrow> copier" where
  "PodSpec_DeepCopyInto X = copy_struct [
     (''Args'', copy_flat_slice),
     (''NodeSelector'', copy_map),
     (''Resources'', xcopy X ''v1.ResourceRequirements''),
     (''Affinity'', copy_ptr (xcopy X ''v1.Affinity'')),
     (''Tolerations'', copy_slice (xcopy X ''v1.Toleration'')),
     (''ImagePullSecrets'', copy_flat_slice),
     (''Env'', copy_slice (xcopy X ''v1.EnvVar'')),
     (''InitContainers'', copy_slice (xcopy X ''v1.Container'')),
     (''Priority'', copy_ptr copy_assign),
     (''SecurityContext'', copy_ptr (xcopy X ''v1.PodSecurityContext'')),
     (''LivenessProbe'', copy_ptr (xcopy X ''v1.Probe'')),
     (''ReadinessProbe'', copy_ptr (xcopy X ''v1.Probe'')),
     (''Lifecycle'', copy_ptr (xcopy X ''v1.Lifecycle''))]"

definition RedisClusterBackupSpec_DeepCopyInto :: "k8s_copy \<Rightarrow> copier" where
  "RedisClusterBackupSpec_DeepCopyInto X = copy_struct [
     (''Storage'', copy_ptr (RedisStorage_DeepCopyInto X)),
     (''Backend'', xcopy X ''store.Backend''),
     (''PodSpec'', copy_ptr (PodSpec_DeepCopyInto X)),
     (''ActiveDeadlineSeconds'', copy_ptr copy_assign)]"

definition RedisClusterBackupStatus_DeepCopyInto :: "k8s_copy \<Rightarrow> copier" where
  "RedisClusterBackupStatus_DeepCopyInto X = copy_struct [
     (''StartTime'', copy_nonnil (xcopy X ''*metav1.Time'')),
     (''CompletionTime'', copy_nonnil (xcopy X ''*metav1.Time''))]"

definition RedisClusterBackup_DeepCopyInto :: "k8s_copy \<Rightarrow> copier" where
  "RedisClusterBackup_DeepCopyInto X = copy_struct [
     (''TypeMeta'', copy_assign),
     (''ObjectMeta'', xcopy X ''metav1.ObjectMeta''),
     (''Spec'', RedisClusterBackupSpec_DeepCopyInto X),
     (''Status'', RedisClusterBackupStatus_DeepCopyInto X)]"

definition RedisClusterBackupList_DeepCopyInto :: "k8s_copy \<Rightarrow> copier" where
  "RedisClusterBackupList_DeepCopyInto X = copy_struct [
     (''TypeMeta'', copy_assign),
     (''ListMeta'', xcopy X ''metav1.ListMeta''),
     (''Items'', copy_slice (RedisClusterBackup_DeepCopyInto X))]"

definition Restore_DeepCopyInto :: "k8s_copy \<Rightarrow> copier" where
  "Restore_DeepCopyInto X = copy_struct [(''Backup'', copy_ptr (RedisClusterBackup_DeepCopyInto X))]"

definition Status_DeepCopyInto :: "k8s_copy \<Rightarrow> copier" where
  "Status_DeepCopyInto X = copy_struct [
     (''Nodes'', copy_slice RedisClusterNode_DeepCopyInto),
     (''Restore'', Restore_DeepCopyInto X)]"

definition Cluster_DeepCopyInto :: "k8s_copy \<Rightarrow> copier" where
  "Cluster_DeepCopyInto X = copy_struct [
     (''TypeMeta'', copy_assign),
     (''ObjectMeta'', xcopy X ''metav1.ObjectMeta''),
     (''Spec'', Spec_DeepCopyInto X),
     (''Status'', Status_DeepCopyInto X)]"

definition ClusterList_DeepCopyInto :: "k8s_copy \<Rightarrow> copier" where
  "ClusterList_DeepCopyInto X = copy_struct [
     (''TypeMeta'', copy_assign),
     (''ListMeta'', xcopy X ''metav1.ListMeta''),
     (''Items'', copy_slice (Cluster_DeepCopyInto X))]"

definition PrometheusSpec_DeepCopy :: copier where
  "PrometheusSpec_DeepCopy = DeepCopy PrometheusSpec_DeepCopyInto"

definition BackupSourceSpec_DeepCopy :: copier where
  "BackupSourceSpec_DeepCopy = DeepCopy BackupSourceSpec_DeepCopyInto"

definition InitSpec_DeepCopy :: copier where
  "InitSpec_DeepCopy = DeepCopy InitSpec_DeepCopyInto"

definition RedisClusterNode_DeepCopy :: copier where
  "RedisClusterNode_DeepCopy = DeepCopy RedisClusterNode_DeepCopyInto"

definition AgentSpec_DeepCopy :: "k8s_copy \<Rightarrow> copier" where
  "AgentSpec_DeepCopy X = DeepCopy (AgentSpec_DeepCopyInto X)"

definition RedisStorage_DeepCopy :: "k8s_copy \<Rightarrow> copier" where
  "RedisStorage_DeepCopy X = DeepCopy (RedisStorage_DeepCopyInto X)"

definition Spec_DeepCopy :: "k8s_copy \<Rightarrow> copier" where
  "Spec_DeepCopy X = DeepCopy (Spec_DeepCopyInto X)"

definition PodSpec_DeepCopy :: "k8s_copy \<Rightarrow> copier" where
  "PodSpec_DeepCopy X = DeepCopy (PodSpec_DeepCopyInto X)"

definition RedisClusterBackupSpec_DeepCopy :: "k8s_copy \<Rightarrow> copier" where
  "RedisClusterBackupSpec_DeepCopy X = DeepCopy (RedisClusterBackupSpec_DeepCopyInto X)"

definition RedisClusterBackupStatus_DeepCopy :: "k8s_copy \<Rightarrow> copier" where
  "RedisClusterBackupStatus_DeepCopy X = DeepCopy (RedisClusterBackupStatus_DeepCopyInto X)"

definition RedisClusterBackup_DeepCopy :: "k8s_copy \<Rightarrow> copier" where
  "RedisClusterBackup_DeepCopy X = DeepCopy (RedisClusterBackup_DeepCopyInto X)"

definition RedisClusterBackupList_DeepCopy :: "k8s_copy \<Rightarrow> copier" where
  "RedisClusterBackupList_DeepCopy X = DeepCopy (RedisClusterBackupList_DeepCopyInto X)"

definition Restore_DeepCopy :: "k8s_copy \<Rightarrow> copier" where
  "Restore_DeepCopy X = DeepCopy (Restore_DeepCopyInto X)"

definition Status_DeepCopy :: "k8s_copy \<Rightarrow> copier" where
  "Status_DeepCopy X = DeepCopy (Status_DeepCopyInto X)"

definition Cluster_DeepCopy :: "k8s_copy \<Rightarrow> copier" where
  "Cluster_DeepCopy X = DeepCopy (Cluster_DeepCopyInto X)"

definition ClusterList_DeepCopy :: "k8s_copy \<Rightarrow> copier" where
  "ClusterList_DeepCopy X = DeepCopy (ClusterList_DeepCopyInto X)"

definition RedisClusterBackup_DeepCopyObject :: "k8s_copy \<Rightarrow> copier" where
  "RedisClusterBackup_DeepCopyObject X = DeepCopyObject (RedisClusterBackup_DeepCopyInto X)"

definition RedisClusterBackupList_DeepCopyObject :: "k8s_copy \<Rightarrow> copier" where
  "RedisClusterBackupList_DeepCopyObject X = DeepCopyObject (RedisClusterBackupList_DeepCopyInto X)"

definition Cluster_DeepCopyObject :: "k8s_copy \<Rightarrow> copier" where
  "Cluster_DeepCopyObject X = DeepCopyObject (Cluster_DeepCopyInto X)"

definition ClusterList_DeepCopyObject :: "k8s_copy \<Rightarrow> copier" where
  "ClusterList_DeepCopyObject X = DeepCopyObject (ClusterList_DeepCopyInto X)"

section \<open>Each function makes a deep copy\<close>

named_theorems deep_intros "copiers that make deep copies"

lemmas [deep_intros] =
  deep_copier_ptr deep_copier_slice deep_copier_flat_slice deep_copier_map deep_copier_assign

lemma view_GNil: "view h t GNil = Some (n, as) \<Longrightarrow> as = []"
  by (cases t) auto

lemma deep_copier_nonnil [deep_intros]:
  assumes "deep_copier t f"
  shows "deep_copier t (copy_nonnil f)"
proof (rule deep_copierI)
  fix h v n as v' h' assume v: "view h t v = Some (n, as)" and c: "copy_nonnil f v h = (v', h')"
  show "extends h h' \<and> copied (length h) h' t v' n"
  proof (cases "v = GNil")
    case True
    then show ?thesis using c v view_GNil by (auto simp: copy_nonnil_def copied_def)
  next
    case False
    then show ?thesis using c deep_copierD[OF assms v, of h v' h'] by (simp add: copy_nonnil_def)
  qed
qed

lemma DeepCopy_ptr: "DeepCopy f = copy_ptr f"
  by (auto simp: fun_eq_iff DeepCopy_def copy_ptr_def)

lemma DeepCopyObject_eq: "DeepCopyObject f = DeepCopy f"
  by (auto simp: fun_eq_iff DeepCopyObject_def case_prod_unfold Let_def prod_eq_iff)

lemma deep_copier_DeepCopy: "deep_copier t f \<Longrightarrow> deep_copier (TPtr t) (DeepCopy f)"
  by (simp add: DeepCopy_ptr deep_copier_ptr)

lemma k8s_copied: "k8s_deep X \<Longrightarrow> n \<in> set copied_types \<Longrightarrow> deep_copier (xty X n) (xcopy X n)"
  by (simp add: k8s_deep_def)

lemma k8s_flat: "k8s_deep X \<Longrightarrow> n \<in> set assigned_types \<Longrightarrow> flat (xty X n)"
  by (simp add: k8s_deep_def)

lemma fields_copiedI:
  assumes "distinct (map fst fs)" and "distinct (map fst ss)"
    and "list_all (\<lambda>(n, t). case map_of ss n of Some f \<Rightarrow> deep_copier t f | None \<Rightarrow> flat t) fs"
  shows "fields_copied fs ss"
  using assms by (simp add: fields_copied_def list_all_iff)

lemma deep_copier_PrometheusSpec [deep_intros]:
  "deep_copier PrometheusSpec_ty PrometheusSpec_DeepCopyInto"
  unfolding PrometheusSpec_ty_def PrometheusSpec_DeepCopyInto_def
  by (intro deep_copier_struct fields_copiedI) (simp_all add: deep_intros)

lemma deep_copier_AgentSpec [deep_intros]:
  "k8s_deep X \<Longrightarrow> deep_copier (AgentSpec_ty X) (AgentSpec_DeepCopyInto X)"
  unfolding AgentSpec_ty_def AgentSpec_DeepCopyInto_def
  by (intro deep_copier_struct fields_copiedI)
     (simp_all add: deep_intros k8s_copied k8s_flat copied_types_def assigned_types_def)

lemma deep_copier_BackupSourceSpec [deep_intros]:
  "deep_copier BackupSourceSpec_ty BackupSourceSpec_DeepCopyInto"
  unfolding BackupSourceSpec_ty_def BackupSourceSpec_DeepCopyInto_def
  by (intro deep_copier_struct fields_copiedI) (simp_all add: deep_intros)

lemma deep_copier_InitSpec [deep_intros]:
  "deep_copier InitSpec_ty InitSpec_DeepCopyInto"
  unfolding InitSpec_ty_def InitSpec_DeepCopyInto_def
  by (intro deep_copier_struct fields_copiedI) (simp_all add: deep_intros)

lemma deep_copier_RedisClusterNode [deep_intros]:
  "deep_copier RedisClusterNode_ty RedisClusterNode_DeepCopyInto"
  unfolding RedisClusterNode_ty_def RedisClusterNode_DeepCopyInto_def
  by (intro deep_copier_struct fields_copiedI) (simp_all add: deep_intros)

lemma deep_copier_RedisStorage [deep_intros]:
  "k8s_deep X \<Longrightarrow> deep_copier (RedisStorage_ty X) (RedisStorage_DeepCopyInto X)"
  unfolding RedisStorage_ty_def RedisStorage_DeepCopyInto_def
  by (intro deep_copier_struct fields_copiedI)
     (simp_all add: deep_intros k8s_copied k8s_flat copied_types_def assigned_types_def)

lemma deep_copier_PodSpec [deep_intros]:
  "k8s_deep X \<Longrightarrow> deep_copier (PodSpec_ty X) (PodSpec_DeepCopyInto X)"
  unfolding PodSpec_ty_def PodSpec_DeepCopyInto_def
  by (intro deep_copier_struct fields_copiedI)
     (simp_all add: deep_intros k8s_copied k8s_flat copied_types_def assigned_types_def)

lemma deep_copier_RedisClusterBackupSpec [deep_intros]:
  "k8s_deep X \<Longrightarrow> deep_copier (RedisClusterBackupSpec_ty X) (RedisClusterBackupSpec_DeepCopyInto X)"
  unfolding RedisClusterBackupSpec_ty_def RedisClusterBackupSpec_DeepCopyInto_def
  by (intro deep_copier_struct fields_copiedI)
     (simp_all add: deep_intros k8s_copied k8s_flat copied_types_def assigned_types_def)

lemma deep_copier_RedisClusterBackupStatus [deep_intros]:
  "k8s_deep X \<Longrightarrow> deep_copier (RedisClusterBackupStatus_ty X) (RedisClusterBackupStatus_DeepCopyInto X)"
  unfolding RedisClusterBackupStatus_ty_def RedisClusterBackupStatus_DeepCopyInto_def
  by (intro deep_copier_struct fields_copiedI)
     (simp_all add: deep_intros k8s_copied k8s_flat copied_types_def assigned_types_def)

lemma deep_copier_RedisClusterBackup [deep_intros]:
  "k8s_deep X \<Longrightarrow> deep_copier (RedisClusterBackup_ty X) (RedisClusterBackup_DeepCopyInto X)"
  unfolding RedisClusterBackup_ty_def RedisClusterBackup_DeepCopyInto_def
  by (intro deep_copier_struct fields_copiedI)
     (simp_all add: deep_intros k8s_copied k8s_flat copied_types_def assigned_types_def)

lemma deep_copier_RedisClusterBackupList [deep_intros]:
  "k8s_deep X \<Longrightarrow> deep_copier (RedisClusterBackupList_ty X) (RedisClusterBackupList_DeepCopyInto X)"
  unfolding RedisClusterBackupList_ty_def RedisClusterBackupList_DeepCopyInto_def
  by (intro deep_copier_struct fields_copiedI)
     (simp_all add: deep_intros k8s_copied k8s_flat copied_types_def assigned_types_def)

lemma deep_copier_Restore [deep_intros]:
  "k8s_deep X \<Longrightarrow> deep_copier (Restore_ty X) (Restore_DeepCopyInto X)"
  unfolding Restore_ty_def Restore_DeepCopyInto_def
  by (intro deep_copier_struct fields_copiedI)
     (simp_all add: deep_intros k8s_copied k8s_flat copied_types_def assigned_types_def)

lemma deep_copier_Status [deep_intros]:
  "k8s_deep X \<Longrightarrow> deep_copier (Status_ty X) (Status_DeepCopyInto X)"
  unfolding Status_ty_def Status_DeepCopyInto_def
  by (intro deep_copier_struct fields_copiedI)
     (simp_all add: deep_intros k8s_copied k8s_flat copied_types_def assigned_types_def)

text \<open>
  The spec, and with it the cluster and the list of clusters, is copied deeply when
  \<open>ContainerSecurityContext\<close> is nil: the type \<open>TNil\<close> has no other value.
\<close>

lemma deep_copier_Spec [deep_intros]:
  "k8s_deep X \<Longrightarrow> deep_copier (Spec_ty X TNil) (Spec_DeepCopyInto X)"
  unfolding Spec_ty_def Spec_DeepCopyInto_def
  by (intro deep_copier_struct fields_copiedI)
     (simp_all add: deep_intros k8s_copied k8s_flat copied_types_def assigned_types_def)

lemma deep_copier_Cluster [deep_intros]:
  "k8s_deep X \<Longrightarrow> deep_copier (Cluster_ty X TNil) (Cluster_DeepCopyInto X)"
  unfolding Cluster_ty_def Cluster_DeepCopyInto_def
  by (intro deep_copier_struct fields_copiedI)
     (simp_all add: deep_intros k8s_copied k8s_flat copied_types_def assigned_types_def)

lemma deep_copier_ClusterList [deep_intros]:
  "k8s_deep X \<Longrightarrow> deep_copier (ClusterList_ty X TNil) (ClusterList_DeepCopyInto X)"
  unfolding ClusterList_ty_def ClusterList_DeepCopyInto_def
  by (intro deep_copier_struct fields_copiedI)
     (simp_all add: deep_intros k8s_copied k8s_flat copied_types_def assigned_types_def)

interpretation backup_source: deep_copier BackupSourceSpec_ty BackupSourceSpec_DeepCopyInto
  by (rule deep_copier_BackupSourceSpec)

interpretation init_spec: deep_copier "TPtr InitSpec_ty" InitSpec_DeepCopy
  unfolding InitSpec_DeepCopy_def by (intro deep_copier_DeepCopy deep_intros)

interpretation prometheus: deep_copier "TPtr PrometheusSpec_ty" PrometheusSpec_DeepCopy
  unfolding PrometheusSpec_DeepCopy_def by (intro deep_copier_DeepCopy deep_intros)

interpretation cluster_node: deep_copier "TPtr RedisClusterNode_ty" RedisClusterNode_DeepCopy
  unfolding RedisClusterNode_DeepCopy_def by (intro deep_copier_DeepCopy deep_intros)

lemma deep_copier_Status_DeepCopy:
  "k8s_deep X \<Longrightarrow> deep_copier (TPtr (Status_ty X)) (Status_DeepCopy X)"
  unfolding Status_DeepCopy_def by (intro deep_copier_DeepCopy deep_intros)

lemma deep_copier_ClusterList_DeepCopyObject:
  "k8s_deep X \<Longrightarrow> deep_copier (TPtr (ClusterList_ty X TNil)) (ClusterList_DeepCopyObject X)"
  unfolding ClusterList_DeepCopyObject_def DeepCopyObject_eq
  by (intro deep_copier_DeepCopy deep_intros)

lemma deep_copier_RedisClusterBackupList_DeepCopyObject:
  "k8s_deep X \<Longrightarrow>
     deep_copier (TPtr (RedisClusterBackupList_ty X)) (RedisClusterBackupList_DeepCopyObject X)"
  unfolding RedisClusterBackupList_DeepCopyObject_def DeepCopyObject_eq
  by (intro deep_copier_DeepCopy deep_intros)

section \<open>The field that is shared\<close>

text \<open>A struct field without a statement is the same value in the copy.\<close>

lemma copy_stmts_other:
  "x \<notin> fst ` set ss \<Longrightarrow> copy_stmts ins ss out h = (out', h') \<Longrightarrow> map_of out' x = map_of out x"
  by (induction ss arbitrary: out h) (auto split: option.splits prod.splits simp: update_conv')

lemma copy_struct_other:
  assumes "x \<notin> fst ` set ss" and "copy_struct ss (GStruct vs) h = (GStruct out, h')"
  shows "map_of out x = map_of vs x"
  using assms by (auto simp: copy_struct_def split: prod.splits dest: copy_stmts_other)

lemma copy_struct_struct: "\<exists>out h'. copy_struct ss (GStruct vs) h = (GStruct out, h')"
  by (simp add: copy_struct_def split: prod.split)

lemma Spec_shares:
  assumes "Spec_DeepCopyInto X (GStruct vs) h = (GStruct out, h')"
  shows "map_of out ''ContainerSecurityContext'' = map_of vs ''ContainerSecurityContext''"
  using assms unfolding Spec_DeepCopyInto_def by (rule copy_struct_other[rotated]) simp

end
