(* ===== verification/Startup.thy ===== *)
theory Startup
  imports Reconcile Backup
begin

text \<open>
  The start of the process: \<open>src/cmd/manager/main.go\<close>, the registration of the controllers
  (\<open>src/pkg/controller/controller.go\<close>, \<open>Add\<close>, \<open>add\<close> and \<open>newReconciler\<close> of the two
  controllers, with their flag sets) and \<open>src/pkg/utils/scoped.go\<close> as \<open>main\<close> uses it. The operator
  SDK and the controller runtime are a record \<open>sdk\<close> that says how each call answers; every call
  with an effect outside the process is recorded as a \<open>boot_event\<close>, in order. Logging is dropped.
\<close>

section \<open>Calls to the libraries\<close>

datatype watch_handler = EnqueueRequestForObject | EnqueueRequestForOwner string bool

record MetricsPort =
  SvPort :: int
  SvName :: string
  SvProtocol :: string
  SvTargetPort :: int

datatype boot_event =
    BecomeLeader string
  | NewManager string string
  | AddScheme
  | NewController string int
  | Watch string string watch_handler
  | ServeCRMetrics "string list" string int
  | MetricsService "MetricsPort list"
  | ServiceMonitors string bool
  | WebhookServer string int
  | StartManager

record sdk =
  libFlags :: "flag_decl list"
  getWatchNamespace :: "go_error + string"
  getConfig :: "go_error option"
  becomeLeader :: "string \<Rightarrow> go_error option"
  newManager :: "string \<Rightarrow> string \<Rightarrow> go_error option"
  addToScheme :: "go_error option"
  restClientForPod :: "go_error option"
  newClient :: "go_error option"
  newController :: "string \<Rightarrow> int \<Rightarrow> go_error option"
  watchKind :: "string \<Rightarrow> string \<Rightarrow> go_error option"
  gvksFromScheme :: "go_error option"
  operatorNamespace :: "go_error + string"
  serveMetrics :: "go_error option"
  createMetricsService :: "go_error option"
  createServiceMonitors :: "go_error option"
  getenv :: "string \<Rightarrow> string"
  setupWebhook :: "go_error option"
  startManager :: "go_error option"
  operatorPortName :: string
  crPortName :: string

type_synonym boot = "boot_event list"

definition attempt :: "boot_event \<Rightarrow> go_error option \<Rightarrow> boot \<Rightarrow> go_error option \<times> boot" where
  "attempt ev r tr = (r, tr @ [ev])"

section \<open>Flags of the controllers\<close>

definition FlagSet :: "flag_decl list" where
  "FlagSet = [(''ctr-maxconcurrent'', FInt 4), (''ctr-reconciletime'', FInt 60)]"

definition Backup_FlagSet :: "flag_decl list" where
  "Backup_FlagSet = [(''backupctr-maxconcurrent'', FInt 2)]"

definition maxConcurrentReconciles :: "command_line \<Rightarrow> int" where
  "maxConcurrentReconciles args = asInt (flagVar FlagSet args ''ctr-maxconcurrent'')"

definition reconcileTimeFlag :: "command_line \<Rightarrow> int" where
  "reconcileTimeFlag args = asInt (flagVar FlagSet args ''ctr-reconciletime'')"

definition backup_maxConcurrentReconciles :: "command_line \<Rightarrow> int" where
  "backup_maxConcurrentReconciles args = asInt (flagVar Backup_FlagSet args ''backupctr-maxconcurrent'')"

section \<open>Registration of the controllers\<close>

text \<open>\<open>newReconciler\<close>: the environments stand for the clients of the manager; of the process it
  takes the configuration and the reconcile time. The filters that \<open>add\<close> gives to a watch are
  \<open>CreateFunc\<close>, \<open>UpdateFunc\<close> and \<open>DeleteFunc\<close> of \<open>Reconcile\<close> and \<open>Backup\<close>.\<close>

definition newReconciler ::
    "command_line \<Rightarrow> ReconcileDistributedRedisCluster \<Rightarrow> ReconcileDistributedRedisCluster" where
  "newReconciler args mgr =
     mgr\<lparr>rOut := (rOut mgr)\<lparr>redisConf := RedisConf args\<rparr>, reconcileTime := reconcileTimeFlag args\<rparr>"

definition add :: "sdk \<Rightarrow> command_line \<Rightarrow> boot \<Rightarrow> go_error option \<times> boot" where
  "add k args tr =
     (let name = ''distributedrediscluster-controller''; n = maxConcurrentReconciles args in
      case attempt (NewController name n) (newController k name n) tr of
        (Some e, tr) \<Rightarrow> (Some e, tr)
      | (None, tr) \<Rightarrow>
          (case attempt (Watch name ''DistributedRedisCluster'' EnqueueRequestForObject)
                  (watchKind k name ''DistributedRedisCluster'') tr of
             (Some e, tr) \<Rightarrow> (Some e, tr)
           | (None, tr) \<Rightarrow> (None, tr)))"

definition Add :: "sdk \<Rightarrow> command_line \<Rightarrow> boot \<Rightarrow> (go_error option \<times> boot) go" where
  "Add k args tr =
     (case restClientForPod k of Some e \<Rightarrow> Ret (Some e, tr) | None \<Rightarrow> Ret (add k args tr))"

definition backup_add :: "sdk \<Rightarrow> command_line \<Rightarrow> boot \<Rightarrow> go_error option \<times> boot" where
  "backup_add k args tr =
     (let name = ''redisclusterbackup-controller''; n = backup_maxConcurrentReconciles args in
      case attempt (NewController name n) (newController k name n) tr of
        (Some e, tr) \<Rightarrow> (Some e, tr)
      | (None, tr) \<Rightarrow>
          (case attempt (Watch name ''RedisClusterBackup'' EnqueueRequestForObject)
                  (watchKind k name ''RedisClusterBackup'') tr of
             (Some e, tr) \<Rightarrow> (Some e, tr)
           | (None, tr) \<Rightarrow>
               (case attempt (Watch name ''Job'' (EnqueueRequestForOwner ''RedisClusterBackup'' True))
                       (watchKind k name ''Job'') tr of
                  (Some e, tr) \<Rightarrow> (Some e, tr)
                | (None, tr) \<Rightarrow> (None, tr))))"

text \<open>\<open>newReconciler\<close> of the backups makes a client of its own and panics if it cannot.\<close>

definition newDirectClient :: "sdk \<Rightarrow> unit go" where
  "newDirectClient k = (case newClient k of Some e \<Rightarrow> Panic ''newDirectClient'' | None \<Rightarrow> Ret ())"

definition Backup_Add :: "sdk \<Rightarrow> command_line \<Rightarrow> boot \<Rightarrow> (go_error option \<times> boot) go" where
  "Backup_Add k args tr = gbind (newDirectClient k) (\<lambda>_. Ret (backup_add k args tr))"

text \<open>The \<open>init\<close> functions of the package run in the order of its files.\<close>

definition AddToManagerFuncs :: "(sdk \<Rightarrow> command_line \<Rightarrow> boot \<Rightarrow> (go_error option \<times> boot) go) list" where
  "AddToManagerFuncs = [Add, Backup_Add]"

fun addAll :: "(sdk \<Rightarrow> command_line \<Rightarrow> boot \<Rightarrow> (go_error option \<times> boot) go) list \<Rightarrow> sdk \<Rightarrow> command_line \<Rightarrow> boot
    \<Rightarrow> (go_error option \<times> boot) go" where
  "addAll [] k args tr = Ret (None, tr)"
| "addAll (f # fs) k args tr =
     gbind (f k args tr) (\<lambda>(err, tr). case err of Some e \<Rightarrow> Ret (Some e, tr) | None \<Rightarrow> addAll fs k args tr)"

definition AddToManager :: "sdk \<Rightarrow> command_line \<Rightarrow> boot \<Rightarrow> (go_error option \<times> boot) go" where
  "AddToManager = addAll AddToManagerFuncs"

section \<open>main\<close>

definition metricsHost :: string where "metricsHost = ''0.0.0.0''"
definition metricsPort :: int where "metricsPort = 8383"
definition operatorMetricsPort :: int where "operatorMetricsPort = 8686"

definition serveCRMetrics :: "sdk \<Rightarrow> boot \<Rightarrow> go_error option \<times> boot" where
  "serveCRMetrics k tr =
     (case gvksFromScheme k of
        Some e \<Rightarrow> (Some e, tr)
      | None \<Rightarrow>
          (case operatorNamespace k of
             Inl e \<Rightarrow> (Some e, tr)
           | Inr operatorNs \<Rightarrow>
               (case attempt (ServeCRMetrics [operatorNs] metricsHost operatorMetricsPort) (serveMetrics k) tr of
                  (Some e, tr) \<Rightarrow> (Some e, tr)
                | (None, tr) \<Rightarrow> (None, tr))))"

definition servicePorts :: "sdk \<Rightarrow> MetricsPort list" where
  "servicePorts k =
     [\<lparr>SvPort = metricsPort, SvName = operatorPortName k, SvProtocol = ''TCP'', SvTargetPort = metricsPort\<rparr>,
      \<lparr>SvPort = operatorMetricsPort, SvName = crPortName k, SvProtocol = ''TCP'', SvTargetPort = operatorMetricsPort\<rparr>]"

text \<open>The three metrics calls: their errors are logged.\<close>

definition startMetrics :: "sdk \<Rightarrow> string \<Rightarrow> boot \<Rightarrow> boot" where
  "startMetrics k namespace tr =
     (let (_, tr) = serveCRMetrics k tr;
          (err, tr) = attempt (MetricsService (servicePorts k)) (createMetricsService k) tr;
          (_, tr) = attempt (ServiceMonitors namespace (err = None)) (createServiceMonitors k) tr
      in tr)"

definition startWebhook :: "sdk \<Rightarrow> boot \<Rightarrow> go_error option \<times> boot" where
  "startWebhook k tr =
     (if getenv k ''ENABLE_WEBHOOKS'' = ''true'' then attempt (WebhookServer ''/etc/webhook/certs'' 7443) (setupWebhook k) tr
      else (None, tr))"

text \<open>How the process ends: the exit code, the calls, and the scope it worked with.\<close>

record process =
  exitCode :: int
  calls :: boot
  clusterScoped :: bool

definition exit :: "int \<Rightarrow> bool \<Rightarrow> boot \<Rightarrow> process go" where
  "exit c b tr = Ret \<lparr>exitCode = c, calls = tr, clusterScoped = b\<rparr>"

definition runManager :: "sdk \<Rightarrow> command_line \<Rightarrow> string \<Rightarrow> bool \<Rightarrow> boot \<Rightarrow> process go" where
  "runManager k args namespace scoped tr =
     gbind (AddToManager k args tr) (\<lambda>(err, tr).
       case err of
         Some e \<Rightarrow> exit 1 scoped tr
       | None \<Rightarrow>
           (case startWebhook k (startMetrics k namespace tr) of
              (Some e, tr) \<Rightarrow> exit 1 scoped tr
            | (None, tr) \<Rightarrow>
                (case attempt StartManager (startManager k) tr of
                   (Some e, tr) \<Rightarrow> exit 1 scoped tr
                 | (None, tr) \<Rightarrow> exit 0 scoped tr)))"

definition main :: "sdk \<Rightarrow> command_line \<Rightarrow> process go" where
  "main k args =
     (if \<not> accepted (libFlags k @ FlagSet @ Backup_FlagSet @ AddFlags) args then exit 2 True []
      else case getWatchNamespace k of
        Inl e \<Rightarrow> exit 1 True []
      | Inr namespace \<Rightarrow>
          (let scoped = SetClusterScoped namespace True;
               address = metricsHost @ '':'' @ fmt_int metricsPort
           in case getConfig k of
                Some e \<Rightarrow> exit 1 scoped []
              | None \<Rightarrow>
                  (case attempt (BecomeLeader ''redis-cluster-operator-lock'')
                          (becomeLeader k ''redis-cluster-operator-lock'') [] of
                     (Some e, tr) \<Rightarrow> exit 1 scoped tr
                   | (None, tr) \<Rightarrow>
                       (case attempt (NewManager namespace address) (newManager k namespace address) tr of
                          (Some e, tr) \<Rightarrow> exit 1 scoped tr
                        | (None, tr) \<Rightarrow>
                            (case attempt AddScheme (addToScheme k) tr of
                               (Some e, tr) \<Rightarrow> exit 1 scoped tr
                             | (None, tr) \<Rightarrow> runManager k args namespace scoped tr)))))"

section \<open>Facts\<close>

lemma attempt_simps [simp]: "attempt ev r tr = (r, tr @ [ev])"
  by (simp add: attempt_def)

text \<open>What the controllers register, in order.\<close>

definition cluster_registrations :: "command_line \<Rightarrow> boot" where
  "cluster_registrations args =
     [NewController ''distributedrediscluster-controller'' (maxConcurrentReconciles args),
      Watch ''distributedrediscluster-controller'' ''DistributedRedisCluster'' EnqueueRequestForObject]"

definition backup_registrations :: "command_line \<Rightarrow> boot" where
  "backup_registrations args =
     [NewController ''redisclusterbackup-controller'' (backup_maxConcurrentReconciles args),
      Watch ''redisclusterbackup-controller'' ''RedisClusterBackup'' EnqueueRequestForObject,
      Watch ''redisclusterbackup-controller'' ''Job'' (EnqueueRequestForOwner ''RedisClusterBackup'' True)]"

definition registered :: "boot \<Rightarrow> boot \<Rightarrow> go_error option \<times> boot \<Rightarrow> bool" where
  "registered regs tr r \<longleftrightarrow>
     (if fst r = None then snd r = tr @ regs else \<exists>es. snd r = tr @ es \<and> set es \<subseteq> set regs)"

lemma add_registers: "registered (cluster_registrations args) tr (add k args tr)"
  by (auto simp: registered_def add_def cluster_registrations_def Let_def split: option.split)

lemma backup_add_registers: "registered (backup_registrations args) tr (backup_add k args tr)"
  by (auto simp: registered_def backup_add_def backup_registrations_def Let_def split: option.split)

lemma registered_seq:
  assumes "registered a tr (None, tr')" and "registered b tr' r"
  shows "registered (a @ b) tr r"
  using assms by (auto simp: registered_def split: if_splits)

lemma registered_error: "registered a tr (Some e, tr') \<Longrightarrow> registered (a @ b) tr (Some e, tr')"
  by (auto simp: registered_def)

definition registrations :: "command_line \<Rightarrow> boot" where
  "registrations args = cluster_registrations args @ backup_registrations args"

lemma AddToManager_registers: "gpost (registered (registrations args) tr) (AddToManager k args tr)"
proof -
  obtain e1 tr1 where 1: "add k args tr = (e1, tr1)" by fastforce
  obtain e2 tr2 where 2: "backup_add k args tr1 = (e2, tr2)" by fastforce
  note r = add_registers[of args tr k, unfolded 1] backup_add_registers[of args tr1 k, unfolded 2]
  have "registered (registrations args) tr (e2, tr2)" if "e1 = None"
    unfolding registrations_def using registered_seq r that by blast
  moreover have "registered (registrations args) tr (e1, tr1)" if "e1 = Some e" for e
    unfolding registrations_def using registered_error r(1) that by blast
  moreover have "registered (registrations args) tr (Some e, tr)" for e
    by (simp add: registered_def)
  ultimately show ?thesis
    by (cases e1; cases e2)
       (simp_all add: AddToManager_def AddToManagerFuncs_def Add_def Backup_Add_def newDirectClient_def 1 2
          split: option.split)
qed

fun is_metrics :: "boot_event \<Rightarrow> bool" where
  "is_metrics (ServeCRMetrics _ _ _) = True"
| "is_metrics (MetricsService _) = True"
| "is_metrics (ServiceMonitors _ _) = True"
| "is_metrics _ = False"

lemma startMetrics_only_metrics:
  "\<exists>ms. startMetrics k ns tr = tr @ ms \<and> list_all is_metrics ms"
  by (auto simp: startMetrics_def serveCRMetrics_def Let_def split: option.split sum.split)

lemma startWebhook_events:
  "\<exists>ws. snd (startWebhook k tr) = tr @ ws \<and> set ws \<subseteq> {WebhookServer ''/etc/webhook/certs'' 7443}"
  by (simp add: startWebhook_def)

text \<open>The process that reaches \<open>mgr.Start\<close> has the lock and all registrations, in order.\<close>

definition prepared :: "sdk \<Rightarrow> command_line \<Rightarrow> string \<Rightarrow> boot \<Rightarrow> boot" where
  "prepared k args namespace rest =
     [BecomeLeader ''redis-cluster-operator-lock'', NewManager namespace (metricsHost @ '':'' @ fmt_int metricsPort),
      AddScheme] @ registrations args @ rest @ [StartManager]"

definition harmless :: "boot_event \<Rightarrow> bool" where
  "harmless e \<longleftrightarrow> is_metrics e \<or> e = WebhookServer ''/etc/webhook/certs'' 7443"

lemma not_started:
  "StartManager \<notin> set (registrations args)" "harmless e \<Longrightarrow> e \<noteq> StartManager"
  by (auto simp: registrations_def cluster_registrations_def backup_registrations_def harmless_def)

lemma runManager_events:
  "gpost (\<lambda>p. clusterScoped p = scoped \<and> (StartManager \<in> set (calls p) \<longrightarrow> StartManager \<in> set tr \<or>
       (\<exists>rest. calls p = tr @ registrations args @ rest @ [StartManager] \<and> list_all harmless rest)))
     (runManager k args ns scoped tr)"
  unfolding runManager_def gpost_gbind
proof (rule gpost_mono[OF AddToManager_registers], clarify)
  fix err tr1 assume r: "registered (registrations args) tr (err, tr1)"
  obtain ms where ms: "startMetrics k ns tr1 = tr1 @ ms" "list_all is_metrics ms"
    using startMetrics_only_metrics by blast
  obtain ws where ws: "snd (startWebhook k (tr1 @ ms)) = (tr1 @ ms) @ ws"
    "set ws \<subseteq> {WebhookServer ''/etc/webhook/certs'' 7443}" using startWebhook_events by blast
  obtain e2 where w: "startWebhook k (tr1 @ ms) = (e2, tr1 @ ms @ ws)"
    using ws(1) by (cases "startWebhook k (tr1 @ ms)") simp
  have h: "list_all harmless (ms @ ws)"
    using ms(2) ws(2) by (auto simp: harmless_def list_all_iff)
  then have n: "StartManager \<notin> set ms" "StartManager \<notin> set ws"
    using not_started(2) by (auto simp: list_all_iff)
  show "gpost (\<lambda>p. clusterScoped p = scoped \<and> (StartManager \<in> set (calls p) \<longrightarrow> StartManager \<in> set tr \<or>
       (\<exists>rest. calls p = tr @ registrations args @ rest @ [StartManager] \<and> list_all harmless rest)))
     (case err of Some e \<Rightarrow> exit 1 scoped tr1
      | None \<Rightarrow> (case startWebhook k (startMetrics k ns tr1) of
                  (Some e, tr) \<Rightarrow> exit 1 scoped tr
                | (None, tr) \<Rightarrow> (case attempt StartManager (startManager k) tr of
                      (Some e, tr) \<Rightarrow> exit 1 scoped tr
                    | (None, tr) \<Rightarrow> exit 0 scoped tr)))"
  proof (cases err)
    case (Some e)
    then show ?thesis using r not_started(1) by (auto simp: registered_def exit_def)
  next
    case None
    then have tr1: "tr1 = tr @ registrations args" using r by (simp add: registered_def)
    show ?thesis using None n h not_started(1) unfolding ms(1) unfolding w unfolding tr1
      by (auto simp: exit_def split: option.split intro!: exI[of _ "ms @ ws"])
  qed
qed

lemma main_started:
  "gpost (\<lambda>p. StartManager \<in> set (calls p) \<longrightarrow>
     (\<exists>namespace rest. getWatchNamespace k = Inr namespace \<and> clusterScoped p = (namespace = []) \<and>
        calls p = prepared k args namespace rest \<and> list_all harmless rest))
   (main k args)"
proof -
  have run: "gpost (\<lambda>p. StartManager \<in> set (calls p) \<longrightarrow>
     (\<exists>rest. clusterScoped p = scoped \<and> calls p = tr @ registrations args @ rest @ [StartManager] \<and> list_all harmless rest))
     (runManager k args ns scoped tr)" if "StartManager \<notin> set tr" for ns scoped tr
    by (rule gpost_mono[OF runManager_events]) (use that in blast)
  show ?thesis
  proof (cases "getWatchNamespace k")
    case (Inl e)
    then show ?thesis by (simp add: main_def exit_def)
  next
    case (Inr ns)
    let ?tr = "[BecomeLeader ''redis-cluster-operator-lock'', NewManager ns (metricsHost @ '':'' @ fmt_int metricsPort), AddScheme]"
    have "gpost (\<lambda>p. StartManager \<in> set (calls p) \<longrightarrow>
        (\<exists>namespace rest. getWatchNamespace k = Inr namespace \<and> clusterScoped p = (namespace = []) \<and>
          calls p = prepared k args namespace rest \<and> list_all harmless rest))
        (runManager k args ns (SetClusterScoped ns True) ?tr)"
      by (rule gpost_mono[OF run]) (auto simp: prepared_def Inr SetClusterScoped_def)
    then show ?thesis
      by (simp add: main_def Inr exit_def Let_def split: option.split)
  qed
qed

text \<open>The calls whose failure ends the process; the metrics calls are not among them.\<close>

definition ready :: "sdk \<Rightarrow> command_line \<Rightarrow> string \<Rightarrow> bool" where
  "ready k args namespace \<longleftrightarrow>
     accepted (libFlags k @ FlagSet @ Backup_FlagSet @ AddFlags) args \<and>
     getWatchNamespace k = Inr namespace \<and> getConfig k = None \<and>
     becomeLeader k ''redis-cluster-operator-lock'' = None \<and>
     newManager k namespace (metricsHost @ '':'' @ fmt_int metricsPort) = None \<and>
     addToScheme k = None \<and> restClientForPod k = None \<and> newClient k = None \<and>
     newController k ''distributedrediscluster-controller'' (maxConcurrentReconciles args) = None \<and>
     newController k ''redisclusterbackup-controller'' (backup_maxConcurrentReconciles args) = None \<and>
     watchKind k ''distributedrediscluster-controller'' ''DistributedRedisCluster'' = None \<and>
     watchKind k ''redisclusterbackup-controller'' ''RedisClusterBackup'' = None \<and>
     watchKind k ''redisclusterbackup-controller'' ''Job'' = None \<and>
     (getenv k ''ENABLE_WEBHOOKS'' = ''true'' \<longrightarrow> setupWebhook k = None)"

lemma AddToManager_ready:
  assumes "ready k args namespace"
  shows "AddToManager k args tr = Ret (None, tr @ registrations args)"
  using assms
  by (simp add: ready_def AddToManager_def AddToManagerFuncs_def Add_def Backup_Add_def newDirectClient_def
      add_def backup_add_def Let_def registrations_def cluster_registrations_def backup_registrations_def)

lemma main_ready:
  assumes "ready k args namespace"
  shows "\<exists>rest. list_all harmless rest \<and>
    main k args = Ret \<lparr>exitCode = (if startManager k = None then 0 else 1),
      calls = prepared k args namespace rest, clusterScoped = (namespace = [])\<rparr>"
proof -
  let ?tr = "[BecomeLeader ''redis-cluster-operator-lock'', NewManager namespace (metricsHost @ '':'' @ fmt_int metricsPort),
      AddScheme] @ registrations args"
  obtain ms where ms: "startMetrics k namespace ?tr = ?tr @ ms" "list_all is_metrics ms"
    using startMetrics_only_metrics by blast
  obtain ws where ws: "startWebhook k (?tr @ ms) = (None, (?tr @ ms) @ ws)"
    "set ws \<subseteq> {WebhookServer ''/etc/webhook/certs'' 7443}"
    using assms by (cases "getenv k ''ENABLE_WEBHOOKS'' = ''true''") (auto simp: startWebhook_def ready_def)
  have "list_all harmless (ms @ ws)" using ms(2) ws(2) by (auto simp: harmless_def list_all_iff)
  moreover have "main k args = Ret \<lparr>exitCode = (if startManager k = None then 0 else 1),
      calls = prepared k args namespace (ms @ ws), clusterScoped = (namespace = [])\<rparr>"
    using assms AddToManager_ready[OF assms] ms(1) ws(1)
    by (simp add: main_def runManager_def ready_def Let_def exit_def prepared_def SetClusterScoped_def
        split: option.split)
  ultimately show ?thesis by blast
qed

text \<open>Which objects an operator looks at.\<close>

lemma ShoudManage_iff:
  "ShoudManage scoped ann \<longleftrightarrow>
     mget ann AnnotationScope = (if scoped then Some AnnotationClusterScoped else None)"
  by (auto simp: ShoudManage_def split: option.split)

lemma flags_distinct: "distinct (map fst (FlagSet @ Backup_FlagSet @ AddFlags))"
  by (simp add: FlagSet_def Backup_FlagSet_def AddFlags_def)

end
