(* ===== verification/Open_Api.thy ===== *)
theory Open_Api
  imports Main
begin

text \<open>
  \<open>src/pkg/apis/redis/v1alpha1/zz_generated.openapi.go\<close>: the OpenAPI definitions of the custom
  resources, and the declarations in \<open>distributedrediscluster_types.go\<close> and
  \<open>redisclusterbackup_types.go\<close> they describe. Descriptions are dropped. The lemmas compare the
  two: every property described is a field with that JSON name and that type, the dependencies are
  the types referred to, and which fields have no description.
\<close>

section \<open>Schemas\<close>

datatype schema =
    SType string string
  | SArray schema
  | SMap schema
  | SRef string

record openapi =
  OaType :: string
  Properties :: "(string \<times> schema) list"
  Required :: "string list"
  Dependencies :: "string list"

definition pkgPath :: string where
  "pkgPath = ''github.com/ucloud/redis-cluster-operator/pkg/apis/redis/v1alpha1.''"

definition coreV1 :: string where "coreV1 = ''k8s.io/api/core/v1.''"
definition metaV1 :: string where "metaV1 = ''k8s.io/apimachinery/pkg/apis/meta/v1.''"

abbreviation "sString \<equiv> SType ''string'' []"
abbreviation "sInt32 \<equiv> SType ''integer'' ''int32''"

definition schema_DistributedRedisCluster :: openapi where
  "schema_DistributedRedisCluster = \<lparr>OaType = ''object'',
     Properties = [(''kind'', sString), (''apiVersion'', sString),
       (''metadata'', SRef (metaV1 @ ''ObjectMeta'')),
       (''spec'', SRef (pkgPath @ ''DistributedRedisClusterSpec'')),
       (''status'', SRef (pkgPath @ ''DistributedRedisClusterStatus''))],
     Required = [],
     Dependencies = [pkgPath @ ''DistributedRedisClusterSpec'', pkgPath @ ''DistributedRedisClusterStatus'',
       metaV1 @ ''ObjectMeta'']\<rparr>"

definition schema_DistributedRedisClusterSpec :: openapi where
  "schema_DistributedRedisClusterSpec = \<lparr>OaType = ''object'',
     Properties = [(''image'', sString), (''command'', SArray sString), (''masterSize'', sInt32),
       (''clusterReplicas'', sInt32), (''serviceName'', sString), (''config'', SMap sString),
       (''affinity'', SRef (coreV1 @ ''Affinity'')), (''nodeSelector'', SMap sString),
       (''toleRations'', SArray (SRef (coreV1 @ ''Toleration''))),
       (''securityContext'', SRef (coreV1 @ ''PodSecurityContext'')), (''annotations'', SMap sString),
       (''storage'', SRef (pkgPath @ ''RedisStorage'')),
       (''resources'', SRef (coreV1 @ ''ResourceRequirements'')),
       (''passwordSecret'', SRef (coreV1 @ ''LocalObjectReference''))],
     Required = [],
     Dependencies = [pkgPath @ ''RedisStorage'', coreV1 @ ''Affinity'', coreV1 @ ''LocalObjectReference'',
       coreV1 @ ''PodSecurityContext'', coreV1 @ ''ResourceRequirements'', coreV1 @ ''Toleration'']\<rparr>"

definition schema_DistributedRedisClusterStatus :: openapi where
  "schema_DistributedRedisClusterStatus = \<lparr>OaType = ''object'',
     Properties = [(''status'', sString), (''reason'', sString), (''numberOfMaster'', sInt32),
       (''nodes'', SArray (SRef (pkgPath @ ''RedisClusterNode'')))],
     Required = [''status'', ''nodes''],
     Dependencies = [pkgPath @ ''RedisClusterNode'']\<rparr>"

definition schema_RedisClusterBackup :: openapi where
  "schema_RedisClusterBackup = \<lparr>OaType = ''object'',
     Properties = [(''kind'', sString), (''apiVersion'', sString),
       (''metadata'', SRef (metaV1 @ ''ObjectMeta'')),
       (''spec'', SRef (pkgPath @ ''RedisClusterBackupSpec'')),
       (''status'', SRef (pkgPath @ ''RedisClusterBackupStatus''))],
     Required = [],
     Dependencies = [pkgPath @ ''RedisClusterBackupSpec'', pkgPath @ ''RedisClusterBackupStatus'',
       metaV1 @ ''ObjectMeta'']\<rparr>"

definition schema_RedisClusterBackupSpec :: openapi where
  "schema_RedisClusterBackupSpec = \<lparr>OaType = ''object'', Properties = [], Required = [], Dependencies = []\<rparr>"

definition schema_RedisClusterBackupStatus :: openapi where
  "schema_RedisClusterBackupStatus = \<lparr>OaType = ''object'', Properties = [], Required = [], Dependencies = []\<rparr>"

definition GetOpenAPIDefinitions :: "(string \<times> openapi) list" where
  "GetOpenAPIDefinitions = [
     (pkgPath @ ''DistributedRedisCluster'', schema_DistributedRedisCluster),
     (pkgPath @ ''DistributedRedisClusterSpec'', schema_DistributedRedisClusterSpec),
     (pkgPath @ ''DistributedRedisClusterStatus'', schema_DistributedRedisClusterStatus),
     (pkgPath @ ''RedisClusterBackup'', schema_RedisClusterBackup),
     (pkgPath @ ''RedisClusterBackupSpec'', schema_RedisClusterBackupSpec),
     (pkgPath @ ''RedisClusterBackupStatus'', schema_RedisClusterBackupStatus)]"

section \<open>Declarations\<close>

text \<open>A field: its JSON name, whether it may be omitted, and its type. Pointers are described as
  what they point to, named strings as strings.\<close>

datatype decl_type =
    DString | DBool | DInt32 | DInt64 | DPtr decl_type | DSlice decl_type | DMapString | DNamed string

record json_field =
  JsonName :: string
  OmitEmpty :: bool
  JsonType :: decl_type

fun schema_of :: "decl_type \<Rightarrow> schema" where
  "schema_of DString = SType ''string'' []"
| "schema_of DBool = SType ''boolean'' []"
| "schema_of DInt32 = SType ''integer'' ''int32''"
| "schema_of DInt64 = SType ''integer'' ''int64''"
| "schema_of (DPtr t) = schema_of t"
| "schema_of (DSlice t) = SArray (schema_of t)"
| "schema_of DMapString = SMap (SType ''string'' [])"
| "schema_of (DNamed n) = SRef n"

definition fld :: "string \<Rightarrow> decl_type \<Rightarrow> json_field" where
  "fld n t = \<lparr>JsonName = n, OmitEmpty = True, JsonType = t\<rparr>"

definition req :: "string \<Rightarrow> decl_type \<Rightarrow> json_field" where
  "req n t = \<lparr>JsonName = n, OmitEmpty = False, JsonType = t\<rparr>"

definition Spec_fields :: "json_field list" where
  "Spec_fields = [
     fld ''image'' DString, fld ''imagePullPolicy'' DString,
     fld ''imagePullSecrets'' (DSlice (DNamed (coreV1 @ ''LocalObjectReference''))),
     fld ''command'' (DSlice DString), fld ''env'' (DSlice (DNamed (coreV1 @ ''EnvVar''))),
     fld ''masterSize'' DInt32, fld ''clusterReplicas'' DInt32, fld ''serviceName'' DString,
     fld ''config'' DMapString, fld ''requiredAntiAffinity'' DBool,
     fld ''affinity'' (DPtr (DNamed (coreV1 @ ''Affinity''))), fld ''nodeSelector'' DMapString,
     fld ''toleRations'' (DSlice (DNamed (coreV1 @ ''Toleration''))),
     fld ''securityContext'' (DPtr (DNamed (coreV1 @ ''PodSecurityContext''))),
     fld ''containerSecurityContext'' (DPtr (DNamed (coreV1 @ ''SecurityContext''))),
     fld ''annotations'' DMapString, fld ''storage'' (DPtr (DNamed (pkgPath @ ''RedisStorage''))),
     fld ''resources'' (DPtr (DNamed (coreV1 @ ''ResourceRequirements''))),
     fld ''passwordSecret'' (DPtr (DNamed (coreV1 @ ''LocalObjectReference''))),
     fld ''monitor'' (DPtr (DNamed (pkgPath @ ''AgentSpec''))),
     fld ''init'' (DPtr (DNamed (pkgPath @ ''InitSpec'')))]"

definition Status_fields :: "json_field list" where
  "Status_fields = [
     req ''status'' DString, fld ''reason'' DString, fld ''numberOfMaster'' DInt32,
     fld ''minReplicationFactor'' DInt32, fld ''maxReplicationFactor'' DInt32,
     fld ''nodesPlacementInfo'' DString, req ''nodes'' (DSlice (DNamed (pkgPath @ ''RedisClusterNode''))),
     req ''restore'' (DNamed (pkgPath @ ''Restore''))]"

section \<open>Comparison\<close>

fun refs :: "schema \<Rightarrow> string set" where
  "refs (SType t f) = {}"
| "refs (SArray s) = refs s"
| "refs (SMap s) = refs s"
| "refs (SRef n) = {n}"

text \<open>\<open>describes o fs\<close>: the schema speaks of fields that exist, with their types.\<close>

definition describes :: "openapi \<Rightarrow> json_field list \<Rightarrow> bool" where
  "describes o' fs \<longleftrightarrow>
     list_all (\<lambda>(n, s). list_ex (\<lambda>f. JsonName f = n \<and> schema_of (JsonType f) = s) fs) (Properties o') \<and>
     list_all (\<lambda>n. list_ex (\<lambda>f. JsonName f = n \<and> \<not> OmitEmpty f) fs) (Required o')"

definition undescribed :: "openapi \<Rightarrow> json_field list \<Rightarrow> string list" where
  "undescribed o' fs = filter (\<lambda>n. n \<notin> set (map fst (Properties o'))) (map JsonName fs)"

definition refers :: "openapi \<Rightarrow> string set" where
  "refers o' = \<Union> (refs ` snd ` set (Properties o'))"

lemmas field_defs = fld_def req_def

lemma Spec_described: "describes schema_DistributedRedisClusterSpec Spec_fields"
  by (simp add: describes_def schema_DistributedRedisClusterSpec_def Spec_fields_def field_defs)

lemma Status_described: "describes schema_DistributedRedisClusterStatus Status_fields"
  by (simp add: describes_def schema_DistributedRedisClusterStatus_def Status_fields_def field_defs)

lemma Spec_undescribed:
  "undescribed schema_DistributedRedisClusterSpec Spec_fields =
     [''imagePullPolicy'', ''imagePullSecrets'', ''env'', ''requiredAntiAffinity'', ''containerSecurityContext'',
      ''monitor'', ''init'']"
  by (simp add: undescribed_def schema_DistributedRedisClusterSpec_def Spec_fields_def field_defs)

lemma Status_undescribed:
  "undescribed schema_DistributedRedisClusterStatus Status_fields =
     [''minReplicationFactor'', ''maxReplicationFactor'', ''nodesPlacementInfo'', ''restore'']"
  by (simp add: undescribed_def schema_DistributedRedisClusterStatus_def Status_fields_def field_defs)

text \<open>The dependencies of every definition are the types it refers to.\<close>

lemma dependencies_exact:
  "\<forall>(n, o')\<in>set GetOpenAPIDefinitions. set (Dependencies o') = refers o'"
  by (auto simp: GetOpenAPIDefinitions_def refers_def schema_DistributedRedisCluster_def
      schema_DistributedRedisClusterSpec_def schema_DistributedRedisClusterStatus_def
      schema_RedisClusterBackup_def schema_RedisClusterBackupSpec_def schema_RedisClusterBackupStatus_def)

end
