(* ===== verification/Finalizers.thy ===== *)
theory Finalizers
  imports Backup_Facts
begin

text \<open>
  The finalizer helpers of the backup controller: membership, and deletion from a slice that is
  being ranged over.
\<close>

lemma contains_iff: "contains list s \<longleftrightarrow> s \<in> set list"
  by (induction list s rule: contains.induct) auto

lemma removeLoop_none: "\<forall>i\<in>set is. arr ! i \<noteq> s \<Longrightarrow> removeLoop s is arr len = Ret (arr, len)"
  by (induction "is") auto

lemma removeLoop_append:
  "removeLoop s (is @ js) arr len =
     gbind (removeLoop s is arr len) (\<lambda>(arr, len). removeLoop s js arr len)"
  by (induction s "is" arr len rule: removeLoop.induct) auto

lemma upt_split:
  "[0..<length (xs @ y # ys)] = [0..<length xs] @ length xs # [Suc (length xs)..<length (xs @ y # ys)]"
  using upt_add_eq_append[of 0 "length xs" "Suc (length ys)"]
    upt_conv_Cons[of "length xs" "length xs + Suc (length ys)"]
  by (simp del: upt_Suc)

lemma drop_last: "drop (length ys) (s # ys) = [last (s # ys)]"
  by (induction ys arbitrary: s) auto

text \<open>The first match: everything behind it moves down, the last place keeps its element.\<close>

lemma remove_first:
  assumes "s \<notin> set xs"
  shows "remove (xs @ s # ys) s =
    gbind (removeLoop s [Suc (length xs)..<length (xs @ s # ys)] (xs @ ys @ [last (s # ys)]) (length (xs @ ys)))
      (\<lambda>(arr, len). Ret (take len arr))"
proof -
  have "removeLoop s [0..<length xs] (xs @ s # ys) n = Ret (xs @ s # ys, n)" for n
    using assms by (intro removeLoop_none) (auto simp: nth_append)
  then show ?thesis
    unfolding remove_def upt_split removeLoop_append by (simp add: drop_last del: upt_Suc last.simps)
qed

lemma remove_none: "s \<notin> set list \<Longrightarrow> remove list s = Ret list"
  unfolding remove_def by (subst removeLoop_none) auto

lemma remove_single:
  assumes "s \<notin> set xs" and "s \<notin> set ys"
  shows "remove (xs @ s # ys) s = Ret (xs @ ys)"
proof -
  have "(xs @ ys @ [last (s # ys)]) ! i \<noteq> s" if "Suc (length xs) \<le> i" "i < length (xs @ s # ys)" for i
  proof -
    have ne: "ys \<noteq> []" using that by auto
    have "(xs @ ys @ [last (s # ys)]) ! i \<in> set (ys @ [last ys])"
      using that ne by (auto simp: nth_append)
    then show ?thesis using assms(2) ne by auto
  qed
  then have "removeLoop s [Suc (length xs)..<length (xs @ s # ys)] (xs @ ys @ [last (s # ys)]) (length (xs @ ys))
      = Ret (xs @ ys @ [last (s # ys)], length (xs @ ys))" by (intro removeLoop_none) (simp del: upt_Suc last.simps)
  then show ?thesis unfolding remove_first[OF assms(1)] by simp
qed

text \<open>Once the slice is shorter than the array and the last place holds the string, the range runs
  into it.\<close>

lemma removeLoop_stale:
  assumes "length arr = Suc n" and "arr ! n = s" and "len \<le> n" and "i \<le> n"
  shows "removeLoop s [i..<Suc n] arr len = Panic ''slice bounds out of range''"
  using assms
proof (induction "n - i" arbitrary: i arr len)
  case 0
  then show ?case by simp
next
  case (Suc d)
  let ?arr = "take i arr @ drop (i + 1) (take len arr) @ drop (len - 1) arr"
  have i: "[i..<Suc n] = i # [Suc i..<Suc n]" using Suc.prems(4) by (simp add: upt_conv_Cons)
  have tail: "removeLoop s [Suc i..<Suc n] arr' len' = Panic ''slice bounds out of range''"
    if "length arr' = Suc n" "arr' ! n = s" "len' \<le> n" for arr' len'
    using Suc.hyps(1)[of "Suc i" arr' len'] Suc.hyps(2) that by simp
  have "length ?arr = Suc n \<and> ?arr ! n = s" if "i + 1 \<le> len"
  proof -
    have "length ?arr = Suc n" using that Suc.prems by simp
    moreover have "\<not> n - i < len - Suc i" using that Suc.prems(3,4) by linarith
    then have "?arr ! n = s" using that Suc.prems by (simp add: nth_append)
    ultimately show ?thesis ..
  qed
  then show ?case unfolding i using tail Suc.prems by (simp del: upt_Suc)
qed

lemma remove_stale:
  assumes "s \<in> set xs"
  shows "remove (xs @ [s]) s = Panic ''slice bounds out of range''"
proof -
  obtain as bs where xs: "xs = as @ s # bs" "s \<notin> set as" using split_list_first[OF assms] by blast
  have "removeLoop s [Suc (length as)..<Suc (length as + length (bs @ [s]))] (as @ (bs @ [s]) @ [s]) (length (as @ bs @ [s]))
      = Panic ''slice bounds out of range''"
    by (rule removeLoop_stale) (simp_all add: nth_append)
  then show ?thesis
    using remove_first[OF xs(2), of "bs @ [s]"] xs(1) by (simp del: upt_Suc)
qed

end
