(* ===== verification/Sorters.thy ===== *)
theory Sorters
  imports Nodes
begin

text \<open>
  The three implementations of \<open>sort.Interface\<close> in \<open>src/pkg/redisutil\<close>: \<open>SlotSlice\<close>
  (\<open>slot.go\<close>), \<open>Nodes\<close> and \<open>nodeSorter\<close> (\<open>node.go\<close>). \<open>sort.Sort\<close> works through the methods
  \<open>Len\<close>, \<open>Less\<close> and \<open>Swap\<close> only, with an algorithm the library is free to choose, so a run of it is
  any sequence of swaps in range that ends where no element is less than the one before it. The
  locale \<open>sort_interface\<close> states what the methods have to promise; then every run leaves the same
  elements in order, whatever the algorithm. This is the contract (\<open>is_sorter\<close>) the model asks of
  the sorting functions it takes as arguments.
\<close>

section \<open>The methods\<close>

definition sliceLess :: "('a \<Rightarrow> 'a \<Rightarrow> bool) \<Rightarrow> 'a list \<Rightarrow> nat \<Rightarrow> nat \<Rightarrow> bool go" where
  "sliceLess lt xs i j =
     (if i < length xs \<and> j < length xs then Ret (lt (xs ! i) (xs ! j)) else Panic ''index out of range'')"

definition sliceSwap :: "nat \<Rightarrow> nat \<Rightarrow> 'a list \<Rightarrow> 'a list go" where
  "sliceSwap i j xs =
     (if i < length xs \<and> j < length xs then Ret (xs[i := xs ! j, j := xs ! i])
      else Panic ''index out of range'')"

definition SlotSlice_Len :: "Slot list \<Rightarrow> nat" where "SlotSlice_Len s = length s"

definition SlotSlice_Less :: "Slot list \<Rightarrow> nat \<Rightarrow> nat \<Rightarrow> bool go" where
  "SlotSlice_Less s i j = sliceLess (<) s i j"

definition SlotSlice_Swap :: "nat \<Rightarrow> nat \<Rightarrow> Slot list \<Rightarrow> Slot list go" where
  "SlotSlice_Swap i j s = sliceSwap i j s"

definition Nodes_Len :: "Node list \<Rightarrow> nat" where "Nodes_Len n = length n"

definition Nodes_Less :: "Node list \<Rightarrow> nat \<Rightarrow> nat \<Rightarrow> bool go" where
  "Nodes_Less n i j = sliceLess (\<lambda>a b. ID a < ID b) n i j"

definition Nodes_Swap :: "nat \<Rightarrow> nat \<Rightarrow> Node list \<Rightarrow> Node list go" where
  "Nodes_Swap i j n = sliceSwap i j n"

record 'n nodeSorter =
  NsNodes :: "'n list"
  NsBy :: "'n \<Rightarrow> 'n \<Rightarrow> bool"

definition nodeSorter_Len :: "'n nodeSorter \<Rightarrow> nat" where "nodeSorter_Len s = length (NsNodes s)"

definition nodeSorter_Swap :: "nat \<Rightarrow> nat \<Rightarrow> 'n nodeSorter \<Rightarrow> 'n nodeSorter go" where
  "nodeSorter_Swap i j s = gbind (sliceSwap i j (NsNodes s)) (\<lambda>ns. Ret (s\<lparr>NsNodes := ns\<rparr>))"

definition nodeSorter_Less :: "'n nodeSorter \<Rightarrow> nat \<Rightarrow> nat \<Rightarrow> bool go" where
  "nodeSorter_Less s i j = sliceLess (NsBy s) (NsNodes s) i j"

section \<open>Sorting through the methods\<close>

inductive swaps :: "('c \<Rightarrow> nat) \<Rightarrow> (nat \<Rightarrow> nat \<Rightarrow> 'c \<Rightarrow> 'c go) \<Rightarrow> 'c \<Rightarrow> 'c \<Rightarrow> bool" for len swap where
  swaps_refl: "swaps len swap c c"
| swaps_step: "swaps len swap c c' \<Longrightarrow> i < len c' \<Longrightarrow> j < len c' \<Longrightarrow> swap i j c' = Ret c'' \<Longrightarrow> swaps len swap c c''"

definition sort_run ::
    "('c \<Rightarrow> nat) \<Rightarrow> ('c \<Rightarrow> nat \<Rightarrow> nat \<Rightarrow> bool go) \<Rightarrow> (nat \<Rightarrow> nat \<Rightarrow> 'c \<Rightarrow> 'c go) \<Rightarrow> 'c \<Rightarrow> 'c \<Rightarrow> bool" where
  "sort_run len lessAt swap c c' \<longleftrightarrow> swaps len swap c c' \<and> (\<forall>i. Suc i < len c' \<longrightarrow> lessAt c' (Suc i) i = Ret False)"

section \<open>What the methods promise\<close>

locale sort_interface =
  fixes len :: "'c \<Rightarrow> nat"
    and lessAt :: "'c \<Rightarrow> nat \<Rightarrow> nat \<Rightarrow> bool go"
    and swap :: "nat \<Rightarrow> nat \<Rightarrow> 'c \<Rightarrow> 'c go"
    and elems :: "'c \<Rightarrow> 'a list"
    and order :: "'c \<Rightarrow> 'a \<Rightarrow> 'a \<Rightarrow> bool"
  assumes len_elems: "len c = length (elems c)"
    and less_elems: "i < len c \<Longrightarrow> j < len c \<Longrightarrow> lessAt c i j = Ret (order c (elems c ! i) (elems c ! j))"
    and swap_elems: "i < len c \<Longrightarrow> j < len c \<Longrightarrow> \<exists>c'. swap i j c = Ret c' \<and>
      elems c' = (elems c)[i := elems c ! j, j := elems c ! i] \<and> order c' = order c"
begin

lemma swaps_keep: "swaps len swap c c' \<Longrightarrow> mset (elems c') = mset (elems c) \<and> order c' = order c"
proof (induction rule: swaps.induct)
  case (swaps_step c c' i j c'')
  then have "elems c'' = (elems c')[i := elems c' ! j, j := elems c' ! i]" "order c'' = order c'"
    using swap_elems [of i c' j] by auto
  then show ?case using swaps_step by (simp add: mset_swap len_elems)
qed simp

lemma run_sorts:
  assumes "strict_weak (order c)" "sort_run len lessAt swap c c'"
  shows "mset (elems c') = mset (elems c) \<and> sorted_wrt (\<lambda>a b. \<not> order c b a) (elems c')"
proof
  have k: "mset (elems c') = mset (elems c)" "order c' = order c"
    using assms(2) swaps_keep by (auto simp: sort_run_def)
  show "mset (elems c') = mset (elems c)" by (rule k)
  have "\<not> order c (elems c' ! Suc i) (elems c' ! i)" if "Suc i < length (elems c')" for i
    using assms(2) less_elems [of "Suc i" c' i] that by (simp add: sort_run_def len_elems k(2))
  moreover have "transp (\<lambda>a b. \<not> order c b a)" using assms(1) unfolding strict_weak_def transp_def by blast
  ultimately show "sorted_wrt (\<lambda>a b. \<not> order c b a) (elems c')" by (simp add: sorted_wrt_iff_nth_Suc_transp)
qed

end

interpretation slot_slice: sort_interface SlotSlice_Len SlotSlice_Less SlotSlice_Swap "\<lambda>s. s" "\<lambda>s. (<)"
  by unfold_locales
    (auto simp: SlotSlice_Len_def SlotSlice_Less_def SlotSlice_Swap_def sliceLess_def sliceSwap_def)

interpretation node_slice: sort_interface Nodes_Len Nodes_Less Nodes_Swap "\<lambda>n. n" "\<lambda>n. LessByID"
  by unfold_locales
    (auto simp: Nodes_Len_def Nodes_Less_def Nodes_Swap_def sliceLess_def sliceSwap_def LessByID_def)

interpretation node_sorter: sort_interface nodeSorter_Len nodeSorter_Less nodeSorter_Swap NsNodes NsBy
  by unfold_locales
    (auto simp: nodeSorter_Len_def nodeSorter_Less_def nodeSorter_Swap_def sliceLess_def sliceSwap_def)

text \<open>Every run on a \<open>SlotSlice\<close> has the result the model writes as \<open>sort\<close>.\<close>

lemma SlotSlice_run:
  assumes "sort_run SlotSlice_Len SlotSlice_Less SlotSlice_Swap s s'"
  shows "s' = sort s"
proof -
  have "strict_weak ((<) :: Slot \<Rightarrow> Slot \<Rightarrow> bool)" by (auto simp: strict_weak_def)
  then have "mset s' = mset s" "sorted s'" using slot_slice.run_sorts [OF _ assms] by (auto simp: not_less)
  then show ?thesis using properties_for_sort [of s' s] by simp
qed

text \<open>\<open>by.Sort\<close>: the closure and the slice in a \<open>nodeSorter\<close>.\<close>

lemma nodeSorter_run:
  "strict_weak lt \<Longrightarrow> sort_run nodeSorter_Len nodeSorter_Less nodeSorter_Swap \<lparr>NsNodes = ns, NsBy = lt\<rparr> ps \<Longrightarrow>
   mset (NsNodes ps) = mset ns \<and> sorted_wrt (\<lambda>a b. \<not> lt b a) (NsNodes ps)"
  using node_sorter.run_sorts [of "\<lparr>NsNodes = ns, NsBy = lt\<rparr>" ps] by simp

lemma Nodes_run:
  "sort_run Nodes_Len Nodes_Less Nodes_Swap ns ns' \<Longrightarrow> mset ns' = mset ns \<and> sorted_wrt (\<lambda>a b. \<not> LessByID b a) ns'"
proof -
  have "strict_weak LessByID" using strict_weak_key [of ID] by (simp add: LessByID_def strict_weak_def)
  then show "sort_run Nodes_Len Nodes_Less Nodes_Swap ns ns' \<Longrightarrow> ?thesis" by (rule node_slice.run_sorts)
qed

end
