(* ===== verification/Password_Facts.thy ===== *)
theory Password_Facts
  imports Reconcile
begin

text \<open>
  Changing the password of a running cluster: the commands in the pods (\<open>exec.go\<close>) come before
  the commands to Redis (\<open>admin.go\<close>), and a change that succeeds has reached every pod and every
  connection.
\<close>

section \<open>Commands in the pods\<close>

lemma ExecCommandInPodSet_prefix:
  assumes "\<forall>pod\<in>set pods. PoContainers pod \<noteq> []"
  shows "\<exists>e k. ExecCommandInPodSet kb pods cmd s =
      Ret (e, s\<lparr>trace := trace s @ map (\<lambda>p. EKube (KExec (podExec cmd p))) (take k pods)\<rparr>) \<and>
    (e = None \<longrightarrow> k = length pods)"
  using assms
proof (induction pods arbitrary: s)
  case Nil
  then show ?case by simp
next
  case (Cons pod pods)
  obtain c cs where c: "PoContainers pod = c # cs" using Cons.prems by (cases "PoContainers pod") auto
  let ?x = "EKube (KExec (podExec cmd pod))"
  note run = ExecCommandInContainer_pod[OF c, of kb cmd s]
  show ?case
  proof (cases "execDial kb (trace s) (podExec cmd pod)")
    case (Some e)
    then show ?thesis using c run by (intro exI[of _ "Some e"] exI[of _ 0]) simp
  next
    case None
    show ?thesis
    proof (cases "apiError kb (trace s) (KExec (podExec cmd pod))")
      case (Some e)
      then show ?thesis using None c run by (intro exI[of _ "Some e"] exI[of _ 1]) (simp add: emit_def)
    next
      case noerr: None
      obtain e k where k: "ExecCommandInPodSet kb pods cmd (emit ?x s) =
          Ret (e, (emit ?x s)\<lparr>trace := trace (emit ?x s) @ map (\<lambda>p. EKube (KExec (podExec cmd p))) (take k pods)\<rparr>)"
        "e = None \<longrightarrow> k = length pods" using Cons.IH[of "emit ?x s"] Cons.prems by auto
      then show ?thesis using None noerr c run by (intro exI[of _ e] exI[of _ "Suc k"]) (simp add: emit_def)
    qed
  qed
qed

section \<open>Commands to Redis\<close>

definition passwordCmds :: "string \<Rightarrow> Client \<Rightarrow> 'k event list" where
  "passwordCmds pw c =
     [ECmd (Conn c) (getCommand c ''CONFIG'') [''SET'', ''masterauth'', pw],
      ECmd (Conn c) (getCommand c ''CONFIG'') [''SET'', ''requirepass'', pw]]"

lemma call_sends:
  "gpost (\<lambda>(r, s'). grows s s' \<and> (\<forall>v. r = Inr v \<longrightarrow> s' = emit (ECmd (Conn c) (getCommand c cmd) args) s))
     (call env c cmd args addr msg s)"
proof -
  let ?s = "emit (ECmd (Conn c) (getCommand c cmd) args) s"
  have v: "gpost (\<lambda>(e, s'). grows s s' \<and> (e = None \<longrightarrow> s' = ?s)) (ValidateResp env resp addr msg ?s)" for resp
  proof (rule gpost_I, clarify)
    fix e s' assume r: "ValidateResp env resp addr msg ?s = Ret (e, s')"
    have "grows s s'" using grows_trans[OF grows_emit keeps_open_grows[OF ValidateResp_opens[OF r]]] .
    moreover have "e = None \<longrightarrow> s' = ?s"
      using r by (auto simp: ValidateResp_def outcome_simps split: option.splits)
    ultimately show "grows s s' \<and> (e = None \<longrightarrow> s' = ?s)" by blast
  qed
  show ?thesis unfolding call_def Cmd_def Let_def prod.case gpost_gbind
    by (rule gpost_mono[OF v]) (auto split: option.splits)
qed

lemma resetPasswordLoop_sends:
  "gpost (\<lambda>(e, s'). grows s s' \<and> (e = None \<longrightarrow> cnx s' = cnx s \<and>
       trace s' = trace s @ concat (map (\<lambda>a. case mget (clients (cnx s)) a of None \<Rightarrow> [] | Some c \<Rightarrow> passwordCmds pw c) addrs)))
     (resetPasswordLoop env pw addrs s)"
proof (induction addrs arbitrary: s)
  case Nil
  then show ?case by simp
next
  case (Cons addr addrs)
  show ?case
  proof (cases "mget (clients (cnx s)) addr")
    case None
    then show ?thesis using Cons.IH[of s] by simp
  next
    case (Some c)
    let ?e = "\<lambda>k. ECmd (Conn c) (getCommand c ''CONFIG'') [''SET'', k, pw]"
    let ?s1 = "emit (?e ''masterauth'') s"
    let ?s2 = "emit (?e ''requirepass'') ?s1"
    let ?P = "\<lambda>(e, s'). grows s s' \<and> (e = None \<longrightarrow> cnx s' = cnx s \<and>
       trace s' = trace s @ concat (map (\<lambda>a. case mget (clients (cnx s)) a of None \<Rightarrow> [] | Some c \<Rightarrow> passwordCmds pw c) (addr # addrs)))"
    have k: "grows s u" if "grows ?s1 u" for u
      using grows_trans[OF grows_emit that] .
    have k2: "grows s u" if "grows ?s2 u" for u
      using k[OF grows_trans[OF grows_emit that]] .
    have "gpost ?P (resetPasswordLoop env pw addrs ?s2)"
      by (rule gpost_mono[OF Cons.IH])
         (use Some in \<open>auto simp: passwordCmds_def dest: k2\<close>)
    then have "gpost ?P (gbind (call env c ''CONFIG'' [''SET'', ''requirepass'', pw] addr ''cannot set new requirepass'' ?s1)
         (\<lambda>(r, s). case r of Inl e \<Rightarrow> Ret (Some e, s) | Inr _ \<Rightarrow> resetPasswordLoop env pw addrs s))"
      unfolding gpost_gbind
      by (intro gpost_mono[OF call_sends[of ?s1]]) (auto split: sum.splits dest: k)
    then show ?thesis
      unfolding resetPasswordLoop.simps Some option.case gpost_gbind
      by (intro gpost_mono[OF call_sends[of s]]) (auto split: sum.splits)
  qed
qed

lemma ResetPassword_sends:
  assumes "is_order (rangeOrd env (trace s) ''ResetPassword'')"
  shows "gpost (\<lambda>(e, s'). \<exists>rest. trace s' = trace s @ rest \<and>
       (e = None \<longrightarrow> (\<forall>a c. mget (clients (cnx s)) a = Some c \<longrightarrow> set (passwordCmds pw c) \<subseteq> set rest)))
     (ResetPassword env pw s)"
proof -
  let ?addrs = "rangeOrd env (trace s) ''ResetPassword'' (mkeys (GetAll s))"
  have keys: "a \<in> set ?addrs" if "mget (clients (cnx s)) a = Some c" for a c
    using is_orderD(2)[OF assms] that by (auto simp: GetAll_def set_mkeys)
  have "gpost (\<lambda>(e, s'). \<exists>rest. trace s' = trace s @ rest \<and>
       (e = None \<longrightarrow> (\<forall>a c. mget (clients (cnx s)) a = Some c \<longrightarrow> set (passwordCmds pw c) \<subseteq> set rest)))
     (resetPasswordLoop env pw ?addrs s)"
  proof (rule gpost_mono[OF resetPasswordLoop_sends], clarify)
    fix e s' assume k: "grows s s'" and t: "e = None \<longrightarrow> cnx s' = cnx s \<and>
       trace s' = trace s @ concat (map (\<lambda>a. case mget (clients (cnx s)) a of None \<Rightarrow> [] | Some c \<Rightarrow> passwordCmds pw c) ?addrs)"
    obtain rest where rest: "trace s' = trace s @ rest" using k by (auto simp: grows_def)
    moreover have "set (passwordCmds pw c) \<subseteq> set rest" if "e = None" "mget (clients (cnx s)) a = Some c" for a c
      using t rest that keys[OF that(2)] by (auto intro!: bexI[of _ a])
    ultimately show "\<exists>rest. trace s' = trace s @ rest \<and>
       (e = None \<longrightarrow> (\<forall>a c. mget (clients (cnx s)) a = Some c \<longrightarrow> set (passwordCmds pw c) \<subseteq> set rest))" by blast
  qed
  then show ?thesis by (simp add: ResetPassword_def)
qed

definition passwordFileCmd :: "string \<Rightarrow> string list" where
  "passwordFileCmd pw = [''/bin/sh'', ''-c'', ''echo '' @ pw @ '' > /data/redis_password'']"

lemma changePassword_order:
  assumes "\<forall>pod\<in>set podSet. PoContainers pod \<noteq> []" and "\<And>tr. is_order (rangeOrd env tr ''ResetPassword'')"
  shows "gpost (\<lambda>(e, s'). \<exists>k rest.
      trace s' = trace s @ map (\<lambda>p. EKube (KExec (podExec (passwordFileCmd pw) p))) (take k podSet) @ rest \<and>
      (rest \<noteq> [] \<longrightarrow> k = length podSet) \<and>
      (e = None \<longrightarrow> k = length podSet \<and>
        (\<forall>a c. mget (clients (cnx s)) a = Some c \<longrightarrow> set (passwordCmds pw c) \<subseteq> set rest)))
    (changePassword env kb podSet pw s)"
proof -
  obtain e k where x: "ExecCommandInPodSet kb podSet (passwordFileCmd pw) s =
      Ret (e, s\<lparr>trace := trace s @ map (\<lambda>p. EKube (KExec (podExec (passwordFileCmd pw) p))) (take k podSet)\<rparr>)"
    "e = None \<longrightarrow> k = length podSet" using ExecCommandInPodSet_prefix[OF assms(1)] by blast
  show ?thesis
  proof (cases e)
    case (Some e')
    then show ?thesis using x(1) by (auto simp: changePassword_def passwordFileCmd_def intro!: exI[of _ k])
  next
    case None
    let ?s = "s\<lparr>trace := trace s @ map (\<lambda>p. EKube (KExec (podExec (passwordFileCmd pw) p))) podSet\<rparr>"
    have "changePassword env kb podSet pw s = ResetPassword env pw ?s"
      using x None by (simp add: changePassword_def passwordFileCmd_def)
    moreover have "gpost (\<lambda>(e, s'). \<exists>k rest.
      trace s' = trace s @ map (\<lambda>p. EKube (KExec (podExec (passwordFileCmd pw) p))) (take k podSet) @ rest \<and>
      (rest \<noteq> [] \<longrightarrow> k = length podSet) \<and>
      (e = None \<longrightarrow> k = length podSet \<and>
        (\<forall>a c. mget (clients (cnx s)) a = Some c \<longrightarrow> set (passwordCmds pw c) \<subseteq> set rest)))
      (ResetPassword env pw ?s)"
      by (rule gpost_mono[OF ResetPassword_sends[OF assms(2)]]) (auto intro!: exI[of _ "length podSet"])
    ultimately show ?thesis by simp
  qed
qed

end
