(* ===== verification/Platform_Properties.thy ===== *)
theory Platform_Properties
  imports Demo Creation Deep_Copy Startup Open_Api Finalizers Sorters Password_Facts
begin

text \<open>
  Properties of what the operator stands on: deep copies of the API objects, the start of the
  process and the scope it manages, changing the password in the pods and
  in Redis, and the first synchronisation of a new cluster.
\<close>

section \<open>Demo memory\<close>

definition demo_k8s :: k8s_copy where
  "demo_k8s = \<lparr>xty = (\<lambda>n. if n \<in> set assigned_types then TStr else TPtr TStr),
     xcopy = (\<lambda>n. copy_ptr copy_assign)\<rparr>"

lemma demo_k8s_deep: "k8s_deep demo_k8s"
  unfolding k8s_deep_def
proof (intro conjI ballI)
  fix n assume "n \<in> set copied_types"
  then have "xty demo_k8s n = TPtr TStr"
    by (auto simp: demo_k8s_def copied_types_def assigned_types_def)
  then show "deep_copier (xty demo_k8s n) (xcopy demo_k8s n)"
    by (simp add: demo_k8s_def deep_copier_ptr deep_copier_assign)
qed (simp add: demo_k8s_def)

text \<open>A status at address 0 with one node at 1, whose slots are at 2.\<close>

definition status_mem :: Go_Heap.heap where
  "status_mem = [
     CVal (GStruct [(''Status'', GStr ''Healthy''), (''Reason'', GStr ''OK''), (''NumberOfMaster'', GInt 3),
       (''MinReplicationFactor'', GInt 1), (''MaxReplicationFactor'', GInt 1), (''NodesPlacement'', GStr ''optimal''),
       (''Nodes'', GSlice 1 0 1), (''Restore'', GStruct [(''Phase'', GStr []), (''Backup'', GNil)])]),
     CArr [GStruct [(''ID'', GStr ''a''), (''Role'', GStr ''Master''), (''IP'', GStr ''10.0.0.1''), (''Port'', GStr ''6379''),
       (''Slots'', GSlice 2 0 1), (''MasterRef'', GStr []), (''PodName'', GStr ''p''), (''NodeName'', GStr ''vm''),
       (''StatefulSet'', GStr ''drc-0'')]],
     CArr [GStr ''0-16383'']]"

section \<open>Deep copies\<close>

text \<open>
  C25. \<open>DeepCopy\<close> of a status, which \<open>Reconcile\<close> changes while it still needs the original:
  the copy reads the same, reaches no memory that was there before, and whatever is written through
  it afterwards, the original reads as before.
\<close>

theorem status_copy_independent:
  assumes "k8s_deep X" and "view h (TPtr (Status_ty X)) v = Some (n, as)"
    and "Status_DeepCopy X v h = (v', h')"
  shows "\<exists>bs. view h' (TPtr (Status_ty X)) v' = Some (n, bs) \<and> set bs \<inter> {..<length h} = {} \<and>
    (\<forall>h''. length h' \<le> length h'' \<and> (\<forall>a<length h'. a \<notin> set bs \<longrightarrow> h'' ! a = h' ! a) \<longrightarrow>
       view h'' (TPtr (Status_ty X)) v = Some (n, as))"
  using deep_copier.copy_independent[OF deep_copier_Status_DeepCopy[OF assms(1)] assms(2,3)] .

theorem status_copy_independent_witness:
  "\<exists>n as bs v' h'. view status_mem (TPtr (Status_ty demo_k8s)) (GPtr 0) = Some (n, as) \<and>
     Status_DeepCopy demo_k8s (GPtr 0) status_mem = (v', h') \<and> v' = GPtr 3 \<and>
     view h' (TPtr (Status_ty demo_k8s)) v' = Some (n, bs) \<and> set bs \<inter> {..<length status_mem} = {}"
proof -
  have "view status_mem (TPtr (Status_ty demo_k8s)) (GPtr 0) \<noteq> None"
    by (simp add: status_mem_def Status_ty_def RedisClusterNode_ty_def Restore_ty_def cell_val_def cell_arr_def)
  then obtain n as where v: "view status_mem (TPtr (Status_ty demo_k8s)) (GPtr 0) = Some (n, as)" by auto
  have p: "fst (Status_DeepCopy demo_k8s (GPtr 0) status_mem) = GPtr 3"
    by (simp add: Status_DeepCopy_def DeepCopy_def copy_ptr_def status_mem_def cell_val_def alloc_def Let_def split: prod.split)
  obtain v' h' where c: "Status_DeepCopy demo_k8s (GPtr 0) status_mem = (v', h')" by fastforce
  from status_copy_independent[OF demo_k8s_deep v c] obtain bs
    where "view h' (TPtr (Status_ty demo_k8s)) v' = Some (n, bs)" "set bs \<inter> {..<length status_mem} = {}" by blast
  moreover have "v' = GPtr 3" using c p by simp
  ultimately show ?thesis using v c by blast
qed

text \<open>
  C36. \<open>DeepCopyObject\<close> of the lists the cache hands out, of clusters none of which sets
  \<open>ContainerSecurityContext\<close>, and of backups: the copy reads as the original did, down to every
  element, reaches no memory that was there before, so it shares nothing with the cache, and
  whatever is written through the copy afterwards, the original reads as before.
\<close>

theorem lists_copied_deep:
  assumes "k8s_deep X"
  shows "(view h (TPtr (ClusterList_ty X TNil)) v = Some (n, as) \<and> ClusterList_DeepCopyObject X v h = (v', h') \<longrightarrow>
      (\<exists>bs. view h' (TPtr (ClusterList_ty X TNil)) v' = Some (n, bs) \<and> set bs \<inter> {..<length h} = {} \<and>
        (\<forall>h''. length h' \<le> length h'' \<and> (\<forall>a<length h'. a \<notin> set bs \<longrightarrow> h'' ! a = h' ! a) \<longrightarrow>
          view h'' (TPtr (ClusterList_ty X TNil)) v = Some (n, as)))) \<and>
    (view h (TPtr (RedisClusterBackupList_ty X)) v = Some (n, as) \<and>
      RedisClusterBackupList_DeepCopyObject X v h = (v', h') \<longrightarrow>
      (\<exists>bs. view h' (TPtr (RedisClusterBackupList_ty X)) v' = Some (n, bs) \<and> set bs \<inter> {..<length h} = {} \<and>
        (\<forall>h''. length h' \<le> length h'' \<and> (\<forall>a<length h'. a \<notin> set bs \<longrightarrow> h'' ! a = h' ! a) \<longrightarrow>
          view h'' (TPtr (RedisClusterBackupList_ty X)) v = Some (n, as))))"
  by (intro conjI impI; elim conjE)
    (rule deep_copier.copy_independent[OF deep_copier_ClusterList_DeepCopyObject[OF assms]]
      deep_copier.copy_independent[OF deep_copier_RedisClusterBackupList_DeepCopyObject[OF assms]]; assumption)+

text \<open>A list at address 0 with its one backup at 1.\<close>

definition backup_mem :: Go_Heap.heap where
  "backup_mem = [
     CVal (GStruct [(''TypeMeta'', GStr ''v1alpha1''), (''ListMeta'', GNil), (''Items'', GSlice 1 0 1)]),
     CArr [GStruct [(''TypeMeta'', GStr ''v1alpha1''), (''ObjectMeta'', GNil),
       (''Spec'', GStruct [(''Image'', GStr ''i''), (''RedisClusterName'', GStr ''drc''), (''Storage'', GNil),
          (''Backend'', GPtr 2), (''PodSpec'', GNil), (''ActiveDeadlineSeconds'', GPtr 3)]),
       (''Status'', GStruct [(''StartTime'', GNil), (''CompletionTime'', GNil), (''Phase'', GStr ''Running''),
          (''Reason'', GStr []), (''MasterSize'', GInt 3), (''ClusterReplicas'', GInt 1), (''ClusterImage'', GStr [])])]],
     CVal (GStr ''s3''), CVal (GInt 600)]"

theorem lists_copied_deep_witness:
  "\<exists>n as bs v' h'. view backup_mem (TPtr (RedisClusterBackupList_ty demo_k8s)) (GPtr 0) = Some (n, as) \<and>
     RedisClusterBackupList_DeepCopyObject demo_k8s (GPtr 0) backup_mem = (v', h') \<and>
     view h' (TPtr (RedisClusterBackupList_ty demo_k8s)) v' = Some (n, bs) \<and> set bs \<inter> {..<length backup_mem} = {}"
proof -
  have "view backup_mem (TPtr (RedisClusterBackupList_ty demo_k8s)) (GPtr 0) \<noteq> None"
    by (simp add: backup_mem_def RedisClusterBackupList_ty_def RedisClusterBackup_ty_def
        RedisClusterBackupSpec_ty_def RedisClusterBackupStatus_ty_def demo_k8s_def assigned_types_def
        cell_val_def cell_arr_def)
  then obtain n as where v: "view backup_mem (TPtr (RedisClusterBackupList_ty demo_k8s)) (GPtr 0) = Some (n, as)" by auto
  obtain v' h' where c: "RedisClusterBackupList_DeepCopyObject demo_k8s (GPtr 0) backup_mem = (v', h')" by fastforce
  from conjunct2[OF lists_copied_deep[OF demo_k8s_deep]] v c obtain bs
    where "view h' (TPtr (RedisClusterBackupList_ty demo_k8s)) v' = Some (n, bs)" "set bs \<inter> {..<length backup_mem} = {}"
    by (metis (no_types))
  then show ?thesis using v c by blast
qed

text \<open>
  C34. The copy of a spec that sets \<open>ContainerSecurityContext\<close> holds the same pointer, into
  memory that was there before: \<open>DeepCopyInto\<close> is not a deep copy for such a spec, and a cluster
  read from the cache shares that structure with the cache.
\<close>

theorem spec_copy_shares:
  assumes "view h (Spec_ty X (TPtr t)) (GStruct vs) = Some (n, as)"
    and "map_of vs ''ContainerSecurityContext'' = Some (GPtr a)"
  shows "\<exists>out h'. Spec_DeepCopyInto X (GStruct vs) h = (GStruct out, h') \<and>
    map_of out ''ContainerSecurityContext'' = Some (GPtr a) \<and> a < length h \<and>
    \<not> deep_copier (Spec_ty X (TPtr t)) (Spec_DeepCopyInto X)"
proof -
  obtain fs where fs: "Spec_ty X (TPtr t) = TStruct fs" "(''ContainerSecurityContext'', TPtr t) \<in> set fs"
    "distinct (map fst fs)" by (simp add: Spec_ty_def)
  obtain out h' where c: "Spec_DeepCopyInto X (GStruct vs) h = (GStruct out, h')"
    unfolding Spec_DeepCopyInto_def using copy_struct_struct by blast
  have o: "map_of out ''ContainerSecurityContext'' = Some (GPtr a)" using Spec_shares[OF c] assms(2) by simp
  have reach: "a \<in> set bs" if "view k (Spec_ty X (TPtr t)) (GStruct ws) = Some (m, bs)"
    "map_of ws ''ContainerSecurityContext'' = Some (GPtr a)" for k ws m bs
    using view_field_reach[OF that(1)[unfolded fs(1)] fs(2,3) that(2)] .
  have a: "a < length h" using reach[OF assms] view_bounds(1)[OF assms(1)] by auto
  moreover have "\<not> deep_copier (Spec_ty X (TPtr t)) (Spec_DeepCopyInto X)"
  proof
    assume "deep_copier (Spec_ty X (TPtr t)) (Spec_DeepCopyInto X)"
    from deep_copier.deep[OF this assms(1) c] obtain bs
      where "view h' (Spec_ty X (TPtr t)) (GStruct out) = Some (n, bs)" "set bs \<subseteq> {length h..<length h'}" by blast
    then show False using reach[OF _ o] a by fastforce
  qed
  ultimately show ?thesis using c o by blast
qed

text \<open>A spec that sets the field; everything else is nil or zero.\<close>

definition shared_spec :: "(string \<times> gval) list" where
  "shared_spec = [
     (''Image'', GStr []), (''ImagePullPolicy'', GStr []), (''ImagePullSecrets'', GNil), (''Command'', GNil),
     (''Env'', GNil), (''MasterSize'', GInt 3), (''ClusterReplicas'', GInt 1), (''ServiceName'', GStr []),
     (''Config'', GNil), (''RequiredAntiAffinity'', GBool False), (''Affinity'', GNil), (''NodeSelector'', GNil),
     (''ToleRations'', GNil), (''SecurityContext'', GNil), (''ContainerSecurityContext'', GPtr 0),
     (''Annotations'', GNil), (''Storage'', GNil), (''Resources'', GNil), (''PasswordSecret'', GNil),
     (''Monitor'', GNil), (''Init'', GNil)]"

theorem spec_copy_shares_witness:
  "\<exists>out h'. Spec_DeepCopyInto demo_k8s (GStruct shared_spec) [CVal (GBool True)] = (GStruct out, h') \<and>
     map_of out ''ContainerSecurityContext'' = Some (GPtr 0) \<and>
     \<not> deep_copier (Spec_ty demo_k8s (TPtr TBool)) (Spec_DeepCopyInto demo_k8s)"
proof -
  have "view [CVal (GBool True)] (Spec_ty demo_k8s (TPtr TBool)) (GStruct shared_spec) \<noteq> None"
    by (simp add: Spec_ty_def shared_spec_def cell_val_def)
  then obtain n as where "view [CVal (GBool True)] (Spec_ty demo_k8s (TPtr TBool)) (GStruct shared_spec) = Some (n, as)"
    by auto
  from spec_copy_shares[OF this, of 0] show ?thesis by (auto simp: shared_spec_def)
qed

section \<open>Start of the process\<close>

text \<open>
  C28. When no call that the operator cannot do without fails, \<open>main\<close> reaches the start of the
  manager, whatever the three metrics calls answer: it has taken the leader lock first, created
  the manager for the watched namespace, registered the scheme and both controllers with their
  three watches, and between that and the start there are only metrics calls and the webhook
  server. The exit code is that of the manager.
\<close>

theorem operator_starts:
  assumes "ready k args namespace"
  shows "\<exists>rest. list_all harmless rest \<and>
    main k args = Ret \<lparr>exitCode = (if startManager k = None then 0 else 1),
      calls = [BecomeLeader ''redis-cluster-operator-lock'',
          NewManager namespace (metricsHost @ '':'' @ fmt_int metricsPort), AddScheme]
        @ registrations args @ rest @ [StartManager],
      clusterScoped = (namespace = [])\<rparr>"
  using main_ready[OF assms] by (simp add: prepared_def)

text \<open>Libraries that answer well, except for the metrics; the namespace is an argument.\<close>

definition demo_sdk :: "string \<Rightarrow> sdk" where
  "demo_sdk ns = \<lparr>libFlags = [], getWatchNamespace = Inr ns, getConfig = None, becomeLeader = (\<lambda>_. None),
     newManager = (\<lambda>_ _. None), addToScheme = None, restClientForPod = None, newClient = None,
     newController = (\<lambda>_ _. None), watchKind = (\<lambda>_ _. None), gvksFromScheme = None,
     operatorNamespace = Inr ''ops'', serveMetrics = Some (ErrText ''port in use''),
     createMetricsService = Some (ErrText ''forbidden''), createServiceMonitors = Some (ErrText ''absent''),
     getenv = (\<lambda>_. []), setupWebhook = None, startManager = None, operatorPortName = ''http-metrics'',
     crPortName = ''cr-metrics''\<rparr>"

lemma demo_sdk_ready: "ready (demo_sdk ns) [(''ctr-maxconcurrent'', FInt 8)] ns"
  by (simp add: ready_def demo_sdk_def accepted_def FlagSet_def)

theorem operator_starts_witness:
  "\<exists>rest. list_all harmless rest \<and>
    main (demo_sdk ''apps'') [(''ctr-maxconcurrent'', FInt 8)] = Ret \<lparr>exitCode = 0,
      calls = [BecomeLeader ''redis-cluster-operator-lock'',
          NewManager ''apps'' (metricsHost @ '':'' @ fmt_int metricsPort), AddScheme]
        @ registrations [(''ctr-maxconcurrent'', FInt 8)] @ rest @ [StartManager],
      clusterScoped = False\<rparr>"
  using operator_starts[OF demo_sdk_ready[of "''apps''"]] by (simp add: demo_sdk_def)



section \<open>Passwords\<close>

text \<open>
  C23. Changing the password writes the file in the pods first, pod by pod in order, and sends
  nothing to Redis before every pod has it: what follows the commands in the pods is empty unless
  all of them were sent. A change that succeeds has reached every pod, and has sent both settings
  with the new password on every connection of the pool.
\<close>

theorem password_files_first:
  assumes "\<forall>pod\<in>set podSet. PoContainers pod \<noteq> []" and "\<And>tr. is_order (rangeOrd env tr ''ResetPassword'')"
    and "changePassword env kb podSet newPassword s = Ret (e, s')"
  shows "\<exists>k rest.
      trace s' = trace s @ map (\<lambda>p. EKube (KExec (podExec (passwordFileCmd newPassword) p))) (take k podSet) @ rest \<and>
      (rest \<noteq> [] \<longrightarrow> k = length podSet) \<and>
      (e = None \<longrightarrow> k = length podSet \<and>
        (\<forall>a c. mget (clients (cnx s)) a = Some c \<longrightarrow> set (passwordCmds newPassword c) \<subseteq> set rest))"
  using gpost_D[OF changePassword_order[OF assms(1,2)] assms(3)] by simp

definition password_net :: knet where
  "password_net = start\<lparr>cnx := no_pool\<lparr>clients := [(''10.0.0.0:6379'', \<lparr>CCommandsMapping = [], Conn = 0\<rparr>)]\<rparr>\<rparr>"

definition password_pod :: Pod where
  "password_pod = (demo_pod 0)\<lparr>PoContainers := [zeroContainer\<lparr>CoName := ''redis''\<rparr>]\<rparr>"

lemma password_changes:
  "\<exists>s'. changePassword ok_env no_kube [password_pod] ''secret'' password_net = Ret (None, s')"
proof -
  have c: "PoContainers password_pod = [zeroContainer\<lparr>CoName := ''redis''\<rparr>]" by (simp add: password_pod_def)
  show ?thesis
    unfolding changePassword_def ExecCommandInPodSet.simps c list.case ExecCommandInContainer_pod[OF c]
    by (simp add: no_kube_def ResetPassword_def GetAll_def password_net_def start_def no_pool_def
        mkeys_def ok_env_def call_def Cmd_def ValidateResp_def ok_resp_def)
qed

theorem password_files_first_witness:
  "\<exists>s' rest. changePassword ok_env no_kube [password_pod] ''secret'' password_net = Ret (None, s') \<and>
     trace s' = [EKube (KExec (podExec (passwordFileCmd ''secret'') password_pod))] @ rest \<and>
     set (passwordCmds ''secret'' \<lparr>CCommandsMapping = [], Conn = 0\<rparr>) \<subseteq> set rest"
proof -
  obtain s' where s': "changePassword ok_env no_kube [password_pod] ''secret'' password_net = Ret (None, s')"
    using password_changes by blast
  have "\<forall>pod\<in>set [password_pod]. PoContainers pod \<noteq> []" by (simp add: password_pod_def)
  from password_files_first[OF this _ s'] s' show ?thesis by (fastforce simp: password_net_def start_def no_pool_def)
qed

section \<open>A new cluster\<close>

text \<open>
  C24. The first synchronisation of a new cluster, whose nodes hold no slots and are the pods of its
  stateful sets, on servers that accept every command: \<open>syncCluster\<close> succeeds, chooses one
  master in each stateful set, and has given the masters all 16384 slots, each slot to one
  master and to each master as many as the others up to one.
\<close>

theorem first_sync_succeeds:
  assumes "accepts env" and "\<And>site. is_order (rangeOrd env (trace s) site)"
    and "newRedisCluster (rangeOrd env (trace s) ''newRedisCluster'') infos drc = (cl, ns, h)"
    and "\<forall>r\<in>set ns. NSlots (h r) = []"
    and "set (mkeys (nodes (NewCtx h cl ns (MasterSize (Spec drc)) (DrcName drc)))) =
      ClusterStatefulSetName (DrcName drc) ` {..<nat (MasterSize (Spec drc))}"
    and "0 < MasterSize (Spec drc)" and "MasterSize (Spec drc) \<le> 16384"
  shows "\<exists>masters h' s'. syncCluster fuel fmtTime fmtNodes env kb drc infos s = Ret ((None, drc, h'), s') \<and>
    distinct masters \<and> int (length masters) = MasterSize (Spec drc) \<and>
    (\<forall>i<nat (MasterSize (Spec drc)). \<exists>m\<in>set masters. \<exists>rs. m \<in> set rs \<and>
       mget (nodes (NewCtx h cl ns (MasterSize (Spec drc)) (DrcName drc))) (ClusterStatefulSetName (DrcName drc) i) = Some rs) \<and>
    concat (map (\<lambda>r. NSlots (h' r)) masters) = map of_nat [0..<16384] \<and>
    (\<forall>r\<in>set masters. length (NSlots (h' r)) \<in>
       {16384 div nat (MasterSize (Spec drc)), Suc (16384 div nat (MasterSize (Spec drc)))})"
proof -
  obtain masters h' s' where "syncCluster fuel fmtTime fmtNodes env kb drc infos s = Ret ((None, drc, h'), s')"
    "created h (NewCtx h cl ns (MasterSize (Spec drc)) (DrcName drc)) (MasterSize (Spec drc)) masters h'"
    using first_sync[OF assms(1,3-7,2)] by blast
  then show ?thesis unfolding created_def sts_master_def NewCtx_keeps by blast
qed

text \<open>Two nodes without slots, reported as the pods of two stateful sets.\<close>

definition new_infos :: ClusterInfos where
  "new_infos = \<lparr>Infos =
     [(''10.0.0.0:6379'', \<lparr>NINode = demo_node 0 [], Friends = [demo_node 1 []], FriendsCap = 1\<rparr>),
      (''10.0.0.1:6379'', \<lparr>NINode = demo_node 1 [], Friends = [demo_node 0 []], FriendsCap = 1\<rparr>)],
     InfosStatus = ClusterInfosConsistent\<rparr>"

definition new_pod :: "nat \<Rightarrow> RedisClusterNode" where
  "new_pod i = \<lparr>RnID = fmt_nat i, RnRole = RedisClusterNodeRoleMaster, RnIP = ''10.0.0.'' @ fmt_nat i, RnPort = ''6379'',
     RnSlots = [], RnMasterRef = [], RnPodName = [], RnNodeName = ''vm'' @ fmt_nat i,
     RnStatefulSet = ClusterStatefulSetName ''drc'' i\<rparr>"

definition new_drc :: DistributedRedisCluster where
  "new_drc = demo_drc\<lparr>Spec := demo_spec\<lparr>MasterSize := 2\<rparr>, Status := demo_status\<lparr>DNodes := [new_pod 0, new_pod 1]\<rparr>\<rparr>"

lemma new_drc_fields [simp]:
  "MasterSize (Spec new_drc) = 2" "DrcName new_drc = ''drc''" "DNodes (Status new_drc) = [new_pod 0, new_pod 1]"
  by (simp_all add: new_drc_def demo_drc_def demo_spec_def demo_status_def)

lemma new_cluster:
  assumes "newRedisCluster (\<lambda>ks. ks) new_infos new_drc = (cl, ns, h)"
  shows "ns = [0, 1]" "NSlots (h 0) = []" "NSlots (h 1) = []"
    "set (mkeys (nodes (NewCtx h cl ns 2 ''drc''))) = {ClusterStatefulSetName ''drc'' 0, ClusterStatefulSetName ''drc'' 1}"
  using assms
  by (auto simp: newRedisCluster_def GetNodes_def new_infos_def mkeys_def mget_def mput_def map_filter_def podNames_def new_pod_def
      NewCluster_def NewCtx_def sortRedisNodeByStatefulSet_def byStsStep_def GetNodeByID_def TotalSlots_def
      mappend_def mgetd_def ClusterStatefulSetName_def fmt_nat_inj)

theorem first_sync_succeeds_witness:
  "\<exists>masters h' s'. syncCluster 0 (\<lambda>_. []) (\<lambda>_. []) ok_env no_kube new_drc new_infos start = Ret ((None, new_drc, h'), s') \<and>
     length masters = 2 \<and> concat (map (\<lambda>r. NSlots (h' r)) masters) = map of_nat [0..<16384] \<and>
     (\<forall>r\<in>set masters. length (NSlots (h' r)) \<in> {8192, 8193})"
proof -
  obtain cl ns h where c: "newRedisCluster (\<lambda>ks. ks) new_infos new_drc = (cl, ns, h)" using prod_cases3 by blast
  then have c': "newRedisCluster (rangeOrd ok_env (trace (start :: knet)) ''newRedisCluster'') new_infos new_drc = (cl, ns, h)"
    by (simp add: ok_env_def)
  note new = new_cluster[OF c]
  have "{..<nat 2} = {0, 1}" by auto
  then have "set (mkeys (nodes (NewCtx h cl ns (MasterSize (Spec new_drc)) (DrcName new_drc)))) =
      ClusterStatefulSetName (DrcName new_drc) ` {..<nat (MasterSize (Spec new_drc))}"
    using new(4) by simp
  from first_sync_succeeds[OF ok_env_accepts ok_env_orders(1) c' _ this, of 0 "\<lambda>_. []" "\<lambda>_. []" no_kube] new(1-3)
  show ?thesis by auto
qed

end
