(* ===== verification/Spec2Isabelle.thy ===== *)
theory Spec2Isabelle
  imports Redis_Properties Operator_Properties Reconcile_Properties Backup_Properties Platform_Properties
begin

text \<open>
  The redis cluster operator keeps Redis clusters on Kubernetes in the state their custom
  resources ask for, and makes backups of them. This development models the process, its two
  controllers and the generated code of their resources from the source under \<open>src/cmd\<close> and
  \<open>src/pkg\<close>, function by function, and proves what makes its parts correct.

  \<^bold>\<open>The program.\<close> \<open>main\<close> parses the flags, takes the leader lock, registers the controllers with
  their watches and starts the manager. \<open>Reconcile\<close> runs for one \<open>DistributedRedisCluster\<close> at a time. It fills in
  defaults, creates or updates the config maps, stateful sets, services, disruption budgets and
  secrets of the cluster (the ensurer), changes the password when it has to, waits for the pods,
  connects to every Redis node, decodes what the nodes say of each other, heals (forgets nodes
  that are gone, removes nodes in handshake), joins the nodes, steps through a restore, and then
  makes the cluster what it should be: it creates it, adds masters and moves slots to them, adds
  slaves, or moves slots away and removes masters. At the end it reports the status. The backup
  controller turns a \<open>RedisClusterBackup\<close> into a batch job and follows the job to its end; a cluster
  restored from a backup reads that resource.

  \<^bold>\<open>How effects are modelled.\<close> Redis, the API server and the rest of the world are
  environments. The state of a call (\<open>net\<close>) is the pool of connections and the trace of
  everything sent so far; a record of functions of that trace says what comes back (\<open>env\<close> for
  Redis, files, randomness and the orders in which Go ranges over maps, \<open>kube\<close> for the API server
  and the clock, \<open>outside\<close> for the libraries that build objects, \<open>sdk\<close> for the operator SDK). So a statement for all
  environments covers every answer, error and order, and what the operator sends can be read off
  the trace. A call returns, panics or never ends (\<open>go\<close>); the errors it returns are values
  (\<open>go_error\<close>). Nodes are shared by reference and changed in place, so the clustering code works
  on a heap of nodes; deep copies work on a typed memory of cells. An update leaves the caller's object as it was sent.

  Logging is left out, except for what it does to the data: printing a slice of slots sorts it in
  place. \<open>ComputeStatus\<close> builds its messages with \<open>fmt.Sprintf\<close>, which runs whatever the level of
  the logger, so the model sorts the slots there, and in \<open>buildClusterStatus\<close>. Elsewhere the printed
  slots are in order already, the call returns an error right after, or no code reads them later. Lines at a raised level that hand a value to the logger are taken as off, the
  default of the logger.

  \<^bold>\<open>Theories and sources.\<close>
  \<^item> \<open>Go_Prelude\<close>, \<open>Go_Strings\<close>, \<open>Go_Float\<close>: outcomes, maps with open order, sorting,
    strings and numbers, float64 rounding. The interface of a map is the locale \<open>registry\<close>,
    interpreted for Go maps and for the nodes of a cluster.
  \<^item> \<open>Utils\<close> (\<open>utils\<close>), \<open>Api\<close> (\<open>apis/redis/v1alpha1\<close>), \<open>Errors\<close> (the errors of
    \<open>redisutil\<close>, of the controller, and of \<open>k8sutil/util.go\<close>).
  \<^item> \<open>Slots\<close> (\<open>redisutil/slot.go\<close>, slots are 64 bit words), \<open>Nodes\<close> (\<open>node.go\<close>,
    \<open>cluster.go\<close>), \<open>Cluster_Infos\<close> (\<open>clusterinfo.go\<close>), \<open>Connections\<close> (\<open>connections.go\<close>,
    \<open>client.go\<close>; the pool is the locale \<open>conn_pool\<close>), \<open>Admin\<close> (\<open>admin.go\<close>).
  \<^item> \<open>Placement\<close> (\<open>placement.go\<close>, \<open>placement_v2.go\<close>, \<open>roles.go\<close>), \<open>Migration\<close>
    (\<open>migration.go\<close>), \<open>Rebalance\<close> (\<open>rebalance.go\<close>), all of \<open>controller/clustering\<close>.
  \<^item> \<open>Sorters\<close>: the methods of \<open>sort.Interface\<close> in \<open>slot.go\<close> and \<open>node.go\<close>, which are the
    locale \<open>sort_interface\<close>, interpreted for the three slices the code sorts: every run of
    \<open>sort.Sort\<close> through them, with any algorithm, meets the contract the model asks of its sorting
    arguments.
  \<^item> \<open>Config\<close> (\<open>config/redis.go\<close>, flags), \<open>Kube\<close> (\<open>k8sutil\<close>), \<open>Exec\<close>
    (\<open>exec/exec.go\<close>), \<open>Heal\<close> (\<open>controller/heal\<close>, \<open>manager/healer.go\<close>), \<open>Status\<close> (\<open>status.go\<close>, \<open>helper.go\<close>, \<open>manager/checker.go\<close>).
  \<^item> \<open>Resources\<close> (\<open>resources\<close>, \<open>osm/rclone.go\<close>), \<open>Ensurer\<close> (\<open>manager/ensurer.go\<close>).
  \<^item> \<open>Sync\<close> (\<open>sync_handler.go\<close>) and \<open>Reconcile\<close> (\<open>distributedrediscluster_controller.go\<close>,
    with \<open>ensureCluster\<close> and \<open>resetClusterPassword\<close>).
  \<^item> \<open>Osm\<close> (\<open>osm/osm.go\<close>) and \<open>Backup\<close> (\<open>controller/redisclusterbackup\<close>).
  \<^item> \<open>Startup\<close>: \<open>cmd/manager/main.go\<close>, \<open>controller/controller.go\<close>, and \<open>Add\<close>, \<open>add\<close> and
    \<open>newReconciler\<close> of both controllers.
  \<^item> \<open>Go_Heap\<close>, \<open>Deep_Copy\<close>: a memory with pointers, slices and maps, and
    \<open>zz_generated.deepcopy.go\<close> on it. What a deep copy promises is the locale \<open>deep_copier\<close>; the
    copies of Kubernetes types are an argument that has to meet it.
  \<^item> \<open>Open_Api\<close>: \<open>zz_generated.openapi.go\<close>, compared with the declared fields.
  \<^item> \<open>Migration_Facts\<close>, \<open>Scale_Down\<close>, \<open>Alloc_Facts\<close>, \<open>Rebalance_Facts\<close>, \<open>Serving\<close>,
    \<open>Placement_Facts\<close>, \<open>Heal_Facts\<close>, \<open>Sync_Facts\<close>, \<open>Ensurer_Facts\<close>, \<open>Reconcile_Facts\<close>,
    \<open>Backup_Facts\<close>, \<open>Finalizers\<close>, \<open>Password_Facts\<close>, \<open>Creation\<close>: the lemmas on these definitions. \<open>Demo\<close> has the concrete clusters the results are applied to.
    The slices of slots moved between masters are the locale \<open>slot_transfer\<close>.
    \<open>Ownership\<close> has the controllers of \<open>k8sutil\<close> as the locales \<open>object_control\<close> and
    \<open>object_editor\<close>, and what the ensurer may do as the step relation \<open>ensured\<close>.

  \<^bold>\<open>What is shown.\<close>
  \<^item> Here, moving slots: scaling down keeps each of the 16384 slots on exactly one new master,
    within one slot of the share, and ends (C1 to C5); the first allocation is a partition into
    consecutive ranges of almost equal size (C6); rebalancing gives every donor exactly its
    share, ends when there is a new master, and never returns for certain balanced clusters (C7 to
    C9); the table of slots to move is exact in spite of float64 (C10).
  \<^item> \<open>Redis_Properties\<close>: the consistency of the nodes' views, decoding of what Redis prints,
    the open connections of the pool, slots and ranges, sizes with units, defaults (C11 to C15, C17, C20), and
    admission.
  \<^item> \<open>Operator_Properties\<close>: placing masters and slaves, healing, the status and when it is
    written (C16), and that scaling down refuses to lose slots (C22, C26, C27, C29, C31).
  \<^item> \<open>Reconcile_Properties\<close>: the restore phase as a state machine that each round refines,
    the healthy state, restores that are given up, config maps, that the ensurer writes only what
    belongs to the cluster, stateful sets that are created
    once and then left alone, pods that do not terminate (C32, C33, C35, C37 to C40).
  \<^item> \<open>Backup_Properties\<close>: the containers of a backup job, the phases of a backup, and that a
    cluster has one job at a time (C18, C19, C30).
  \<^item> \<open>Platform_Properties\<close>: deep copies are equal to and independent of the original, except for one
    field of the spec (C25, C34, C36); the operator starts, and no event of a cluster passes the
    filters of operators of different scope (C28, C21); a new password reaches the
    pods before Redis (C23); the first synchronisation of a new cluster succeeds (C24).

  \<^bold>\<open>Loops and bounds.\<close> Loops over lists recurse on the list. Loops that may run for ever are
  partial functions into option types (reconnection, the pipeline of replies, random choice of a
  node, lowering the balances), where no result is \<open>Hang\<close>; only the pairing loop of
  \<open>RebalancedCluster\<close> takes fuel, and C8 shows that one round per master is enough. A wait has as
  many ticks as the environment grants its timeout.

  \<^bold>\<open>Not modelled.\<close> The registration of the types in the scheme of the runtime and the version
  string, which are calls without logic of the program, logging, and the end to end tests. Code that
  is not in the repository (the Redis client, the Kubernetes client, the controller runtime, the
  object store libraries) is an argument of the definitions that use it.
\<close>

section \<open>Moving slots: scaling down\<close>

text \<open>
  C1. When \<open>DispatchSlotToNewMasters\<close> returns without error, every one of the 16384 slots is
  held by exactly one of the new masters, no new master lists a slot twice or one out of range,
  and a current master that is not kept has no slot left. The hypothesis on the nodes is the
  state of a consistent cluster; the orders in which Go ranges over the maps are arbitrary.
\<close>

theorem scale_down_partition:
  assumes "DispatchSlotToNewMasters env news olds alls c h s = Ret ((None, c', h'), s')"
    and "scale_down_ok h news olds 16384"
    and "is_order (rangeOrd env (trace s) ''buildSlotByNodeFromAvailableSlots'')"
    and "is_order (rangeOrd env (trace s) ''feedMigInfo'')" and "is_order (rangeMoves env (trace s))"
  shows "(\<forall>slot. unat slot < 16384 \<longrightarrow> (\<exists>!r. r \<in> set news \<and> slot \<in> set (NSlots (h' r)))) \<and>
    (\<forall>r\<in>set news. distinct (NSlots (h' r)) \<and> (\<forall>slot\<in>set (NSlots (h' r)). unat slot < 16384)) \<and>
    (\<forall>r\<in>set olds. r \<notin> set news \<longrightarrow> NSlots (h' r) = [])"
proof -
  obtain m ks where m: "m = fst (feedMigInfo (rangeOrd env (trace s) ''buildSlotByNodeFromAvailableSlots'')
       (rangeOrd env (trace s) ''feedMigInfo'') h news olds alls 16384)"
    "mset ks = mset (mkeys m)" "slots_of h' = carried h news olds m ks"
    using DispatchSlotToNewMasters_carried [OF assms] by blast
  have h': "NSlots (h' r) = carried h news olds m ks r" for r
    using m(3) by (simp add: fun_eq_iff flip: slots_of_def)
  show ?thesis unfolding h'
    using carried_partition [OF assms(2-4) m(1,2)] carried_distinct [OF assms(2-4) m(1,2)] by blast
qed

theorem scale_down_partition_witness:
  "\<exists>c' h' s'. DispatchSlotToNewMasters (ok_env :: kenv) [0, 1, 2] [0, 1, 2, 3] [0, 1, 2, 0, 1, 2, 3]
      (NewCtx four (NewCluster [] []) [] 3 []) four start = Ret ((None, c', h'), s') \<and>
    (\<exists>!r. r \<in> set [0, 1, 2] \<and> 16383 \<in> set (NSlots (h' r))) \<and> NSlots (h' 3) = []"
proof -
  obtain c' h' s' where run: "DispatchSlotToNewMasters (ok_env :: kenv) [0, 1, 2] [0, 1, 2, 3] [0, 1, 2, 0, 1, 2, 3]
      (NewCtx four (NewCluster [] []) [] 3 []) four start = Ret ((None, c', h'), s')"
    using DispatchSlotToNewMasters_accepts [OF ok_env_accepts] by blast
  have "(\<exists>!r. r \<in> set [0, 1, 2] \<and> 16383 \<in> set (NSlots (h' r)))" "NSlots (h' 3) = []"
    using scale_down_partition [OF run four_ok ok_env_orders(1) ok_env_orders(1) ok_env_orders(2)] by auto
  then show ?thesis using run by blast
qed

text \<open>
  C2. The same call leaves no new master with more than one slot above the share
  \<open>\<lceil>16384 / n\<rceil>\<close>: \<open>buildSlotByNodeFromAvailableSlots\<close> may put one slot too many on a master
  that is already full when its turn comes.
\<close>

theorem scale_down_bound:
  assumes "DispatchSlotToNewMasters env news olds alls c h s = Ret ((None, c', h'), s')"
    and "scale_down_ok h news olds 16384" "length news < 2 ^ 26"
    and "is_order (rangeOrd env (trace s) ''buildSlotByNodeFromAvailableSlots'')"
    and "is_order (rangeOrd env (trace s) ''feedMigInfo'')" and "is_order (rangeMoves env (trace s))"
    and "r \<in> set news"
  shows "length (NSlots (h' r)) \<le> (if length news dvd 16384 then 16384 div length news else Suc (16384 div length news)) + 1"
proof -
  obtain m ks where m: "m = fst (feedMigInfo (rangeOrd env (trace s) ''buildSlotByNodeFromAvailableSlots'')
       (rangeOrd env (trace s) ''feedMigInfo'') h news olds alls 16384)"
    "mset ks = mset (mkeys m)" "slots_of h' = carried h news olds m ks"
    using DispatchSlotToNewMasters_carried [OF assms(1,2,4,5,6)] by blast
  have "NSlots (h' r) = carried h news olds m ks r"
    using m(3) by (simp add: fun_eq_iff flip: slots_of_def)
  moreover have "0 < length news" using assms(7) by (cases news) simp_all
  ultimately show ?thesis
    using carried_bound [OF assms(2,4,5) m(1,2) _ assms(3,7)] slotsPerMaster_eq [of 16384 "length news"] assms(3) by simp
qed

theorem scale_down_bound_witness:
  "\<exists>c' h' s'. DispatchSlotToNewMasters (ok_env :: kenv) [0, 1, 2] [0, 1, 2, 3] [0, 1, 2, 0, 1, 2, 3]
      (NewCtx four (NewCluster [] []) [] 3 []) four start = Ret ((None, c', h'), s') \<and>
    length (NSlots (h' 1)) \<le> 5463"
proof -
  obtain c' h' s' where run: "DispatchSlotToNewMasters (ok_env :: kenv) [0, 1, 2] [0, 1, 2, 3] [0, 1, 2, 0, 1, 2, 3]
      (NewCtx four (NewCluster [] []) [] 3 []) four start = Ret ((None, c', h'), s')"
    using DispatchSlotToNewMasters_accepts [OF ok_env_accepts] by blast
  have "length (NSlots (h' 1)) \<le> (if length [0, 1, 2 :: nat] dvd 16384 then 16384 div length [0, 1, 2 :: nat] else Suc (16384 div length [0, 1, 2 :: nat])) + 1"
    by (rule scale_down_bound [OF run four_ok _ ok_env_orders(1) ok_env_orders(1) ok_env_orders(2)]) simp_all
  then have "length (NSlots (h' 1)) \<le> 5463" unfolding demo_sizes by simp
  then show ?thesis using run by blast
qed

text \<open>
  C3. Against a Redis that accepts every command and holds no keys,
  \<open>DispatchSlotToNewMasters\<close> returns, and returns no error.
\<close>

theorem scale_down_returns:
  assumes "accepts env"
  shows "\<exists>c' h' s'. DispatchSlotToNewMasters env news olds alls c h s = Ret ((None, c', h'), s')"
  by (rule DispatchSlotToNewMasters_accepts [OF assms])

theorem scale_down_returns_witness:
  "\<exists>c' h' s'. DispatchSlotToNewMasters (ok_env :: kenv) [0, 1, 2] [0, 1, 2, 3] []
     (NewCtx four (NewCluster [] []) [] 3 []) four start = Ret ((None, c', h'), s')"
  by (rule scale_down_returns [OF ok_env_accepts])

text \<open>
  C4. \<open>retrieveLostSlots\<close> returns each slot below the limit that no current master has, once,
  and nothing else.
\<close>

theorem lost_slots_exact:
  assumes "\<forall>n\<in>set olds. \<forall>s\<in>set (NSlots (h n)). unat s < nb" "0 < nb" "nb < 2 ^ 64"
  shows "set (retrieveLostSlots h olds nb) = {s. unat s < nb} - (\<Union>n\<in>set olds. set (NSlots (h n))) \<and>
    distinct (retrieveLostSlots h olds nb)"
  using retrieveLostSlots_spec [of olds h nb] assms by blast

theorem lost_slots_exact_witness:
  "set (retrieveLostSlots (\<lambda>r. demo_node r [2, 0]) [7] 5) = {s. unat s < 5} - {2, 0}"
proof -
  have "set (retrieveLostSlots (\<lambda>r. demo_node r [2, 0]) [7] 5) =
      {s. unat s < 5} - (\<Union>n\<in>set [7]. set (NSlots (demo_node n [2, 0])))"
    using lost_slots_exact [of "[7]" "\<lambda>r. demo_node r [2, 0]" 5] by simp
  then show ?thesis by simp
qed

text \<open>
  C5. \<open>buildSlotByNodeFromAvailableSlots\<close> hands out exactly the available slots: together the
  new masters receive each of them as often as it is available, whatever the order of the map.
\<close>

theorem build_hands_out_all:
  assumes "distinct (map (\<lambda>n. ID (h n)) news)" "news \<noteq> []"
  shows "(\<Sum>i<length news. mset (mgetd [] (buildSlotByNodeFromAvailableSlots ord h news nb m) (ID (h (news ! i))))) =
    mset (concat (map (mgetd [] m) (ord (mkeys m))))"
  using build_conserves(1) [OF assms, of ord nb m] by (simp add: received_def available_def)

theorem build_hands_out_all_witness:
  "(\<Sum>i<length [0, 1 :: nat]. mset (mgetd [] (buildSlotByNodeFromAvailableSlots (\<lambda>ks. ks) (\<lambda>r. demo_node r []) [0, 1] 2
       [(''x'', [5, 6, 7 :: Slot])]) (ID (demo_node ([0, 1] ! i) [])))) = mset [5, 6, 7]"
proof -
  have "distinct (map (\<lambda>n. ID (demo_node n [])) [0, 1])" by (simp add: demo_fields(1)) code_simp
  from build_hands_out_all [OF this, of "\<lambda>ks. ks" 2 "[(''x'', [5, 6, 7])]"]
  show ?thesis by (simp add: mkeys_def mgetd_def mget_def)
qed

section \<open>Allocating and rebalancing\<close>

text \<open>
  C6. When \<open>AllocSlots\<close> returns without error the new masters have, in order, consecutive
  ranges that are together the slots 0 to 16383; each has \<open>\<lfloor>16384 / n\<rfloor>\<close> slots, or one more
  when \<open>n\<close> does not divide 16384. The float64 cursor never drifts far enough to lose or to
  repeat a slot.
\<close>

theorem alloc_partition:
  assumes "AllocSlots env news h s = Ret ((None, h'), s')" "distinct news" "news \<noteq> []" "length news \<le> 16384"
  shows "concat (map (\<lambda>r. NSlots (h' r)) news) = map of_nat [0..<16384] \<and>
    (\<forall>r\<in>set news. length (NSlots (h' r)) = 16384 div length news \<or>
       (\<not> length news dvd 16384 \<and> length (NSlots (h' r)) = Suc (16384 div length news)))"
  using AllocSlots_spec(1,2) [OF assms] unfolding alloc_size_ok_def by blast

theorem alloc_partition_witness:
  "\<exists>h' s'. AllocSlots (ok_env :: kenv) [0, 1, 2] (\<lambda>r. demo_node r []) start = Ret ((None, h'), s') \<and>
    concat (map (\<lambda>r. NSlots (h' r)) [0, 1, 2]) = map of_nat [0..<16384] \<and>
    length (NSlots (h' 1)) \<in> {5461, 5462}"
proof -
  have hyps: "distinct [0, 1, 2 :: nat]" "[0, 1, 2 :: nat] \<noteq> []" "length [0, 1, 2 :: nat] \<le> 16384" by simp_all
  obtain h' s' where run: "AllocSlots (ok_env :: kenv) [0, 1, 2] (\<lambda>r. demo_node r []) start = Ret ((None, h'), s')"
    using AllocSlots_accepts [OF ok_env_accepts hyps(2,3)] by blast
  note parts = alloc_partition [OF run hyps]
  have "1 \<in> set [0, 1, 2 :: nat]" by simp
  from bspec [OF conjunct2 [OF parts] this]
  have "length (NSlots (h' 1)) \<in> {5461, 5462}" unfolding demo_sizes by simp
  then show ?thesis using run conjunct1 [OF parts] by blast
qed

text \<open>
  C7. \<open>RebalancedCluster\<close> on masters that hold all slots, when it returns without error: each
  master that had at least the share \<open>\<lfloor>16384 / n\<rfloor>\<close> keeps exactly its last share-many slots,
  a master below the share has lost nothing, and every balance is zero, so each receiver was
  given what it lacked.
\<close>

theorem rebalance_shares:
  assumes "RebalancedCluster fuel env ns h s = Ret ((None, sn, h'), s')"
    and "all_assigned h ns" "is_sorter (sortRefs env)"
    and "length ns dvd 16384 \<or> (\<exists>r\<in>set ns. length (NSlots (h r)) < share ns)" and "r \<in> set ns"
  shows "NSlots (h' r) = (if share ns \<le> length (NSlots (h r))
      then drop (length (NSlots (h r)) - share ns) (NSlots (h r)) else NSlots (h r)) \<and> balance (h' r) = 0"
  using RebalancedCluster_shares [OF assms] by blast

theorem rebalance_shares_witness:
  "\<exists>sn h' s'. RebalancedCluster 4 (ok_env :: kenv) [0, 1, 2, 3] three start = Ret ((None, sn, h'), s') \<and>
    NSlots (h' 0) = drop 1366 (slot_range 0 5462)"
proof -
  have ends: "length [0, 1, 2, 3 :: nat] dvd 16384 \<or> (\<exists>r\<in>set [0, 1, 2, 3]. length (NSlots (three r)) < share [0, 1, 2, 3])"
    unfolding demo_sizes by (rule disjI1) (rule demo_divides)
  obtain sn h' s' where run: "RebalancedCluster 4 (ok_env :: kenv) [0, 1, 2, 3] three start = Ret ((None, sn, h'), s')"
    using RebalancedCluster_accepts [OF three_assigned ok_env_orders(3) ok_env_accepts ends, of 4] by fastforce
  have "NSlots (h' 0) = drop 1366 (slot_range 0 5462)"
    using rebalance_shares [OF run three_assigned ok_env_orders(3) ends, of 0] by (simp add: share_def three_def)
  then show ?thesis using run by blast
qed

text \<open>
  C8. \<open>RebalancedCluster\<close> ends: against a Redis that accepts every command, as many rounds as
  there are masters are enough for the pairing loop, and the call returns without error. The
  last hypothesis holds whenever a master with no slots has been added.
\<close>

theorem rebalance_returns:
  assumes "all_assigned h ns" "is_sorter (sortRefs env)" "accepts env" "length ns \<le> fuel"
    and "length ns dvd 16384 \<or> (\<exists>r\<in>set ns. length (NSlots (h r)) < share ns)"
  shows "\<exists>sn h' s'. RebalancedCluster fuel env ns h s = Ret ((None, sn, h'), s')"
  using RebalancedCluster_accepts [OF assms(1,2,3,5,4)] .

theorem rebalance_returns_witness:
  "\<exists>sn h' s'. RebalancedCluster 4 (ok_env :: kenv) [0, 1, 2, 3] three start = Ret ((None, sn, h'), s')"
proof -
  have "length [0, 1, 2, 3 :: nat] \<le> 4" unfolding demo_sizes by simp
  from rebalance_returns [OF three_assigned ok_env_orders(3) ok_env_accepts this]
  show ?thesis unfolding demo_sizes using demo_divides by blast
qed

text \<open>
  C9. The other case does not end: masters that hold all slots, none of them below the share,
  with a number that does not divide 16384. Rebalancing a balanced cluster of three masters
  never returns, whatever fuel the pairing loop has: it is not reached.
\<close>

theorem rebalance_hangs:
  assumes "all_assigned h ns" "\<not> length ns dvd 16384" "\<forall>r\<in>set ns. share ns \<le> length (NSlots (h r))"
  shows "RebalancedCluster fuel env ns h s = Hang"
  by (rule RebalancedCluster_hangs [OF assms])

theorem rebalance_hangs_witness: "RebalancedCluster 3 (ok_env :: kenv) [0, 1, 2] three start = Hang"
proof -
  have "\<not> length [0, 1, 2 :: nat] dvd 16384" unfolding demo_sizes by (rule demo_divides)
  moreover have "\<forall>r\<in>set [0, 1, 2]. share [0, 1, 2] \<le> length (NSlots (three r))" by (simp add: share_def three_def)
  ultimately show ?thesis by (rule rebalance_hangs [OF three_full])
qed

text \<open>
  C10. The plan for one donor: \<open>computeReshardTable\<close> with a single source and an amount between
  one and the source's slots returns exactly that many entries, its first slots, in order; the
  product of quotients in float64 never falls short, and no index is out of range.
\<close>

theorem reshard_single_source:
  assumes "is_sorter srt" "0 < k" "k \<le> int (length (NSlots (h src)))" "length (NSlots (h src)) \<le> 16384"
  shows "computeReshardTable srt h [src] k = Ret (map (Pair src) (take (nat k) (NSlots (h src))))"
  by (rule computeReshardTable_single) (fact assms)+

theorem reshard_single_source_witness:
  "computeReshardTable insertSort three [1] 1366 = Ret (map (Pair 1) (take 1366 (slot_range 5462 10923)))"
proof -
  have "computeReshardTable insertSort three [1] 1366 = Ret (map (Pair 1) (take (nat 1366) (NSlots (three 1))))"
    by (rule reshard_single_source [OF insertSort_is_sorter]) (simp_all add: three_def)
  then show ?thesis by (simp add: three_def)
qed

end
